(* ===== verification/T3rn_Prelude.thy ===== *)
theory T3rn_Prelude
  imports Main "HOL-Library.Word" "HOL-Library.List_Lexorder"
begin

text \<open>
  Shared material of the development.  It fixes the integer widths of the runtime, the result
  type of fallible Rust code (a value, an error, or a panic), Rust's checked and saturating
  arithmetic, big-endian and little-endian words, and the storage maps of the runtime: a finite
  map kept sorted by key, so that iterating over it visits the keys in the order the
  \<open>Identity\<close> hasher of the pallets gives.  The interface of such a map is the locale
  \<open>storage_map\<close>, interpreted here on the sorted lists that every pallet model uses.
\<close>

section \<open>Types of the runtime\<close>

type_synonym byte = "8 word"
type_synonym u32 = "32 word"
type_synonym u64 = "64 word"
type_synonym u128 = "128 word"
type_synonym bytes = "byte list"

text \<open>
  A \<open>H256\<close> and an \<open>AccountId32\<close> are represented by their bytes, which is also their
  SCALE encoding; \<open>H256\<close>'s order is the lexicographic one on the bytes.
\<close>

type_synonym H256 = bytes
type_synonym AccountId = bytes
type_synonym TargetId = bytes
type_synonym Sfx4bId = bytes
type_synonym Balance = u128
type_synonym AssetId = u32
type_synonym BlockNumber = u32
type_synonym Weight = nat

named_theorems res_simps \<open>inversion of successful fallible computations\<close>
named_theorems frame_simps \<open>components of the state an operation leaves unchanged\<close>

section \<open>Results of fallible code\<close>

datatype ('e, 'a) res = Ok 'a | Err 'e | Panic

definition bind_res :: "('e, 'a) res \<Rightarrow> ('a \<Rightarrow> ('e, 'b) res) \<Rightarrow> ('e, 'b) res" where
  "bind_res m f = (case m of Ok x \<Rightarrow> f x | Err e \<Rightarrow> Err e | Panic \<Rightarrow> Panic)"

definition map_err :: "('e \<Rightarrow> 'f) \<Rightarrow> ('e, 'a) res \<Rightarrow> ('f, 'a) res" where
  "map_err g m = (case m of Ok x \<Rightarrow> Ok x | Err e \<Rightarrow> Err (g e) | Panic \<Rightarrow> Panic)"

definition ok_or :: "'e \<Rightarrow> 'a option \<Rightarrow> ('e, 'a) res" where
  "ok_or e m = (case m of Some x \<Rightarrow> Ok x | None \<Rightarrow> Err e)"

definition ensure :: "bool \<Rightarrow> 'e \<Rightarrow> ('e, unit) res" where
  "ensure b e = (if b then Ok () else Err e)"

text \<open>Rust's \<open>expect\<close>: an error aborts the block.\<close>

definition expect :: "('e, 'a) res \<Rightarrow> ('f, 'a) res" where
  "expect m = (case m of Ok x \<Rightarrow> Ok x | _ \<Rightarrow> Panic)"

definition is_ok :: "('e, 'a) res \<Rightarrow> bool" where
  "is_ok m = (case m of Ok _ \<Rightarrow> True | _ \<Rightarrow> False)"

fun fold_res :: "('a \<Rightarrow> 's \<Rightarrow> ('e, 's) res) \<Rightarrow> 'a list \<Rightarrow> 's \<Rightarrow> ('e, 's) res" where
  "fold_res f [] s = Ok s"
| "fold_res f (x # xs) s = bind_res (f x s) (fold_res f xs)"

fun map_res :: "('a \<Rightarrow> ('e, 'b) res) \<Rightarrow> 'a list \<Rightarrow> ('e, 'b list) res" where
  "map_res f [] = Ok []"
| "map_res f (x # xs) = bind_res (f x) (\<lambda>y. bind_res (map_res f xs) (\<lambda>ys. Ok (y # ys)))"

lemma bind_res_simps [simp]:
  "bind_res (Ok x) f = f x"
  "bind_res (Err e) f = Err e"
  "bind_res Panic f = Panic"
  by (simp_all add: bind_res_def)

lemma map_err_simps [simp]:
  "map_err g (Ok x) = Ok x"
  "map_err g (Err e) = Err (g e)"
  "map_err g Panic = Panic"
  by (simp_all add: map_err_def)

lemma ok_or_simps [simp]:
  "ok_or e (Some x) = Ok x"
  "ok_or e None = Err e"
  by (simp_all add: ok_or_def)

lemma ensure_simps [simp]:
  "ensure True e = Ok ()"
  "ensure False e = Err e"
  by (simp_all add: ensure_def)

lemma expect_simps [simp]:
  "expect (Ok x) = Ok x"
  "expect (Err e) = Panic"
  "expect Panic = Panic"
  by (simp_all add: expect_def)

lemma is_ok_simps [simp]:
  "is_ok (Ok x)"
  "\<not> is_ok (Err e)"
  "\<not> is_ok Panic"
  by (simp_all add: is_ok_def)

lemma bind_res_OkE [res_simps]:
  "bind_res m f = Ok y \<longleftrightarrow> (\<exists>x. m = Ok x \<and> f x = Ok y)"
  by (cases m) simp_all

lemma map_err_Ok [res_simps]: "map_err g m = Ok x \<longleftrightarrow> m = Ok x"
  by (cases m) simp_all

lemma ok_or_Ok [res_simps]: "ok_or e m = Ok x \<longleftrightarrow> m = Some x"
  by (cases m) simp_all

lemma ensure_Ok [res_simps]: "ensure b e = Ok u \<longleftrightarrow> b"
  by (simp add: ensure_def)

lemma expect_Ok [res_simps]: "expect m = Ok x \<longleftrightarrow> m = Ok x"
  by (cases m) simp_all

lemma bind_res_Panic: "bind_res m f = Panic \<longleftrightarrow> m = Panic \<or> (\<exists>x. m = Ok x \<and> f x = Panic)"
  by (cases m) simp_all

lemma bind_res_Err: "bind_res m f = Err e \<longleftrightarrow> m = Err e \<or> (\<exists>x. m = Ok x \<and> f x = Err e)"
  by (cases m) simp_all

lemma map_err_Panic [simp]: "map_err g m = Panic \<longleftrightarrow> m = Panic"
  by (cases m) simp_all

lemma ok_or_Panic [simp]: "ok_or e m \<noteq> Panic"
  by (cases m) simp_all

lemma ensure_Panic [simp]: "ensure b e \<noteq> Panic"
  by (cases b) simp_all

text \<open>Evaluation of a computation goes from the outside in: only the first argument is rewritten.\<close>

lemma bind_res_weak_cong: "m = m' \<Longrightarrow> bind_res m f = bind_res m' f"
  by simp

lemmas eval_cong = bind_res_weak_cong if_weak_cong option.case_cong_weak

lemma bind_res_assoc: "bind_res (bind_res m f) g = bind_res m (\<lambda>x. bind_res (f x) g)"
  by (cases m) simp_all

lemma map_res_length: "map_res f xs = Ok ys \<Longrightarrow> length ys = length xs"
  by (induction xs arbitrary: ys) (auto simp: res_simps)

lemma map_res_nth:
  "map_res f xs = Ok ys \<Longrightarrow> i < length xs \<Longrightarrow> f (xs ! i) = Ok (ys ! i)"
proof (induction xs arbitrary: ys i)
  case Nil
  then show ?case by simp
next
  case (Cons x xs)
  then show ?case by (cases i) (auto simp: res_simps)
qed

text \<open>A predicate kept by every round of a loop holds after the loop.\<close>

lemma fold_res_invariant:
  assumes "fold_res f xs s = Ok s'" and "P s"
    and "\<And>x s s'. x \<in> set xs \<Longrightarrow> P s \<Longrightarrow> f x s = Ok s' \<Longrightarrow> P s'"
  shows "P s'"
  using assms
proof (induction xs arbitrary: s)
  case Nil
  then show ?case by simp
next
  case (Cons x xs)
  from Cons.prems(1) obtain t where t: "f x s = Ok t" and rest: "fold_res f xs t = Ok s'"
    by (auto simp: res_simps)
  from Cons.prems(3) [of x s t] Cons.prems(2) t have "P t" by simp
  with rest Cons.prems(3) show ?case by (intro Cons.IH [of t]) auto
qed

section \<open>Checked and saturating arithmetic\<close>

definition checked_add :: "'a::len word \<Rightarrow> 'a word \<Rightarrow> 'a word option" where
  "checked_add a b = (if unat a + unat b < 2 ^ LENGTH('a) then Some (a + b) else None)"

definition checked_mul :: "'a::len word \<Rightarrow> 'a word \<Rightarrow> 'a word option" where
  "checked_mul a b = (if unat a * unat b < 2 ^ LENGTH('a) then Some (a * b) else None)"

definition checked_div :: "'a::len word \<Rightarrow> 'a word \<Rightarrow> 'a word option" where
  "checked_div a b = (if b = 0 then None else Some (a div b))"

definition saturating_add :: "'a::len word \<Rightarrow> 'a word \<Rightarrow> 'a word" where
  "saturating_add a b = (if unat a + unat b < 2 ^ LENGTH('a) then a + b else - 1)"

definition saturating_mul :: "'a::len word \<Rightarrow> 'a word \<Rightarrow> 'a word" where
  "saturating_mul a b = (if unat a * unat b < 2 ^ LENGTH('a) then a * b else - 1)"

definition saturating_sub :: "'a::len word \<Rightarrow> 'a word \<Rightarrow> 'a word" where
  "saturating_sub a b = (if a < b then 0 else a - b)"

lemma checked_add_Some:
  "checked_add a b = Some c \<Longrightarrow> unat c = unat a + unat b"
  by (auto simp: checked_add_def unat_word_ariths split: if_splits)

lemma checked_add_0 [simp]: "checked_add 0 b = Some b" "checked_add b 0 = Some b"
  by (simp_all add: checked_add_def)

lemma checked_mul_Some:
  "checked_mul a b = Some c \<Longrightarrow> unat c = unat a * unat b"
  by (auto simp: checked_mul_def unat_word_ariths split: if_splits)

lemma unat_saturating_sub: "unat (saturating_sub a b) = unat a - unat b"
  by (auto simp: saturating_sub_def unat_sub word_le_nat_alt word_less_nat_alt not_less)

lemma unat_saturating_add:
  fixes a b :: "'a::len word"
  shows "unat (saturating_add a b) = min (unat a + unat b) (2 ^ LENGTH('a) - 1)"
  by (auto simp: saturating_add_def unat_word_ariths unsigned_minus_1_eq_mask mask_eq_exp_minus_1 min_def)

lemma unat_saturating_mul:
  fixes a b :: "'a::len word"
  shows "unat (saturating_mul a b) = min (unat a * unat b) (2 ^ LENGTH('a) - 1)"
proof (cases "unat a * unat b < 2 ^ LENGTH('a)")
  case True
  then have "min (unat a * unat b) (2 ^ LENGTH('a) - 1) = unat a * unat b" by linarith
  with True show ?thesis by (simp add: saturating_mul_def unat_word_ariths)
next
  case False
  then have "min (unat a * unat b) (2 ^ LENGTH('a) - 1) = 2 ^ LENGTH('a) - 1" by linarith
  with False show ?thesis
    by (simp add: saturating_mul_def unsigned_minus_1_eq_mask mask_eq_exp_minus_1)
qed

text \<open>\<open>Weight::ref_time\<close> is a \<open>u64\<close> that saturates; it is kept as a number below its maximum.\<close>

definition weight_max :: Weight where
  "weight_max = 2 ^ 64 - 1"

definition weight_add :: "Weight \<Rightarrow> Weight \<Rightarrow> Weight" where
  "weight_add a b = min (a + b) weight_max"

section \<open>Words as bytes\<close>

definition u32_to_be_bytes :: "u32 \<Rightarrow> bytes" where
  "u32_to_be_bytes w = [ucast (drop_bit 24 w), ucast (drop_bit 16 w), ucast (drop_bit 8 w), ucast w]"

definition u32_from_be_bytes :: "bytes \<Rightarrow> u32" where
  "u32_from_be_bytes bs = foldl (\<lambda>acc b. push_bit 8 acc + ucast b) 0 bs"

definition u32_to_le_bytes :: "u32 \<Rightarrow> bytes" where
  "u32_to_le_bytes w = rev (u32_to_be_bytes w)"

lemma length_u32_to_be_bytes [simp]: "length (u32_to_be_bytes w) = 4"
  by (simp add: u32_to_be_bytes_def)

lemma u32_be_bytes_roundtrip [simp]: "u32_from_be_bytes (u32_to_be_bytes w) = w"
proof -
  define n where "n = unat w"
  have n: "n < 2 ^ 32" using unsigned_less [of w] by (simp add: n_def)
  have byte_at: "unat (ucast (drop_bit k w) :: byte) = n div 2 ^ k mod 256" for k
    unfolding n_def unsigned_ucast_eq unsigned_drop_bit_eq
    using n by (simp add: n_def take_bit_eq_mod drop_bit_eq_div)
  have byte_0: "unat (ucast w :: byte) = n mod 256" using byte_at [of 0] by simp
  have widen: "ucast (x::byte) = (of_nat (unat x) :: u32)" for x by simp
  have "u32_from_be_bytes (u32_to_be_bytes w) =
      of_nat ((((n div 2 ^ 24 mod 256) * 256 + n div 2 ^ 16 mod 256) * 256 + n div 2 ^ 8 mod 256)
        * 256 + n mod 256)"
    unfolding u32_from_be_bytes_def u32_to_be_bytes_def foldl.simps widen byte_at byte_0
    by (simp add: push_bit_eq_mult algebra_simps)
  also have "(((n div 2 ^ 24 mod 256) * 256 + n div 2 ^ 16 mod 256) * 256 + n div 2 ^ 8 mod 256)
        * 256 + n mod 256 = n"
    using n mod_mult2_eq [of n 256 256] mod_mult2_eq [of n 65536 256]
      div_mult_mod_eq [of n 16777216] by simp
  finally show ?thesis by (simp add: n_def)
qed

lemma u32_to_be_bytes_inj: "u32_to_be_bytes a = u32_to_be_bytes b \<longleftrightarrow> a = b"
  by (metis u32_be_bytes_roundtrip)

lemma u32_be_bytes_parse:
  assumes "length bs = 4"
  shows "u32_to_be_bytes (u32_from_be_bytes bs) = bs"
proof -
  obtain a b c d where bs: "bs = [a, b, c, d]"
    using assms by (auto simp: numeral_eq_Suc length_Suc_conv)
  define n where "n = ((unat a * 256 + unat b) * 256 + unat c) * 256 + unat d"
  have lt: "unat x < 256" for x :: byte using unsigned_less [of x] by simp
  have n: "n < 2 ^ 32" using lt [of a] lt [of b] lt [of c] lt [of d] by (simp add: n_def)
  have widen: "ucast (x::byte) = (of_nat (unat x) :: u32)" for x by simp
  have w: "u32_from_be_bytes bs = of_nat n"
    unfolding u32_from_be_bytes_def bs foldl.simps widen n_def
    by (simp add: push_bit_eq_mult algebra_simps)
  have unat_w: "unat (of_nat n :: u32) = n"
    using n by (simp add: unat_of_nat)
  have byte_at: "(ucast (drop_bit k (of_nat n :: u32)) :: byte) = of_nat (n div 2 ^ k mod 256)" for k
  proof (rule word_unat_eq_iff [THEN iffD2])
    show "unat (ucast (drop_bit k (of_nat n :: u32)) :: byte) = unat (of_nat (n div 2 ^ k mod 256) :: byte)"
      unfolding unsigned_ucast_eq unsigned_drop_bit_eq unat_w
      using n by (simp add: unat_of_nat take_bit_eq_mod drop_bit_eq_div)
  qed
  have split: "(x * 256 + unat y) div 256 = x" "(x * 256 + unat y) mod 256 = unat y" for x and y :: byte
    using lt [of y] by simp_all
  have n8: "n div 2 ^ 8 = (unat a * 256 + unat b) * 256 + unat c"
    unfolding n_def using split(1) [of _ d] by simp
  have n16: "n div 2 ^ 16 = unat a * 256 + unat b"
    using n8 split(1) [of _ c] div_mult2_eq [of n 256 256] by simp
  have n24: "n div 2 ^ 24 = unat a"
    using n16 split(1) [of _ b] div_mult2_eq [of n 65536 256] by simp
  have parts: "n div 2 ^ 24 mod 256 = unat a" "n div 2 ^ 16 mod 256 = unat b"
     "n div 2 ^ 8 mod 256 = unat c" "n mod 256 = unat d"
    using lt [of a] unfolding n24 n16 n8 split(2) by (simp_all only: n_def split(2) mod_less)
  show ?thesis
    unfolding u32_to_be_bytes_def w byte_at parts
    using byte_at [of 0] parts(4) by (simp add: bs)
qed

section \<open>Storage maps\<close>

type_synonym ('k, 'v) smap = "('k \<times> 'v) list"

definition smap_empty :: "('k, 'v) smap" where
  "smap_empty = []"

definition smap_get :: "('k, 'v) smap \<Rightarrow> 'k \<Rightarrow> 'v option" where
  "smap_get m = map_of m"

fun smap_insert :: "'k::linorder \<Rightarrow> 'v \<Rightarrow> ('k, 'v) smap \<Rightarrow> ('k, 'v) smap" where
  "smap_insert k v [] = [(k, v)]"
| "smap_insert k v ((k', v') # m) =
     (if k < k' then (k, v) # (k', v') # m
      else if k = k' then (k, v) # m
      else (k', v') # smap_insert k v m)"

definition smap_remove :: "'k \<Rightarrow> ('k, 'v) smap \<Rightarrow> ('k, 'v) smap" where
  "smap_remove k m = filter (\<lambda>p. fst p \<noteq> k) m"

definition smap_contains :: "('k, 'v) smap \<Rightarrow> 'k \<Rightarrow> bool" where
  "smap_contains m k = (smap_get m k \<noteq> None)"

definition smap_wf :: "('k::linorder, 'v) smap \<Rightarrow> bool" where
  "smap_wf m = sorted_wrt (<) (map fst m)"

definition smap_sum :: "('v \<Rightarrow> nat) \<Rightarrow> ('k, 'v) smap \<Rightarrow> nat" where
  "smap_sum f m = sum_list (map (f \<circ> snd) m)"

text \<open>The interface the pallets rely on: what a read returns after each write.\<close>

locale storage_map =
  fixes empty :: "'m"
    and insert :: "'k \<Rightarrow> 'v \<Rightarrow> 'm \<Rightarrow> 'm"
    and remove :: "'k \<Rightarrow> 'm \<Rightarrow> 'm"
    and get :: "'m \<Rightarrow> 'k \<Rightarrow> 'v option"
  assumes get_empty: "get empty k = None"
    and get_insert: "get (insert k v m) j = (if j = k then Some v else get m j)"
    and get_remove: "get (remove k m) j = (if j = k then None else get m j)"
begin

lemma get_insert_same: "get (insert k v m) k = Some v"
  by (simp add: get_insert)

lemma get_remove_same: "get (remove k m) k = None"
  by (simp add: get_remove)

lemma get_remove_insert: "get (remove k (insert k v m)) j = get (remove k m) j"
  by (simp add: get_insert get_remove)

lemma get_insert_insert: "get (insert k v (insert k w m)) j = get (insert k v m) j"
  by (simp add: get_insert)

lemma get_fold_remove: "get (fold remove ks m) j = (if j \<in> set ks then None else get m j)"
  by (induction ks arbitrary: m) (auto simp: get_remove)

lemma get_fold_insert:
  "get (fold (\<lambda>k. insert k v) ks m) j = (if j \<in> set ks then Some v else get m j)"
  by (induction ks arbitrary: m) (auto simp: get_insert)

end

lemma map_of_smap_insert: "map_of (smap_insert k v m) = (map_of m)(k \<mapsto> v)"
  by (induction k v m rule: smap_insert.induct) (auto simp: fun_eq_iff)

lemma map_of_smap_remove: "map_of (smap_remove k m) = (map_of m)(k := None)"
  unfolding smap_remove_def by (induction m) (auto simp: fun_eq_iff)

interpretation sm: storage_map smap_empty smap_insert smap_remove smap_get
  by unfold_locales
    (simp_all add: smap_empty_def smap_get_def map_of_smap_insert map_of_smap_remove)

lemmas smap_get_simps [simp] = sm.get_empty sm.get_insert sm.get_remove

lemma smap_contains_simps [simp]:
  "smap_contains (smap_insert k v m) j \<longleftrightarrow> j = k \<or> smap_contains m j"
  "smap_contains (smap_remove k m) j \<longleftrightarrow> j \<noteq> k \<and> smap_contains m j"
  by (auto simp: smap_contains_def)

lemma set_smap_insert_keys: "set (map fst (smap_insert k v m)) = {k} \<union> set (map fst m)"
  by (induction k v m rule: smap_insert.induct) auto

lemma smap_wf_insert [simp]: "smap_wf m \<Longrightarrow> smap_wf (smap_insert k v m)"
proof (induction k v m rule: smap_insert.induct)
  case (1 k v)
  then show ?case by (simp add: smap_wf_def)
next
  case (2 k v k' v' m)
  then have wf: "smap_wf m" and gt: "\<forall>x \<in> set (map fst m). k' < x"
    by (simp_all add: smap_wf_def)
  show ?case
  proof (cases "k < k'")
    case True
    with wf gt show ?thesis by (auto simp: smap_wf_def)
  next
    case False
    show ?thesis
    proof (cases "k = k'")
      case True
      with wf gt False show ?thesis by (simp add: smap_wf_def)
    next
      case neq: False
      with False have "k' < k" by simp
      with 2 wf gt False neq show ?thesis
        using set_smap_insert_keys [of k v m] by (auto simp: smap_wf_def)
    qed
  qed
qed

lemma smap_wf_remove [simp]: "smap_wf m \<Longrightarrow> smap_wf (smap_remove k m)"
  unfolding smap_wf_def smap_remove_def by (induction m) (auto simp: sorted_wrt_map)

lemma smap_wf_empty [simp]: "smap_wf smap_empty" "smap_wf []"
  by (simp_all add: smap_wf_def smap_empty_def)

lemma smap_get_Some_in: "smap_get m k = Some v \<Longrightarrow> (k, v) \<in> set m"
  by (simp add: smap_get_def map_of_SomeD)

lemma smap_wf_distinct: "smap_wf m \<Longrightarrow> distinct (map fst m)"
  unfolding smap_wf_def by (simp add: strict_sorted_iff)

lemma smap_in_get: "smap_wf m \<Longrightarrow> (k, v) \<in> set m \<Longrightarrow> smap_get m k = Some v"
  by (simp add: smap_get_def smap_wf_distinct)

lemma smap_sum_remove:
  "distinct (map fst m) \<Longrightarrow> smap_get m k = Some v \<Longrightarrow> smap_sum f m = f v + smap_sum f (smap_remove k m)"
proof (induction m)
  case Nil
  then show ?case by (simp add: smap_get_def)
next
  case (Cons p m)
  obtain k' v' where p: "p = (k', v')" by (cases p)
  show ?case
  proof (cases "k' = k")
    case True
    with Cons.prems p have "k \<notin> set (map fst m)" by simp
    then have "filter (\<lambda>q. fst q \<noteq> k) m = m" by (auto simp: filter_id_conv)
    with True Cons.prems p show ?thesis
      by (simp add: smap_sum_def smap_remove_def smap_get_def)
  next
    case False
    with Cons p show ?thesis by (simp add: smap_sum_def smap_remove_def smap_get_def)
  qed
qed

lemma smap_sum_insert_fresh:
  "smap_get m k = None \<Longrightarrow> smap_sum f (smap_insert k v m) = f v + smap_sum f m"
  by (induction k v m rule: smap_insert.induct) (auto simp: smap_sum_def smap_get_def split: if_splits)

section \<open>Lists\<close>

text \<open>Rust's \<open>iter().find\<close> and the in-place update of the element it returns.\<close>

fun list_find :: "('a \<Rightarrow> bool) \<Rightarrow> 'a list \<Rightarrow> 'a option" where
  "list_find p [] = None"
| "list_find p (x # xs) = (if p x then Some x else list_find p xs)"

fun update_first :: "('a \<Rightarrow> bool) \<Rightarrow> ('a \<Rightarrow> 'a) \<Rightarrow> 'a list \<Rightarrow> 'a list" where
  "update_first p f [] = []"
| "update_first p f (x # xs) = (if p x then f x # xs else x # update_first p f xs)"

lemma list_find_Some: "list_find p xs = Some x \<Longrightarrow> x \<in> set xs \<and> p x"
  by (induction xs) (auto split: if_splits)

lemma list_find_None: "list_find p xs = None \<longleftrightarrow> (\<forall>x \<in> set xs. \<not> p x)"
  by (induction xs) auto

lemma length_update_first [simp]: "length (update_first p f xs) = length xs"
  by (induction xs) auto

lemma update_first_in: "y \<in> set (update_first p f xs) \<Longrightarrow> y \<in> set xs \<or> (\<exists>x \<in> set xs. p x \<and> y = f x)"
  by (induction xs) (auto split: if_splits)

lemma update_first_absent: "\<forall>x \<in> set xs. \<not> p x \<Longrightarrow> update_first p f xs = xs"
  by (induction xs) auto

lemma list_find_append: "list_find P (xs @ ys) = (case list_find P xs of None \<Rightarrow> list_find P ys | Some x \<Rightarrow> Some x)"
  by (induction xs) auto

end
