(* ===== verification/Sfx_Types.thy ===== *)
theory Sfx_Types
  imports T3rn_Prelude
begin

text \<open>
  The data of a side effect (\<open>types/src/sfx.rs\<close>, \<open>fsx.rs\<close>, \<open>bid.rs\<close>): the order of a
  requester, its confirmation, the executors' bid and the full side effect the circuit stores,
  with the functions of their \<open>impl\<close> blocks, and the byte format in which contracts submit side
  effects (\<open>TryFrom<Vec<u8>>\<close>).  The Keccak hash is code outside the repository and an
  argument of the identifiers; two side effects of one transaction get distinct identifiers as
  soon as the hash separates their preimages.
\<close>

section \<open>Data\<close>

datatype SecurityLvl = Optimistic | Escrow

datatype ConfirmationOutcome =
    Success
  | MisbehaviourMalformedValues bytes bytes bytes
  | TimedOut

record SideEffect =
  target :: TargetId
  max_reward :: Balance
  insurance :: Balance
  action :: Sfx4bId
  encoded_args :: "bytes list"
  signature :: bytes
  enforce_executor :: "AccountId option"
  reward_asset_id :: "AssetId option"

record ConfirmedSideEffect =
  err :: "ConfirmationOutcome option"
  sfx_output :: "bytes option"
  inclusion_data :: bytes
  executioner :: AccountId
  received_at :: BlockNumber
  cost :: "Balance option"

record SFXBid =
  amount :: Balance
  bid_insurance :: Balance
  reserved_bond :: "Balance option"
  bid_reward_asset_id :: "AssetId option"
  executor :: AccountId
  bid_requester :: AccountId

record FullSideEffect =
  input :: SideEffect
  confirmed :: "ConfirmedSideEffect option"
  security_lvl :: SecurityLvl
  submission_target_height :: BlockNumber
  best_bid :: "SFXBid option"
  index :: u32

record HardenedSideEffect =
  hardened_target :: TargetId
  prize :: Balance
  hardened_action :: Sfx4bId
  hardened_encoded_args :: "bytes list"
  encoded_args_abi :: bytes
  hardened_security_lvl :: SecurityLvl
  confirmation_outcome :: "ConfirmationOutcome option"
  confirmed_executioner :: "AccountId option"
  confirmed_received_at :: "BlockNumber option"
  confirmed_cost :: "Balance option"
  hardened_index :: u32

section \<open>Action identifiers\<close>

text \<open>The byte strings \<open>b"tran"\<close>, \<open>b"tass"\<close> and so on.\<close>

definition COMPOSABLE_CALL_SIDE_EFFECT_ID :: Sfx4bId where
  "COMPOSABLE_CALL_SIDE_EFFECT_ID = [99, 111, 109, 112]"

definition WASM_CALL_SIDE_EFFECT_ID :: Sfx4bId where
  "WASM_CALL_SIDE_EFFECT_ID = [119, 97, 115, 109]"

definition EVM_CALL_SIDE_EFFECT_ID :: Sfx4bId where
  "EVM_CALL_SIDE_EFFECT_ID = [99, 101, 118, 109]"

definition CALL_SIDE_EFFECT_ID :: Sfx4bId where
  "CALL_SIDE_EFFECT_ID = [99, 97, 108, 108]"

definition ASSETS_TRANSFER_SIDE_EFFECT_ID :: Sfx4bId where
  "ASSETS_TRANSFER_SIDE_EFFECT_ID = [116, 97, 115, 115]"

definition MULTI_TRANSFER_SIDE_EFFECT_ID :: Sfx4bId where
  "MULTI_TRANSFER_SIDE_EFFECT_ID = [109, 117, 108, 116]"

definition TRANSFER_SIDE_EFFECT_ID :: Sfx4bId where
  "TRANSFER_SIDE_EFFECT_ID = [116, 114, 97, 110]"

definition ADD_LIQUIDITY_SIDE_EFFECT_ID :: Sfx4bId where
  "ADD_LIQUIDITY_SIDE_EFFECT_ID = [97, 108, 105, 113]"

definition SWAP_SIDE_EFFECT_ID :: Sfx4bId where
  "SWAP_SIDE_EFFECT_ID = [115, 119, 97, 112]"

definition DATA_SIDE_EFFECT_ID :: Sfx4bId where
  "DATA_SIDE_EFFECT_ID = [100, 97, 116, 97]"

text \<open>\<open>b"tddd"\<close>, the dynamic destination deal, has no named constant in the code.\<close>

definition DDD_ACTION :: Sfx4bId where
  "DDD_ACTION = [116, 100, 100, 100]"

section \<open>Identifiers\<close>

text \<open>A 4-byte word in the last four places of a 32-byte word.\<close>

definition word_32b :: "u32 \<Rightarrow> bytes" where
  "word_32b n = replicate 28 0 @ u32_to_be_bytes n"

definition generate_id :: "(bytes \<Rightarrow> H256) \<Rightarrow> SideEffect \<Rightarrow> bytes \<Rightarrow> u32 \<Rightarrow> H256" where
  "generate_id keccak sfx xtx_id sfx_index = keccak (xtx_id @ word_32b sfx_index)"

definition calc_sfx_id :: "(bytes \<Rightarrow> H256) \<Rightarrow> FullSideEffect \<Rightarrow> H256 \<Rightarrow> H256" where
  "calc_sfx_id keccak fsx xtx_id = generate_id keccak (input fsx) xtx_id (index fsx)"

definition bid_generate_id :: "(bytes \<Rightarrow> H256) \<Rightarrow> SFXBid \<Rightarrow> H256 \<Rightarrow> H256" where
  "bid_generate_id hashing bid sfx_id = hashing (sfx_id @ executor bid)"

definition calc_bid_id ::
  "(bytes \<Rightarrow> H256) \<Rightarrow> (bytes \<Rightarrow> H256) \<Rightarrow> FullSideEffect \<Rightarrow> H256 \<Rightarrow> H256 option" where
  "calc_bid_id keccak hashing fsx xtx_id =
     (case best_bid fsx of
        Some sfx_bid \<Rightarrow> Some (bid_generate_id hashing sfx_bid (calc_sfx_id keccak fsx xtx_id))
      | None \<Rightarrow> None)"

section \<open>Operations\<close>

definition new_none_optimistic ::
  "Balance \<Rightarrow> Balance \<Rightarrow> AccountId \<Rightarrow> AccountId \<Rightarrow> AssetId option \<Rightarrow> SFXBid" where
  "new_none_optimistic bid ins exec req asset =
     \<lparr>amount = bid, bid_insurance = ins, reserved_bond = None, bid_reward_asset_id = asset,
      executor = exec, bid_requester = req\<rparr>"

definition expect_reserved_bond :: "SFXBid \<Rightarrow> ('e, Balance) res" where
  "expect_reserved_bond bid = (case reserved_bond bid of Some b \<Rightarrow> Ok b | None \<Rightarrow> Panic)"

definition is_successfully_confirmed :: "FullSideEffect \<Rightarrow> bool" where
  "is_successfully_confirmed fsx =
     (case confirmed fsx of Some c \<Rightarrow> err c = None | None \<Rightarrow> False)"

definition is_bid_resolved :: "FullSideEffect \<Rightarrow> bool" where
  "is_bid_resolved fsx = (best_bid fsx \<noteq> None)"

definition expect_sfx_bid :: "FullSideEffect \<Rightarrow> ('e, SFXBid) res" where
  "expect_sfx_bid fsx = (case best_bid fsx of Some b \<Rightarrow> Ok b | None \<Rightarrow> Panic)"

definition get_bond_value :: "FullSideEffect \<Rightarrow> Balance \<Rightarrow> Balance" where
  "get_bond_value fsx max_rew =
     (case best_bid fsx of Some sfx_bid \<Rightarrow> amount sfx_bid | None \<Rightarrow> max_rew)"

definition harden :: "FullSideEffect \<Rightarrow> ('e, HardenedSideEffect) res" where
  "harden fsx = Ok
     \<lparr>hardened_target = target (input fsx),
      prize = max_reward (input fsx),
      hardened_action = action (input fsx),
      hardened_encoded_args = encoded_args (input fsx),
      encoded_args_abi = [],
      hardened_security_lvl = security_lvl fsx,
      confirmation_outcome = Option.bind (confirmed fsx) err,
      confirmed_executioner = map_option executioner (confirmed fsx),
      confirmed_received_at = map_option received_at (confirmed fsx),
      confirmed_cost = Option.bind (confirmed fsx) cost,
      hardened_index = index fsx\<rparr>"

section \<open>Side effects submitted as bytes\<close>

datatype Action =
    Transfer | TransferMulti | AddLiquidity | Swap | Call | CallEvm | CallWasm | CallComposable | Data

definition target_byte_try_into :: "byte \<Rightarrow> (string, TargetId) res" where
  "target_byte_try_into b =
     (if b = 0 then Ok [107, 115, 109, 97]
      else if b = 1 then Ok [112, 100, 111, 116]
      else if b = 2 then Ok [107, 97, 114, 117]
      else if b = 3 then Ok [116, 51, 114, 110]
      else Err ''Invalid target Id'')"

definition action_try_from :: "byte \<Rightarrow> (string, Action) res" where
  "action_try_from v =
     (if v = 0 then Ok Transfer
      else if v = 1 then Ok TransferMulti
      else if v = 2 then Ok AddLiquidity
      else if v = 3 then Ok Swap
      else if v = 4 then Ok Call
      else if v = 5 then Ok Data
      else Err ''Invalid action id'')"

fun action_into :: "Action \<Rightarrow> Sfx4bId" where
  "action_into Transfer = TRANSFER_SIDE_EFFECT_ID"
| "action_into AddLiquidity = ADD_LIQUIDITY_SIDE_EFFECT_ID"
| "action_into Swap = SWAP_SIDE_EFFECT_ID"
| "action_into Call = CALL_SIDE_EFFECT_ID"
| "action_into CallEvm = EVM_CALL_SIDE_EFFECT_ID"
| "action_into CallWasm = WASM_CALL_SIDE_EFFECT_ID"
| "action_into CallComposable = COMPOSABLE_CALL_SIDE_EFFECT_ID"
| "action_into Data = DATA_SIDE_EFFECT_ID"
| "action_into TransferMulti = MULTI_TRANSFER_SIDE_EFFECT_ID"

text \<open>
  The cursor over the input: \<open>Bytes::split_to\<close> and \<open>advance\<close> panic when fewer bytes
  remain.  \<open>take_fields\<close> pushes one argument per width, in order.
\<close>

definition split_to :: "nat \<Rightarrow> bytes \<Rightarrow> ('e, bytes \<times> bytes) res" where
  "split_to n bs = (if n \<le> length bs then Ok (take n bs, drop n bs) else Panic)"

definition advance :: "nat \<Rightarrow> bytes \<Rightarrow> ('e, bytes) res" where
  "advance n bs = (if n \<le> length bs then Ok (drop n bs) else Panic)"

fun take_fields :: "nat list \<Rightarrow> bytes \<Rightarrow> bytes list \<Rightarrow> ('e, bytes \<times> bytes list) res" where
  "take_fields [] bs args = Ok (bs, args)"
| "take_fields (n # ns) bs args =
     bind_res (split_to n bs) (\<lambda>(a, rest). take_fields ns rest (args @ [a]))"

definition take_insurance :: "nat \<Rightarrow> bytes \<Rightarrow> bytes list \<Rightarrow> ('e, bytes \<times> bytes list) res" where
  "take_insurance bal bs args =
     (case bs of
        [] \<Rightarrow> Ok (bs, args)
      | b # _ \<Rightarrow>
          if b = 0 then Ok (bs, args @ [[]])
          else if b = 1 then take_fields [1 + 2 * bal] bs args
          else Ok (bs, args))"

text \<open>
  The virtual machine byte of a \<open>Call\<close>; both tests of the inner \<open>match\<close> look at the same byte,
  since nothing is consumed between them.
\<close>

definition take_vm_args :: "nat \<Rightarrow> nat \<Rightarrow> bytes \<Rightarrow> bytes list \<Rightarrow> ('e, bytes \<times> bytes list) res" where
  "take_vm_args acc bal bs args =
     (case bs of
        [] \<Rightarrow> Ok (bs, args)
      | b # _ \<Rightarrow>
          if b = 0 then
            bind_res (advance 1 bs) (\<lambda>bs1. take_fields [acc, bal] bs1 args)
          else if b = 1 then
            bind_res (advance 1 bs) (\<lambda>bs1.
            bind_res (take_fields [acc, bal, bal] bs1 args) (\<lambda>(bs2, args2).
              case bs2 of
                [] \<Rightarrow> Ok (bs2, args2)
              | c # _ \<Rightarrow>
                  if c = 0 then Ok (bs2, args2 @ [[c]])
                  else if c = 1 then
                    (if c = 0 then Ok (bs2, args2 @ [[c]])
                     else if c = 1 then
                       bind_res (advance 1 bs2) (\<lambda>bs3. take_fields [bal] bs3 args2)
                     else Ok (bs2, args2))
                  else Ok (bs2, args2)))
          else Ok (bs, args))"

fun extract_args :: "nat \<Rightarrow> nat \<Rightarrow> Action \<Rightarrow> bytes \<Rightarrow> (string, bytes list) res" where
  "extract_args acc bal Transfer bs =
     bind_res (take_fields [acc, acc, bal] bs []) (\<lambda>(r, args).
     bind_res (take_insurance bal r args) (\<lambda>(_, args). Ok args))"
| "extract_args acc bal AddLiquidity bs =
     bind_res (take_fields [acc, acc, 32, 32, 32, bal, bal, bal] bs []) (\<lambda>(r, args).
     bind_res (take_insurance bal r args) (\<lambda>(_, args). Ok args))"
| "extract_args acc bal Swap bs =
     bind_res (take_fields [acc, acc, bal, bal, 32, 32] bs []) (\<lambda>(r, args).
     bind_res (take_insurance bal r args) (\<lambda>(_, args). Ok args))"
| "extract_args acc bal Call bs =
     bind_res (take_fields [acc] bs []) (\<lambda>(r, args).
     bind_res (take_vm_args acc bal r args) (\<lambda>(r2, args2).
     bind_res (advance 1 r2) (\<lambda>r3. Ok (args2 @ [r3]))))"
| "extract_args acc bal CallEvm bs = Ok []"
| "extract_args acc bal CallWasm bs = Ok []"
| "extract_args acc bal CallComposable bs =
     bind_res (take_fields [acc, bal, bal, bal] bs []) (\<lambda>(r, args). Ok (args @ [r]))"
| "extract_args acc bal TransferMulti bs =
     bind_res (take_fields [32, acc, acc, bal] bs []) (\<lambda>(r, args).
     bind_res (take_insurance bal r args) (\<lambda>(_, args). Ok args))"
| "extract_args acc bal Data bs =
     bind_res (take_fields [32] bs []) (\<lambda>(_, args). Ok args)"

definition take_next :: "bytes \<Rightarrow> (string, byte \<times> bytes) res" where
  "take_next bs = (case bs of [] \<Rightarrow> Err ''no more bytes'' | b # r \<Rightarrow> Ok (b, r))"

definition sfx_try_from :: "nat \<Rightarrow> nat \<Rightarrow> bytes \<Rightarrow> (string, SideEffect) res" where
  "sfx_try_from acc bal bs =
     bind_res (take_next bs) (\<lambda>(t, bs1).
     bind_res (target_byte_try_into t) (\<lambda>tgt.
     bind_res (take_next bs1) (\<lambda>(a, bs2).
     bind_res (action_try_from a) (\<lambda>act.
     bind_res (extract_args acc bal act bs2) (\<lambda>args.
       Ok \<lparr>target = tgt, max_reward = 0, insurance = 0, action = action_into act,
           encoded_args = args, signature = [], enforce_executor = None,
           reward_asset_id = None\<rparr>)))))"

section \<open>Migration of stored side effects\<close>

record SideEffectV13 =
  v13_target :: TargetId
  v13_max_reward :: Balance
  v13_insurance :: Balance
  v13_encoded_action :: bytes
  v13_encoded_args :: "bytes list"
  v13_signature :: bytes
  v13_enforce_executor :: "AccountId option"
  v13_reward_asset_id :: "AssetId option"

record FullSideEffectV13 =
  v13_input :: SideEffectV13
  v13_confirmed :: "ConfirmedSideEffect option"
  v13_security_lvl :: SecurityLvl
  v13_submission_target_height :: bytes
  v13_best_bid :: "SFXBid option"
  v13_index :: u32

text \<open>Indexing \<open>encoded_action[0..3]\<close> panics on an action shorter than four bytes.\<close>

definition sfx_from_v13 :: "SideEffectV13 \<Rightarrow> ('e, SideEffect) res" where
  "sfx_from_v13 old =
     (case v13_encoded_action old of
        a # b # c # d # _ \<Rightarrow> Ok
          \<lparr>target = v13_target old, max_reward = v13_max_reward old,
           insurance = v13_insurance old, action = [a, b, c, d],
           encoded_args = v13_encoded_args old, signature = v13_signature old,
           enforce_executor = v13_enforce_executor old,
           reward_asset_id = v13_reward_asset_id old\<rparr>
      | _ \<Rightarrow> Panic)"

definition fsx_from_v13 ::
  "(bytes \<Rightarrow> BlockNumber option) \<Rightarrow> FullSideEffectV13 \<Rightarrow> ('e, FullSideEffect) res" where
  "fsx_from_v13 decode_block old =
     bind_res (sfx_from_v13 (v13_input old)) (\<lambda>new_input.
       Ok \<lparr>input = new_input, confirmed = v13_confirmed old, security_lvl = v13_security_lvl old,
           submission_target_height =
             (case decode_block (v13_submission_target_height old) of Some h \<Rightarrow> h | None \<Rightarrow> 0),
           best_bid = v13_best_bid old, index = v13_index old\<rparr>)"

section \<open>Facts\<close>

lemma length_word_32b [simp]: "length (word_32b n) = 32"
  by (simp add: word_32b_def)

lemma word_32b_inj [simp]: "word_32b a = word_32b b \<longleftrightarrow> a = b"
  by (simp add: word_32b_def u32_to_be_bytes_inj)

lemma calc_sfx_id_input [simp]:
  "calc_sfx_id keccak (fsx\<lparr>input := i\<rparr>) x = calc_sfx_id keccak fsx x"
  "calc_sfx_id keccak (fsx\<lparr>confirmed := c\<rparr>) x = calc_sfx_id keccak fsx x"
  "calc_sfx_id keccak (fsx\<lparr>best_bid := b\<rparr>) x = calc_sfx_id keccak fsx x"
  by (simp_all add: calc_sfx_id_def generate_id_def)

text \<open>The preimages of the identifiers of side effects with the indices in \<open>I\<close>.\<close>

definition sfx_preimages :: "H256 \<Rightarrow> u32 set \<Rightarrow> bytes set" where
  "sfx_preimages xtx_id I = (\<lambda>i. xtx_id @ word_32b i) ` I"

lemma calc_sfx_id_eq_iff:
  assumes "inj_on keccak (sfx_preimages x {index f, index g})"
  shows "calc_sfx_id keccak f x = calc_sfx_id keccak g x \<longleftrightarrow> index f = index g"
  using assms
  by (auto simp: calc_sfx_id_def generate_id_def sfx_preimages_def dest: inj_onD)

lemma take_fields_append:
  assumes "map length as = ns"
  shows "take_fields ns (concat as @ rest) args = Ok (rest, args @ as)"
  using assms
proof (induction as arbitrary: ns args)
  case Nil
  then show ?case by simp
next
  case (Cons a as)
  then show ?case by (auto simp: split_to_def)
qed

lemma take_fields_short:
  "length bs < sum_list ns \<Longrightarrow> take_fields ns bs args = Panic"
proof (induction ns arbitrary: bs args)
  case Nil
  then show ?case by simp
next
  case (Cons n ns)
  show ?case
  proof (cases "n \<le> length bs")
    case True
    with Cons show ?thesis by (simp add: split_to_def)
  next
    case False
    then show ?thesis by (simp add: split_to_def)
  qed
qed

end
