(* ===== verification/Runtime_Errors.thy ===== *)
theory Runtime_Errors
  imports T3rn_Prelude
begin

text \<open>
  The errors of the modelled pallets and the \<open>DispatchError\<close> an extrinsic returns: a static
  message (\<open>Other\<close>), a bad origin, an arithmetic overflow, an error of one of the modelled
  pallets, or an error of code outside the repository, which is only a number here.  Of the
  variants the pallets declare, those that the code raises are constructors.
\<close>

datatype (plugins only: code) CircuitError =
    UpdateAttemptDoubleRevert
  | UpdateAttemptDoubleKill
  | UpdateStateTransitionDisallowed
  | ConfirmationFailed
  | InvalidOrderOrigin
  | RequesterNotEnoughBalance
  | AssetsFailedToWithdraw
  | SanityAfterCreatingSFXDepositsFailed
  | InsuranceBondNotRequired
  | BiddingInactive
  | BiddingRejectedBidBelowDust
  | BiddingRejectedBidTooHigh
  | BiddingRejectedInsuranceTooLow
  | BiddingRejectedBetterBidFound
  | BiddingRejectedFailedToDepositBidderBond
  | InvalidFTXStateEmptyBidForReadyXtx
  | InvalidFTXStateEmptyConfirmationForFinishedXtx
  | InvalidFTXStateUnassignedExecutorForReadySFX
  | InvalidFTXStateIncorrectExecutorForReadySFX
  | GatewayNotActive
  | SetupFailedXtxStorageArtifactsNotFound
  | SetupFailedDuplicatedXtx
  | XtxDoesNotExist
  | FailedToHardenFullSideEffect
  | FSXNotFoundById
  | XtxNotFound
  | LocalSideEffectExecutionNotApplicable
  | EscrowExecutionNotApplicableForThisSFX
  | UnauthorizedCancellation
  | SignalQueueFull
  | ArithmeticErrorOverflow
  | ABIOnSelectedTargetNotFoundForSubmittedSFX
  | TargetAppearsNotToBeActiveAndDoesntHaveFinalizedHeight
  | SideEffectsValidationFailedAgainstABI
  | XtxChargeFailedOnEscrowFee
  | FailedToPerformDynamicDestinationDealHotSwap
  | NotImplemented

datatype (plugins only: code) AccountManagerError =
    ExecutionAlreadyRegistered
  | NoChargeOfGivenIdRegistered
  | ChargeAlreadyRegistered
  | DecodingExecutionIDFailed
  | TransferDepositFailedOldChargeNotFound
  | TransferDepositFailedToReleasePreviousCharge

datatype (plugins only: code) RewardsError =
    NoPendingClaims
  | Rewards_ArithmeticOverflow
  | Rewards_Halted

datatype (plugins only: code) XdnsError =
    GatewayRecordAlreadyExists
  | XdnsRecordNotFound
  | EscrowAccountNotFound
  | RemoteOrderAddressNotFound
  | TokenRecordAlreadyExists
  | TokenRecordNotFoundInAssetsOverlay
  | TokenRecordNotFoundInGateway
  | GatewayRecordNotFound
  | SideEffectABIAlreadyExists
  | SideEffectABINotFound
  | NoParachainInfoFound
  | TokenExecutionVendorMismatch
  | Xdns_GatewayNotActive
  | TopologyDecodeError
  | EmptyTopologySubmitted

datatype (plugins only: code) AttestersError =
    AttesterNotFound
  | Attesters_ArithmeticOverflow
  | InvalidSignature
  | InvalidMessage
  | InvalidTargetInclusionProof
  | UnexpectedBatchHashRecoveredFromCommitment
  | AlreadyRegistered
  | PublicKeyMissing
  | AttestationSignatureInvalid
  | AttestationDoubleSignAttempt
  | NotActiveSet
  | NotInCurrentCommittee
  | AttesterDidNotAgreeToNewTarget
  | NotRegistered
  | NoNominationFound
  | AlreadyNominated
  | NominatorNotEnoughBalance
  | NominatorBondTooSmall
  | AttesterBondTooSmall
  | MissingNominations
  | BatchHashMismatch
  | BatchNotFound
  | CollusionWithPermanentSlashDetected
  | BatchFoundWithUnsignableStatus
  | RejectingFromSlashedAttester
  | TargetAlreadyActive
  | TargetNotActive
  | XdnsTargetNotActive
  | XdnsGatewayDoesNotHaveEscrowAddressRegistered
  | SfxAlreadyRequested
  | AddAttesterAlreadyRequested
  | RemoveAttesterAlreadyRequested
  | NextCommitteeAlreadyRequested
  | BanAttesterAlreadyRequested
  | BatchAlreadyCommitted
  | CommitteeSizeTooLarge
  | InfluxSignatureAlreadySubmitted
  | InfluxMessageHashIncorrect

datatype (plugins only: code) PortalError =
    XdnsRecordCreationFailed
  | UnimplementedGatewayVendor
  | LightClientNotFoundByVendor
  | RegistrationError
  | GatewayVendorNotFound
  | SetOwnerError
  | SetOperationalError
  | SubmitHeaderError
  | NoGatewayHeightAvailable
  | SideEffectConfirmationFailed
  | SFXRecodeError

datatype (plugins only: code) ContractsRegistryError =
    ContractAlreadyExists
  | UnknownContract

datatype (plugins only: code) MaintenanceError =
    AlreadyInMaintenanceMode
  | NotInMaintenanceMode

datatype DispatchError =
    Other string
  | BadOrigin
  | ArithmeticOverflow
  | Circuit_Error CircuitError
  | AccountManager_Error AccountManagerError
  | Rewards_Error RewardsError
  | Xdns_Error XdnsError
  | Attesters_Error AttestersError
  | Portal_Error PortalError
  | ContractsRegistry_Error ContractsRegistryError
  | Maintenance_Error MaintenanceError
  | External_Error nat

text \<open>Origins of a call, and \<open>ensure_root\<close> and \<open>ensure_signed\<close> of the runtime.\<close>

datatype Origin = Root | Signed AccountId | Unsigned

definition ensure_root :: "Origin \<Rightarrow> (DispatchError, unit) res" where
  "ensure_root origin = (case origin of Root \<Rightarrow> Ok () | _ \<Rightarrow> Err BadOrigin)"

definition ensure_signed :: "Origin \<Rightarrow> (DispatchError, AccountId) res" where
  "ensure_signed origin = (case origin of Signed who \<Rightarrow> Ok who | _ \<Rightarrow> Err BadOrigin)"

lemma ensure_root_Ok [res_simps]: "ensure_root origin = Ok u \<longleftrightarrow> origin = Root"
  by (simp add: ensure_root_def split: Origin.splits)

lemma ensure_signed_Ok [res_simps]: "ensure_signed origin = Ok who \<longleftrightarrow> origin = Signed who"
  by (auto simp: ensure_signed_def split: Origin.splits)

end
