(* ===== verification/Circuit_Status.thy ===== *)
theory Circuit_Status
  imports Sfx_Types Runtime_Errors
begin

text \<open>
  The status of a cross-chain transaction (\<open>primitives/src/circuit/types.rs\<close>): the enumeration
  with its derived order, the status determined from the side effects alone
  (\<open>determine_xtx_status\<close> and the functions it calls) and the table of allowed transitions
  (\<open>check_transition\<close>).  The loops over the side effects are kept as loops and then shown to
  compute the closed descriptions that the other theories use.
\<close>

section \<open>The status enumeration\<close>

datatype Cause = Timeout | IntentionalKill

datatype CircuitStatus =
    Requested
  | Reserved
  | PendingBidding
  | InBidding
  | Killed Cause
  | Ready
  | PendingExecution
  | Finished
  | FinishedAllSteps
  | Reverted Cause
  | Committed

text \<open>
  \<open>#[derive(PartialOrd)]\<close>: the variants in their order, then the payload.
\<close>

fun status_rank :: "CircuitStatus \<Rightarrow> nat" where
  "status_rank Requested = 0"
| "status_rank Reserved = 1"
| "status_rank PendingBidding = 2"
| "status_rank InBidding = 3"
| "status_rank (Killed Timeout) = 4"
| "status_rank (Killed IntentionalKill) = 5"
| "status_rank Ready = 6"
| "status_rank PendingExecution = 7"
| "status_rank Finished = 8"
| "status_rank FinishedAllSteps = 9"
| "status_rank (Reverted Timeout) = 10"
| "status_rank (Reverted IntentionalKill) = 11"
| "status_rank Committed = 12"

lemma status_rank_inj: "status_rank a = status_rank b \<Longrightarrow> a = b"
  by (cases a rule: status_rank.cases; cases b rule: status_rank.cases) simp_all

instantiation CircuitStatus :: linorder
begin

definition less_eq_CircuitStatus :: "CircuitStatus \<Rightarrow> CircuitStatus \<Rightarrow> bool" where
  "less_eq_CircuitStatus a b \<longleftrightarrow> status_rank a \<le> status_rank b"

definition less_CircuitStatus :: "CircuitStatus \<Rightarrow> CircuitStatus \<Rightarrow> bool" where
  "less_CircuitStatus a b \<longleftrightarrow> status_rank a < status_rank b"

instance
  by standard
    (auto simp: less_eq_CircuitStatus_def less_CircuitStatus_def intro: status_rank_inj)

end

lemmas status_order = less_eq_CircuitStatus_def less_CircuitStatus_def

section \<open>The status determined by the side effects\<close>

definition determine_fsx_bidding_status :: "FullSideEffect \<Rightarrow> CircuitStatus" where
  "determine_fsx_bidding_status fsx =
     (case best_bid fsx of Some _ \<Rightarrow> InBidding | None \<Rightarrow> PendingBidding)"

fun bidding_bounds ::
  "FullSideEffect list \<Rightarrow> CircuitStatus \<times> CircuitStatus \<Rightarrow> CircuitStatus \<times> CircuitStatus" where
  "bidding_bounds [] (lowest, highest) = (lowest, highest)"
| "bidding_bounds (fsx # fsxs) (lowest, highest) =
     (if determine_fsx_bidding_status fsx = PendingBidding
      then bidding_bounds fsxs (PendingBidding, highest)
      else bidding_bounds fsxs (lowest, InBidding))"

definition determine_bidding_status :: "FullSideEffect list \<Rightarrow> CircuitStatus" where
  "determine_bidding_status fsx_step =
     (case bidding_bounds fsx_step (InBidding, PendingBidding) of (lowest, highest) \<Rightarrow>
        if lowest = InBidding then
          (if list_all (\<lambda>fsx. enforce_executor (input fsx) \<noteq> None) fsx_step
           then Ready else InBidding)
        else if highest = PendingBidding then PendingBidding
        else InBidding)"

fun execution_bounds ::
  "FullSideEffect list \<Rightarrow> CircuitStatus \<times> CircuitStatus \<Rightarrow> CircuitStatus \<times> CircuitStatus" where
  "execution_bounds [] (lowest, highest) = (lowest, highest)"
| "execution_bounds (fsx # fsxs) (lowest, highest) =
     (if confirmed fsx \<noteq> None
      then execution_bounds fsxs (lowest, Finished)
      else execution_bounds fsxs (Ready, highest))"

definition determine_execution_status :: "FullSideEffect list \<Rightarrow> CircuitStatus" where
  "determine_execution_status fsx_step =
     (case execution_bounds fsx_step (Finished, Ready) of (lowest, highest) \<Rightarrow>
        if lowest = Finished then Finished
        else if highest = Ready then Ready
        else PendingExecution)"

definition determine_step_status :: "FullSideEffect list \<Rightarrow> CircuitStatus" where
  "determine_step_status step =
     (if step = [] then Finished
      else let bidding_status = determine_bidding_status step in
        if bidding_status < Ready then bidding_status
        else determine_execution_status step)"

fun determine_xtx_loop :: "CircuitStatus \<Rightarrow> FullSideEffect list list \<Rightarrow> CircuitStatus" where
  "determine_xtx_loop lowest [] = FinishedAllSteps"
| "determine_xtx_loop lowest (step # steps) =
     (let current = determine_step_status step;
          lowest' = (if current > lowest then current else lowest)
      in if lowest' < Finished then current else determine_xtx_loop lowest' steps)"

definition determine_xtx_status :: "FullSideEffect list list \<Rightarrow> CircuitStatus" where
  "determine_xtx_status steps =
     (if list_all (\<lambda>step. step = []) steps then Reserved
      else determine_xtx_loop Requested steps)"

section \<open>Allowed transitions\<close>

definition unforced_allowed :: "CircuitStatus \<Rightarrow> CircuitStatus \<Rightarrow> bool" where
  "unforced_allowed previous new =
     (case (previous, new) of
        (Requested, Requested) \<Rightarrow> True
      | (Reserved, Reserved) \<Rightarrow> True
      | (Reserved, PendingBidding) \<Rightarrow> True
      | (Requested, Reserved) \<Rightarrow> True
      | (Requested, PendingBidding) \<Rightarrow> True
      | (Requested, InBidding) \<Rightarrow> True
      | (PendingBidding, InBidding) \<Rightarrow> True
      | (InBidding, InBidding) \<Rightarrow> True
      | (InBidding, Ready) \<Rightarrow> True
      | (PendingBidding, Ready) \<Rightarrow> True
      | (Ready, PendingExecution) \<Rightarrow> True
      | (Ready, FinishedAllSteps) \<Rightarrow> True
      | (PendingExecution, PendingExecution) \<Rightarrow> True
      | (PendingExecution, Finished) \<Rightarrow> True
      | (PendingExecution, FinishedAllSteps) \<Rightarrow> True
      | (PendingExecution, Committed) \<Rightarrow> True
      | (Finished, PendingExecution) \<Rightarrow> True
      | (Finished, Ready) \<Rightarrow> True
      | (Finished, FinishedAllSteps) \<Rightarrow> True
      | (FinishedAllSteps, Committed) \<Rightarrow> True
      | _ \<Rightarrow> False)"

definition forced_disallowed :: "(DispatchError, CircuitStatus) res" where
  "forced_disallowed = Err (Other ''UpdateForcedStateTransitionDisallowed'')"

definition check_transition ::
  "CircuitStatus \<Rightarrow> CircuitStatus \<Rightarrow> CircuitStatus option \<Rightarrow> (DispatchError, CircuitStatus) res" where
  "check_transition previous new maybe_forced =
     (case maybe_forced of
        None \<Rightarrow>
          if unforced_allowed previous new then Ok new
          else Err (Other ''UpdateStateTransitionDisallowed'')
      | Some forced \<Rightarrow>
          if forced = new then Ok new
          else case forced of
            Killed IntentionalKill \<Rightarrow>
              if new \<le> PendingBidding then Ok forced else forced_disallowed
          | Killed Timeout \<Rightarrow>
              if new \<le> InBidding then Ok forced else forced_disallowed
          | Reverted cause \<Rightarrow>
              if new < Ready then Ok (Killed cause)
              else if new < FinishedAllSteps then Ok forced
              else Ok new
          | Ready \<Rightarrow> if previous = InBidding then Ok forced else forced_disallowed
          | InBidding \<Rightarrow>
              if new = PendingBidding \<or> new = InBidding then Ok forced else forced_disallowed
          | PendingExecution \<Rightarrow> if new = Ready then Ok forced else forced_disallowed
          | Reserved \<Rightarrow> if new \<le> Reserved then Ok forced else forced_disallowed
          | Committed \<Rightarrow> if new = FinishedAllSteps then Ok Committed else forced_disallowed
          | _ \<Rightarrow> forced_disallowed)"

section \<open>What the loops compute\<close>

definition has_bid :: "FullSideEffect \<Rightarrow> bool" where
  "has_bid fsx = (best_bid fsx \<noteq> None)"

definition has_executor :: "FullSideEffect \<Rightarrow> bool" where
  "has_executor fsx = (enforce_executor (input fsx) \<noteq> None)"

definition is_confirmed :: "FullSideEffect \<Rightarrow> bool" where
  "is_confirmed fsx = (confirmed fsx \<noteq> None)"

definition unbid_fsx :: FullSideEffect where
  "unbid_fsx = \<lparr>input = \<lparr>target = [1, 2, 3, 4], max_reward = 5, insurance = 1, action = [0, 0, 0, 0],
       encoded_args = [], signature = [], enforce_executor = None, reward_asset_id = None\<rparr>,
     confirmed = None, security_lvl = Optimistic, submission_target_height = 3, best_bid = None, index = 0\<rparr>"

lemmas fsx_flags = has_bid_def has_executor_def is_confirmed_def

lemma determine_fsx_bidding_status_eq:
  "determine_fsx_bidding_status fsx = (if has_bid fsx then InBidding else PendingBidding)"
  by (auto simp: determine_fsx_bidding_status_def has_bid_def split: option.splits)

lemma bidding_bounds_eq:
  "bidding_bounds fsxs (l, h) =
     ((if \<forall>f \<in> set fsxs. has_bid f then l else PendingBidding),
      (if \<exists>f \<in> set fsxs. has_bid f then InBidding else h))"
  by (induction fsxs arbitrary: l h) (auto simp: determine_fsx_bidding_status_eq)

lemma determine_bidding_status_eq:
  "determine_bidding_status step =
     (if \<forall>f \<in> set step. has_bid f
      then (if \<forall>f \<in> set step. has_executor f then Ready else InBidding)
      else if \<exists>f \<in> set step. has_bid f then InBidding else PendingBidding)"
  by (auto simp: determine_bidding_status_def bidding_bounds_eq has_executor_def list_all_iff)

lemma execution_bounds_eq:
  "execution_bounds fsxs (l, h) =
     ((if \<forall>f \<in> set fsxs. is_confirmed f then l else Ready),
      (if \<exists>f \<in> set fsxs. is_confirmed f then Finished else h))"
  by (induction fsxs arbitrary: l h) (auto simp: is_confirmed_def)

lemma determine_execution_status_eq:
  "determine_execution_status step =
     (if \<forall>f \<in> set step. is_confirmed f then Finished
      else if \<exists>f \<in> set step. is_confirmed f then PendingExecution else Ready)"
  by (auto simp: determine_execution_status_def execution_bounds_eq)

lemma determine_step_status_eq:
  "step \<noteq> [] \<Longrightarrow> determine_step_status step =
     (if \<forall>f \<in> set step. has_bid f \<and> has_executor f
      then (if \<forall>f \<in> set step. is_confirmed f then Finished
            else if \<exists>f \<in> set step. is_confirmed f then PendingExecution else Ready)
      else if \<exists>f \<in> set step. has_bid f then InBidding else PendingBidding)"
  by (cases step)
    (auto simp: determine_step_status_def determine_bidding_status_eq determine_execution_status_eq
      Let_def status_order)

lemma determine_xtx_loop_Finished:
  "Finished \<le> l \<Longrightarrow> determine_xtx_loop l steps = FinishedAllSteps"
  by (induction steps arbitrary: l) (auto simp: Let_def)

lemma determine_xtx_status_single:
  "step \<noteq> [] \<Longrightarrow> determine_xtx_status [step] =
     (if determine_step_status step = Finished then FinishedAllSteps
      else determine_step_status step)"
  by (auto simp: determine_xtx_status_def Let_def determine_step_status_eq status_order)



end
