(* ===== verification/Xtx_Types.thy ===== *)
theory Xtx_Types
  imports Circuit_Status
begin

text \<open>
  The data of a cross-chain transaction outside its side effects (\<open>primitives/src/lib.rs\<close>,
  \<open>circuit/types.rs\<close>, \<open>xtx.rs\<close>, \<open>volatile.rs\<close>): speed modes and gateway vendors, the
  adaptive timeout, the stored signal \<open>XExecSignal\<close> and its identifier, the local context the
  circuit works on, orders and their origin, the packed byte formats of the vacuum orders, the
  older \<open>Xtx\<close> with \<open>complete_side_effect\<close>, and the volatile key-value state.
\<close>

section \<open>Speed modes and gateway vendors\<close>

datatype SpeedMode = Fast | Rational | Speed_Finalized | Instant

datatype GatewayVendor = Polkadot | Kusama | Rococo | Ethereum | Sepolia | XBI | Attesters

record EpochEstimate =
  epoch_local :: BlockNumber
  epoch_remote :: BlockNumber
  moving_average_local :: BlockNumber
  moving_average_remote :: BlockNumber

definition eta_per_speed_mode_in_epochs :: "GatewayVendor \<Rightarrow> SpeedMode \<Rightarrow> u32" where
  "eta_per_speed_mode_in_epochs vendor speed_mode =
     (if vendor \<in> {Ethereum, Sepolia}
      then (case speed_mode of Fast \<Rightarrow> 1 | Rational \<Rightarrow> 2 | Speed_Finalized \<Rightarrow> 3 | Instant \<Rightarrow> 1)
      else (case speed_mode of Fast \<Rightarrow> 4 | Rational \<Rightarrow> 6 | Speed_Finalized \<Rightarrow> 8 | Instant \<Rightarrow> 1))"

definition calculate_offsets ::
  "GatewayVendor \<Rightarrow> SpeedMode \<Rightarrow> BlockNumber \<Rightarrow> EpochEstimate list option
     \<Rightarrow> BlockNumber \<times> BlockNumber" where
  "calculate_offsets vendor speed_mode emergency_offset epoch_history =
     (let eta = eta_per_speed_mode_in_epochs vendor speed_mode;
          (here, there) =
            (case epoch_history of
               None \<Rightarrow> (emergency_offset, emergency_offset)
             | Some history \<Rightarrow>
                 if history = [] then (emergency_offset, emergency_offset)
                 else (saturating_mul (moving_average_local (last history)) eta,
                       saturating_mul (moving_average_remote (last history)) eta))
      in if here = 0 \<or> there = 0 then (emergency_offset, emergency_offset) else (here, there))"

section \<open>Timeouts\<close>

record AdaptiveTimeout =
  estimated_height_here :: BlockNumber
  estimated_height_there :: BlockNumber
  submit_by_height_here :: BlockNumber
  submit_by_height_there :: BlockNumber
  emergency_timeout_here :: BlockNumber
  timeout_there :: TargetId
  dlq :: "BlockNumber option"

text \<open>\<open>TargetId::default()\<close> is four zero bytes.\<close>

definition default_target :: TargetId where
  "default_target = [0, 0, 0, 0]"

definition new_emergency :: "BlockNumber \<Rightarrow> AdaptiveTimeout" where
  "new_emergency emergency =
     \<lparr>estimated_height_here = 0, estimated_height_there = 0, submit_by_height_here = 0,
      submit_by_height_there = 0, emergency_timeout_here = emergency,
      timeout_there = default_target, dlq = None\<rparr>"

definition default_401 :: AdaptiveTimeout where
  "default_401 = new_emergency 401"

section \<open>The stored signal\<close>

record XExecSignal =
  requester :: AccountId
  requester_nonce :: u32
  timeouts_at :: AdaptiveTimeout
  speed_mode :: SpeedMode
  delay_steps_at :: "BlockNumber list option"
  status :: CircuitStatus
  steps_cnt :: "u32 \<times> u32"

text \<open>\<open>CircuitStatus::default()\<close> is \<open>Requested\<close>.\<close>

definition xtx_new ::
  "AccountId \<Rightarrow> u32 \<Rightarrow> AdaptiveTimeout \<Rightarrow> BlockNumber list option \<Rightarrow> SpeedMode \<Rightarrow> u32 \<times> u32
     \<Rightarrow> XExecSignal" where
  "xtx_new req nonce timeouts delay speed cnt =
     \<lparr>requester = req, requester_nonce = nonce, timeouts_at = timeouts, speed_mode = speed,
      delay_steps_at = delay, status = Requested, steps_cnt = cnt\<rparr>"

definition xtx_generate_id :: "(bytes \<Rightarrow> H256) \<Rightarrow> XExecSignal \<Rightarrow> H256" where
  "xtx_generate_id keccak signal = keccak (requester signal @ word_32b (requester_nonce signal))"

definition xtx_setup_fresh ::
  "(bytes \<Rightarrow> H256) \<Rightarrow> u32 \<Rightarrow> AccountId \<Rightarrow> AdaptiveTimeout \<Rightarrow> SpeedMode
     \<Rightarrow> BlockNumber list option \<Rightarrow> H256 \<times> XExecSignal" where
  "xtx_setup_fresh keccak account_nonce req timeouts speed delay =
     (let signal = xtx_new req account_nonce timeouts delay speed (0, 0)
      in (xtx_generate_id keccak signal, signal))"

text \<open>The volatile state: keys are hashes, values at most 64 bytes.\<close>

type_synonym LocalState = "(H256, bytes) smap"

record LocalXtxCtx =
  local_state :: LocalState
  xtx_id :: H256
  xtx :: XExecSignal
  full_side_effects :: "FullSideEffect list list"

definition value_2_state_value :: "bytes \<Rightarrow> (string, bytes) res" where
  "value_2_state_value v =
     (if length v > 64
      then Err ''Value is larger than max. 64 bytes allowed in the Volatile State''
      else Ok v)"

definition volatile_get :: "(bytes \<Rightarrow> H256) \<Rightarrow> LocalState \<Rightarrow> bytes \<Rightarrow> bytes option" where
  "volatile_get twox_256 st key = smap_get st (twox_256 key)"

definition volatile_cmp :: "(bytes \<Rightarrow> H256) \<Rightarrow> LocalState \<Rightarrow> bytes \<Rightarrow> bytes \<Rightarrow> bool" where
  "volatile_cmp twox_256 st key v = (volatile_get twox_256 st key = Some v)"

definition volatile_insert ::
  "(bytes \<Rightarrow> H256) \<Rightarrow> LocalState \<Rightarrow> bytes \<Rightarrow> bytes
     \<Rightarrow> (string, (H256 \<times> bytes) \<times> LocalState) res" where
  "volatile_insert twox_256 st key val =
     (let key_candidate = twox_256 key in
      if smap_contains st key_candidate then Err ''Key already exists in the Volatile State''
      else bind_res (value_2_state_value val) (\<lambda>value_candidate.
        case smap_get st key_candidate of
          Some _ \<Rightarrow> Err ''Critical ERR - key override in Volatile storage, despite check!''
        | None \<Rightarrow> Ok ((key_candidate, value_candidate),
                     smap_insert key_candidate value_candidate st)))"

section \<open>Orders and their origin\<close>

datatype SFXAction =
    Order_Call TargetId AccountId Balance Balance bytes
  | Order_Transfer TargetId AssetId AccountId Balance
  | Order_DynamicDestinationDeal TargetId AssetId Balance

record OrderSFX =
  sfx_action :: SFXAction
  order_max_reward :: Balance
  order_reward_asset :: AssetId
  order_insurance :: Balance
  remote_origin_nonce :: "u32 option"

text \<open>
  The conversion of an order; \<open>encode_bal\<close> is the SCALE encoding of a balance.
\<close>

definition order_args ::
  "(Balance \<Rightarrow> bytes) \<Rightarrow> SFXAction \<Rightarrow> Sfx4bId \<times> TargetId \<times> bytes list" where
  "order_args encode_bal act =
     (case act of
        Order_Call tgt destination value max_cost inp \<Rightarrow>
          (EVM_CALL_SIDE_EFFECT_ID, tgt,
           [destination, encode_bal value, inp, encode_bal max_cost])
      | Order_Transfer tgt asset destination amnt \<Rightarrow>
          (if asset \<noteq> 0 then (ASSETS_TRANSFER_SIDE_EFFECT_ID, tgt,
             [u32_to_le_bytes asset, destination, encode_bal amnt])
           else (TRANSFER_SIDE_EFFECT_ID, tgt, [destination, encode_bal amnt]))
      | Order_DynamicDestinationDeal tgt asset amnt \<Rightarrow>
          (DDD_ACTION, tgt, [u32_to_le_bytes asset, encode_bal amnt]))"

definition order_try_into :: "(Balance \<Rightarrow> bytes) \<Rightarrow> OrderSFX \<Rightarrow> (DispatchError, SideEffect) res" where
  "order_try_into encode_bal order =
     (case order_args encode_bal (sfx_action order) of (act, tgt, args) \<Rightarrow>
        Ok \<lparr>target = tgt, max_reward = order_max_reward order,
            insurance = order_insurance order, action = act, encoded_args = args,
            signature = [], enforce_executor = None,
            reward_asset_id = (if order_reward_asset order = 0 then None
                               else Some (order_reward_asset order))\<rparr>)"

datatype OrderOrigin = Local AccountId | Remote u32

definition is_local :: "OrderOrigin \<Rightarrow> bool" where
  "is_local origin = (case origin of Local _ \<Rightarrow> True | Remote _ \<Rightarrow> False)"

definition is_remote :: "OrderOrigin \<Rightarrow> bool" where
  "is_remote origin = (case origin of Remote _ \<Rightarrow> True | Local _ \<Rightarrow> False)"

definition origin_new :: "AccountId \<Rightarrow> OrderOrigin" where
  "origin_new source =
     (if list_all (\<lambda>x. x = 0) (take 28 source)
      then Remote (u32_from_be_bytes (take 4 (drop 28 source)))
      else Local source)"

definition try_remote_source :: "AccountId \<Rightarrow> (DispatchError, OrderOrigin) res" where
  "try_remote_source source =
     (case origin_new source of
        Local _ \<Rightarrow> Err (Other ''InvalidRemoteSource'')
      | Remote n \<Rightarrow> Ok (Remote n))"

definition from_remote_nonce :: "u32 \<Rightarrow> OrderOrigin" where
  "from_remote_nonce nonce = Remote nonce"

definition to_account_id :: "OrderOrigin \<Rightarrow> AccountId" where
  "to_account_id origin = (case origin of Local a \<Rightarrow> a | Remote nonce \<Rightarrow> word_32b nonce)"

section \<open>Vacuum orders\<close>

text \<open>
  The packed orders emitted by the remote contracts.  A \<open>U256\<close> is represented by its 32
  big-endian bytes and a \<open>H160\<close> by its 20 bytes, so that the conversions of exactly sized
  slices are the slices themselves.  Slicing beyond the end of the input panics.
\<close>

type_synonym U256 = bytes
type_synonym H160 = bytes

record VacuumEVMOrder =
  vo_destination :: TargetId
  vo_asset :: u32
  vo_amount :: U256
  vo_reward_asset :: H160
  vo_max_reward :: U256
  vo_insurance :: U256
  vo_target_account :: AccountId

record VacuumEVM3DOrder = VacuumEVMOrder +
  vo_nonce :: u32

record VacuumEVMTeleportOrder =
  vt_gateway_id :: TargetId
  vt_order_proof :: bytes

record VacuumEVMProof =
  vp_circuit_gateway_id :: TargetId
  vp_source_gateway_id :: TargetId
  vp_destination_gateway_id :: TargetId
  vp_order_proof :: bytes
  vp_bid_proof :: bytes
  vp_execution_proof :: bytes
  vp_attestation_proof :: bytes

definition byte_slice :: "bytes \<Rightarrow> nat \<Rightarrow> nat \<Rightarrow> ('e, bytes) res" where
  "byte_slice bs a b = (if a \<le> b \<and> b \<le> length bs then Ok (take (b - a) (drop a bs)) else Panic)"

definition order_from_rlp_encoded_packed :: "bytes \<Rightarrow> (DispatchError, VacuumEVMOrder) res" where
  "order_from_rlp_encoded_packed bs =
     bind_res (byte_slice bs 0 4) (\<lambda>destination.
     bind_res (byte_slice bs 4 8) (\<lambda>asset.
     bind_res (byte_slice bs 8 40) (\<lambda>target_account.
     bind_res (byte_slice bs 40 72) (\<lambda>amnt.
     bind_res (byte_slice bs 72 92) (\<lambda>reward_asset.
     bind_res (byte_slice bs 92 124) (\<lambda>insur.
     bind_res (byte_slice bs 124 156) (\<lambda>max_rew.
       Ok \<lparr>vo_destination = destination, vo_asset = u32_from_be_bytes asset,
           vo_amount = amnt, vo_reward_asset = reward_asset, vo_max_reward = max_rew,
           vo_insurance = insur, vo_target_account = target_account\<rparr>)))))))"

definition order3d_from_rlp_encoded_packed ::
  "bytes \<Rightarrow> (DispatchError, VacuumEVM3DOrder) res" where
  "order3d_from_rlp_encoded_packed bs =
     bind_res (byte_slice bs 0 4) (\<lambda>destination.
     bind_res (byte_slice bs 4 8) (\<lambda>asset.
     bind_res (byte_slice bs 8 40) (\<lambda>target_account.
     bind_res (byte_slice bs 40 72) (\<lambda>amnt.
     bind_res (byte_slice bs 72 92) (\<lambda>reward_asset.
     bind_res (byte_slice bs 92 124) (\<lambda>insur.
     bind_res (byte_slice bs 124 156) (\<lambda>max_rew.
     bind_res (byte_slice bs 156 160) (\<lambda>nonce.
       Ok \<lparr>vo_destination = destination, vo_asset = u32_from_be_bytes asset,
           vo_amount = amnt, vo_reward_asset = reward_asset, vo_max_reward = max_rew,
           vo_insurance = insur, vo_target_account = target_account,
           vo_nonce = u32_from_be_bytes nonce\<rparr>))))))))"

text \<open>
  The loop over the length-prefixed proofs: \<open>encoded_slice[index]\<close> is the length byte of the
  next proof.
\<close>

fun take_proofs :: "nat \<Rightarrow> bytes \<Rightarrow> ('e, bytes list) res" where
  "take_proofs 0 bs = Ok []"
| "take_proofs (Suc n) [] = Panic"
| "take_proofs (Suc n) (len # bs) =
     bind_res (byte_slice bs 0 (unat len)) (\<lambda>proof.
     bind_res (take_proofs n (drop (unat len) bs)) (\<lambda>proofs. Ok (proof # proofs)))"

definition teleport_from_rlp :: "bytes \<Rightarrow> (DispatchError, VacuumEVMTeleportOrder) res" where
  "teleport_from_rlp bs =
     (if length bs < 4 then Err (Other ''Invalid encoded slice'')
      else bind_res (take_proofs 1 (drop 4 bs)) (\<lambda>proofs.
        Ok \<lparr>vt_gateway_id = take 4 bs, vt_order_proof = proofs ! 0\<rparr>))"

definition proof_from_rlp :: "bytes \<Rightarrow> (DispatchError, VacuumEVMProof) res" where
  "proof_from_rlp bs =
     (if length bs < 12 then Err (Other ''Invalid encoded slice'')
      else bind_res (take_proofs 4 (drop 12 bs)) (\<lambda>proofs.
        Ok \<lparr>vp_circuit_gateway_id = take 4 bs, vp_source_gateway_id = take 4 (drop 4 bs),
            vp_destination_gateway_id = take 4 (drop 8 bs),
            vp_order_proof = proofs ! 0, vp_bid_proof = proofs ! 1,
            vp_execution_proof = proofs ! 2, vp_attestation_proof = proofs ! 3\<rparr>))"

section \<open>The stand-alone transaction record\<close>

record Xtx =
  x_requester :: AccountId
  x_initial_input :: bytes
  x_timeouts_at :: "BlockNumber option"
  x_delay_steps_at :: "BlockNumber list option"
  x_result_status :: "bytes option"
  x_total_reward :: "Balance option"
  x_local_state :: LocalState
  x_full_side_effects :: "FullSideEffect list list"

definition Xtx_new ::
  "AccountId \<Rightarrow> bytes \<Rightarrow> BlockNumber option \<Rightarrow> BlockNumber list option \<Rightarrow> Balance option
     \<Rightarrow> LocalState \<Rightarrow> FullSideEffect list list \<Rightarrow> Xtx" where
  "Xtx_new req inp timeouts delay reward ls fsx =
     \<lparr>x_requester = req, x_initial_input = inp, x_timeouts_at = timeouts,
      x_delay_steps_at = delay, x_result_status = None, x_total_reward = reward,
      x_local_state = ls, x_full_side_effects = fsx\<rparr>"

definition generate_xtx_id :: "(bytes \<Rightarrow> H256) \<Rightarrow> Xtx \<Rightarrow> u32 \<Rightarrow> H256" where
  "generate_xtx_id hasher x nonce = hasher (x_requester x @ word_32b nonce)"

definition is_completed :: "Xtx \<Rightarrow> bool" where
  "is_completed x =
     list_all (list_all (\<lambda>fsx. confirmed fsx \<noteq> None)) (x_full_side_effects x)"

definition NEXT_STEP_ERROR :: string where
  "NEXT_STEP_ERROR = ''Attempt to confirm side effect from the next step, but there still is at least one unfinished step''"

text \<open>
  The two nested loops of \<open>complete_side_effect\<close>.  The loop over one step either returns
  (\<open>Some\<close>) or runs to the end of the step (\<open>None\<close>); \<open>unconfirmed_step_no\<close> is still
  unset whenever a step is entered, since the first unconfirmed side effect ends the function.
\<close>

fun complete_in_step ::
  "(FullSideEffect \<Rightarrow> H256) \<Rightarrow> H256 \<Rightarrow> ConfirmedSideEffect \<Rightarrow> FullSideEffect list
     \<Rightarrow> (string, FullSideEffect list) res option" where
  "complete_in_step ident sfx_id conf [] = None"
| "complete_in_step ident sfx_id conf (f # fs) =
     (if confirmed f = None
      then Some (if ident f = sfx_id then Ok (f\<lparr>confirmed := Some conf\<rparr> # fs)
                 else Err NEXT_STEP_ERROR)
      else map_option (\<lambda>r. bind_res r (\<lambda>fs'. Ok (f # fs'))) (complete_in_step ident sfx_id conf fs))"

fun complete_in_steps ::
  "(FullSideEffect \<Rightarrow> H256) \<Rightarrow> H256 \<Rightarrow> ConfirmedSideEffect \<Rightarrow> FullSideEffect list list
     \<Rightarrow> (string, bool \<times> FullSideEffect list list) res" where
  "complete_in_steps ident sfx_id conf [] = Ok (False, [])"
| "complete_in_steps ident sfx_id conf (step # steps) =
     (if step = [] then Err ''Xtx has an empty single step.''
      else case complete_in_step ident sfx_id conf step of
        Some r \<Rightarrow> bind_res r (\<lambda>step'. Ok (True, step' # steps))
      | None \<Rightarrow> bind_res (complete_in_steps ident sfx_id conf steps)
                  (\<lambda>(b, steps'). Ok (b, step # steps')))"

definition complete_side_effect ::
  "(bytes \<Rightarrow> H256) \<Rightarrow> Xtx \<Rightarrow> ConfirmedSideEffect \<Rightarrow> SideEffect \<Rightarrow> H256 \<Rightarrow> u32
     \<Rightarrow> (string, bool \<times> Xtx) res" where
  "complete_side_effect hasher x conf inp x_id sfx_index =
     (let sfx_id = generate_id hasher inp x_id sfx_index in
      if x_full_side_effects x = [] then Err ''Xtx has no single side effect step to confirm''
      else bind_res
        (complete_in_steps (\<lambda>f. generate_id hasher (input f) x_id (index f)) sfx_id conf
           (x_full_side_effects x))
        (\<lambda>(b, steps). Ok (b, x\<lparr>x_full_side_effects := steps\<rparr>)))"

section \<open>Reference descriptions\<close>

text \<open>
  The packed layout of an order, the side effects still to be confirmed, and the confirmation
  of the first of them.
\<close>

definition vacuum_order_bytes :: "('a) VacuumEVMOrder_scheme \<Rightarrow> bytes" where
  "vacuum_order_bytes vo =
     vo_destination vo @ u32_to_be_bytes (vo_asset vo) @ vo_target_account vo @ vo_amount vo
     @ vo_reward_asset vo @ vo_insurance vo @ vo_max_reward vo"

definition vacuum_order_sized :: "('a) VacuumEVMOrder_scheme \<Rightarrow> bool" where
  "vacuum_order_sized vo \<longleftrightarrow>
     length (vo_destination vo) = 4 \<and> length (vo_target_account vo) = 32
     \<and> length (vo_amount vo) = 32 \<and> length (vo_reward_asset vo) = 20
     \<and> length (vo_insurance vo) = 32 \<and> length (vo_max_reward vo) = 32"

definition unconfirmed :: "FullSideEffect \<Rightarrow> bool" where
  "unconfirmed f \<longleftrightarrow> confirmed f = None"

fun confirm_first :: "ConfirmedSideEffect \<Rightarrow> FullSideEffect list list \<Rightarrow> FullSideEffect list list" where
  "confirm_first conf [] = []"
| "confirm_first conf (step # steps) =
     (if list_find unconfirmed step = None then step # confirm_first conf steps
      else update_first unconfirmed (\<lambda>f. f\<lparr>confirmed := Some conf\<rparr>) step # steps)"

text \<open>Concrete values for the witnesses.\<close>

definition sample_order :: VacuumEVMOrder where
  "sample_order = \<lparr>vo_destination = [1, 2, 3, 4], vo_asset = 9, vo_amount = replicate 32 1,
     vo_reward_asset = replicate 20 2, vo_max_reward = replicate 32 3, vo_insurance = replicate 32 4,
     vo_target_account = replicate 32 5\<rparr>"

definition blank_fsx :: "u32 \<Rightarrow> FullSideEffect" where
  "blank_fsx n = \<lparr>input = \<lparr>target = [1, 2, 3, 4], max_reward = 5, insurance = 1, action = [0, 0, 0, 0],
       encoded_args = [], signature = [], enforce_executor = None, reward_asset_id = None\<rparr>,
     confirmed = None, security_lvl = Optimistic, submission_target_height = 3, best_bid = None, index = n\<rparr>"

definition sample_xtx :: Xtx where
  "sample_xtx = Xtx_new (replicate 32 1) [] None None None [] [[blank_fsx 0, blank_fsx 1]]"

definition blank_confirmation :: ConfirmedSideEffect where
  "blank_confirmation = \<lparr>err = None, sfx_output = None, inclusion_data = [], executioner = replicate 32 2,
     received_at = 4, cost = None\<rparr>"

section \<open>Facts\<close>

lemma take_32b: "take 28 (word_32b n) = replicate 28 0" "drop 28 (word_32b n) = u32_to_be_bytes n"
  by (simp_all add: word_32b_def)

text \<open>the account that stands for a remote order's nonce is read back as that remote origin, and turning
  any 32-byte account into an order origin and back gives the same account.\<close>

theorem order_origin_roundtrip:
  "origin_new (to_account_id (from_remote_nonce n)) = Remote n
   \<and> (length a = 32 \<longrightarrow> to_account_id (origin_new a) = a)"
proof
  show "origin_new (to_account_id (from_remote_nonce n)) = Remote n"
    by (simp add: origin_new_def to_account_id_def from_remote_nonce_def take_32b list_all_iff)
  show "length a = 32 \<longrightarrow> to_account_id (origin_new a) = a"
  proof
    assume len: "length a = 32"
    show "to_account_id (origin_new a) = a"
    proof (cases "list_all (\<lambda>x. x = 0) (take 28 a)")
      case True
      then have "take 28 a = replicate 28 0"
        using len by (intro replicate_eqI) (auto simp: list_all_iff)
      moreover have "length (drop 28 a) = 4" using len by simp
      ultimately show ?thesis
        using True append_take_drop_id [of 28 a]
        by (simp add: origin_new_def to_account_id_def word_32b_def u32_be_bytes_parse)
    qed (simp add: origin_new_def to_account_id_def)
  qed
qed

theorem order_origin_roundtrip_witness:
  "origin_new (to_account_id (from_remote_nonce 5)) = Remote 5
   \<and> to_account_id (origin_new (replicate 32 1)) = replicate 32 1"
  using order_origin_roundtrip [of 5 "replicate 32 1"] by simp

lemma volatile_insert_get:
  assumes "volatile_insert h st key val = Ok ((k, v), st')"
  shows "volatile_get h st key = None \<and> length val \<le> 64 \<and> k = h key \<and> v = val
    \<and> (\<forall>key'. volatile_get h st' key' = (if h key' = h key then Some val else volatile_get h st key'))"
  using assms
  by (auto simp: volatile_insert_def volatile_get_def value_2_state_value_def smap_contains_def Let_def
      split: if_splits option.splits)

lemma calculate_offsets_nonzero:
  assumes "emergency \<noteq> 0"
  shows "fst (calculate_offsets v m emergency h) \<noteq> 0 \<and> snd (calculate_offsets v m emergency h) \<noteq> 0"
  using assms by (auto simp: calculate_offsets_def Let_def split: option.splits)

text \<open>C39: decoding the packed layout of an EVM order gives back the order, whatever follows it in the
  slice.\<close>

theorem order_roundtrip:
  assumes "vacuum_order_sized vo" 
  shows "order_from_rlp_encoded_packed (vacuum_order_bytes vo @ rest) = Ok vo"
  using assms
  by (simp add: order_from_rlp_encoded_packed_def vacuum_order_bytes_def vacuum_order_sized_def byte_slice_def)

theorem order_roundtrip_witness:
  "order_from_rlp_encoded_packed (vacuum_order_bytes sample_order @ [7]) = Ok sample_order"
  by (rule order_roundtrip) (simp add: vacuum_order_sized_def sample_order_def)

lemma order3d_roundtrip:
  assumes "vacuum_order_sized vo" 
  shows "order3d_from_rlp_encoded_packed (vacuum_order_bytes vo @ u32_to_be_bytes (vo_nonce vo) @ rest) = Ok vo"
  using assms
  by (simp add: order3d_from_rlp_encoded_packed_def vacuum_order_bytes_def vacuum_order_sized_def byte_slice_def)

lemma order_short_panic:
  "order_from_rlp_encoded_packed bs = Panic \<longleftrightarrow> length bs < 156"
  by (auto simp: order_from_rlp_encoded_packed_def byte_slice_def)

lemma take_proofs_append:
  assumes "\<forall>p \<in> set ps. length p < 256"
  shows "take_proofs (length ps) (concat (map (\<lambda>p. of_nat (length p) # p) ps) @ rest) = Ok ps"
  using assms
  by (induction ps) (auto simp: byte_slice_def unat_of_nat)

lemma proof_roundtrip:
  assumes "length g1 = 4" "length g2 = 4" "length g3 = 4"
   "\<forall>p \<in> {p1, p2, p3, p4}. length p < 256"
  shows "proof_from_rlp (g1 @ g2 @ g3 @ concat (map (\<lambda>p. of_nat (length p) # p) [p1, p2, p3, p4]) @ rest)
    = Ok \<lparr>vp_circuit_gateway_id = g1, vp_source_gateway_id = g2,
            vp_destination_gateway_id = g3,
            vp_order_proof = p1, vp_bid_proof = p2,
            vp_execution_proof = p3, vp_attestation_proof = p4\<rparr>"
proof -
  have "(take_proofs 4 (concat (map (\<lambda>p. of_nat (length p) # p) [p1, p2, p3, p4]) @ rest)
      :: (DispatchError, bytes list) res) = Ok [p1, p2, p3, p4]"
    using take_proofs_append [of "[p1, p2, p3, p4]" rest] assms(4)
    by (simp del: take_proofs.simps add: numeral_eq_Suc)
  then show ?thesis using assms(1-3) by (simp add: proof_from_rlp_def)
qed

lemma complete_in_step_eq:
  "complete_in_step ident i conf fs =
     (case list_find unconfirmed fs of
        None \<Rightarrow> None
      | Some f \<Rightarrow> Some (if ident f = i
          then Ok (update_first unconfirmed (\<lambda>f. f\<lparr>confirmed := Some conf\<rparr>) fs)
          else Err NEXT_STEP_ERROR))"
  by (induction fs) (auto simp: unconfirmed_def split: option.splits)

lemma complete_in_steps_eq:
  assumes "[] \<notin> set steps"
  shows "complete_in_steps ident i conf steps =
     (case list_find unconfirmed (concat steps) of
        None \<Rightarrow> Ok (False, steps)
      | Some f \<Rightarrow> if ident f = i then Ok (True, confirm_first conf steps) else Err NEXT_STEP_ERROR)"
  using assms
  by (induction steps) (auto simp: complete_in_step_eq list_find_append split: option.splits)

lemma is_completed_iff:
  "is_completed x \<longleftrightarrow> list_find unconfirmed (concat (x_full_side_effects x)) = None"
  by (auto simp: is_completed_def list_all_iff list_find_None unconfirmed_def)

text \<open>the two nested loops of \<open>complete_side_effect\<close> confirm the first unconfirmed side effect of the
  transaction when it is the one named, refuse any other one, and report \<open>false\<close> when
  everything is confirmed.\<close>

theorem complete_side_effect_first:
  assumes "x_full_side_effects x \<noteq> []" "[] \<notin> set (x_full_side_effects x)"
  shows "complete_side_effect h x conf inp x_id n =
    (case list_find unconfirmed (concat (x_full_side_effects x)) of
       None \<Rightarrow> Ok (False, x)
     | Some f \<Rightarrow> if h (x_id @ word_32b (index f)) = h (x_id @ word_32b n)
         then Ok (True, x\<lparr>x_full_side_effects := confirm_first conf (x_full_side_effects x)\<rparr>)
         else Err NEXT_STEP_ERROR)"
  using assms
  by (auto simp: complete_side_effect_def complete_in_steps_eq generate_id_def Let_def split: option.splits)

theorem complete_side_effect_first_witness:
  "complete_side_effect (\<lambda>bs. bs) sample_xtx blank_confirmation (input (blank_fsx 0)) [3] 0
     = Ok (True, sample_xtx\<lparr>x_full_side_effects := [[(blank_fsx 0)\<lparr>confirmed := Some blank_confirmation\<rparr>, blank_fsx 1]]\<rparr>)
   \<and> complete_side_effect (\<lambda>bs. bs) sample_xtx blank_confirmation (input (blank_fsx 1)) [3] 1 = Err NEXT_STEP_ERROR"
  using complete_side_effect_first [of sample_xtx "\<lambda>bs. bs" blank_confirmation "input (blank_fsx 0)" "[3]" 0]
    complete_side_effect_first [of sample_xtx "\<lambda>bs. bs" blank_confirmation "input (blank_fsx 1)" "[3]" 1]
  by (simp add: sample_xtx_def Xtx_new_def blank_fsx_def unconfirmed_def)

end
