(* ===== verification/Clock.thy ===== *)
theory Clock
  imports Xtx_Types
begin

text \<open>
  Rounds and ordered sets (\<open>primitives/src/common.rs\<close>) and the round bookkeeping of
  \<open>pallets/clock\<close>.  \<open>OrderedSet\<close> keeps a vector sorted by binary search; it is shown to
  implement finite sets.  Block numbers are 32-bit words and the subtraction in
  \<open>should_update\<close> wraps, as it does in a release build.
\<close>

section \<open>Constants and ranges\<close>

definition SECONDS_PER_HOUR :: nat where "SECONDS_PER_HOUR = 3600"
definition SECONDS_PER_BLOCK :: nat where "SECONDS_PER_BLOCK = 12"
definition BLOCKS_PER_HOUR :: nat where "BLOCKS_PER_HOUR = SECONDS_PER_HOUR div SECONDS_PER_BLOCK"
definition BLOCKS_PER_DAY :: nat where "BLOCKS_PER_DAY = 24 * BLOCKS_PER_HOUR"
definition DEFAULT_ROUND_TERM :: nat where "DEFAULT_ROUND_TERM = 6 * BLOCKS_PER_HOUR"

record 'a Range =
  range_min :: 'a
  range_ideal :: 'a
  range_max :: 'a

definition range_is_valid :: "'a::linorder Range \<Rightarrow> bool" where
  "range_is_valid r = (range_min r \<le> range_ideal r \<and> range_ideal r \<le> range_max r)"

section \<open>Rounds\<close>

record RoundInfo =
  round_index :: u32
  round_head :: BlockNumber
  round_term :: BlockNumber

definition round_default :: RoundInfo where
  "round_default = \<lparr>round_index = 1, round_head = 1, round_term = 299\<rparr>"

definition should_update :: "RoundInfo \<Rightarrow> BlockNumber \<Rightarrow> bool" where
  "should_update r now = (now - round_head r \<ge> round_term r)"

definition round_update :: "RoundInfo \<Rightarrow> BlockNumber \<Rightarrow> RoundInfo" where
  "round_update r now =
     r\<lparr>round_index := saturating_add (round_index r) 1, round_head := now\<rparr>"

datatype ClockEvent = NewRound u32 BlockNumber BlockNumber

text \<open>
  \<open>check_bump_round\<close>: the new \<open>CurrentRound\<close>, the deposited events and the database reads
  and writes that its weight charges.
\<close>

definition check_bump_round ::
  "BlockNumber \<Rightarrow> BlockNumber \<Rightarrow> RoundInfo \<Rightarrow> RoundInfo \<times> ClockEvent list \<times> nat \<times> nat" where
  "check_bump_round round_duration n past_round =
     (let new_round = \<lparr>round_index = saturating_add (round_index past_round) 1,
                       round_head = n, round_term = round_duration\<rparr>
      in if should_update past_round n
         then (new_round,
               [NewRound (round_index new_round) (round_head new_round) (round_term new_round)],
               2, 1)
         else (past_round, [], 2, 0))"

section \<open>Ordered sets\<close>

text \<open>
  The slice method \<open>binary_search\<close>: \<open>Inl\<close> is the index of a match and \<open>Inr\<close> the index
  at which the element may be inserted.
\<close>

function bsearch :: "'a::linorder list \<Rightarrow> 'a \<Rightarrow> nat \<Rightarrow> nat \<Rightarrow> nat + nat" where
  "bsearch xs v left right =
     (if left < right
      then let mid = left + (right - left) div 2 in
        if xs ! mid < v then bsearch xs v (mid + 1) right
        else if v < xs ! mid then bsearch xs v left mid
        else Inl mid
      else Inr left)"
  by pat_completeness auto
termination
  by (relation "measure (\<lambda>(xs, v, left, right). right - left)") auto

declare bsearch.simps [simp del]

definition binary_search :: "'a::linorder list \<Rightarrow> 'a \<Rightarrow> nat + nat" where
  "binary_search xs v = bsearch xs v 0 (length xs)"

fun dedup :: "'a list \<Rightarrow> 'a list" where
  "dedup [] = []"
| "dedup [x] = [x]"
| "dedup (x # y # zs) = (if x = y then dedup (y # zs) else x # dedup (y # zs))"

definition oset_from :: "'a::linorder list \<Rightarrow> 'a list" where
  "oset_from v = dedup (sort v)"

definition oset_insert :: "'a::linorder \<Rightarrow> 'a list \<Rightarrow> bool \<times> 'a list" where
  "oset_insert v xs =
     (case binary_search xs v of
        Inl _ \<Rightarrow> (False, xs)
      | Inr loc \<Rightarrow> (True, take loc xs @ v # drop loc xs))"

definition oset_remove :: "'a::linorder \<Rightarrow> 'a list \<Rightarrow> bool \<times> 'a list" where
  "oset_remove v xs =
     (case binary_search xs v of
        Inl loc \<Rightarrow> (True, take loc xs @ drop (loc + 1) xs)
      | Inr _ \<Rightarrow> (False, xs))"

definition oset_contains :: "'a::linorder list \<Rightarrow> 'a \<Rightarrow> bool" where
  "oset_contains xs v = (case binary_search xs v of Inl _ \<Rightarrow> True | Inr _ \<Rightarrow> False)"

section \<open>The interface of a set\<close>

locale finite_set_impl =
  fixes inv :: "'s \<Rightarrow> bool"
    and elems :: "'s \<Rightarrow> 'a set"
    and ins :: "'a \<Rightarrow> 's \<Rightarrow> bool \<times> 's"
    and del :: "'a \<Rightarrow> 's \<Rightarrow> bool \<times> 's"
    and mem :: "'s \<Rightarrow> 'a \<Rightarrow> bool"
  assumes ins_inv: "inv s \<Longrightarrow> inv (snd (ins v s))"
    and ins_elems: "inv s \<Longrightarrow> elems (snd (ins v s)) = insert v (elems s)"
    and ins_flag: "inv s \<Longrightarrow> fst (ins v s) \<longleftrightarrow> v \<notin> elems s"
    and del_inv: "inv s \<Longrightarrow> inv (snd (del v s))"
    and del_elems: "inv s \<Longrightarrow> elems (snd (del v s)) = elems s - {v}"
    and del_flag: "inv s \<Longrightarrow> fst (del v s) \<longleftrightarrow> v \<in> elems s"
    and mem_elems: "inv s \<Longrightarrow> mem s v \<longleftrightarrow> v \<in> elems s"
begin

lemma mem_after_ins: "inv s \<Longrightarrow> mem (snd (ins v s)) w \<longleftrightarrow> w = v \<or> mem s w"
  by (auto simp: mem_elems ins_inv ins_elems)

lemma mem_after_del: "inv s \<Longrightarrow> mem (snd (del v s)) w \<longleftrightarrow> w \<noteq> v \<and> mem s w"
  by (auto simp: mem_elems del_inv del_elems)

lemma fold_ins:
  "inv s \<Longrightarrow> inv (fold (\<lambda>v s. snd (ins v s)) vs s)
     \<and> elems (fold (\<lambda>v s. snd (ins v s)) vs s) = elems s \<union> set vs"
  by (induction vs arbitrary: s) (auto simp: ins_inv ins_elems)

end

section \<open>Facts\<close>

lemma bsearch_sound:
  assumes "sorted_wrt (<) xs" "left \<le> right" "right \<le> length xs"
    "\<forall>i < left. xs ! i < v" "\<forall>i. right \<le> i \<and> i < length xs \<longrightarrow> v < xs ! i"
  shows "case bsearch xs v left right of
      Inl i \<Rightarrow> i < length xs \<and> xs ! i = v
    | Inr i \<Rightarrow> i \<le> length xs \<and> (\<forall>j < i. xs ! j < v) \<and> (\<forall>j. i \<le> j \<and> j < length xs \<longrightarrow> v < xs ! j)"
  using assms
proof (induction xs v left right rule: bsearch.induct)
  case (1 xs v left right)
  define mid where "mid = left + (right - left) div 2"
  show ?case
  proof (cases "left < right")
    case True
    then have mid: "left \<le> mid" "mid < right" by (auto simp: mid_def)
    have mono: "xs ! i < xs ! j" if "i < j" "j < length xs" for i j
      using "1.prems"(1) that by (simp add: sorted_wrt_iff_nth_less)
    consider "xs ! mid < v" | "v < xs ! mid" | "v = xs ! mid" by fastforce
    then show ?thesis
    proof cases
      case 1
      have "\<forall>i < mid + 1. xs ! i < v"
        using 1 mono [of _ mid] mid "1.prems"(3) by (metis less_Suc_eq Suc_eq_plus1 less_le_trans less_trans)
      moreover have "bsearch xs v left right = bsearch xs v (mid + 1) right"
        using True 1 by (subst bsearch.simps) (simp add: Let_def flip: mid_def)
      ultimately show ?thesis
        using "1.IH"(1) [OF True mid_def 1] "1.prems" mid by simp
    next
      case 2
      have "\<forall>i. mid \<le> i \<and> i < length xs \<longrightarrow> v < xs ! i"
        using 2 mono [of mid] by (metis le_neq_implies_less less_trans)
      moreover have "bsearch xs v left right = bsearch xs v left mid"
        using True 2 by (subst bsearch.simps) (auto simp: Let_def simp flip: mid_def)
      ultimately show ?thesis
        using "1.IH"(2) [OF True mid_def _ 2] "1.prems" mid 2 by auto
    next
      case 3
      then have "bsearch xs v left right = Inl mid"
        using True by (subst bsearch.simps) (simp add: Let_def flip: mid_def)
      then show ?thesis using mid "1.prems"(3) 3 by simp
    qed
  next
    case False
    then show ?thesis using "1.prems" by (subst bsearch.simps) auto
  qed
qed

lemma binary_search_sound:
  assumes "sorted_wrt (<) xs"
  shows "case binary_search xs v of
      Inl i \<Rightarrow> i < length xs \<and> xs ! i = v
    | Inr i \<Rightarrow> i \<le> length xs \<and> (\<forall>j < i. xs ! j < v) \<and> (\<forall>j. i \<le> j \<and> j < length xs \<longrightarrow> v < xs ! j)"
  unfolding binary_search_def by (rule bsearch_sound [OF assms]) auto

lemma binary_search_Inl:
  assumes "sorted_wrt (<) xs" "binary_search xs v = Inl i"
  shows "\<exists>ys zs. xs = ys @ v # zs \<and> length ys = i"
proof (intro exI conjI)
  have i: "i < length xs" "xs ! i = v" using binary_search_sound [OF assms(1), of v] assms(2) by auto
  then show "xs = take i xs @ v # drop (i + 1) xs" by (metis Suc_eq_plus1 id_take_nth_drop)
  show "length (take i xs) = i" using i by simp
qed

lemma binary_search_Inr:
  assumes "sorted_wrt (<) xs" "binary_search xs v = Inr i"
  shows "(\<forall>y \<in> set (take i xs). y < v) \<and> (\<forall>z \<in> set (drop i xs). v < z) \<and> i \<le> length xs"
  using binary_search_sound [OF assms(1), of v] assms(2)
  by (auto simp: in_set_conv_nth)

lemma sorted_wrt_take_drop:
  "sorted_wrt (<) xs \<Longrightarrow> sorted_wrt (<) (take i xs) \<and> sorted_wrt (<) (drop i xs)
    \<and> (\<forall>x \<in> set (take i xs). \<forall>y \<in> set (drop i xs). x < y)"
  by (metis append_take_drop_id sorted_wrt_append)

interpretation oset: finite_set_impl "sorted_wrt (<)" set oset_insert oset_remove oset_contains
proof
  fix s :: "'a::linorder list" and v :: 'a
  assume s: "sorted_wrt (<) s"
  note Inl = binary_search_Inl [OF s] and Inr = binary_search_Inr [OF s]
  have notin: "v \<notin> set s" if "binary_search s v = Inr i" for i
    using Inr [OF that] by (metis UnE append_take_drop_id less_irrefl set_append)
  show "sorted_wrt (<) (snd (oset_insert v s))"
    using s Inr sorted_wrt_take_drop [OF s]
    by (auto simp: oset_insert_def sorted_wrt_append split: sum.splits)
  show "set (snd (oset_insert v s)) = insert v (set s)"
    by (auto simp: oset_insert_def split: sum.splits dest: Inl in_set_takeD in_set_dropD)
       (metis Un_iff append_take_drop_id set_append)
  show "fst (oset_insert v s) \<longleftrightarrow> v \<notin> set s"
    using notin by (auto simp: oset_insert_def split: sum.splits dest: Inl)
  show "sorted_wrt (<) (snd (oset_remove v s))"
    using s by (auto simp: oset_remove_def sorted_wrt_append split: sum.splits dest!: Inl)
  show "set (snd (oset_remove v s)) = set s - {v}"
    using s notin by (auto simp: oset_remove_def sorted_wrt_append split: sum.splits dest!: Inl)
  show "fst (oset_remove v s) \<longleftrightarrow> v \<in> set s"
    using notin by (auto simp: oset_remove_def split: sum.splits dest: Inl)
  show "oset_contains s v \<longleftrightarrow> v \<in> set s"
    using notin by (auto simp: oset_contains_def split: sum.splits dest: Inl)
qed

lemma set_dedup [simp]: "set (dedup xs) = set xs"
  by (induction xs rule: dedup.induct) auto

lemma sorted_dedup: "sorted xs \<Longrightarrow> sorted_wrt (<) (dedup xs)"
  by (induction xs rule: dedup.induct) auto


text \<open>the clock starts a new round exactly when the wrapped distance of the block from the round's head reaches
  the round's term; the new round then starts at this block with the configured term, and its
  index grows by one until it saturates.\<close>

theorem check_bump_round_spec:
  assumes "check_bump_round d n r = (r', ev, rd, wr)"
  shows "(r' \<noteq> r \<or> ev \<noteq> [] \<longleftrightarrow> unat (n - round_head r) \<ge> unat (round_term r)) \<and>
   (ev \<noteq> [] \<longrightarrow> round_head r' = n \<and> round_term r' = d
      \<and> unat (round_index r') = min (unat (round_index r) + 1) (2 ^ 32 - 1))"
  using assms 
  by (auto simp: check_bump_round_def Let_def should_update_def word_le_nat_alt unat_saturating_add
      split: if_splits)

theorem check_bump_round_spec_witness:
  "unat (round_index (fst (check_bump_round 400 700 round_default))) = 2
   \<and> round_head (fst (check_bump_round 400 700 round_default)) = 700"
  using check_bump_round_spec [of 400 700 round_default "\<lparr>round_index = 2, round_head = 700, round_term = 400\<rparr>"
      "[NewRound 2 700 400]" 2 1]
  by (simp add: check_bump_round_def round_default_def should_update_def saturating_add_def Let_def)

end
