(* ===== verification/Account_Manager.thy ===== *)
theory Account_Manager
  imports Clock
begin

text \<open>
  The account manager (\<open>pallets/account-manager\<close>: \<open>lib.rs\<close>, \<open>manager.rs\<close>,
  \<open>monetary.rs\<close>): charges that hold a payee's reward and fee, their assignment to a recipient,
  and their settlement, refund or slashing.  The native currency and the assets pallet are code
  outside the repository: their functions are fields of the environment \<open>am_env\<close> over an
  unknown ledger state, and \<open>currency_laws\<close> states what the account manager relies on.
\<close>

section \<open>Data\<close>

datatype CircuitRole =
    Ambassador | Executor | Attester | Staker | Collator | ContractAuthor | Relayer | Requester
  | Role_Local

datatype BenefitSource =
    BootstrapPool | Inflation | TrafficFees | TrafficRewards | EscrowUnlock | Unsettled
  | SlashTreasury

datatype Outcome = UnexpectedFailure | Revert | Commit | Slash

record RequestCharge =
  payee :: AccountId
  offered_reward :: Balance
  maybe_asset_id :: "AssetId option"
  charge_fee :: Balance
  recipient :: "AccountId option"
  source :: BenefitSource
  role :: CircuitRole

record Settlement =
  settlement_requester :: AccountId
  settlement_recipient :: AccountId
  settlement_amount :: Balance
  settlement_asset_id :: "AssetId option"
  settlement_outcome :: Outcome
  settlement_source :: BenefitSource
  settlement_role :: CircuitRole

datatype AMEvent = DepositReceived H256 AccountId "AccountId option" Balance

text \<open>
  The pallet's configuration.  \<open>currency_withdraw\<close> is \<open>Currency::withdraw\<close> with the
  reason \<open>RESERVE\<close> and \<open>KeepAlive\<close>; \<open>decrease_balance\<close> is called with \<open>Exact\<close>,
  \<open>Expendable\<close> and \<open>Polite\<close>; the result of \<open>increase_balance\<close> is ignored by the caller.
  \<open>execution_id_hash\<close> is the conversion of an execution nonce to a 256-bit value and hash.
\<close>

record 'x am_env =
  minimum_balance :: Balance
  free_balance :: "'x \<Rightarrow> AccountId \<Rightarrow> Balance"
  deposit_creating :: "AccountId \<Rightarrow> Balance \<Rightarrow> 'x \<Rightarrow> 'x"
  currency_withdraw :: "AccountId \<Rightarrow> Balance \<Rightarrow> 'x \<Rightarrow> (DispatchError, 'x) res"
  increase_balance :: "AssetId \<Rightarrow> AccountId \<Rightarrow> Balance \<Rightarrow> 'x \<Rightarrow> 'x"
  assets_can_withdraw :: "AssetId \<Rightarrow> AccountId \<Rightarrow> Balance \<Rightarrow> 'x \<Rightarrow> bool"
  decrease_balance :: "AssetId \<Rightarrow> AccountId \<Rightarrow> Balance \<Rightarrow> 'x \<Rightarrow> (DispatchError, 'x) res"
  asset_balance_of :: "Balance \<Rightarrow> Balance"
  EscrowAccount :: AccountId
  execution_id_hash :: "u64 \<Rightarrow> H256 option"

text \<open>
  The pallet's storage, the storage value \<open>CurrentRound\<close> its \<open>Clock\<close> reads, and the
  ledger state.
\<close>

record 'x am_state =
  PendingCharges :: "(H256, RequestCharge) smap"
  SettlementsPerRound :: "RoundInfo \<Rightarrow> (H256, Settlement) smap"
  ContractsRegistryExecutionNonce :: u64
  am_events :: "AMEvent list"
  CurrentRound :: RoundInfo
  ledger :: 'x

section \<open>Monetary\<close>

definition monetary_deposit ::
  "'x am_env \<Rightarrow> AccountId \<Rightarrow> AssetId option \<Rightarrow> Balance \<Rightarrow> 'x \<Rightarrow> 'x" where
  "monetary_deposit env beneficiary asset_id amnt x =
     (case asset_id of
        None \<Rightarrow> deposit_creating env beneficiary amnt x
      | Some a \<Rightarrow> increase_balance env a beneficiary (asset_balance_of env amnt) x)"

definition monetary_can_withdraw ::
  "'x am_env \<Rightarrow> AccountId \<Rightarrow> AssetId option \<Rightarrow> Balance \<Rightarrow> 'x \<Rightarrow> bool" where
  "monetary_can_withdraw env beneficiary asset_id amnt x =
     (case asset_id of
        None \<Rightarrow> free_balance env x beneficiary + minimum_balance env \<ge> amnt
      | Some a \<Rightarrow> assets_can_withdraw env a beneficiary (asset_balance_of env amnt) x)"

definition monetary_withdraw ::
  "'x am_env \<Rightarrow> AccountId \<Rightarrow> Balance \<Rightarrow> AssetId option \<Rightarrow> 'x \<Rightarrow> (DispatchError, 'x) res" where
  "monetary_withdraw env src amnt asset_id x =
     (case asset_id of
        None \<Rightarrow> currency_withdraw env src amnt x
      | Some a \<Rightarrow> decrease_balance env a src (asset_balance_of env amnt) x)"

section \<open>The account manager\<close>

definition percent_ratio :: "Balance \<Rightarrow> byte \<Rightarrow> (DispatchError, Balance) res" where
  "percent_ratio amt percent =
     bind_res (ok_or (Other ''PercentRatio::ChargeOrSettlementCalculationOverflow'')
       (checked_mul amt (ucast percent))) (\<lambda>p.
     ok_or (Other ''PercentRatio::ChargeOrSettlementCalculationOverflow'') (checked_div p 100))"

definition get_charge_or_fail :: "'x am_state \<Rightarrow> H256 \<Rightarrow> (DispatchError, RequestCharge) res" where
  "get_charge_or_fail s charge_id =
     (case smap_get (PendingCharges s) charge_id of
        Some c \<Rightarrow> Ok c
      | None \<Rightarrow> Err (AccountManager_Error NoChargeOfGivenIdRegistered))"

definition no_charge_or_fail :: "'x am_state \<Rightarrow> H256 \<Rightarrow> (DispatchError, unit) res" where
  "no_charge_or_fail s charge_id =
     (case smap_get (PendingCharges s) charge_id of
        Some _ \<Rightarrow> Err (AccountManager_Error ChargeAlreadyRegistered)
      | None \<Rightarrow> Ok ())"

definition get_settlement :: "'x am_state \<Rightarrow> H256 \<Rightarrow> Settlement option" where
  "get_settlement s settlement_id =
     smap_get (SettlementsPerRound s (CurrentRound s)) settlement_id"

definition get_settlements_by_role ::
  "'x am_state \<Rightarrow> CircuitRole \<Rightarrow> (AccountId \<times> Settlement) list" where
  "get_settlements_by_role s r =
     map (\<lambda>st. (settlement_recipient st, st))
       (filter (\<lambda>st. settlement_role st = r)
         (map snd (SettlementsPerRound s (CurrentRound s))))"

definition bump_contracts_registry_nonce ::
  "'x am_env \<Rightarrow> 'x am_state \<Rightarrow> (DispatchError, H256 \<times> 'x am_state) res" where
  "bump_contracts_registry_nonce env s =
     (let execution_id = ContractsRegistryExecutionNonce s;
          s' = s\<lparr>ContractsRegistryExecutionNonce := execution_id + 1\<rparr>
      in bind_res (ok_or (AccountManager_Error DecodingExecutionIDFailed)
           (execution_id_hash env execution_id)) (\<lambda>charge_id.
         bind_res (no_charge_or_fail s' charge_id) (\<lambda>_. Ok (charge_id, s'))))"

definition validate_deposit ::
  "'x am_state \<Rightarrow> H256 \<Rightarrow> RequestCharge \<Rightarrow> (DispatchError, Balance) res" where
  "validate_deposit s charge_id c =
     bind_res (map_err (\<lambda>_. AccountManager_Error ExecutionAlreadyRegistered)
       (no_charge_or_fail s charge_id)) (\<lambda>_.
     case checked_add (charge_fee c) (offered_reward c) of
       Some checked_reserve \<Rightarrow> Ok checked_reserve
     | None \<Rightarrow> Err ArithmeticOverflow)"

definition am_can_withdraw ::
  "'x am_env \<Rightarrow> 'x am_state \<Rightarrow> AccountId \<Rightarrow> Balance \<Rightarrow> AssetId option \<Rightarrow> bool" where
  "am_can_withdraw env s p amnt asset_id =
     (is_remote (origin_new p) \<or> monetary_can_withdraw env p asset_id amnt (ledger s))"

definition deposit_immediately ::
  "'x am_env \<Rightarrow> AccountId \<Rightarrow> Balance \<Rightarrow> AssetId option \<Rightarrow> 'x am_state \<Rightarrow> 'x am_state" where
  "deposit_immediately env beneficiary amnt asset_id s =
     s\<lparr>ledger := monetary_deposit env beneficiary asset_id amnt (ledger s)\<rparr>"

definition withdraw_immediately ::
  "'x am_env \<Rightarrow> AccountId \<Rightarrow> Balance \<Rightarrow> AssetId option \<Rightarrow> 'x am_state
     \<Rightarrow> (DispatchError, 'x am_state) res" where
  "withdraw_immediately env p amnt asset_id s =
     (if is_remote (origin_new p) then Ok s
      else bind_res (monetary_withdraw env p amnt asset_id (ledger s))
             (\<lambda>x. Ok (s\<lparr>ledger := x\<rparr>)))"

definition deposit_one ::
  "'x am_env \<Rightarrow> H256 \<times> RequestCharge \<times> Balance \<Rightarrow> 'x am_state
     \<Rightarrow> (DispatchError, 'x am_state) res" where
  "deposit_one env = (\<lambda>(charge_id, c, total_deposit) s.
     bind_res (withdraw_immediately env (payee c) total_deposit (maybe_asset_id c) s) (\<lambda>s'.
       Ok (s'\<lparr>PendingCharges := smap_insert charge_id c (PendingCharges s'),
              am_events := am_events s'
                @ [DepositReceived charge_id (payee c) (recipient c) total_deposit]\<rparr>)))"

definition deposit_batch ::
  "'x am_env \<Rightarrow> (H256 \<times> RequestCharge) list \<Rightarrow> 'x am_state \<Rightarrow> (DispatchError, 'x am_state) res" where
  "deposit_batch env batch s =
     bind_res (map_res (\<lambda>(charge_id, c).
         bind_res (validate_deposit s charge_id c) (\<lambda>total. Ok (charge_id, c, total))) batch)
       (\<lambda>validated_requests. fold_res (deposit_one env) validated_requests s)"

definition deposit ::
  "'x am_env \<Rightarrow> H256 \<Rightarrow> RequestCharge \<Rightarrow> 'x am_state \<Rightarrow> (DispatchError, 'x am_state) res" where
  "deposit env charge_id c s = deposit_batch env [(charge_id, c)] s"

definition drop_charge :: "H256 \<Rightarrow> 'x am_state \<Rightarrow> 'x am_state" where
  "drop_charge charge_id s = s\<lparr>PendingCharges := smap_remove charge_id (PendingCharges s)\<rparr>"

definition insert_settlement :: "H256 \<Rightarrow> Settlement \<Rightarrow> 'x am_state \<Rightarrow> 'x am_state" where
  "insert_settlement charge_id st s =
     s\<lparr>SettlementsPerRound := (SettlementsPerRound s)(CurrentRound s :=
         smap_insert charge_id st (SettlementsPerRound s (CurrentRound s)))\<rparr>"

text \<open>
  \<open>take_fee_and_drop\<close> is the tail of \<open>finalize_infallible\<close> that the outcomes without an
  early return share.
\<close>

definition take_fee_and_drop ::
  "'x am_env \<Rightarrow> H256 \<Rightarrow> RequestCharge \<Rightarrow> 'x am_state \<Rightarrow> bool \<times> 'x am_state" where
  "take_fee_and_drop env charge_id c s =
     (let s' = (if charge_fee c > 0
                then deposit_immediately env (EscrowAccount env) (charge_fee c) (maybe_asset_id c) s
                else s)
      in (True, drop_charge charge_id s'))"

definition charge_recipient :: "'x am_env \<Rightarrow> RequestCharge \<Rightarrow> AccountId" where
  "charge_recipient env c = (case recipient c of Some r \<Rightarrow> r | None \<Rightarrow> EscrowAccount env)"

definition settlement_of :: "'x am_env \<Rightarrow> RequestCharge \<Rightarrow> Outcome \<Rightarrow> Settlement" where
  "settlement_of env c oc =
     \<lparr>settlement_requester = payee c, settlement_recipient = charge_recipient env c,
      settlement_amount = offered_reward c, settlement_asset_id = maybe_asset_id c,
      settlement_outcome = oc, settlement_source = source c, settlement_role = role c\<rparr>"

definition finalize_infallible ::
  "'x am_env \<Rightarrow> H256 \<Rightarrow> Outcome \<Rightarrow> 'x am_state \<Rightarrow> bool \<times> 'x am_state" where
  "finalize_infallible env charge_id oc s =
     (case smap_get (PendingCharges s) charge_id of
        None \<Rightarrow> (False, s)
      | Some c \<Rightarrow>
          if offered_reward c > 0 then
            (case oc of
               Commit \<Rightarrow>
                 if is_remote (origin_new (payee c)) then (False, drop_charge charge_id s)
                 else if source c = EscrowUnlock
                 then (True, deposit_immediately env (charge_recipient env c) (offered_reward c)
                               (maybe_asset_id c) s)
                 else take_fee_and_drop env charge_id c
                        (insert_settlement charge_id (settlement_of env c oc) s)
             | Slash \<Rightarrow>
                 take_fee_and_drop env charge_id c
                   (deposit_immediately env (EscrowAccount env) (offered_reward c)
                      (maybe_asset_id c) s)
             | _ \<Rightarrow>
                 take_fee_and_drop env charge_id c
                   (deposit_immediately env (payee c) (offered_reward c) (maybe_asset_id c) s))
          else take_fee_and_drop env charge_id c s)"

definition am_finalize ::
  "'x am_env \<Rightarrow> H256 \<Rightarrow> Outcome \<Rightarrow> AccountId option \<Rightarrow> Balance option \<Rightarrow> 'x am_state
     \<Rightarrow> (DispatchError, 'x am_state) res" where
  "am_finalize env charge_id oc maybe_recipient maybe_actual_fees s =
     Ok (snd (finalize_infallible env charge_id oc s))"

definition cancel_deposit :: "'x am_env \<Rightarrow> H256 \<Rightarrow> 'x am_state \<Rightarrow> bool \<times> 'x am_state" where
  "cancel_deposit env charge_id s =
     (case smap_get (PendingCharges s) charge_id of
        Some c \<Rightarrow>
          (True, drop_charge charge_id
             (deposit_immediately env (payee c) (offered_reward c) (maybe_asset_id c) s))
      | None \<Rightarrow> (False, s))"

definition assign_deposit :: "H256 \<Rightarrow> AccountId \<Rightarrow> 'x am_state \<Rightarrow> bool \<times> 'x am_state" where
  "assign_deposit charge_id r s =
     (case smap_get (PendingCharges s) charge_id of
        Some c \<Rightarrow>
          (True, s\<lparr>PendingCharges :=
             smap_insert charge_id (c\<lparr>recipient := Some r\<rparr>) (PendingCharges s)\<rparr>)
      | None \<Rightarrow> (False, s))"

definition transfer_deposit ::
  "'x am_env \<Rightarrow> H256 \<Rightarrow> H256 \<Rightarrow> Balance option \<Rightarrow> AccountId option \<Rightarrow> AccountId option
     \<Rightarrow> 'x am_state \<Rightarrow> (DispatchError, 'x am_state) res" where
  "transfer_deposit env charge_id new_charge_id new_reward new_payee new_recipient s =
     (case smap_get (PendingCharges s) charge_id of
        None \<Rightarrow> Err (AccountManager_Error TransferDepositFailedOldChargeNotFound)
      | Some c \<Rightarrow>
          let c' = c\<lparr>offered_reward :=
                       (case new_reward of Some r \<Rightarrow> r | None \<Rightarrow> offered_reward c),
                     payee := (case new_payee of Some p \<Rightarrow> p | None \<Rightarrow> payee c),
                     recipient :=
                       (case new_recipient of Some r \<Rightarrow> Some r | None \<Rightarrow> recipient c)\<rparr>
          in case cancel_deposit env charge_id s of
               (False, _) \<Rightarrow> Err (AccountManager_Error TransferDepositFailedToReleasePreviousCharge)
             | (True, s') \<Rightarrow> deposit env new_charge_id c' s')"

section \<open>Extrinsics\<close>

definition deposit_call ::
  "'x am_env \<Rightarrow> Origin \<Rightarrow> H256 \<Rightarrow> AccountId \<Rightarrow> Balance \<Rightarrow> Balance \<Rightarrow> BenefitSource \<Rightarrow> CircuitRole
     \<Rightarrow> AccountId option \<Rightarrow> AssetId option \<Rightarrow> 'x am_state \<Rightarrow> (DispatchError, 'x am_state) res" where
  "deposit_call env origin charge_id p fee reward src rl recip asset_id s =
     bind_res (ensure_root origin) (\<lambda>_.
       deposit env charge_id
         \<lparr>payee = p, offered_reward = reward, maybe_asset_id = asset_id, charge_fee = fee,
          recipient = recip, source = src, role = rl\<rparr> s)"

definition finalize_call ::
  "'x am_env \<Rightarrow> Origin \<Rightarrow> H256 \<Rightarrow> Outcome \<Rightarrow> AccountId option \<Rightarrow> Balance option \<Rightarrow> 'x am_state
     \<Rightarrow> (DispatchError, 'x am_state) res" where
  "finalize_call env origin charge_id oc maybe_recipient maybe_actual_fees s =
     bind_res (ensure_root origin) (\<lambda>_.
       am_finalize env charge_id oc maybe_recipient maybe_actual_fees s)"

section \<open>What the ledger promises\<close>

text \<open>
  The native currency, as documented by \<open>Currency\<close> and implemented by \<open>pallet_balances\<close>:
  a successful withdrawal takes exactly the amount from the account; \<open>deposit_creating\<close> adds
  the amount unless the balance overflows or a dead account would get less than the minimum
  balance; both leave every other account alone, and the assets pallet does not touch the
  native balances.
\<close>

definition creditable :: "'x am_env \<Rightarrow> 'x \<Rightarrow> AccountId \<Rightarrow> Balance \<Rightarrow> bool" where
  "creditable env x a v \<longleftrightarrow>
     unat (free_balance env x a) + unat v < 2 ^ 128
     \<and> (minimum_balance env \<le> v \<or> minimum_balance env \<le> free_balance env x a)"

definition currency_laws :: "'x am_env \<Rightarrow> bool" where
  "currency_laws env \<longleftrightarrow>
     (\<forall>a v x x'. currency_withdraw env a v x = Ok x' \<longrightarrow>
        unat (free_balance env x' a) + unat v = unat (free_balance env x a)
        \<and> (\<forall>b. b \<noteq> a \<longrightarrow> free_balance env x' b = free_balance env x b))
     \<and> (\<forall>a v x. creditable env x a v \<longrightarrow>
        free_balance env (deposit_creating env a v x) a = free_balance env x a + v)
     \<and> (\<forall>a v x b. b \<noteq> a \<longrightarrow>
        free_balance env (deposit_creating env a v x) b = free_balance env x b)
     \<and> (\<forall>i a v x b. free_balance env (increase_balance env i a v x) b = free_balance env x b)
     \<and> (\<forall>i a v x x' b. decrease_balance env i a v x = Ok x' \<longrightarrow>
        free_balance env x' b = free_balance env x b)"

text \<open>A ledger that satisfies them: a balance per account and no assets.\<close>

definition plain_env :: "AccountId \<Rightarrow> (AccountId \<Rightarrow> Balance) am_env" where
  "plain_env escrow =
     \<lparr>minimum_balance = 1, free_balance = (\<lambda>x a. x a),
      deposit_creating = (\<lambda>a v x. x(a := x a + v)),
      currency_withdraw = (\<lambda>a v x. if unat v < unat (x a) \<or> v = 0 then Ok (x(a := x a - v))
                                   else Err (External_Error 0)),
      increase_balance = (\<lambda>i a v x. x), assets_can_withdraw = (\<lambda>i a v x. False),
      decrease_balance = (\<lambda>i a v x. Err (External_Error 1)), asset_balance_of = (\<lambda>v. v),
      EscrowAccount = escrow, execution_id_hash = (\<lambda>n. None)\<rparr>"

section \<open>The native value the pallet accounts for\<close>

definition held_value :: "RequestCharge \<Rightarrow> nat" where
  "held_value c =
     (if maybe_asset_id c = None \<and> is_local (origin_new (payee c))
      then unat (charge_fee c) + unat (offered_reward c) else 0)"

definition settled_value :: "Settlement \<Rightarrow> nat" where
  "settled_value st = (if settlement_asset_id st = None then unat (settlement_amount st) else 0)"

definition free_total :: "'x am_env \<Rightarrow> AccountId set \<Rightarrow> 'x \<Rightarrow> nat" where
  "free_total env A x = (\<Sum>a\<in>A. unat (free_balance env x a))"

definition native_total :: "'x am_env \<Rightarrow> AccountId set \<Rightarrow> 'x am_state \<Rightarrow> nat" where
  "native_total env A s =
     free_total env A (ledger s) + smap_sum held_value (PendingCharges s)
     + smap_sum settled_value (SettlementsPerRound s (CurrentRound s))"

text \<open>
  The finalisations that pay the recipient but leave the charge in place, the account that the
  other paying outcomes credit, and the charge stored under an identifier.
\<close>

definition keeps_charge :: "RequestCharge \<Rightarrow> Outcome \<Rightarrow> bool" where
  "keeps_charge c oc \<longleftrightarrow> oc = Commit \<and> offered_reward c > 0 \<and> source c = EscrowUnlock
     \<and> is_local (origin_new (payee c))"

definition payout_account :: "'x am_env \<Rightarrow> RequestCharge \<Rightarrow> Outcome \<Rightarrow> AccountId" where
  "payout_account env c oc = (if oc = Slash then EscrowAccount env else payee c)"

abbreviation charge_at :: "'x am_state \<Rightarrow> H256 \<Rightarrow> RequestCharge option" where
  "charge_at s \<equiv> smap_get (PendingCharges s)"

section \<open>A concrete charge\<close>

definition sample_payee :: AccountId where "sample_payee = replicate 32 1"
definition sample_escrow :: AccountId where "sample_escrow = replicate 32 2"

definition sample_charge :: "BenefitSource \<Rightarrow> RequestCharge" where
  "sample_charge src =
     \<lparr>payee = sample_payee, offered_reward = 50, maybe_asset_id = None, charge_fee = 5,
      recipient = Some sample_escrow, source = src, role = Executor\<rparr>"

definition sample_state :: "(H256, RequestCharge) smap \<Rightarrow> (AccountId \<Rightarrow> Balance) am_state" where
  "sample_state charges =
     \<lparr>PendingCharges = charges, SettlementsPerRound = (\<lambda>r. []),
      ContractsRegistryExecutionNonce = 0, am_events = [], CurrentRound = round_default,
      ledger = (\<lambda>a. 1000)\<rparr>"

section \<open>Facts\<close>

lemma plain_env_laws: "currency_laws (plain_env e)"
  unfolding currency_laws_def plain_env_def creditable_def
  by (auto simp: unat_sub_if_size split: if_splits)

lemma is_local_not_remote: "is_local p \<longleftrightarrow> \<not> is_remote p"
  by (cases p) (auto simp: is_local_def is_remote_def)

lemma currency_lawsD:
  assumes "currency_laws env"
  shows "currency_withdraw env a v x = Ok x' \<Longrightarrow>
      unat (free_balance env x' a) + unat v = unat (free_balance env x a)"
    and "currency_withdraw env a v x = Ok x' \<Longrightarrow> b \<noteq> a \<Longrightarrow>
      free_balance env x' b = free_balance env x b"
    and "creditable env x a v \<Longrightarrow>
      free_balance env (deposit_creating env a v x) a = free_balance env x a + v"
    and "b \<noteq> a \<Longrightarrow> free_balance env (deposit_creating env a v x) b = free_balance env x b"
    and "free_balance env (increase_balance env i a v x) b = free_balance env x b"
    and "decrease_balance env i a v x = Ok x' \<Longrightarrow> free_balance env x' b = free_balance env x b"
proof -
  note laws = assms [unfolded currency_laws_def]
  show "currency_withdraw env a v x = Ok x' \<Longrightarrow>
      unat (free_balance env x' a) + unat v = unat (free_balance env x a)"
    using laws [THEN conjunct1, rule_format, of a v x x'] by simp
  show "currency_withdraw env a v x = Ok x' \<Longrightarrow> b \<noteq> a \<Longrightarrow>
      free_balance env x' b = free_balance env x b"
    using laws [THEN conjunct1, rule_format, of a v x x'] by simp
  show "creditable env x a v \<Longrightarrow>
      free_balance env (deposit_creating env a v x) a = free_balance env x a + v"
    using laws by blast
  show "b \<noteq> a \<Longrightarrow> free_balance env (deposit_creating env a v x) b = free_balance env x b"
    using laws by blast
  show "free_balance env (increase_balance env i a v x) b = free_balance env x b"
    using laws by blast
  show "decrease_balance env i a v x = Ok x' \<Longrightarrow> free_balance env x' b = free_balance env x b"
    using laws by blast
qed

lemma free_total_upd:
  assumes "finite A" "a \<in> A" "\<forall>b. b \<noteq> a \<longrightarrow> free_balance env x' b = free_balance env x b"
  shows "free_total env A x' + unat (free_balance env x a) = free_total env A x + unat (free_balance env x' a)"
proof -
  have "(\<Sum>b\<in>A - {a}. unat (free_balance env x' b)) = (\<Sum>b\<in>A - {a}. unat (free_balance env x b))"
    using assms(3) by (intro sum.cong) auto
  then show ?thesis
    using sum.remove [OF assms(1,2), of "\<lambda>b. unat (free_balance env x' b)"]
      sum.remove [OF assms(1,2), of "\<lambda>b. unat (free_balance env x b)"]
    by (simp add: free_total_def)
qed

lemma free_total_deposit:
  assumes "currency_laws env" "finite A" "a \<in> A" "creditable env x a v"
  shows "free_total env A (deposit_creating env a v x) = free_total env A x + unat v"
proof -
  have "unat (free_balance env x a + v) = unat (free_balance env x a) + unat v"
    using assms(4) by (simp add: creditable_def unat_word_ariths)
  then show ?thesis
    using free_total_upd [OF assms(2,3), of env "deposit_creating env a v x" x]
      currency_lawsD(3) [OF assms(1,4)] currency_lawsD(4) [OF assms(1)]
    by simp
qed

lemma free_total_withdraw:
  assumes "currency_laws env" "finite A" "a \<in> A" "currency_withdraw env a v x = Ok x'"
  shows "free_total env A x' + unat v = free_total env A x"
  using free_total_upd [OF assms(2,3), of env x' x]
    currency_lawsD(1) [OF assms(1,4)] currency_lawsD(2) [OF assms(1,4)]
  by simp

lemma free_balance_le_total:
  "finite A \<Longrightarrow> a \<in> A \<Longrightarrow> unat (free_balance env x a) \<le> free_total env A x"
  unfolding free_total_def by (rule member_le_sum) auto

text \<open>Crediting a native account moves value into the ledger; other assets leave it alone.\<close>

lemma free_total_monetary_deposit:
  assumes "currency_laws env" "finite A" "a \<in> A" "asset = None \<longrightarrow> creditable env x a v"
  shows "free_total env A (monetary_deposit env a asset v x)
    = free_total env A x + (if asset = None then unat v else 0)"
proof (cases asset)
  case None
  then show ?thesis using assms free_total_deposit by (simp add: monetary_deposit_def)
next
  case (Some i)
  then show ?thesis
    by (simp add: monetary_deposit_def free_total_def currency_lawsD(5) [OF assms(1)])
qed

lemma free_total_monetary_withdraw:
  assumes "currency_laws env" "finite A" "a \<in> A" "monetary_withdraw env a v asset x = Ok x'"
  shows "free_total env A x' + (if asset = None then unat v else 0) = free_total env A x"
proof (cases asset)
  case None
  then show ?thesis
    using assms free_total_withdraw [OF assms(1-3)] by (simp add: monetary_withdraw_def)
next
  case (Some i)
  then have "decrease_balance env i a (asset_balance_of env v) x = Ok x'"
    using assms(4) by (simp add: monetary_withdraw_def)
  then show ?thesis
    using Some by (simp add: free_total_def currency_lawsD(6) [OF assms(1)])
qed

lemma withdraw_immediately_Ok:
  "withdraw_immediately env p v asset s = Ok s' \<longleftrightarrow>
     (\<exists>x. (if is_remote (origin_new p) then x = ledger s
        else monetary_withdraw env p v asset (ledger s) = Ok x) \<and> s' = s\<lparr>ledger := x\<rparr>)"
proof (cases "is_remote (origin_new p)")
  case True
  then show ?thesis by (simp add: withdraw_immediately_def eq_commute)
next
  case False
  then show ?thesis
    by (cases "monetary_withdraw env p v asset (ledger s)")
      (auto simp: withdraw_immediately_def)
qed

lemma deposit_one_Ok:
  "deposit_one env (i, c, t) s = Ok s' \<longleftrightarrow>
     (\<exists>x. (if is_remote (origin_new (payee c)) then x = ledger s
           else monetary_withdraw env (payee c) t (maybe_asset_id c) (ledger s) = Ok x)
        \<and> s' = s\<lparr>PendingCharges := smap_insert i c (PendingCharges s),
            am_events := am_events s @ [DepositReceived i (payee c) (recipient c) t], ledger := x\<rparr>)"
  (is "_ \<longleftrightarrow> (\<exists>x. ?P x \<and> s' = ?g x)")
proof -
  have "deposit_one env (i, c, t) s = Ok s' \<longleftrightarrow>
      (\<exists>s1. (\<exists>x. ?P x \<and> s1 = s\<lparr>ledger := x\<rparr>) \<and> s' = s1\<lparr>PendingCharges := smap_insert i c (PendingCharges s1),
        am_events := am_events s1 @ [DepositReceived i (payee c) (recipient c) t]\<rparr>)"
    unfolding withdraw_immediately_Ok [symmetric]
    by (cases "withdraw_immediately env (payee c) t (maybe_asset_id c) s")
      (auto simp: deposit_one_def)
  also have "\<dots> \<longleftrightarrow> (\<exists>x. ?P x \<and> s' = ?g x)"
    by (auto split del: if_split)
  finally show ?thesis .
qed

lemma deposit_Ok:
  "deposit env i c s = Ok s' \<longleftrightarrow>
     smap_get (PendingCharges s) i = None
     \<and> (\<exists>t x. checked_add (charge_fee c) (offered_reward c) = Some t
        \<and> (if is_remote (origin_new (payee c)) then x = ledger s
           else monetary_withdraw env (payee c) t (maybe_asset_id c) (ledger s) = Ok x)
        \<and> s' = s\<lparr>PendingCharges := smap_insert i c (PendingCharges s),
            am_events := am_events s @ [DepositReceived i (payee c) (recipient c) t], ledger := x\<rparr>)"
proof -
  have val: "validate_deposit s i c = Ok t \<longleftrightarrow>
     smap_get (PendingCharges s) i = None \<and> checked_add (charge_fee c) (offered_reward c) = Some t" for t
    by (auto simp: validate_deposit_def no_charge_or_fail_def res_simps split: option.splits)
  have "deposit env i c s = Ok s' \<longleftrightarrow>
     (\<exists>t. validate_deposit s i c = Ok t \<and> deposit_one env (i, c, t) s = Ok s')"
    by (auto simp: deposit_def deposit_batch_def res_simps)
  then show ?thesis
    unfolding val deposit_one_Ok by blast
qed

section \<open>Conservation\<close>

text \<open>
  A successful deposit takes from the payee exactly what the new charge holds: the native
  free balances together with the charges held and the amounts settled in the current round
  are unchanged, for local and remote payees and for native and other assets.
\<close>

theorem deposit_conserves:
  assumes "deposit env i c s = Ok s'" "currency_laws env" "finite A" "payee c \<in> A"
  shows "native_total env A s' = native_total env A s"
proof -
  from assms(1) obtain t x where fresh: "smap_get (PendingCharges s) i = None"
    and t: "checked_add (charge_fee c) (offered_reward c) = Some t"
    and w: "if is_remote (origin_new (payee c)) then x = ledger s
           else monetary_withdraw env (payee c) t (maybe_asset_id c) (ledger s) = Ok x"
    and s': "s' = s\<lparr>PendingCharges := smap_insert i c (PendingCharges s),
            am_events := am_events s @ [DepositReceived i (payee c) (recipient c) t], ledger := x\<rparr>"
    unfolding deposit_Ok by blast
  have "unat t = unat (charge_fee c) + unat (offered_reward c)"
    using t by (simp add: checked_add_Some)
  then have "free_total env A x + held_value c = free_total env A (ledger s)"
    using w free_total_monetary_withdraw [OF assms(2-4), of t "maybe_asset_id c" "ledger s" x]
    by (auto simp: held_value_def is_local_not_remote split: if_splits)
  then show ?thesis
    by (simp add: native_total_def s' smap_sum_insert_fresh [OF fresh])
qed

text \<open>
  Cancelling a charge refunds only the offered reward: the charge disappears together with
  its fee, which leaves the native total.
\<close>

theorem cancel_total:
  assumes "smap_get (PendingCharges s) i = Some c" "is_local (origin_new (payee c))"
   "smap_wf (PendingCharges s)" "currency_laws env" "finite A" "payee c \<in> A"
   "maybe_asset_id c = None \<longrightarrow> creditable env (ledger s) (payee c) (offered_reward c)"
  shows "native_total env A s = native_total env A (snd (cancel_deposit env i s))
     + (if maybe_asset_id c = None then unat (charge_fee c) else 0)"
  using free_total_monetary_deposit [OF assms(4-7)]
   smap_sum_remove [OF smap_wf_distinct [OF assms(3)] assms(1), of held_value] assms(1,2)
  by (simp add: native_total_def cancel_deposit_def drop_charge_def deposit_immediately_def held_value_def)

lemma creditable_bounded:
  assumes "finite A" "a \<in> A" "minimum_balance env \<le> free_balance env x a"
    "free_total env A x + unat v < 2 ^ 128"
  shows "creditable env x a v"
  using assms free_balance_le_total [OF assms(1,2), of env x] by (simp add: creditable_def)

lemma alive_after_deposit:
  assumes "currency_laws env" "asset = None \<longrightarrow> creditable env x a v"
    "minimum_balance env \<le> free_balance env x b"
  shows "minimum_balance env \<le> free_balance env (monetary_deposit env a asset v x) b"
proof (cases asset)
  case None
  then have cr: "creditable env x a v" using assms(2) by simp
  then have "free_balance env x a \<le> free_balance env x a + v"
    by (simp add: creditable_def word_le_nat_alt unat_word_ariths)
  then show ?thesis
    using None assms(3) currency_lawsD(3) [OF assms(1) cr] currency_lawsD(4) [OF assms(1)]
    by (cases "b = a") (auto simp: monetary_deposit_def)
next
  case (Some i)
  then show ?thesis using assms(3) by (simp add: monetary_deposit_def currency_lawsD(5) [OF assms(1)])
qed

lemma native_total_deposit_immediately:
  assumes "currency_laws env" "finite A" "a \<in> A" "asset = None \<longrightarrow> creditable env (ledger s) a v"
  shows "native_total env A (deposit_immediately env a v asset s)
    = native_total env A s + (if asset = None then unat v else 0)"
  using free_total_monetary_deposit [OF assms] by (simp add: native_total_def deposit_immediately_def)

lemma native_total_drop:
  assumes "smap_wf (PendingCharges s)" "smap_get (PendingCharges s) i = Some c"
  shows "native_total env A (drop_charge i s) + held_value c = native_total env A s"
  using smap_sum_remove [OF smap_wf_distinct [OF assms(1)] assms(2), of held_value]
  by (simp add: native_total_def drop_charge_def)

lemma native_total_take_fee:
  assumes "currency_laws env" "finite A" "EscrowAccount env \<in> A"
    "smap_wf (PendingCharges s)" "smap_get (PendingCharges s) i = Some c"
    "is_local (origin_new (payee c))"
    "maybe_asset_id c = None \<longrightarrow> creditable env (ledger s) (EscrowAccount env) (charge_fee c)"
  shows "native_total env A (snd (take_fee_and_drop env i c s))
    + (if maybe_asset_id c = None then unat (offered_reward c) else 0) = native_total env A s"
proof -
  define s1 where "s1 = (if charge_fee c > 0
    then deposit_immediately env (EscrowAccount env) (charge_fee c) (maybe_asset_id c) s else s)"
  have "native_total env A s1 = native_total env A s + (if maybe_asset_id c = None then unat (charge_fee c) else 0)"
    using native_total_deposit_immediately [OF assms(1-3,7)]
    by (auto simp: s1_def word_gt_0)
  moreover have "PendingCharges s1 = PendingCharges s" by (simp add: s1_def deposit_immediately_def)
  moreover have "snd (take_fee_and_drop env i c s) = drop_charge i s1"
    by (simp add: take_fee_and_drop_def s1_def Let_def)
  ultimately show ?thesis
    using native_total_drop [of s1 i c env A] assms(4-6) by (auto simp: held_value_def)
qed

lemma finalize_infallible_local:
  assumes "smap_get (PendingCharges s) i = Some c" "is_local (origin_new (payee c))"
    "\<not> keeps_charge c oc"
  shows "finalize_infallible env i oc s = take_fee_and_drop env i c
    (if offered_reward c = 0 then s
     else if oc = Commit then insert_settlement i (settlement_of env c oc) s
     else deposit_immediately env (payout_account env c oc) (offered_reward c) (maybe_asset_id c) s)"
  using assms
  by (auto simp: finalize_infallible_def keeps_charge_def is_local_not_remote payout_account_def
      word_gt_0 split: Outcome.splits)


text \<open>A commit of an escrow charge pays without releasing the charge.\<close>

lemma finalize_keeps:
  assumes "smap_get (PendingCharges s) i = Some c" "keeps_charge c oc"
  shows "finalize_infallible env i oc s =
    (True, deposit_immediately env (charge_recipient env c) (offered_reward c) (maybe_asset_id c) s)"
  using assms by (simp add: finalize_infallible_def keeps_charge_def is_local_not_remote)

text \<open>
  C27: Committing an \<open>EscrowUnlock\<close> charge pays its recipient but leaves the charge pending, so
  that \<open>n\<close> calls of \<open>finalize_infallible\<close> pay the reward \<open>n\<close> times.
\<close>

theorem finalize_escrow_repeats:
  assumes "currency_laws env" "smap_get (PendingCharges s) i = Some c" "keeps_charge c Commit"
    "maybe_asset_id c = None"
    "minimum_balance env \<le> free_balance env (ledger s) (charge_recipient env c)"
    "unat (free_balance env (ledger s) (charge_recipient env c)) + n * unat (offered_reward c) < 2 ^ 128"
  defines "t \<equiv> ((\<lambda>s. snd (finalize_infallible env i Commit s)) ^^ n) s"
  shows "unat (free_balance env (ledger t) (charge_recipient env c))
      = unat (free_balance env (ledger s) (charge_recipient env c)) + n * unat (offered_reward c)
    \<and> smap_get (PendingCharges t) i = Some c"
  using assms(6) unfolding t_def
proof (induction n)
  case 0
  then show ?case using assms(2) by simp
next
  case (Suc n)
  let ?r = "charge_recipient env c" and ?t = "((\<lambda>s. snd (finalize_infallible env i Commit s)) ^^ n) s"
  have IH: "unat (free_balance env (ledger ?t) ?r)
      = unat (free_balance env (ledger s) ?r) + n * unat (offered_reward c)"
    "smap_get (PendingCharges ?t) i = Some c"
    using Suc by auto
  have "unat (minimum_balance env) \<le> unat (free_balance env (ledger s) ?r)"
    using assms(5) by (simp add: word_le_nat_alt)
  then have cr: "creditable env (ledger ?t) ?r (offered_reward c)"
    using IH(1) Suc.prems by (simp add: creditable_def word_le_nat_alt)
  have "unat (free_balance env (ledger ?t) ?r + offered_reward c)
      = unat (free_balance env (ledger ?t) ?r) + unat (offered_reward c)"
    using cr by (simp add: creditable_def unat_word_ariths)
  then show ?case
    using IH currency_lawsD(3) [OF assms(1) cr] finalize_keeps [OF IH(2) assms(3), of env] assms(4)
    by (simp add: deposit_immediately_def monetary_deposit_def)
qed

section \<open>The charge book\<close>

text \<open>
  What a client of the account manager relies on: how each operation changes the pending
  charges.  \<open>kept\<close> tells which finalisations leave the charge in place.
\<close>

locale charge_book =
  fixes lookup :: "'s \<Rightarrow> H256 \<Rightarrow> RequestCharge option"
    and dep :: "H256 \<Rightarrow> RequestCharge \<Rightarrow> 's \<Rightarrow> (DispatchError, 's) res"
    and canc :: "H256 \<Rightarrow> 's \<Rightarrow> bool \<times> 's"
    and assign :: "H256 \<Rightarrow> AccountId \<Rightarrow> 's \<Rightarrow> bool \<times> 's"
    and fin :: "H256 \<Rightarrow> Outcome \<Rightarrow> 's \<Rightarrow> bool \<times> 's"
    and kept :: "RequestCharge \<Rightarrow> Outcome \<Rightarrow> bool"
  assumes dep_fresh: "dep i c s = Ok s' \<Longrightarrow> lookup s i = None"
    and dep_lookup: "dep i c s = Ok s' \<Longrightarrow> lookup s' j = (if j = i then Some c else lookup s j)"
    and canc_flag: "fst (canc i s) \<longleftrightarrow> lookup s i \<noteq> None"
    and canc_lookup: "lookup (snd (canc i s)) j = (if j = i then None else lookup s j)"
    and assign_flag: "fst (assign i r s) \<longleftrightarrow> lookup s i \<noteq> None"
    and assign_lookup: "lookup (snd (assign i r s)) j =
      (if j = i then map_option (\<lambda>c. c\<lparr>recipient := Some r\<rparr>) (lookup s i) else lookup s j)"
    and fin_lookup: "lookup (snd (fin i oc s)) j =
      (if j = i \<and> \<not> (\<exists>c. lookup s i = Some c \<and> kept c oc) then None else lookup s j)"
begin

lemma cancel_undoes_deposit:
  "dep i c s = Ok s' \<Longrightarrow> lookup (snd (canc i s')) = lookup s"
  using dep_fresh by (auto simp: fun_eq_iff canc_lookup dep_lookup)

lemma cancel_all:
  "lookup (fold (\<lambda>i s. snd (canc i s)) ids s) j = (if j \<in> set ids then None else lookup s j)"
  by (induction ids arbitrary: s) (auto simp: canc_lookup)

lemma finalize_all:
  assumes "\<forall>(i, oc) \<in> set ps. \<forall>c. lookup s i = Some c \<longrightarrow> \<not> kept c oc"
  shows "lookup (fold (\<lambda>(i, oc) s. snd (fin i oc s)) ps s) j =
    (if j \<in> fst ` set ps then None else lookup s j)"
  using assms
proof (induction ps arbitrary: s)
  case Nil
  then show ?case by simp
next
  case (Cons p ps)
  obtain i oc where p: "p = (i, oc)" by (cases p)
  have "\<forall>(k, oc') \<in> set ps. \<forall>c. lookup (snd (fin i oc s)) k = Some c \<longrightarrow> \<not> kept c oc'"
    using Cons.prems by (auto simp: fin_lookup split: if_splits)
  from Cons.IH [OF this] show ?case
    using Cons.prems by (auto simp: p fin_lookup)
qed

lemma finalize_twice:
  "\<not> (\<exists>c. lookup s i = Some c \<and> kept c oc) \<Longrightarrow> lookup (snd (fin i oc' (snd (fin i oc s)))) i = None"
  by (simp add: fin_lookup)

end

lemma charge_at_finalize:
  "charge_at (snd (finalize_infallible env i oc s)) j =
     (if j = i \<and> \<not> (\<exists>c. charge_at s i = Some c \<and> keeps_charge c oc) then None
      else charge_at s j)"
proof (cases "charge_at s i")
  case None
  then show ?thesis by (simp add: finalize_infallible_def)
next
  case (Some c)
  then show ?thesis
    by (simp add: finalize_infallible_def keeps_charge_def is_local_not_remote drop_charge_def
        take_fee_and_drop_def Let_def deposit_immediately_def insert_settlement_def
        split: Outcome.splits)
qed

interpretation am: charge_book charge_at "deposit env" "cancel_deposit env" assign_deposit
  "finalize_infallible env" keeps_charge for env
proof
  fix i c s s' j
  assume d: "deposit env i c s = Ok s'"
  show "charge_at s i = None" using d by (simp add: deposit_Ok)
  show "charge_at s' j = (if j = i then Some c else charge_at s j)"
    using d by (auto simp: deposit_Ok)
qed (auto simp: cancel_deposit_def assign_deposit_def charge_at_finalize drop_charge_def
      deposit_immediately_def split: option.splits)

section \<open>Witnesses\<close>

lemma sample_accounts:
  "sample_payee \<noteq> sample_escrow" "\<not> is_remote (origin_new sample_payee)"
  "is_local (origin_new sample_payee)"
  by (simp_all add: sample_payee_def sample_escrow_def origin_new_def is_remote_def is_local_def
      list_all_iff replicate_eq_replicate)

lemmas sample_simps = sample_accounts sample_state_def sample_charge_def plain_env_def
  smap_get_def smap_wf_def smap_sum_def keeps_charge_def creditable_def get_settlement_def
  charge_recipient_def native_total_def free_total_def held_value_def settled_value_def

theorem deposit_conserves_witness:
  "\<exists>s'. deposit (plain_env sample_escrow) [7] (sample_charge TrafficFees) (sample_state []) = Ok s'
    \<and> native_total (plain_env sample_escrow) {sample_payee} s'
      = native_total (plain_env sample_escrow) {sample_payee} (sample_state [])"
proof -
  obtain s' where d:
    "deposit (plain_env sample_escrow) [7] (sample_charge TrafficFees) (sample_state []) = Ok s'"
    by (simp add: deposit_Ok monetary_withdraw_def checked_add_def sample_simps)
  from deposit_conserves [OF d plain_env_laws, of "{sample_payee}"] d show ?thesis
    by (simp add: sample_charge_def)
qed


theorem finalize_escrow_repeats_witness:
  "unat (free_balance (plain_env sample_escrow) (ledger
     (((\<lambda>s. snd (finalize_infallible (plain_env sample_escrow) [7] Commit s)) ^^ 3)
       (sample_state [([7], sample_charge EscrowUnlock)]))) sample_escrow) = 1150"
  using finalize_escrow_repeats [OF plain_env_laws [of sample_escrow], where n = 3 and i = "[7]"
      and c = "sample_charge EscrowUnlock" and s = "sample_state [([7], sample_charge EscrowUnlock)]"]
  by (simp add: sample_simps)

theorem cancel_total_witness:
  "native_total (plain_env sample_escrow) {sample_payee}
     (sample_state [([7], sample_charge TrafficFees)])
   = native_total (plain_env sample_escrow) {sample_payee}
       (snd (cancel_deposit (plain_env sample_escrow) [7]
         (sample_state [([7], sample_charge TrafficFees)]))) + 5"
  using cancel_total [OF _ _ _ plain_env_laws [of sample_escrow], where i = "[7]"
      and c = "sample_charge TrafficFees" and s = "sample_state [([7], sample_charge TrafficFees)]"
      and A = "{sample_payee}"]
  by (simp add: sample_simps)

end
