(* ===== verification/Abi.thy ===== *)
theory Abi
  imports Runtime_Errors
begin

text \<open>
  Interface descriptions of side effects and of the events that confirm them
  (\<open>types/abi/src/to_abi.rs\<close>, \<open>recode.rs\<close>): the type of an ABI, the sizes its fields
  have in SCALE, and the parser of descriptors such as
  \<open>Transfer:Struct(to:Account32,amount:Value128)\<close>.  A descriptor is a string of bytes; its
  delimiters are ASCII, so that reading it byte by byte gives the fields that Rust's iteration
  over the characters of a valid UTF-8 string gives.  Nesting levels are the \<open>usize\<close> of the
  32-bit runtime and wrap around on an unbalanced closing bracket.
\<close>

section \<open>Data\<close>

datatype Codec = Scale | Rlp

text \<open>\<open>From<u8> for Codec\<close> and \<open>From<Codec> for u8\<close>.\<close>

definition codec_from_u8 :: "byte \<Rightarrow> Codec" where
  "codec_from_u8 v = (if v = 0 then Scale else if v = 1 then Rlp else Scale)"

definition codec_to_u8 :: "Codec \<Rightarrow> byte" where
  "codec_to_u8 c = (case c of Scale \<Rightarrow> 0 | Rlp \<Rightarrow> 1)"

type_synonym Name = string
type_synonym Descriptor = string

datatype Abi =
    A_Struct "Name option" "Abi list"
  | A_Log "Name option" "Abi list"
  | A_Event "Name option" "Abi list"
  | A_Enum "Name option" "Abi list"
  | A_Option "Name option" Abi
  | A_Account20 "Name option"
  | A_Account32 "Name option"
  | A_H256 "Name option"
  | A_Bytes "Name option"
  | A_Bytes4 "Name option"
  | A_Value256 "Name option"
  | A_Value128 "Name option"
  | A_Value64 "Name option"
  | A_Value32 "Name option"
  | A_Byte "Name option"
  | A_Codec "Name option"
  | A_Bool "Name option"
  | A_Vec "Name option" Abi
  | A_Uniple "Name option" Abi
  | A_Tuple "Name option" Abi Abi
  | A_Triple "Name option" Abi Abi Abi
  | A_Quadruple "Name option" Abi Abi Abi Abi
  | A_Quintuple "Name option" Abi Abi Abi Abi Abi
  | A_Sextuple "Name option" Abi Abi Abi Abi Abi Abi

primrec abi_get_name :: "Abi \<Rightarrow> Name option" where
  "abi_get_name (A_Struct name fields) = name"
| "abi_get_name (A_Log name fields) = name"
| "abi_get_name (A_Event name fields) = name"
| "abi_get_name (A_Enum name fields) = name"
| "abi_get_name (A_Option name field) = name"
| "abi_get_name (A_Account20 name) = name"
| "abi_get_name (A_Account32 name) = name"
| "abi_get_name (A_H256 name) = name"
| "abi_get_name (A_Bytes name) = name"
| "abi_get_name (A_Bytes4 name) = name"
| "abi_get_name (A_Value256 name) = name"
| "abi_get_name (A_Value128 name) = name"
| "abi_get_name (A_Value64 name) = name"
| "abi_get_name (A_Value32 name) = name"
| "abi_get_name (A_Byte name) = name"
| "abi_get_name (A_Codec name) = name"
| "abi_get_name (A_Bool name) = name"
| "abi_get_name (A_Vec name field) = name"
| "abi_get_name (A_Uniple name a) = name"
| "abi_get_name (A_Tuple name a b) = name"
| "abi_get_name (A_Triple name a b c) = name"
| "abi_get_name (A_Quadruple name a b c d) = name"
| "abi_get_name (A_Quintuple name a b c d e) = name"
| "abi_get_name (A_Sextuple name a b c d e f) = name"

text \<open>The size of a type itself: composite types count their prefix only.\<close>

primrec get_type_size :: "Abi \<Rightarrow> nat" where
  "get_type_size (A_Struct name fields) = 1"
| "get_type_size (A_Log name fields) = 1"
| "get_type_size (A_Event name fields) = 1"
| "get_type_size (A_Enum name fields) = 1"
| "get_type_size (A_Option name field) = 1"
| "get_type_size (A_Account20 name) = 20"
| "get_type_size (A_Account32 name) = 32"
| "get_type_size (A_H256 name) = 32"
| "get_type_size (A_Bytes name) = 32"
| "get_type_size (A_Bytes4 name) = 4"
| "get_type_size (A_Value256 name) = 32"
| "get_type_size (A_Value128 name) = 16"
| "get_type_size (A_Value64 name) = 8"
| "get_type_size (A_Value32 name) = 4"
| "get_type_size (A_Byte name) = 1"
| "get_type_size (A_Codec name) = 1"
| "get_type_size (A_Bool name) = 1"
| "get_type_size (A_Vec name field) = 1"
| "get_type_size (A_Uniple name a) = 0"
| "get_type_size (A_Tuple name a b) = 0"
| "get_type_size (A_Triple name a b c) = 0"
| "get_type_size (A_Quadruple name a b c d) = 0"
| "get_type_size (A_Quintuple name a b c d e) = 0"
| "get_type_size (A_Sextuple name a b c d e f) = 0"

text \<open>The size with all the fields, one element of a vector included.\<close>

primrec get_size :: "Abi \<Rightarrow> nat" where
  "get_size (A_Struct name fields) = 1 + sum_list (map get_size fields)"
| "get_size (A_Log name fields) = 1 + sum_list (map get_size fields)"
| "get_size (A_Event name fields) = 1 + sum_list (map get_size fields)"
| "get_size (A_Enum name fields) = 1 + sum_list (map get_size fields)"
| "get_size (A_Option name field) = 1 + get_size field"
| "get_size (A_Account20 name) = 20"
| "get_size (A_Account32 name) = 32"
| "get_size (A_H256 name) = 32"
| "get_size (A_Bytes name) = 32"
| "get_size (A_Bytes4 name) = 4"
| "get_size (A_Value256 name) = 32"
| "get_size (A_Value128 name) = 16"
| "get_size (A_Value64 name) = 8"
| "get_size (A_Value32 name) = 4"
| "get_size (A_Byte name) = 1"
| "get_size (A_Codec name) = 1"
| "get_size (A_Bool name) = 1"
| "get_size (A_Vec name field) = 1 + get_size field"
| "get_size (A_Uniple name a) = get_size a"
| "get_size (A_Tuple name a b) = get_size a + get_size b"
| "get_size (A_Triple name a b c) = get_size a + get_size b + get_size c"
| "get_size (A_Quadruple name a b c d) = get_size a + get_size b + get_size c + get_size d"
| "get_size (A_Quintuple name a b c d e) =
     get_size a + get_size b + get_size c + get_size d + get_size e"
| "get_size (A_Sextuple name a b c d e f) =
     get_size a + get_size b + get_size c + get_size d + get_size e + get_size f"

section \<open>UTF-8\<close>

text \<open>\<open>str::from_utf8\<close> accepts the well-formed sequences of the Unicode standard.\<close>

definition utf8_between :: "nat \<Rightarrow> nat \<Rightarrow> char \<Rightarrow> bool" where
  "utf8_between lo hi c \<longleftrightarrow> lo \<le> of_char c \<and> of_char c \<le> hi"

definition utf8_cont :: "char \<Rightarrow> bool" where
  "utf8_cont = utf8_between 128 191"

fun utf8_valid :: "string \<Rightarrow> bool" where
  "utf8_valid [] \<longleftrightarrow> True"
| "utf8_valid (a # rest) \<longleftrightarrow>
     (if utf8_between 0 127 a then utf8_valid rest
      else (case rest of
        [] \<Rightarrow> False
      | b # rest2 \<Rightarrow>
          if utf8_between 194 223 a then utf8_cont b \<and> utf8_valid rest2
          else (case rest2 of
            [] \<Rightarrow> False
          | c # rest3 \<Rightarrow>
              if utf8_between 224 239 a
              then utf8_between (if of_char a = (224::nat) then 160 else 128)
                                (if of_char a = (237::nat) then 159 else 191) b
                   \<and> utf8_cont c \<and> utf8_valid rest3
              else (case rest3 of
                [] \<Rightarrow> False
              | d # rest4 \<Rightarrow>
                  utf8_between 240 244 a
                  \<and> utf8_between (if of_char a = (240::nat) then 144 else 128)
                                 (if of_char a = (244::nat) then 143 else 191) b
                  \<and> utf8_cont c \<and> utf8_cont d \<and> utf8_valid rest4))))"

section \<open>Parsing a descriptor\<close>

type_synonym field = "string \<times> string option \<times> u32"

text \<open>
  The loop of \<open>parse_descriptor_flat\<close>.  A field is pushed when a delimiter follows it: what
  stands after the last delimiter is never pushed.
\<close>

fun parse_chars :: "string \<Rightarrow> u32 \<Rightarrow> string option \<Rightarrow> string \<Rightarrow> field list" where
  "parse_chars [] lvl name current = []"
| "parse_chars (x # xs) lvl name current =
     (if x = CHR ''<'' \<or> x = CHR ''('' then (current, name, lvl) # parse_chars xs (lvl + 1) None []
      else if x = CHR ''>'' \<or> x = CHR '')'' then (current, name, lvl) # parse_chars xs (lvl - 1) None []
      else if x = CHR '','' then (current, name, lvl) # parse_chars xs lvl None []
      else if x = CHR '':'' then parse_chars xs lvl (Some current) []
      else parse_chars xs lvl name (current @ [x]))"

definition parse_descriptor_flat :: "Descriptor \<Rightarrow> (DispatchError, field list) res" where
  "parse_descriptor_flat descriptor =
     (if utf8_valid descriptor
      then Ok (filter (\<lambda>(x, _, _). x \<noteq> []) (parse_chars descriptor 0 None []))
      else Err (Other ''CrossCodec::failed to stringify field descriptor''))"

definition MAX_DEPTH :: nat where "MAX_DEPTH = 10"

type_synonym field_parser = "field list \<Rightarrow> (DispatchError, Abi \<times> field list) res"

text \<open>
  The fields of a composite type: as long as the next field is not nested deeper than
  \<open>lvl\<close>.  Every round takes a field, so the number of fields bounds the rounds.
\<close>

fun parse_while :: "field_parser \<Rightarrow> u32 \<Rightarrow> nat \<Rightarrow> field list \<Rightarrow> (DispatchError, Abi list \<times> field list) res" where
  "parse_while p lvl 0 fields = Ok ([], fields)"
| "parse_while p lvl (Suc n) fields =
     (case fields of
        [] \<Rightarrow> Ok ([], [])
      | (_, _, l) # _ \<Rightarrow>
          if lvl < l then Ok ([], fields)
          else bind_res (p fields) (\<lambda>(a, rest).
               bind_res (parse_while p lvl n rest) (\<lambda>(as, rest'). Ok (a # as, rest'))))"

text \<open>The given number of fields, one after the other.\<close>

fun parse_times :: "field_parser \<Rightarrow> nat \<Rightarrow> field list \<Rightarrow> (DispatchError, Abi list \<times> field list) res" where
  "parse_times p 0 fields = Ok ([], fields)"
| "parse_times p (Suc n) fields =
     bind_res (p fields) (\<lambda>(a, rest).
     bind_res (parse_times p n rest) (\<lambda>(as, rest'). Ok (a # as, rest')))"

definition scalar_abi :: "string \<Rightarrow> Name option \<Rightarrow> Abi option" where
  "scalar_abi field name =
     (if field = ''Bytes'' then Some (A_Bytes name)
      else if field = ''Account20'' then Some (A_Account20 name)
      else if field = ''Account32'' then Some (A_Account32 name)
      else if field = ''H256'' then Some (A_H256 name)
      else if field = ''Value256'' then Some (A_Value256 name)
      else if field = ''Value128'' then Some (A_Value128 name)
      else if field = ''Value64'' then Some (A_Value64 name)
      else if field = ''Value32'' then Some (A_Value32 name)
      else if field = ''Byte'' then Some (A_Byte name)
      else if field = ''Codec'' then Some (A_Codec name)
      else if field = ''Bytes4'' then Some (A_Bytes4 name)
      else if field = ''Bool'' then Some (A_Bool name)
      else None)"

definition composite_abi :: "string \<Rightarrow> (Name option \<Rightarrow> Abi list \<Rightarrow> Abi) option" where
  "composite_abi field =
     (if field = ''Struct'' then Some A_Struct
      else if field = ''Enum'' then Some A_Enum
      else if field = ''Event'' then Some A_Event
      else if field = ''Log'' then Some A_Log
      else None)"

text \<open>The types with a fixed number of component types, and how many.\<close>

definition fixed_arity :: "string \<Rightarrow> nat option" where
  "fixed_arity field =
     (if field = ''Option'' \<or> field = ''Vec'' \<or> field = ''Uniple'' then Some 1
      else if field = ''Tuple'' then Some 2
      else if field = ''Triple'' then Some 3
      else if field = ''Quadruple'' then Some 4
      else if field = ''Quintuple'' then Some 5
      else if field = ''Sextuple'' then Some 6
      else None)"

definition fixed_abi :: "string \<Rightarrow> Name option \<Rightarrow> Abi list \<Rightarrow> Abi" where
  "fixed_abi field name as =
     (case as of
        [a] \<Rightarrow> if field = ''Option'' then A_Option name a
               else if field = ''Vec'' then A_Vec name a else A_Uniple name a
      | [a, b] \<Rightarrow> A_Tuple name a b
      | [a, b, c] \<Rightarrow> A_Triple name a b c
      | [a, b, c, d] \<Rightarrow> A_Quadruple name a b c d
      | [a, b, c, d, e] \<Rightarrow> A_Quintuple name a b c d e
      | [a, b, c, d, e, f] \<Rightarrow> A_Sextuple name a b c d e f
      | _ \<Rightarrow> A_Bytes name)"

function from_parsed_descriptor_recursive ::
  "nat \<Rightarrow> field list \<Rightarrow> (DispatchError, Abi \<times> field list) res" where
  "from_parsed_descriptor_recursive depth fields =
     (if depth > MAX_DEPTH
      then Err (Other ''CrossCodec::from_parsed_descriptor_recursive: max depth reached'')
      else case fields of
        [] \<Rightarrow> Err (Other ''CrossCodec::from_parsed_descriptor_recursive: no more fields'')
      | (field, name, _) # rest \<Rightarrow>
          if \<not> utf8_valid field then Err (Other ''CrossCodec::failed to stringify field descriptor'')
          else (case fixed_arity field of
            Some n \<Rightarrow>
              bind_res (parse_times (\<lambda>fs. from_parsed_descriptor_recursive (depth + 1) fs) n rest) (\<lambda>(as, rest').
                Ok (fixed_abi field name as, rest'))
          | None \<Rightarrow>
              (case composite_abi field of
                 Some mk \<Rightarrow>
                   bind_res (parse_while (\<lambda>fs. from_parsed_descriptor_recursive (depth + 1) fs)
                       (of_nat (depth + 1)) (length rest) rest) (\<lambda>(as, rest').
                     Ok (mk name as, rest'))
               | None \<Rightarrow>
                   (case scalar_abi field name of
                      Some a \<Rightarrow> Ok (a, rest)
                    | None \<Rightarrow> Err (Other
                        ''CrossCodec::failed to parse field descriptor - field not recognized'')))))"
  by pat_completeness auto
termination
  by (relation "measure (\<lambda>(depth, _). 11 - depth)") (auto simp: MAX_DEPTH_def)

declare from_parsed_descriptor_recursive.simps [simp del]

text \<open>\<open>TryFrom<Data> for Abi\<close>.\<close>

definition abi_try_from :: "Descriptor \<Rightarrow> (DispatchError, Abi) res" where
  "abi_try_from descriptor =
     bind_res (parse_descriptor_flat descriptor) (\<lambda>fields.
     bind_res (from_parsed_descriptor_recursive 0 fields) (\<lambda>(a, _). Ok a))"

end
