(* ===== verification/Abi_Recode.thy ===== *)
theory Abi_Recode
  imports Abi
begin

text \<open>
  Filling an ABI with data, looking fields up by name and recoding them between SCALE and RLP
  (\<open>types/abi/src/to_filled_abi.rs\<close>, \<open>recode.rs\<close>, \<open>recode_scale.rs\<close>, \<open>recode_rlp.rs\<close>),
  and the validation of the arguments of a side effect and of the event that confirms it
  (\<open>sfx_abi.rs\<close>).  The RLP and SCALE libraries and the 256-bit integers are outside the
  repository: their operations are the fields of \<open>codec_env\<close>.  An index out of range, an
  \<open>advance\<close> past the end and a failed \<open>expect\<close> are \<open>Panic\<close>.
\<close>

section \<open>The codec libraries\<close>

text \<open>
  \<open>rlp_items\<close> lists the raw items of an RLP list; \<open>rlp_h160_at\<close>, \<open>rlp_h256s_at\<close> and
  \<open>rlp_bytes_at\<close> are \<open>val_at\<close> and \<open>list_at\<close> on the item of the given index.  Numbers are
  encoded and decoded at a width in bytes; \<open>u256_from_be\<close> and \<open>u256_from_le\<close> have no value
  on more than 32 bytes, where the library panics.
\<close>

record codec_env =
  rlp_items :: "bytes \<Rightarrow> bytes list"
  rlp_h160_at :: "bytes \<Rightarrow> nat \<Rightarrow> bytes option"
  rlp_h256s_at :: "bytes \<Rightarrow> nat \<Rightarrow> bytes list option"
  rlp_bytes_at :: "bytes \<Rightarrow> nat \<Rightarrow> bytes option"
  rlp_encode_uint :: "nat \<Rightarrow> bytes"
  rlp_decode_uint :: "nat \<Rightarrow> bytes \<Rightarrow> nat option"
  rlp_encode_bytes :: "bytes \<Rightarrow> bytes"
  rlp_encode_list :: "bytes \<Rightarrow> bytes"
  scale_encode_uint :: "nat \<Rightarrow> nat \<Rightarrow> bytes"
  scale_decode_uint :: "nat \<Rightarrow> bytes \<Rightarrow> nat option"
  scale_decode_fixed :: "nat \<Rightarrow> bytes \<Rightarrow> bytes option"
  u256_from_be :: "bytes \<Rightarrow> nat option"
  u256_from_le :: "bytes \<Rightarrow> nat option"
  u256_to_be :: "nat \<Rightarrow> bytes"
  u256_to_le :: "nat \<Rightarrow> bytes"

section \<open>Filled descriptions\<close>

datatype FilledAbi =
    F_Struct "Name option" "FilledAbi list" byte
  | F_Enum "Name option" "FilledAbi list" byte
  | F_Event "Name option" "FilledAbi list" byte
  | F_Log "Name option" "FilledAbi list" byte
  | F_Option "Name option" FilledAbi
  | F_Bytes "Name option" bytes
  | F_Bytes4 "Name option" bytes
  | F_Account20 "Name option" bytes
  | F_Account32 "Name option" bytes
  | F_H256 "Name option" bytes
  | F_Value256 "Name option" bytes
  | F_Value128 "Name option" bytes
  | F_Value64 "Name option" bytes
  | F_Value32 "Name option" bytes
  | F_Byte "Name option" bytes
  | F_Codec "Name option" bytes
  | F_Bool "Name option" bytes
  | F_Vec "Name option" "FilledAbi list" byte
  | F_Uniple "Name option" FilledAbi
  | F_Tuple "Name option" FilledAbi FilledAbi
  | F_Triple "Name option" FilledAbi FilledAbi FilledAbi
  | F_Quadruple "Name option" FilledAbi FilledAbi FilledAbi FilledAbi
  | F_Quintuple "Name option" FilledAbi FilledAbi FilledAbi FilledAbi FilledAbi
  | F_Sextuple "Name option" FilledAbi FilledAbi FilledAbi FilledAbi FilledAbi FilledAbi

text \<open>A field matches its name with or without the mark of an indexed field.\<close>

definition matches_name :: "Name option \<Rightarrow> Name \<Rightarrow> bool" where
  "matches_name field_name by_name =
     (case field_name of
        None \<Rightarrow> False
      | Some n \<Rightarrow>
          if n = [] then False
          else if (last n = CHR ''+'' \<or> last n = CHR ''-'') \<and> butlast n = by_name then True
          else n = by_name)"

fun get_prefix_memo :: "FilledAbi \<Rightarrow> byte option" where
  "get_prefix_memo (F_Struct _ _ memo) = Some memo"
| "get_prefix_memo (F_Enum _ _ memo) = Some memo"
| "get_prefix_memo (F_Event _ _ memo) = Some memo"
| "get_prefix_memo (F_Log _ _ memo) = Some memo"
| "get_prefix_memo _ = None"

primrec get_data :: "FilledAbi \<Rightarrow> bytes" where
  "get_data (F_Struct _ flds memo) = memo # concat (map get_data flds)"
| "get_data (F_Enum _ flds memo) = memo # concat (map get_data flds)"
| "get_data (F_Event _ flds memo) = memo # concat (map get_data flds)"
| "get_data (F_Log _ flds memo) = memo # concat (map get_data flds)"
| "get_data (F_Option _ field) = (if get_data field = [] then [0] else 1 # get_data field)"
| "get_data (F_Bytes _ bs) = bs"
| "get_data (F_Bytes4 _ bs) = bs"
| "get_data (F_Account20 _ bs) = bs"
| "get_data (F_Account32 _ bs) = bs"
| "get_data (F_H256 _ bs) = bs"
| "get_data (F_Value256 _ bs) = bs"
| "get_data (F_Value128 _ bs) = bs"
| "get_data (F_Value64 _ bs) = bs"
| "get_data (F_Value32 _ bs) = bs"
| "get_data (F_Byte _ bs) = bs"
| "get_data (F_Codec _ bs) = bs"
| "get_data (F_Bool _ bs) = bs"
| "get_data (F_Vec _ flds memo) = memo # concat (map get_data flds)"
| "get_data (F_Uniple _ a) = get_data a"
| "get_data (F_Tuple _ a b) = get_data a @ get_data b"
| "get_data (F_Triple _ a b c) = get_data a @ get_data b @ get_data c"
| "get_data (F_Quadruple _ a b c d) = get_data a @ get_data b @ get_data c @ get_data d"
| "get_data (F_Quintuple _ a b c d e) =
     get_data a @ get_data b @ get_data c @ get_data d @ get_data e"
| "get_data (F_Sextuple _ a b c d e f) =
     get_data a @ get_data b @ get_data c @ get_data d @ get_data e @ get_data f"

primrec filled_get_name :: "FilledAbi \<Rightarrow> Name option" where
  "filled_get_name (F_Struct name _ _) = name"
| "filled_get_name (F_Enum name _ _) = name"
| "filled_get_name (F_Event name _ _) = name"
| "filled_get_name (F_Log name _ _) = name"
| "filled_get_name (F_Option name _) = name"
| "filled_get_name (F_Bytes name _) = name"
| "filled_get_name (F_Bytes4 name _) = name"
| "filled_get_name (F_Account20 name _) = name"
| "filled_get_name (F_Account32 name _) = name"
| "filled_get_name (F_H256 name _) = name"
| "filled_get_name (F_Value256 name _) = name"
| "filled_get_name (F_Value128 name _) = name"
| "filled_get_name (F_Value64 name _) = name"
| "filled_get_name (F_Value32 name _) = name"
| "filled_get_name (F_Byte name _) = name"
| "filled_get_name (F_Codec name _) = name"
| "filled_get_name (F_Bool name _) = name"
| "filled_get_name (F_Vec name _ _) = name"
| "filled_get_name (F_Uniple name _) = name"
| "filled_get_name (F_Tuple name _ _) = name"
| "filled_get_name (F_Triple name _ _ _) = name"
| "filled_get_name (F_Quadruple name _ _ _ _) = name"
| "filled_get_name (F_Quintuple name _ _ _ _ _) = name"
| "filled_get_name (F_Sextuple name _ _ _ _ _ _) = name"

definition or_else :: "'a option \<Rightarrow> 'a option \<Rightarrow> 'a option" where
  "or_else a b = (case a of Some x \<Rightarrow> Some x | None \<Rightarrow> b)"

text \<open>A scalar, or a composite type whose fields are searched when its own name does not match.\<close>

definition named_or :: "FilledAbi \<Rightarrow> Name \<Rightarrow> FilledAbi option \<Rightarrow> FilledAbi option" where
  "named_or abi by_name rest = (if matches_name (filled_get_name abi) by_name then Some abi else rest)"

fun get_by_name :: "FilledAbi \<Rightarrow> Name \<Rightarrow> FilledAbi option"
  and get_by_name_fields :: "FilledAbi list \<Rightarrow> Name \<Rightarrow> FilledAbi option" where
  "get_by_name (F_Struct name flds memo) n =
     named_or (F_Struct name flds memo) n (get_by_name_fields flds n)"
| "get_by_name (F_Event name flds memo) n =
     named_or (F_Event name flds memo) n (get_by_name_fields flds n)"
| "get_by_name (F_Enum name flds memo) n =
     named_or (F_Enum name flds memo) n (get_by_name_fields flds n)"
| "get_by_name (F_Log name flds memo) n =
     named_or (F_Log name flds memo) n (get_by_name_fields flds n)"
| "get_by_name (F_Option name field) n = named_or (F_Option name field) n (get_by_name field n)"
| "get_by_name (F_Vec name [] memo) n = None"
| "get_by_name (F_Vec name (x # xs) memo) n = get_by_name x n"
| "get_by_name (F_Uniple name a) n = get_by_name a n"
| "get_by_name (F_Tuple name a b) n = or_else (get_by_name a n) (get_by_name b n)"
| "get_by_name (F_Triple name a b c) n =
     or_else (get_by_name a n) (or_else (get_by_name b n) (get_by_name c n))"
| "get_by_name (F_Quadruple name a b c d) n =
     or_else (get_by_name a n) (or_else (get_by_name b n) (or_else (get_by_name c n) (get_by_name d n)))"
| "get_by_name (F_Quintuple name a b c d e) n =
     or_else (get_by_name a n) (or_else (get_by_name b n) (or_else (get_by_name c n)
       (or_else (get_by_name d n) (get_by_name e n))))"
| "get_by_name (F_Sextuple name a b c d e f) n =
     or_else (get_by_name a n) (or_else (get_by_name b n) (or_else (get_by_name c n)
       (or_else (get_by_name d n) (or_else (get_by_name e n) (get_by_name f n)))))"
| "get_by_name abi n = named_or abi n None"
| "get_by_name_fields [] n = None"
| "get_by_name_fields (x # xs) n = or_else (get_by_name x n) (get_by_name_fields xs n)"

definition named_data_or :: "FilledAbi \<Rightarrow> Name \<Rightarrow> bytes option \<Rightarrow> bytes option" where
  "named_data_or abi by_name rest =
     (if matches_name (filled_get_name abi) by_name then Some (get_data abi) else rest)"

text \<open>The data of a field: unlike \<open>get_by_name\<close> it also finds tuples by their name.\<close>

fun get_data_by_name :: "FilledAbi \<Rightarrow> Name \<Rightarrow> bytes option"
  and get_data_by_name_fields :: "FilledAbi list \<Rightarrow> Name \<Rightarrow> bytes option" where
  "get_data_by_name (F_Struct name flds memo) n =
     named_data_or (F_Struct name flds memo) n (get_data_by_name_fields flds n)"
| "get_data_by_name (F_Event name flds memo) n =
     named_data_or (F_Event name flds memo) n (get_data_by_name_fields flds n)"
| "get_data_by_name (F_Enum name flds memo) n =
     named_data_or (F_Enum name flds memo) n (get_data_by_name_fields flds n)"
| "get_data_by_name (F_Log name flds memo) n =
     named_data_or (F_Log name flds memo) n (get_data_by_name_fields flds n)"
| "get_data_by_name (F_Option name field) n =
     named_data_or (F_Option name field) n (get_data_by_name field n)"
| "get_data_by_name (F_Vec name [] memo) n = None"
| "get_data_by_name (F_Vec name (x # xs) memo) n = get_data_by_name x n"
| "get_data_by_name (F_Uniple name a) n = named_data_or (F_Uniple name a) n (get_data_by_name a n)"
| "get_data_by_name (F_Tuple name a b) n = named_data_or (F_Tuple name a b) n
     (or_else (get_data_by_name a n) (get_data_by_name b n))"
| "get_data_by_name (F_Triple name a b c) n = named_data_or (F_Triple name a b c) n
     (or_else (get_data_by_name a n) (or_else (get_data_by_name b n) (get_data_by_name c n)))"
| "get_data_by_name (F_Quadruple name a b c d) n = named_data_or (F_Quadruple name a b c d) n
     (or_else (get_data_by_name a n) (or_else (get_data_by_name b n)
       (or_else (get_data_by_name c n) (get_data_by_name d n))))"
| "get_data_by_name (F_Quintuple name a b c d e) n = named_data_or (F_Quintuple name a b c d e) n
     (or_else (get_data_by_name a n) (or_else (get_data_by_name b n) (or_else (get_data_by_name c n)
       (or_else (get_data_by_name d n) (get_data_by_name e n)))))"
| "get_data_by_name (F_Sextuple name a b c d e f) n = named_data_or (F_Sextuple name a b c d e f) n
     (or_else (get_data_by_name a n) (or_else (get_data_by_name b n) (or_else (get_data_by_name c n)
       (or_else (get_data_by_name d n) (or_else (get_data_by_name e n) (get_data_by_name f n))))))"
| "get_data_by_name abi n = named_data_or abi n None"
| "get_data_by_name_fields [] n = None"
| "get_data_by_name_fields (x # xs) n = or_else (get_data_by_name x n) (get_data_by_name_fields xs n)"

section \<open>Event logs of the EVM\<close>

record Eth2IngressEventLog =
  log_address :: bytes
  log_topics :: "bytes list"
  log_data :: bytes

text \<open>\<open>Decodable for Eth2IngressEventLog\<close>.\<close>

definition decode_event_log :: "codec_env \<Rightarrow> bytes \<Rightarrow> Eth2IngressEventLog option" where
  "decode_event_log cenv bs =
     (case rlp_h160_at cenv bs 0 of
        None \<Rightarrow> None
      | Some a \<Rightarrow>
          (case rlp_h256s_at cenv bs 1 of
             None \<Rightarrow> None
           | Some ts \<Rightarrow>
               (case rlp_bytes_at cenv bs 2 of
                  None \<Rightarrow> None
                | Some d \<Rightarrow> Some \<lparr>log_address = a, log_topics = ts, log_data = d\<rparr>)))"

definition MINIMUM_INPUT_LENGTH :: nat where "MINIMUM_INPUT_LENGTH = 32"

definition last_32b :: "bytes \<Rightarrow> bytes" where
  "last_32b xs = drop (length xs - MINIMUM_INPUT_LENGTH) xs"

text \<open>\<open>TryFrom<U256>\<close> for the smaller integers, and the integer in RLP.\<close>

definition topic_uint :: "codec_env \<Rightarrow> nat \<Rightarrow> bytes \<Rightarrow> (DispatchError, bytes) res" where
  "topic_uint cenv w bs =
     (case u256_from_be cenv bs of
        None \<Rightarrow> Panic
      | Some v \<Rightarrow>
          if v < 256 ^ w then Ok (rlp_encode_uint cenv v)
          else Err (Other ''integer overflow''))"

text \<open>The loop over a vector: each round drops the last 32 bytes.\<close>

function topics_loop :: "(bytes \<Rightarrow> (DispatchError, FilledAbi \<times> nat) res) \<Rightarrow> bytes
    \<Rightarrow> (DispatchError, FilledAbi list) res" where
  "topics_loop f xs =
     (if xs = [] then Ok []
      else bind_res (f xs) (\<lambda>(x, _).
        if length xs < MINIMUM_INPUT_LENGTH then Panic
        else bind_res (topics_loop f (take (length xs - MINIMUM_INPUT_LENGTH) xs)) (\<lambda>ys. Ok (x # ys))))"
  by pat_completeness auto
termination
  by (relation "measure (\<lambda>(_, xs). length xs)") (auto simp: MINIMUM_INPUT_LENGTH_def)

declare topics_loop.simps [simp del]

definition topic_word :: "bytes \<Rightarrow> FilledAbi \<Rightarrow> (DispatchError, FilledAbi \<times> nat) res" where
  "topic_word xs x =
     (if length xs < MINIMUM_INPUT_LENGTH
      then Err (Other ''decode_topics_as_rlp -- Invalid input length lesser than 32'')
      else Ok (x, MINIMUM_INPUT_LENGTH))"

definition topic_number :: "codec_env \<Rightarrow> nat \<Rightarrow> (bytes \<Rightarrow> FilledAbi) \<Rightarrow> bytes
    \<Rightarrow> (DispatchError, FilledAbi \<times> nat) res" where
  "topic_number cenv w mk xs =
     bind_res (topic_word xs (mk [])) (\<lambda>(_, n).
     bind_res (topic_uint cenv w (last_32b xs)) (\<lambda>v. Ok (mk v, n)))"

fun decode_topics_as_rlp :: "codec_env \<Rightarrow> Abi \<Rightarrow> bytes \<Rightarrow> (DispatchError, FilledAbi \<times> nat) res"
  and decode_topics_fields :: "codec_env \<Rightarrow> Abi list \<Rightarrow> bytes \<Rightarrow> (DispatchError, FilledAbi list) res" where
  "decode_topics_as_rlp cenv (A_Account20 name) xs = topic_word xs (F_Account20 name (drop 12 (last_32b xs)))"
| "decode_topics_as_rlp cenv (A_H256 name) xs = topic_word xs (F_H256 name (last_32b xs))"
| "decode_topics_as_rlp cenv (A_Account32 name) xs = topic_word xs (F_H256 name (last_32b xs))"
| "decode_topics_as_rlp cenv (A_Bytes name) xs = topic_word xs (F_Bytes name xs)"
| "decode_topics_as_rlp cenv (A_Bytes4 name) xs = topic_word xs (F_Bytes4 name (take 4 (last_32b xs)))"
| "decode_topics_as_rlp cenv (A_Value256 name) xs = topic_word xs (F_Value256 name (last_32b xs))"
| "decode_topics_as_rlp cenv (A_Value128 name) xs = topic_number cenv 16 (F_Value128 name) xs"
| "decode_topics_as_rlp cenv (A_Value64 name) xs = topic_number cenv 8 (F_Value64 name) xs"
| "decode_topics_as_rlp cenv (A_Value32 name) xs = topic_number cenv 4 (F_Value32 name) xs"
| "decode_topics_as_rlp cenv (A_Byte name) xs = topic_word xs (F_Byte name (drop 31 (last_32b xs)))"
| "decode_topics_as_rlp cenv (A_Bool name) xs = topic_word xs (F_Byte name (drop 31 (last_32b xs)))"
| "decode_topics_as_rlp cenv (A_Tuple name a b) xs =
     bind_res (topic_word xs (F_Bytes name xs)) (\<lambda>_.
     bind_res (decode_topics_as_rlp cenv b xs) (\<lambda>(y, ny).
     if length xs < ny then Err (Other ''decode_topics_as_rlp -- Invalid input length for Tuple'')
     else bind_res (decode_topics_as_rlp cenv a (take ny xs)) (\<lambda>(x, nx). Ok (F_Tuple name x y, ny + nx))))"
| "decode_topics_as_rlp cenv (A_Vec name a) xs =
     bind_res (topic_word xs (F_Bytes name xs)) (\<lambda>_.
     bind_res (topics_loop (\<lambda>ys. decode_topics_as_rlp cenv a ys) xs) (\<lambda>zs.
       Ok (F_Vec name zs 0, MINIMUM_INPUT_LENGTH * length zs)))"
| "decode_topics_as_rlp cenv (A_Option name a) xs =
     bind_res (topic_word xs (F_Bytes name xs)) (\<lambda>(_, n).
     bind_res (decode_topics_as_rlp cenv a xs) (\<lambda>(x, _). Ok (F_Option name x, n)))"
| "decode_topics_as_rlp cenv (A_Struct name flds) xs =
     bind_res (topic_word xs (F_Bytes name xs)) (\<lambda>_.
     bind_res (decode_topics_fields cenv flds xs) (\<lambda>zs.
       Ok (F_Struct name zs 0, MINIMUM_INPUT_LENGTH * length zs)))"
| "decode_topics_as_rlp cenv _ xs = bind_res (topic_word xs (F_Bytes None xs)) (\<lambda>_. Panic)"
| "decode_topics_fields cenv [] xs = Ok []"
| "decode_topics_fields cenv (a # as) xs =
     bind_res (decode_topics_as_rlp cenv a xs) (\<lambda>(x, _).
       if length xs < MINIMUM_INPUT_LENGTH then Panic
       else bind_res (decode_topics_fields cenv as (take (length xs - MINIMUM_INPUT_LENGTH) xs)) (\<lambda>ys.
         Ok (x # ys)))"

text \<open>
  \<open>Vec::truncate(len - n)\<close>: the subtraction wraps around when more than the whole was taken,
  and a bound above the length truncates nothing.
\<close>

definition truncate_by :: "nat \<Rightarrow> bytes \<Rightarrow> bytes" where
  "truncate_by n xs = (if n \<le> length xs then take (length xs - n) xs else xs)"

text \<open>The fields from the last to the first; indexed ones from the topics, the others from the data.\<close>

fun log_fields :: "codec_env \<Rightarrow> Abi list \<Rightarrow> bytes \<Rightarrow> bytes \<Rightarrow> (DispatchError, FilledAbi list \<times> nat) res" where
  "log_fields cenv [] flat_topics flat_data = Ok ([], 0)"
| "log_fields cenv (a # as) flat_topics flat_data =
     (let name = (case abi_get_name a of Some n \<Rightarrow> n | None \<Rightarrow> ''+'')
      in if name \<noteq> [] \<and> last name = CHR ''+''
         then bind_res (decode_topics_as_rlp cenv a flat_topics) (\<lambda>(x, n).
              bind_res (log_fields cenv as (truncate_by n flat_topics) flat_data) (\<lambda>(xs, total_size).
                Ok (x # xs, n + total_size)))
         else bind_res (decode_topics_as_rlp cenv a flat_data) (\<lambda>(x, n).
              bind_res (log_fields cenv as flat_topics (truncate_by n flat_data)) (\<lambda>(xs, total_size).
                Ok (x # xs, n + total_size))))"

text \<open>\<open>RecodeRlp::event_to_filled\<close>: the first topic is skipped, and so is the address.\<close>

definition rlp_event_to_filled :: "codec_env \<Rightarrow> bytes \<Rightarrow> Name option \<Rightarrow> Abi list
    \<Rightarrow> (DispatchError, FilledAbi \<times> nat) res" where
  "rlp_event_to_filled cenv field_data name flds =
     (case decode_event_log cenv field_data of
        None \<Rightarrow> Err (Other ''Eth2IngressEventLog::decode can't be derived with provided data'')
      | Some l \<Rightarrow>
          bind_res (log_fields cenv (rev flds) (concat (drop 1 (log_topics l))) (log_data l))
            (\<lambda>(xs, total_size). Ok (F_Log name (rev xs) 0, total_size)))"

section \<open>Filling an ABI\<close>

text \<open>\<open>RecodeScale::chop_encoded\<close>: a prefix byte, then the fields by their sizes.\<close>

fun chop_fields :: "Abi list \<Rightarrow> bytes \<Rightarrow> (DispatchError, bytes list) res" where
  "chop_fields [] xs = Ok []"
| "chop_fields (a # as) xs =
     (if length xs < get_size a
      then Err (Other ''RecodeScale::chop_encoded - not enough data to decode'')
      else bind_res (chop_fields as (drop (get_size a) xs)) (\<lambda>ys. Ok (take (get_size a) xs # ys)))"

definition scale_chop_encoded :: "bytes \<Rightarrow> Abi list \<Rightarrow> (DispatchError, bytes list \<times> byte) res" where
  "scale_chop_encoded field_data flds =
     (case field_data of
        [] \<Rightarrow> Err (Other ''RecodeScale::chop_encoded - no data to decode'')
      | memo # rest \<Rightarrow> bind_res (chop_fields flds rest) (\<lambda>ys. Ok (ys, memo)))"

definition rlp_chop_encoded :: "codec_env \<Rightarrow> bytes \<Rightarrow> (DispatchError, bytes list \<times> byte) res" where
  "rlp_chop_encoded cenv field_data =
     (case field_data of
        [] \<Rightarrow> Err (Other ''RecodeRlp::chop_encoded - memo byte cannot be empty for RLP structs'')
      | memo # _ \<Rightarrow> Ok (rlp_items cenv field_data, memo))"

definition chop_encoded :: "codec_env \<Rightarrow> Codec \<Rightarrow> bytes \<Rightarrow> Abi list \<Rightarrow> (DispatchError, bytes list \<times> byte) res" where
  "chop_encoded cenv codec field_data flds =
     (case codec of
        Scale \<Rightarrow> scale_chop_encoded field_data flds
      | Rlp \<Rightarrow> rlp_chop_encoded cenv field_data)"

text \<open>\<open>ensure_vector_and_trim_prefix\<close> in the case the code reaches, SCALE.\<close>

definition ensure_vector_and_trim_prefix :: "bytes \<Rightarrow> (DispatchError, bytes) res" where
  "ensure_vector_and_trim_prefix xs =
     (case xs of
        [] \<Rightarrow> Panic
      | _ # rest \<Rightarrow> if rest = [] then Err (Other ''recode_as_vector::Scale::InvalidDataSize'') else Ok rest)"

text \<open>
  The loop over the elements of a vector.  A round that consumes nothing repeats, with a growing
  vector, until the memory is exhausted.
\<close>

function vec_loop :: "(bytes \<Rightarrow> (DispatchError, FilledAbi \<times> nat) res) \<Rightarrow> nat \<Rightarrow> bytes \<Rightarrow> nat
    \<Rightarrow> (DispatchError, FilledAbi list) res" where
  "vec_loop f m xs offset =
     (if offset + m \<le> length xs
      then bind_res (f (take m (drop offset xs))) (\<lambda>(x, n).
        if n = 0 then Panic
        else bind_res (vec_loop f m xs (offset + n)) (\<lambda>ys. Ok (x # ys)))
      else Ok [])"
  by pat_completeness auto
termination
  by (relation "measure (\<lambda>(_, m, xs, offset). Suc (length xs) - (offset + m))") auto

declare vec_loop.simps [simp del]

text \<open>Tuples: each component gets what the ones before it left; \<open>Panic\<close> past the end.\<close>

fun fill_seq :: "(bytes \<Rightarrow> (DispatchError, FilledAbi \<times> nat) res) list \<Rightarrow> bytes \<Rightarrow> nat
    \<Rightarrow> (DispatchError, FilledAbi list \<times> nat) res" where
  "fill_seq [] xs offset = Ok ([], offset)"
| "fill_seq (f # fs) xs offset =
     (if length xs < offset then Panic
      else bind_res (f (drop offset xs)) (\<lambda>(x, n).
           bind_res (fill_seq fs xs (offset + n)) (\<lambda>(ys, total_size). Ok (x # ys, total_size))))"

definition tuple_of :: "Name option \<Rightarrow> FilledAbi list \<Rightarrow> FilledAbi" where
  "tuple_of name xs =
     (case xs of
        [a, b] \<Rightarrow> F_Tuple name a b
      | [a, b, c] \<Rightarrow> F_Triple name a b c
      | [a, b, c, d] \<Rightarrow> F_Quadruple name a b c d
      | [a, b, c, d, e] \<Rightarrow> F_Quintuple name a b c d e
      | [a, b, c, d, e, f] \<Rightarrow> F_Sextuple name a b c d e f
      | [a] \<Rightarrow> F_Uniple name a
      | _ \<Rightarrow> F_Vec name xs 0)"

text \<open>An account of 20 or 32 bytes, possibly with one byte in front.\<close>

definition strip_memo :: "nat \<Rightarrow> bytes \<Rightarrow> bytes" where
  "strip_memo n xs = (if length xs = n + 1 then drop 1 xs else xs)"

definition first_byte :: "string \<Rightarrow> (bytes \<Rightarrow> FilledAbi) \<Rightarrow> bytes \<Rightarrow> (DispatchError, FilledAbi \<times> nat) res" where
  "first_byte msg mk xs = (case xs of [] \<Rightarrow> Err (Other msg) | x # _ \<Rightarrow> Ok (mk [x], 1))"

fun recursive_fill_abi :: "codec_env \<Rightarrow> Codec \<Rightarrow> Abi \<Rightarrow> bytes \<Rightarrow> (DispatchError, FilledAbi \<times> nat) res"
  and fill_fields :: "codec_env \<Rightarrow> Codec \<Rightarrow> Abi list \<Rightarrow> bytes list \<Rightarrow> (DispatchError, FilledAbi list \<times> nat) res"
  and fill_variant :: "codec_env \<Rightarrow> Codec \<Rightarrow> Abi list \<Rightarrow> nat \<Rightarrow> bytes \<Rightarrow> (DispatchError, FilledAbi \<times> nat) res" where
  "recursive_fill_abi cenv codec (A_Log name flds) xs =
     (case codec of
        Rlp \<Rightarrow> rlp_event_to_filled cenv xs name flds
      | Scale \<Rightarrow>
          (case xs of
             [] \<Rightarrow> Err (Other ''FilledAbi::Enum - Not enough data'')
           | i # rest \<Rightarrow> fill_variant cenv codec flds (unat i) rest))"
| "recursive_fill_abi cenv codec (A_Struct name flds) xs =
     bind_res (chop_encoded cenv codec xs flds) (\<lambda>(chunks, memo).
     bind_res (fill_fields cenv codec flds chunks) (\<lambda>(ys, n). Ok (F_Struct name ys memo, n)))"
| "recursive_fill_abi cenv codec (A_Event name flds) xs =
     bind_res (chop_encoded cenv codec xs flds) (\<lambda>(chunks, memo).
     bind_res (fill_fields cenv codec flds chunks) (\<lambda>(ys, n). Ok (F_Struct name ys memo, n)))"
| "recursive_fill_abi cenv codec (A_Enum name flds) xs =
     (case xs of
        [] \<Rightarrow> Err (Other ''FilledAbi::Enum - Not enough data'')
      | i # rest \<Rightarrow> fill_variant cenv codec flds (unat i) rest)"
| "recursive_fill_abi cenv codec (A_Option name a) xs =
     (case xs of
        [] \<Rightarrow> Panic
      | _ # rest \<Rightarrow> bind_res (recursive_fill_abi cenv codec a rest) (\<lambda>(x, n). Ok (F_Option name x, n + 1)))"
| "recursive_fill_abi cenv codec (A_Bytes name) xs = Ok (F_Bytes name xs, length xs)"
| "recursive_fill_abi cenv codec (A_Account20 name) xs =
     (if length (strip_memo 20 xs) = 20 then Ok (F_Account20 name (strip_memo 20 xs), 20)
      else Err (Other ''Account20::InvalidDataSize: expected 20 bytes''))"
| "recursive_fill_abi cenv codec (A_Account32 name) xs =
     (if length (strip_memo 32 xs) = 32 then Ok (F_Account32 name (strip_memo 32 xs), length xs)
      else Err (Other ''Account20::InvalidDataSize: expected 20 bytes''))"
| "recursive_fill_abi cenv codec (A_H256 name) xs =
     (if length xs < 32 then Err (Other ''H256/Account32::InvalidDataSize: expected 32 bytes'')
      else Ok (F_H256 name (take 32 xs), 32))"
| "recursive_fill_abi cenv codec (A_Value256 name) xs = Ok (F_Value256 name xs, length xs)"
| "recursive_fill_abi cenv codec (A_Value128 name) xs = Ok (F_Value128 name xs, length xs)"
| "recursive_fill_abi cenv codec (A_Value64 name) xs = Ok (F_Value64 name xs, length xs)"
| "recursive_fill_abi cenv codec (A_Value32 name) xs = Ok (F_Value32 name xs, length xs)"
| "recursive_fill_abi cenv codec (A_Bytes4 name) xs =
     (if length xs < 4 then Panic else Ok (F_Bytes4 name (take 4 xs), 4))"
| "recursive_fill_abi cenv codec (A_Byte name) xs = first_byte ''Byte::InvalidDataSize'' (F_Byte name) xs"
| "recursive_fill_abi cenv codec (A_Bool name) xs = first_byte ''Bool::InvalidDataSize'' (F_Bool name) xs"
| "recursive_fill_abi cenv codec (A_Codec name) xs = first_byte ''Codec::InvalidDataSize'' (F_Codec name) xs"
| "recursive_fill_abi cenv codec (A_Vec name a) xs =
     (if codec = Rlp
      then Err (Other ''Abi::Vec::NotImplemented for RLP - undeterministc size of vec items with RLP makes it diff to predict the size'')
      else bind_res (ensure_vector_and_trim_prefix xs) (\<lambda>ys.
           bind_res (vec_loop (\<lambda>zs. recursive_fill_abi cenv codec a zs) (get_size a) ys 0) (\<lambda>fs.
             Ok (F_Vec name fs 0, length ys))))"
| "recursive_fill_abi cenv codec (A_Uniple name a) xs =
     bind_res (recursive_fill_abi cenv codec a xs) (\<lambda>(x, n). Ok (F_Uniple name x, n))"
| "recursive_fill_abi cenv codec (A_Tuple name a b) xs =
     bind_res (fill_seq [\<lambda>ys. recursive_fill_abi cenv codec a ys, \<lambda>ys. recursive_fill_abi cenv codec b ys] xs 0)
       (\<lambda>(fs, n). Ok (tuple_of name fs, n))"
| "recursive_fill_abi cenv codec (A_Triple name a b c) xs =
     bind_res (fill_seq [\<lambda>ys. recursive_fill_abi cenv codec a ys, \<lambda>ys. recursive_fill_abi cenv codec b ys,
         \<lambda>ys. recursive_fill_abi cenv codec c ys] xs 0)
       (\<lambda>(fs, n). Ok (tuple_of name fs, n))"
| "recursive_fill_abi cenv codec (A_Quadruple name a b c d) xs =
     bind_res (fill_seq [\<lambda>ys. recursive_fill_abi cenv codec a ys, \<lambda>ys. recursive_fill_abi cenv codec b ys,
         \<lambda>ys. recursive_fill_abi cenv codec c ys, \<lambda>ys. recursive_fill_abi cenv codec d ys] xs 0)
       (\<lambda>(fs, n). Ok (tuple_of name fs, n))"
| "recursive_fill_abi cenv codec (A_Quintuple name a b c d e) xs =
     bind_res (fill_seq [\<lambda>ys. recursive_fill_abi cenv codec a ys, \<lambda>ys. recursive_fill_abi cenv codec b ys,
         \<lambda>ys. recursive_fill_abi cenv codec c ys, \<lambda>ys. recursive_fill_abi cenv codec d ys,
         \<lambda>ys. recursive_fill_abi cenv codec e ys] xs 0)
       (\<lambda>(fs, n). Ok (tuple_of name fs, n))"
| "recursive_fill_abi cenv codec (A_Sextuple name a b c d e f) xs =
     bind_res (fill_seq [\<lambda>ys. recursive_fill_abi cenv codec a ys, \<lambda>ys. recursive_fill_abi cenv codec b ys,
         \<lambda>ys. recursive_fill_abi cenv codec c ys, \<lambda>ys. recursive_fill_abi cenv codec d ys,
         \<lambda>ys. recursive_fill_abi cenv codec e ys, \<lambda>ys. recursive_fill_abi cenv codec f ys] xs 0)
       (\<lambda>(fs, n). Ok (tuple_of name fs, n))"
| "fill_fields cenv codec [] chunks = Ok ([], 0)"
| "fill_fields cenv codec (a # as) chunks =
     (case chunks of
        [] \<Rightarrow> Err (Other ''Abi::Struct - Not enough data'')
      | c # cs \<Rightarrow>
          bind_res (recursive_fill_abi cenv codec a c) (\<lambda>(x, n).
          bind_res (fill_fields cenv codec as cs) (\<lambda>(xs, total_size). Ok (x # xs, n + total_size))))"
| "fill_variant cenv codec [] i xs = Err (Other ''FilledAbi::Enum - Invalid data'')"
| "fill_variant cenv codec (a # as) i xs =
     (if i = 0 then recursive_fill_abi cenv codec a xs else fill_variant cenv codec as (i - 1) xs)"

definition try_fill_abi :: "codec_env \<Rightarrow> Abi \<Rightarrow> bytes \<Rightarrow> Codec \<Rightarrow> (DispatchError, FilledAbi) res" where
  "try_fill_abi cenv abi xs codec = bind_res (recursive_fill_abi cenv codec abi xs) (\<lambda>(x, _). Ok x)"

end
