(* ===== verification/Sfx_Abi.thy ===== *)
theory Sfx_Abi
  imports Abi_Recode Sfx_Types
begin

text \<open>
  Recoding a filled ABI (\<open>FilledAbi::recode_as\<close>, \<open>types/abi/src/recode.rs\<close>), the ABI of a side
  effect (\<open>sfx_abi.rs\<close>) with the validation of its arguments and of the event that confirms it,
  the standard ABIs (\<open>standard.rs\<close>), and \<open>SideEffect::validate\<close> and \<open>confirm\<close>.
\<close>

section \<open>Recoding\<close>

text \<open>A list of recoded fields, and the wrapping that SCALE and RLP give to tuples and vectors.\<close>

definition recode_list :: "codec_env \<Rightarrow> Codec \<Rightarrow> bytes \<Rightarrow> bytes" where
  "recode_list cenv out_codec bs = (case out_codec of Scale \<Rightarrow> bs | Rlp \<Rightarrow> rlp_encode_list cenv bs)"

definition recode_composite :: "Codec \<Rightarrow> Codec \<Rightarrow> byte \<Rightarrow> bytes \<Rightarrow> bytes" where
  "recode_composite in_codec out_codec memo bs = (if in_codec = out_codec then bs else memo # bs)"

definition recode_uint ::
  "codec_env \<Rightarrow> nat \<Rightarrow> string \<Rightarrow> string \<Rightarrow> Codec \<Rightarrow> Codec \<Rightarrow> bool \<Rightarrow> bytes \<Rightarrow> (DispatchError, bytes) res" where
  "recode_uint cenv w msg_scale msg_rlp in_codec out_codec wide bs =
     (case (in_codec, out_codec) of
        (Scale, Rlp) \<Rightarrow>
          bind_res (ok_or (Other msg_scale) (scale_decode_uint cenv w bs)) (\<lambda>v. Ok (rlp_encode_uint cenv v))
      | (Rlp, Scale) \<Rightarrow>
          bind_res (ok_or (Other msg_rlp) (rlp_decode_uint cenv w bs)) (\<lambda>v.
            Ok (scale_encode_uint cenv (if wide then 16 else w) v))
      | _ \<Rightarrow> Ok bs)"

definition recode_account32 :: "codec_env \<Rightarrow> Codec \<Rightarrow> Codec \<Rightarrow> bytes \<Rightarrow> (DispatchError, bytes) res" where
  "recode_account32 cenv in_codec out_codec bs =
     (if in_codec = out_codec then Ok bs
      else bind_res (ok_or (Other ''Account32 error at recoding back to Scale'') (scale_decode_fixed cenv 32 bs))
        (\<lambda>a. Ok (if out_codec = Rlp then rlp_encode_bytes cenv a else a)))"

definition recode_account20 :: "codec_env \<Rightarrow> Codec \<Rightarrow> Codec \<Rightarrow> bool \<Rightarrow> bytes \<Rightarrow> (DispatchError, bytes) res" where
  "recode_account20 cenv in_codec out_codec wide bs =
     (case (in_codec, out_codec) of
        (Scale, Rlp) \<Rightarrow>
          bind_res (ok_or (Other ''Account20 error at recoding back to Scale'') (scale_decode_fixed cenv 20 bs))
            (\<lambda>a. Ok (rlp_encode_bytes cenv a))
      | (Rlp, Scale) \<Rightarrow>
          if length bs \<noteq> 20 then Err (Other ''RLP encoded account should be 20 bytes long'')
          else Ok (if wide then replicate 12 0 @ bs else bs)
      | _ \<Rightarrow> Ok bs)"

definition recode_bytes4 :: "codec_env \<Rightarrow> Codec \<Rightarrow> Codec \<Rightarrow> bytes \<Rightarrow> (DispatchError, bytes) res" where
  "recode_bytes4 cenv in_codec out_codec bs =
     (if in_codec = out_codec then Ok bs
      else if length bs < 4 then Panic
      else Ok (if out_codec = Rlp then rlp_encode_bytes cenv (drop (length bs - 4) bs) else take 4 bs))"

text \<open>\<open>U256::as_u128\<close> panics on a larger value.\<close>

definition recode_value256 :: "codec_env \<Rightarrow> Codec \<Rightarrow> Codec \<Rightarrow> bool \<Rightarrow> bytes \<Rightarrow> (DispatchError, bytes) res" where
  "recode_value256 cenv in_codec out_codec wide bs =
     (case (in_codec, out_codec) of
        (Scale, Rlp) \<Rightarrow> (case u256_from_le cenv bs of None \<Rightarrow> Panic | Some v \<Rightarrow> Ok (u256_to_be cenv v))
      | (Rlp, Scale) \<Rightarrow>
          (case u256_from_be cenv bs of
             None \<Rightarrow> Panic
           | Some v \<Rightarrow>
               if wide then (if v < 2 ^ 128 then Ok (scale_encode_uint cenv 16 v) else Panic)
               else Ok (u256_to_le cenv v))
      | _ \<Rightarrow> Ok bs)"

fun recode_as :: "codec_env \<Rightarrow> Codec \<Rightarrow> Codec \<Rightarrow> bool \<Rightarrow> FilledAbi \<Rightarrow> (DispatchError, bytes) res"
  and recode_fields :: "codec_env \<Rightarrow> Codec \<Rightarrow> Codec \<Rightarrow> bool \<Rightarrow> FilledAbi list \<Rightarrow> (DispatchError, bytes) res" where
  "recode_as cenv i out w (F_Struct name flds memo) =
     bind_res (recode_fields cenv i out w flds) (\<lambda>bs. Ok (recode_composite i out memo bs))"
| "recode_as cenv i out w (F_Event name flds memo) =
     bind_res (recode_fields cenv i out w flds) (\<lambda>bs. Ok (recode_composite i out memo bs))"
| "recode_as cenv i out w (F_Enum name flds memo) =
     bind_res (recode_fields cenv i out w flds) (\<lambda>bs. Ok (recode_composite i out memo bs))"
| "recode_as cenv i out w (F_Log name flds memo) =
     bind_res (recode_fields cenv i out w flds) (\<lambda>bs. Ok (recode_composite i out memo bs))"
| "recode_as cenv i out w (F_Option name a) =
     bind_res (recode_as cenv i out w a) (\<lambda>bs.
       Ok (case out of Scale \<Rightarrow> (if bs = [] then [0] else 1 # bs) | Rlp \<Rightarrow> 0xc3 # bs))"
| "recode_as cenv i out w (F_Tuple name a b) =
     bind_res (recode_as cenv i out w a) (\<lambda>xa. bind_res (recode_as cenv i out w b) (\<lambda>xb.
       Ok (recode_list cenv out (xa @ xb))))"
| "recode_as cenv i out w (F_Triple name a b c) =
     bind_res (recode_as cenv i out w a) (\<lambda>xa. bind_res (recode_as cenv i out w b) (\<lambda>xb.
     bind_res (recode_as cenv i out w c) (\<lambda>xc. Ok (recode_list cenv out (xa @ xb @ xc)))))"
| "recode_as cenv i out w (F_Quadruple name a b c d) =
     bind_res (recode_as cenv i out w a) (\<lambda>xa. bind_res (recode_as cenv i out w b) (\<lambda>xb.
     bind_res (recode_as cenv i out w c) (\<lambda>xc. bind_res (recode_as cenv i out w d) (\<lambda>xd.
       Ok (recode_list cenv out (xa @ xb @ xc @ xd))))))"
| "recode_as cenv i out w (F_Quintuple name a b c d e) =
     bind_res (recode_as cenv i out w a) (\<lambda>xa. bind_res (recode_as cenv i out w b) (\<lambda>xb.
     bind_res (recode_as cenv i out w c) (\<lambda>xc. bind_res (recode_as cenv i out w d) (\<lambda>xd.
     bind_res (recode_as cenv i out w e) (\<lambda>xe. Ok (recode_list cenv out (xa @ xb @ xc @ xd @ xe)))))))"
| "recode_as cenv i out w (F_Sextuple name a b c d e f) =
     bind_res (recode_as cenv i out w a) (\<lambda>xa. bind_res (recode_as cenv i out w b) (\<lambda>xb.
     bind_res (recode_as cenv i out w c) (\<lambda>xc. bind_res (recode_as cenv i out w d) (\<lambda>xd.
     bind_res (recode_as cenv i out w e) (\<lambda>xe. bind_res (recode_as cenv i out w f) (\<lambda>xf.
       Ok (recode_list cenv out (xa @ xb @ xc @ xd @ xe @ xf))))))))"
| "recode_as cenv i out w (F_Bytes name bs) = Ok bs"
| "recode_as cenv i out w (F_Vec name flds memo) =
     bind_res (recode_fields cenv i out w flds) (\<lambda>bs. Ok (recode_list cenv out bs))"
| "recode_as cenv i out w (F_Bytes4 name bs) = recode_bytes4 cenv i out bs"
| "recode_as cenv i out w (F_Codec name bs) = Ok bs"
| "recode_as cenv i out w (F_Byte name bs) = Ok bs"
| "recode_as cenv i out w (F_Bool name bs) = Ok bs"
| "recode_as cenv i out w (F_H256 name bs) = recode_account32 cenv i out bs"
| "recode_as cenv i out w (F_Account32 name bs) = recode_account32 cenv i out bs"
| "recode_as cenv i out w (F_Account20 name bs) = recode_account20 cenv i out w bs"
| "recode_as cenv i out w (F_Value32 name bs) =
     recode_uint cenv 4 ''Recode::recode_as failed to decode Value32 from Scale''
       ''Recode::recode_as failed to decode Value32 from Scale'' i out w bs"
| "recode_as cenv i out w (F_Value64 name bs) =
     recode_uint cenv 8 ''Recode::recode_as failed to decode Value64 from Scale''
       ''Recode::recode_as failed to decode Value64 from Rlp'' i out w bs"
| "recode_as cenv i out w (F_Value128 name bs) =
     recode_uint cenv 16 ''Recode::recode_as failed to decode Value128 from Scale''
       ''Recode::recode_as failed to decode Value128 Scale from Rlp'' i out w bs"
| "recode_as cenv i out w (F_Value256 name bs) = recode_value256 cenv i out w bs"
| "recode_as cenv i out w (F_Uniple name a) =
     Err (Other ''Recoding filled ABI not implemented for this type'')"
| "recode_fields cenv i out w [] = Ok []"
| "recode_fields cenv i out w (x # xs) =
     bind_res (recode_as cenv i out w x) (\<lambda>bs.
     bind_res (recode_fields cenv i out w xs) (\<lambda>rest. Ok (bs @ rest)))"

definition recode_bytes_with_descriptor ::
  "codec_env \<Rightarrow> bytes \<Rightarrow> Descriptor \<Rightarrow> Codec \<Rightarrow> Codec \<Rightarrow> (DispatchError, bytes) res" where
  "recode_bytes_with_descriptor cenv encoded_bytes abi_descriptor in_codec out_codec =
     bind_res (abi_try_from abi_descriptor) (\<lambda>abi.
     bind_res (try_fill_abi cenv abi encoded_bytes in_codec) (\<lambda>filled_abi.
       recode_as cenv in_codec out_codec False filled_abi))"

section \<open>The ABI of a side effect\<close>

record PerCodecAbiDescriptors =
  for_rlp :: Descriptor
  for_scale :: Descriptor

record SFXAbi =
  args_names :: "(Name \<times> bool) list"
  maybe_prefix_memo :: "byte option"
  egress_abi_descriptors :: PerCodecAbiDescriptors
  ingress_abi_descriptors :: PerCodecAbiDescriptors

definition set_prefix_memo :: "byte \<Rightarrow> SFXAbi \<Rightarrow> SFXAbi" where
  "set_prefix_memo memo abi = abi\<lparr>maybe_prefix_memo := Some memo\<rparr>"

definition get_expected_ingress_descriptor :: "SFXAbi \<Rightarrow> Codec \<Rightarrow> Descriptor" where
  "get_expected_ingress_descriptor abi codec =
     (case codec of Scale \<Rightarrow> for_scale (ingress_abi_descriptors abi) | Rlp \<Rightarrow> for_rlp (ingress_abi_descriptors abi))"

definition get_expected_egress_descriptor :: "SFXAbi \<Rightarrow> Codec \<Rightarrow> Descriptor" where
  "get_expected_egress_descriptor abi codec =
     (case codec of Scale \<Rightarrow> for_scale (egress_abi_descriptors abi) | Rlp \<Rightarrow> for_rlp (egress_abi_descriptors abi))"

definition ensure_arguments_order :: "SFXAbi \<Rightarrow> bytes list \<Rightarrow> (DispatchError, unit) res" where
  "ensure_arguments_order abi ordered_args =
     (if length ordered_args \<noteq> length (args_names abi)
      then Err (Other ''SFXAbi::ensure args order - Invalid number of arguments'')
      else if list_ex (\<lambda>(arg, _, required). required \<and> arg = []) (zip ordered_args (args_names abi))
      then Err (Other ''SFXAbi::ensure args order - Invalid argument'')
      else Ok ())"

definition validate_ordered_arguments ::
  "codec_env \<Rightarrow> SFXAbi \<Rightarrow> bytes list \<Rightarrow> Codec \<Rightarrow> (DispatchError, FilledAbi) res" where
  "validate_ordered_arguments cenv sfx_abi ordered_args codec =
     bind_res (ensure_arguments_order sfx_abi ordered_args) (\<lambda>_.
     bind_res (abi_try_from (get_expected_egress_descriptor sfx_abi codec)) (\<lambda>abi.
       try_fill_abi cenv abi
         ((case maybe_prefix_memo sfx_abi of Some memo \<Rightarrow> [memo] | None \<Rightarrow> []) @ concat ordered_args) codec))"

text \<open>One round of the loop over the arguments: the named field of the payload, recoded, is the argument.\<close>

definition check_argument ::
  "codec_env \<Rightarrow> FilledAbi \<Rightarrow> Codec \<Rightarrow> Codec \<Rightarrow> bytes \<times> Name \<times> bool \<Rightarrow> unit \<Rightarrow> (DispatchError, unit) res" where
  "check_argument cenv filled args_codec payload_codec = (\<lambda>(ordered_arg, name, is_to_verify) _.
     if \<not> utf8_valid name
     then Err (Other ''CrossCodec::failed to stringify current_arg_name_str, it's useful for debug message'')
     else if \<not> is_to_verify then Ok ()
     else bind_res (ok_or (Other ''SFXAbi::Cannot find payload argument by name'') (get_by_name filled name)) (\<lambda>found.
          bind_res (recode_as cenv payload_codec args_codec True found) (\<lambda>recoded_payload.
            if recoded_payload = ordered_arg then Ok ()
            else Err (Other
              ''SFXAbi::invalid payload argument for -- expected: doesn't match received and recoded''))))"

definition validate_arguments_against_received ::
  "codec_env \<Rightarrow> SFXAbi \<Rightarrow> bytes list \<Rightarrow> bytes \<Rightarrow> Codec \<Rightarrow> Codec \<Rightarrow> (DispatchError, unit) res" where
  "validate_arguments_against_received cenv sfx_abi ordered_args received_payload args_codec payload_codec =
     bind_res (ensure_arguments_order sfx_abi ordered_args) (\<lambda>_.
     bind_res (abi_try_from (get_expected_ingress_descriptor sfx_abi payload_codec)) (\<lambda>abi.
     bind_res (try_fill_abi cenv abi received_payload payload_codec) (\<lambda>filled.
       if payload_codec \<noteq> Rlp \<and> maybe_prefix_memo sfx_abi \<noteq> None
          \<and> get_prefix_memo filled \<noteq> maybe_prefix_memo sfx_abi
       then Err (Other ''SFXAbi::invalid prefix memo for -- expected: doesn't match received'')
       else fold_res (check_argument cenv filled args_codec payload_codec)
              (zip ordered_args (args_names sfx_abi)) ())))"

text \<open>\<open>SideEffect::validate\<close> and \<open>SideEffect::confirm\<close>.\<close>

definition sfx_validate :: "codec_env \<Rightarrow> SideEffect \<Rightarrow> SFXAbi \<Rightarrow> Codec \<Rightarrow> (DispatchError, unit) res" where
  "sfx_validate cenv sfx sfx_abi egress_codec =
     bind_res (validate_ordered_arguments cenv sfx_abi (encoded_args sfx) egress_codec) (\<lambda>_. Ok ())"

definition sfx_confirm :: "codec_env \<Rightarrow> SideEffect \<Rightarrow> SFXAbi \<Rightarrow> bytes \<Rightarrow> Codec \<Rightarrow> Codec \<Rightarrow> (DispatchError, unit) res" where
  "sfx_confirm cenv sfx sfx_abi ingress_payload egress_codec ingress_codec =
     validate_arguments_against_received cenv sfx_abi (encoded_args sfx) ingress_payload egress_codec ingress_codec"

section \<open>The standard ABIs\<close>

definition mk_abi :: "(Name \<times> bool) list \<Rightarrow> Descriptor \<Rightarrow> Descriptor \<Rightarrow> Descriptor \<Rightarrow> Descriptor \<Rightarrow> SFXAbi" where
  "mk_abi names ingress_rlp ingress_scale egress_rlp egress_scale =
     \<lparr>args_names = names, maybe_prefix_memo = None,
      egress_abi_descriptors = \<lparr>for_rlp = egress_rlp, for_scale = egress_scale\<rparr>,
      ingress_abi_descriptors = \<lparr>for_rlp = ingress_rlp, for_scale = ingress_scale\<rparr>\<rparr>"

definition get_dynamic_destination_deal_abi :: SFXAbi where
  "get_dynamic_destination_deal_abi =
     mk_abi [(''asset_id'', True), (''amount'', True)]
       '''' ''''
       ''DynamicDestinationDeal:Tuple(asset_id+:Value32,amount+:Value256)''
       ''DynamicDestinationDeal:Tuple(asset_id:Value32,amount:Value128)''"

definition get_sfx_transfer_abi :: SFXAbi where
  "get_sfx_transfer_abi =
     mk_abi [(''to'', True), (''amount'', True)]
       ''Transfer:Log(from+:Account20,to+:Account20,amount+:Value256)''
       ''Balances:Struct(Transfer:Event(from:Account32,to:Account32,amount:Value128))''
       ''Transfer:Struct(to+:Account20,amount+:Value256)''
       ''Transfer:Struct(to:Account32,amount:Value128)''"

definition get_sfx_transfer_asset_abi :: SFXAbi where
  "get_sfx_transfer_asset_abi =
     mk_abi [(''asset_id'', False), (''to'', True), (''amount'', True)]
       ''Transfer:Log(from+:Account20,to+:Account20,amount:Value256)''
       ''Assets:Struct(Transferred:Event(asset_id:Value32,from:Account32,to:Account32,amount:Value128))''
       ''Assets:Struct(asset_id:Value32,to:Account32,amount:Value128)''
       ''Assets:Struct(asset_id:Value32,to:Account32,amount:Value128)''"

definition get_data_abi :: SFXAbi where
  "get_data_abi =
     mk_abi [(''key'', True)]
       ''Tuple(key:Data,value:Data)'' ''Tuple(key:Data,value:Data)'' ''H256'' ''H256''"

definition get_swap_abi :: SFXAbi where
  "get_swap_abi =
     mk_abi [(''to'', True), (''amount_from'', True), (''amount_to'', True), (''asset_from'', True), (''asset_to'', True)]
       ''Swap:Log(from+:Account20,to+:Account20,amount_from+:Value128,amount_to+:Value128,asset_from+:Account20,asset_to+:Account20)''
       ''Assets:Struct(Swap:Event(from:Account32,to:Account32,amount_from:Value128,amount_to:Value128,asset_from:Account32,asset_to:Account32))''
       ''Swap:Struct(to:Account20,amount_from:Value128,amount_to:Value128,asset_from:Account20,asset_to:Account20)''
       ''Swap:Struct(to:Account32,amount_from:Value128,amount_to:Value128,asset_from:Account32,asset_to:Account32)''"

definition get_add_liquidity_abi :: SFXAbi where
  "get_add_liquidity_abi =
     mk_abi [(''to'', True), (''asset_left'', True), (''asset_right'', True), (''liquidity_token'', True),
         (''amount_left'', True), (''amount_right'', True), (''amount_liquidity_token'', True)]
       ''AddLiquidity:Log(from+:Account20,to+:Account20,amount_left+:Value256,amount_right+:Value256,asset_right+:Account20,asset_left+:Account20,liquidity_token+:Account20,amount_liquidity_token+:Value256)''
       ''Assets:Struct(AddLiquidity:Event(from:Account32,to:Account32,amount_left:Value128,amount_right:Value128,asset_right+:Account32,asset_left:Account32,liquidity_token:Account32,amount_liquidity_token:Value128))''
       ''AddLiquidity:Struct(to:Account20,amount_left:Value256,amount_right:Value256,asset_right:Account20,asset_left:Account20,liquidity_token:Account20,amount_liquidity_token:Value256)''
       ''AddLiquidity:Struct(to:Account32,amount_left:Value128,amount_right:Value128,asset_right:Account32,asset_left:Account32,liquidity_token:Account32,amount_liquidity_token:Value128)''"

definition get_remove_liquidity_abi :: SFXAbi where
  "get_remove_liquidity_abi =
     mk_abi [(''to'', True), (''asset_left'', True), (''asset_right'', True), (''liquidity_token'', True),
         (''amount_left'', True), (''amount_right'', True), (''amount_liquidity_token'', True)]
       ''RemoveLiquidity:Log(from+:Account20,to+:Account20,amount_left+:Value256,amount_right+:Value256,asset_right+:Account20,asset_left+:Account20,liquidity_token+:Account20,amount_liquidity_token+:Value256)''
       ''Assets:Struct(RemoveLiquidity:Event(from:Account32,to:Account32,amount_left:Value128,amount_right:Value128,asset_right+:Account32,asset_left:Account32,liquidity_token:Account32,amount_liquidity_token:Value128))''
       ''RemoveLiquidity:Struct(to:Account20,amount_left:Value256,amount_right:Value256,asset_right:Account20,asset_left:Account20,liquidity_token:Account20,amount_liquidity_token:Value256)''
       ''RemoveLiquidity:Struct(to:Account32,amount_left:Value128,amount_right:Value128,asset_right:Account32,asset_left:Account32,liquidity_token:Account32,amount_liquidity_token:Value128)''"

definition get_call_evm_contract_abi :: SFXAbi where
  "get_call_evm_contract_abi =
     mk_abi [(''target'', True), (''value'', False), (''input'', True), (''gas_limit'', False),
         (''max_fee_per_gas'', False), (''max_priority_fee_per_gas'', False), (''nonce'', False), (''access_list'', False)]
       ''CallEvm:Log(target+:Account20,source+:Account20,tx_hash+:H256,input-:Bytes)''
       ''Evm:Struct(Call:Event(source+:Account20,target+:Account20))''
       ''CallEvm:Struct(target:Account20,value:Value256,input:Bytes,gas_limit:Value256,max_fee_per_gas:Value256,max_priority_fee_per_gas:Value256,nonce:Value256,access_list:Bytes)''
       ''CallEvm:Struct(target:Account20,value:Value128,input:Bytes,gas_limit:Value128,max_fee_per_gas:Value128,max_priority_fee_per_gas:Value128,nonce:Value128,access_list:Bytes)''"

definition get_call_wasm_contract_abi :: SFXAbi where
  "get_call_wasm_contract_abi =
     mk_abi [(''contract'', True), (''value'', False), (''gas_limit'', False), (''storage_deposit_limit'', False), (''input'', False)]
       ''CallWasm:Log(caller+:Account32,contract+:Account32)''
       ''Contracts:Struct(Call:Event(caller:Account32,contract:Account32))''
       ''CallWasm:Struct(contract:Account32,value:Value128,gas_limit:Value128,storage_deposit_limit:Value128,input:Bytes)''
       ''CallWasm:Struct(contract:Account32,value:Value128,gas_limit:Value128,storage_deposit_limit:Value128,input:Bytes)''"

definition get_call_generic_abi :: SFXAbi where
  "get_call_generic_abi =
     mk_abi [(''target'', False), (''value'', False), (''input'', True), (''limit'', False), (''additional_params'', False)]
       ''Call:Log(source+:Account20,target+:Account20,value+:Value128,input-:Bytes)''
       ''Pallet:Struct(Call:Event(source+:Account32,target+:Account32,value+:Value128,input+:Bytes,limit+:Value128))''
       ''Call:Struct(target:Account20,value:Value128,input:Bytes,limit:Value128,additional_params:Bytes)''
       ''Call:Struct(target:Account32,value:Value128,input:Bytes,limit:Value128,additional_params:Bytes)''"

text \<open>\<open>b"rliq"\<close> and \<open>b"cgen"\<close> have no named constant in the code.\<close>

definition standard_sfx_abi :: "(Sfx4bId \<times> SFXAbi) list" where
  "standard_sfx_abi =
     [(DATA_SIDE_EFFECT_ID, get_data_abi),
      (DDD_ACTION, get_dynamic_destination_deal_abi),
      (TRANSFER_SIDE_EFFECT_ID, get_sfx_transfer_abi),
      (ASSETS_TRANSFER_SIDE_EFFECT_ID, get_sfx_transfer_asset_abi),
      (SWAP_SIDE_EFFECT_ID, get_swap_abi),
      (ADD_LIQUIDITY_SIDE_EFFECT_ID, get_add_liquidity_abi),
      ([114, 108, 105, 113], get_remove_liquidity_abi),
      (EVM_CALL_SIDE_EFFECT_ID, get_call_evm_contract_abi),
      (WASM_CALL_SIDE_EFFECT_ID, get_call_wasm_contract_abi),
      ([99, 103, 101, 110], get_call_generic_abi)]"

definition get_standard_interface :: "Sfx4bId \<Rightarrow> SFXAbi option" where
  "get_standard_interface sfx_4b_id = map_of standard_sfx_abi sfx_4b_id"

end
