(* ===== verification/Circuit_State.thy ===== *)
theory Circuit_State
  imports Account_Manager Sfx_Abi
begin

text \<open>
  Storage, configuration and events of \<open>pallets/circuit\<close>, and the functions of
  \<open>machine/mod.rs\<close> that only read the storage or the local context.  The pallets behind the
  associated types \<open>Xdns\<close>, \<open>Portal\<close>, \<open>Attesters\<close> and \<open>Currency\<close>, the system
  pallet's nonces and the SCALE codec are fields of \<open>circuit_env\<close>: functions over the same
  external state that the account manager's ledger belongs to.
\<close>

section \<open>Data\<close>

datatype HeightResult = Height BlockNumber | NotActive

record InclusionReceipt =
  receipt_height :: BlockNumber
  including_header :: bytes
  receipt_message :: bytes

datatype TreasuryAccount = Treasury | Treasury_Escrow | Treasury_Fee | Treasury_Parachain
  | Treasury_Slash

datatype KillReason = Kill_Unhandled | Kill_Codec | Kill_Timeout
datatype SignalKind = Complete | Kill KillReason

record ExecutionSignal =
  signal_step :: u32
  signal_kind :: SignalKind
  execution_id :: H256

datatype CircuitEvent =
    XTransactionReceivedForExec H256
  | SFXNewBidReceived H256 AccountId Balance
  | SideEffectConfirmed H256
  | DynamicDestinationDealReplaced H256 H256 AccountId Sfx4bId
  | XTransactionReadyForExec H256
  | XTransactionStepFinishedExec H256
  | XTransactionXtxFinishedExecAllSteps H256
  | XTransactionXtxCommitted H256
  | XTransactionXtxRevertedAfterTimeOut H256
  | XTransactionXtxDroppedAtBidding H256
  | NewSideEffectsAvailable AccountId H256 "SideEffect list" "H256 list"
  | SideEffectsConfirmed H256 "FullSideEffect list list"
  | SuccessfulFSXCommitAttestationRequest H256
  | UnsuccessfulFSXCommitAttestationRequest H256
  | SuccessfulFSXRevertAttestationRequest H256
  | UnsuccessfulFSXRevertAttestationRequest H256

text \<open>
  The configuration.  \<open>keccak\<close> is \<open>Keccak256\<close> and \<open>hashing\<close> the runtime's hasher;
  \<open>read_last_activity\<close> gives the \<open>is_active\<close> flag of the gateway's last overview;
  the attestation requests return whether they succeeded together with the new state;
  \<open>db_read\<close> and \<open>db_write\<close> are the weights of one access.
\<close>

record 'x circuit_env =
  am_cfg :: "'x am_env"
  keccak :: "bytes \<Rightarrow> H256"
  hashing :: "bytes \<Rightarrow> H256"
  XtxTimeoutDefault :: BlockNumber
  SFXBiddingPeriod :: BlockNumber
  SignalQueueDepth :: nat
  db_read :: nat
  db_write :: nat
  account_nonce :: "'x \<Rightarrow> AccountId \<Rightarrow> u32"
  existential_deposit :: Balance
  currency_transfer :: "AccountId \<Rightarrow> AccountId \<Rightarrow> Balance \<Rightarrow> 'x \<Rightarrow> (DispatchError, 'x) res"
  treasury_account :: "TreasuryAccount \<Rightarrow> AccountId"
  read_last_activity :: "'x \<Rightarrow> TargetId \<Rightarrow> bool option"
  gateway_max_security_lvl :: "'x \<Rightarrow> TargetId \<Rightarrow> SecurityLvl"
  get_sfx_abi :: "'x \<Rightarrow> TargetId \<Rightarrow> Sfx4bId \<Rightarrow> SFXAbi option"
  get_target_codec :: "'x \<Rightarrow> TargetId \<Rightarrow> (DispatchError, Codec) res"
  estimate_adaptive_timeout :: "'x \<Rightarrow> TargetId list \<Rightarrow> SpeedMode \<Rightarrow> BlockNumber \<Rightarrow> AdaptiveTimeout"
  get_finalized_height :: "'x \<Rightarrow> TargetId \<Rightarrow> (DispatchError, HeightResult) res"
  verify_event_inclusion ::
    "'x \<Rightarrow> TargetId \<Rightarrow> SpeedMode \<Rightarrow> bytes option \<Rightarrow> bytes \<Rightarrow> (DispatchError, InclusionReceipt) res"
  estimate_finality_fee :: "'x \<Rightarrow> TargetId \<Rightarrow> Balance"
  request_sfx_attestation_commit :: "TargetId \<Rightarrow> H256 \<Rightarrow> H256 option \<Rightarrow> 'x \<Rightarrow> bool \<times> 'x"
  request_sfx_attestation_revert :: "TargetId \<Rightarrow> H256 \<Rightarrow> 'x \<Rightarrow> bool \<times> 'x"
  abi_cfg :: codec_env
  decode_account :: "bytes \<Rightarrow> AccountId option"
  decode_balance :: "bytes \<Rightarrow> Balance option"
  decode_asset :: "bytes \<Rightarrow> AssetId option"
  encode_u32 :: "u32 \<Rightarrow> bytes"

record 'x circuit_state =
  StorageMigrations :: u32
  GMP :: "(H256, H256) smap"
  SFX2XTXLinksMap :: "(H256, H256) smap"
  PendingXtxTimeoutsMap :: "(H256, AdaptiveTimeout) smap"
  PendingXtxBidsTimeoutsMap :: "(H256, BlockNumber) smap"
  FinalizedXtx :: "(H256, BlockNumber) smap"
  XExecSignals :: "(H256, XExecSignal) smap"
  LocalXtxStates :: "(H256, LocalState) smap"
  FullSideEffects :: "(H256, FullSideEffect list list) smap"
  DLQ :: "(H256, BlockNumber \<times> TargetId list \<times> SpeedMode) smap"
  SignalQueue :: "(AccountId \<times> ExecutionSignal) list"
  circuit_events :: "CircuitEvent list"
  account_manager :: "'x am_state"
  block_number :: BlockNumber

abbreviation ext :: "'x circuit_state \<Rightarrow> 'x" where
  "ext s \<equiv> ledger (account_manager s)"

definition set_ext :: "'x \<Rightarrow> 'x circuit_state \<Rightarrow> 'x circuit_state" where
  "set_ext x s = s\<lparr>account_manager := (account_manager s)\<lparr>ledger := x\<rparr>\<rparr>"

definition deposit_event :: "CircuitEvent \<Rightarrow> 'x circuit_state \<Rightarrow> 'x circuit_state" where
  "deposit_event e s = s\<lparr>circuit_events := circuit_events s @ [e]\<rparr>"

text \<open>\<open>T::DbWeight::get().reads(r)\<close> and \<open>reads_writes(r, w)\<close>.\<close>

definition db_reads :: "'x circuit_env \<Rightarrow> nat \<Rightarrow> Weight" where
  "db_reads env r = min (db_read env * r) weight_max"

definition db_reads_writes :: "'x circuit_env \<Rightarrow> nat \<Rightarrow> nat \<Rightarrow> Weight" where
  "db_reads_writes env r w = weight_add (db_reads env r) (min (db_write env * w) weight_max)"

abbreviation sfx_id_of :: "'x circuit_env \<Rightarrow> H256 \<Rightarrow> FullSideEffect \<Rightarrow> H256" where
  "sfx_id_of env i f \<equiv> calc_sfx_id (keccak env) f i"

section \<open>Reading the context\<close>

definition load_xtx :: "'x circuit_state \<Rightarrow> H256 \<Rightarrow> (CircuitError, LocalXtxCtx) res" where
  "load_xtx s i =
     bind_res (ok_or XtxDoesNotExist (smap_get (XExecSignals s) i)) (\<lambda>x.
     bind_res (ok_or SetupFailedXtxStorageArtifactsNotFound (smap_get (FullSideEffects s) i)) (\<lambda>fsx.
     bind_res (ok_or SetupFailedXtxStorageArtifactsNotFound (smap_get (LocalXtxStates s) i)) (\<lambda>ls.
       Ok \<lparr>local_state = ls, xtx_id = i, xtx = x, full_side_effects = fsx\<rparr>)))"

text \<open>The step the counter points to, or the last one; a context without steps panics.\<close>

definition current_step_index :: "LocalXtxCtx \<Rightarrow> nat" where
  "current_step_index ctx =
     (let n = unat (fst (steps_cnt (xtx ctx)))
      in if n < length (full_side_effects ctx) then n else length (full_side_effects ctx) - 1)"

definition read_current_step_fsx :: "LocalXtxCtx \<Rightarrow> ('e, FullSideEffect list) res" where
  "read_current_step_fsx ctx =
     (if full_side_effects ctx = [] then Panic
      else Ok (full_side_effects ctx ! current_step_index ctx))"

definition update_current_step_fsx ::
  "LocalXtxCtx \<Rightarrow> FullSideEffect list \<Rightarrow> ('e, LocalXtxCtx) res" where
  "update_current_step_fsx ctx fsx =
     (if full_side_effects ctx = [] then Panic
      else Ok (ctx\<lparr>full_side_effects := (full_side_effects ctx)[current_step_index ctx := fsx]\<rparr>))"

definition check_bump_steps :: "LocalXtxCtx \<Rightarrow> CircuitStatus \<times> CircuitStatus \<Rightarrow> u32 \<times> u32" where
  "check_bump_steps ctx change =
     (case change of (prev, new) \<Rightarrow>
        if prev = Requested \<and> new \<in> {Requested, Reserved, PendingBidding, InBidding}
        then (0, of_nat (length (full_side_effects ctx)))
        else if prev \<in> {Ready, PendingExecution} \<and> new = Finished
        then (fst (steps_cnt (xtx ctx)) + 1, snd (steps_cnt (xtx ctx)))
        else if prev \<in> {Ready, PendingExecution, Finished} \<and> new = FinishedAllSteps
        then (snd (steps_cnt (xtx ctx)), snd (steps_cnt (xtx ctx)))
        else steps_cnt (xtx ctx))"

section \<open>Facts\<close>

lemma load_xtx_Ok:
  "load_xtx s i = Ok ctx \<longleftrightarrow>
     xtx_id ctx = i \<and> smap_get (XExecSignals s) i = Some (xtx ctx)
     \<and> smap_get (FullSideEffects s) i = Some (full_side_effects ctx)
     \<and> smap_get (LocalXtxStates s) i = Some (local_state ctx)"
  by (cases ctx) (auto simp: load_xtx_def res_simps)

lemma load_xtx_not_Panic [simp]: "load_xtx s i \<noteq> Panic"
  by (auto simp: load_xtx_def bind_res_Panic ok_or_Panic)

lemma current_step_index_less [simp]:
  "full_side_effects ctx \<noteq> [] \<Longrightarrow> current_step_index ctx < length (full_side_effects ctx)"
  by (simp add: current_step_index_def Let_def)

lemma read_after_update:
  assumes "update_current_step_fsx ctx fsx = Ok ctx'"
  shows "read_current_step_fsx ctx' = Ok fsx"
  using assms
  by (auto simp: update_current_step_fsx_def read_current_step_fsx_def current_step_index_def Let_def
      split: if_splits)

end
