(* ===== verification/Square_Up.thy ===== *)
theory Square_Up
  imports Circuit_State
begin

text \<open>
  \<open>SquareUp\<close> (\<open>pallets/circuit/src/square_up/mod.rs\<close>): the monetary side of a status
  change, and \<open>Bids\<close> (\<open>bids/mod.rs\<close>).  The requester's rewards and the executors' bonds are
  charges of the account manager under the side effect's and the bid's identifier; the loops
  below run over the current step and call the account manager for each side effect.
\<close>

section \<open>Requesting\<close>

definition finality_fees_sum :: "'x circuit_env \<Rightarrow> 'x \<Rightarrow> FullSideEffect list \<Rightarrow> Balance" where
  "finality_fees_sum env x fsx_array =
     foldl (\<lambda>acc fee. case checked_add acc fee of Some v \<Rightarrow> v | None \<Rightarrow> 0) 0
       (map (\<lambda>fsx. estimate_finality_fee env x (target (input fsx)))
         (filter (\<lambda>fsx. security_lvl fsx = Escrow) fsx_array))"

definition charge_finality_fee ::
  "'x circuit_env \<Rightarrow> LocalXtxCtx \<Rightarrow> AccountId \<Rightarrow> 'x circuit_state
     \<Rightarrow> (DispatchError, Balance \<times> 'x circuit_state) res" where
  "charge_finality_fee env ctx req s =
     bind_res (read_current_step_fsx ctx) (\<lambda>fsx_array.
       let fees = finality_fees_sum env (ext s) fsx_array in
       bind_res (map_err (\<lambda>_. Circuit_Error RequesterNotEnoughBalance)
           (currency_transfer env req (treasury_account env Treasury_Fee) fees (ext s)))
         (\<lambda>x. Ok (fees, set_ext x s)))"

definition request_charge :: "AccountId \<Rightarrow> FullSideEffect \<Rightarrow> RequestCharge" where
  "request_charge req fsx =
     \<lparr>payee = req,
      offered_reward = (if is_local (origin_new req) then max_reward (input fsx) else 0),
      maybe_asset_id = reward_asset_id (input fsx), charge_fee = 0, recipient = None,
      source = TrafficFees, role = Executor\<rparr>"

definition try_request ::
  "'x circuit_env \<Rightarrow> LocalXtxCtx \<Rightarrow> 'x circuit_state \<Rightarrow> (DispatchError, 'x circuit_state) res" where
  "try_request env ctx s =
     bind_res (read_current_step_fsx ctx) (\<lambda>fsx_array.
       let req = requester (xtx ctx);
           charges = map (\<lambda>fsx. (sfx_id_of env (xtx_id ctx) fsx, request_charge req fsx)) fsx_array
       in
       if \<not> list_all (\<lambda>fsx. am_can_withdraw (am_cfg env) (account_manager s) req
              (max_reward (input fsx)) (reward_asset_id (input fsx))) fsx_array
       then Err (Circuit_Error AssetsFailedToWithdraw)
       else bind_res (deposit_batch (am_cfg env) charges (account_manager s)) (\<lambda>am.
         bind_res (ensure (list_all (\<lambda>(i, _). is_ok (get_charge_or_fail am i)) charges)
             (Circuit_Error SanityAfterCreatingSFXDepositsFailed))
           (\<lambda>_. Ok (s\<lparr>account_manager := am\<rparr>))))"

section \<open>Bidding\<close>

definition su_try_bid ::
  "'x circuit_env \<Rightarrow> H256 \<Rightarrow> AccountId \<Rightarrow> AccountId \<Rightarrow> SFXBid \<Rightarrow> SFXBid option \<Rightarrow> 'x am_state
     \<Rightarrow> (DispatchError, 'x am_state) res" where
  "su_try_bid env sfx_id req bidder bid current_best_bid am =
     bind_res (ok_or (Circuit_Error ArithmeticErrorOverflow)
         (checked_add (case reserved_bond bid of Some b \<Rightarrow> b | None \<Rightarrow> 0) (bid_insurance bid)))
       (\<lambda>total_bid_deposit.
         case current_best_bid of
           Some best \<Rightarrow>
             if amount bid \<ge> amount best then Err (Circuit_Error BiddingRejectedBetterBidFound)
             else transfer_deposit (am_cfg env) (bid_generate_id (hashing env) best sfx_id)
                    (bid_generate_id (hashing env) bid sfx_id) (Some total_bid_deposit)
                    (Some (executor bid)) None am
         | None \<Rightarrow>
             deposit (am_cfg env) (bid_generate_id (hashing env) bid sfx_id)
               \<lparr>payee = bidder, offered_reward = total_bid_deposit,
                maybe_asset_id = bid_reward_asset_id bid, charge_fee = 0, recipient = Some req,
                source = TrafficRewards, role = Executor\<rparr> am)"

text \<open>
  The reserved bond of an optimistic bid: the maximal rewards of the other optimistic side
  effects of the step, added up with \<open>reduce\<close>; an addend that overflows is skipped.
\<close>

definition reduce_rewards :: "Balance list \<Rightarrow> Balance option" where
  "reduce_rewards xs =
     (case xs of
        [] \<Rightarrow> None
      | y # ys \<Rightarrow> Some (foldl (\<lambda>total v. case checked_add total v of Some t \<Rightarrow> t | None \<Rightarrow> total) y ys))"

definition optimistic_bond :: "'x circuit_env \<Rightarrow> H256 \<Rightarrow> H256 \<Rightarrow> FullSideEffect list \<Rightarrow> Balance option" where
  "optimistic_bond env i sfx_id step_fsx =
     (case reduce_rewards (map (\<lambda>f. max_reward (input f))
             (filter (\<lambda>f. sfx_id_of env i f \<noteq> sfx_id)
               (filter (\<lambda>f. security_lvl f = Optimistic) step_fsx))) of
        Some x \<Rightarrow> (if x > 0 then Some x else None)
      | None \<Rightarrow> None)"

text \<open>
  A bid on a remote order or on an escrowed side effect is insured by the finality fee in the
  native currency; an optimistic one reserves the bond.
\<close>

definition adjust_bid ::
  "'x circuit_env \<Rightarrow> 'x \<Rightarrow> AccountId \<Rightarrow> H256 \<Rightarrow> H256 \<Rightarrow> FullSideEffect list \<Rightarrow> FullSideEffect
     \<Rightarrow> SFXBid \<Rightarrow> SFXBid" where
  "adjust_bid env x xtx_requester i sfx_id step_fsx fsx bid =
     (if is_remote (origin_new xtx_requester) \<or> security_lvl fsx = Escrow
      then bid\<lparr>bid_insurance := estimate_finality_fee env x (target (input fsx)),
               bid_reward_asset_id := None\<rparr>
      else if security_lvl fsx = Optimistic
      then bid\<lparr>reserved_bond := optimistic_bond env i sfx_id step_fsx\<rparr>
      else bid)"

definition try_bid ::
  "'x circuit_env \<Rightarrow> FullSideEffect list \<Rightarrow> Balance \<Rightarrow> AccountId \<Rightarrow> AccountId \<Rightarrow> H256 \<Rightarrow> H256
     \<Rightarrow> 'x circuit_state \<Rightarrow> (CircuitError, FullSideEffect list \<times> 'x circuit_state) res" where
  "try_bid env step_fsx bid_amount bidder req sfx_id i s =
     bind_res (ok_or FSXNotFoundById
         (list_find (\<lambda>f. sfx_id_of env i f = sfx_id) (filter (\<lambda>f. confirmed f = None) step_fsx)))
       (\<lambda>fsx.
         let bid = new_none_optimistic bid_amount (insurance (input fsx)) bidder req
                     (reward_asset_id (input fsx));
             current = best_bid fsx
         in
         if amount bid < existential_deposit env then Err BiddingRejectedBidBelowDust
         else if amount bid > max_reward (input fsx) then Err BiddingRejectedBidTooHigh
         else if bid_insurance bid \<noteq> insurance (input fsx) then Err BiddingRejectedInsuranceTooLow
         else if (case current of Some best \<Rightarrow> amount bid \<ge> amount best | None \<Rightarrow> False)
         then Err BiddingRejectedBetterBidFound
         else bind_res (load_xtx s i) (\<lambda>ctx.
           let bid' = adjust_bid env (ext s) (requester (xtx ctx)) i sfx_id step_fsx fsx bid
           in bind_res (map_err (\<lambda>_. BiddingRejectedFailedToDepositBidderBond)
                (su_try_bid env sfx_id req bidder bid' current (account_manager s))) (\<lambda>am.
              Ok (update_first (\<lambda>f. sfx_id_of env i f = sfx_id) (\<lambda>f. f\<lparr>best_bid := Some bid'\<rparr>)
                    step_fsx,
                  s\<lparr>account_manager := am\<rparr>))))"

text \<open>The loop of \<open>bind_bidders\<close>, which updates the step and the charges.\<close>

definition bind_one ::
  "'x circuit_env \<Rightarrow> H256 \<Rightarrow> FullSideEffect \<Rightarrow> 'x am_state \<Rightarrow> bool \<times> FullSideEffect \<times> 'x am_state" where
  "bind_one env i f am =
     (case best_bid f of
        Some bid \<Rightarrow>
          (case assign_deposit (sfx_id_of env i f) (executor bid) am of
             (False, am') \<Rightarrow> (False, f, am')
           | (True, am') \<Rightarrow>
               (True, f\<lparr>input := (input f)\<lparr>enforce_executor := Some (executor bid)\<rparr>\<rparr>, am'))
      | None \<Rightarrow> (False, f, am))"

fun bind_step ::
  "'x circuit_env \<Rightarrow> H256 \<Rightarrow> FullSideEffect list \<Rightarrow> 'x am_state
     \<Rightarrow> bool \<times> FullSideEffect list \<times> 'x am_state" where
  "bind_step env i [] am = (False, [], am)"
| "bind_step env i (f # fs) am =
     (case bind_one env i f am of (b, f', am') \<Rightarrow>
      case bind_step env i fs am' of (b', fs', am'') \<Rightarrow> (b \<or> b', f' # fs', am''))"

definition bind_bidders ::
  "'x circuit_env \<Rightarrow> LocalXtxCtx \<Rightarrow> 'x circuit_state
     \<Rightarrow> (CircuitError, bool \<times> LocalXtxCtx \<times> 'x circuit_state) res" where
  "bind_bidders env ctx s =
     bind_res (read_current_step_fsx ctx) (\<lambda>step.
       case bind_step env (xtx_id ctx) step (account_manager s) of (b, step', am) \<Rightarrow>
         bind_res (update_current_step_fsx ctx step') (\<lambda>ctx'.
           Ok (b, ctx', s\<lparr>account_manager := am\<rparr>)))"

section \<open>Killing and finalising\<close>

definition kill_one ::
  "'x circuit_env \<Rightarrow> H256 \<Rightarrow> FullSideEffect \<Rightarrow> bool \<times> 'x am_state \<Rightarrow> bool \<times> 'x am_state" where
  "kill_one env i fsx = (\<lambda>(killed, am).
     let sfx_id = sfx_id_of env i fsx;
         (b, am') = cancel_deposit (am_cfg env) sfx_id am;
         am'' = (case best_bid fsx of
                   Some bid \<Rightarrow> snd (cancel_deposit (am_cfg env) (bid_generate_id (hashing env) bid sfx_id) am')
                 | None \<Rightarrow> am')
     in (b \<or> killed, am''))"

definition su_kill ::
  "'x circuit_env \<Rightarrow> LocalXtxCtx \<Rightarrow> 'x circuit_state \<Rightarrow> (CircuitError, bool \<times> 'x circuit_state) res" where
  "su_kill env ctx s =
     bind_res (read_current_step_fsx ctx) (\<lambda>step.
       case fold (kill_one env (xtx_id ctx)) step (False, account_manager s) of (killed, am) \<Rightarrow>
         Ok (killed, s\<lparr>account_manager := am\<rparr>))"

text \<open>First loop of \<open>finalize\<close>: the bonds; it also decides the outcome for the requester.\<close>

definition finalize_bond ::
  "'x circuit_env \<Rightarrow> H256 \<Rightarrow> FullSideEffect \<Rightarrow> bool \<times> Outcome \<times> 'x am_state
     \<Rightarrow> bool \<times> Outcome \<times> 'x am_state" where
  "finalize_bond env i fsx = (\<lambda>(finalized, step_outcome, am).
     case best_bid fsx of
       Some bid \<Rightarrow>
         let oc = (case confirmed fsx of Some _ \<Rightarrow> Revert | None \<Rightarrow> Slash);
             (ok, am') = finalize_infallible (am_cfg env)
               (bid_generate_id (hashing env) bid (sfx_id_of env i fsx)) oc am
         in (finalized \<and> ok, (if oc = Slash then Revert else step_outcome), am')
     | None \<Rightarrow> (False, step_outcome, am))"

text \<open>Second loop: the requester's charges, and the escrowed funds under the re-hashed id.\<close>

definition escrow_id_of :: "'x circuit_env \<Rightarrow> H256 \<Rightarrow> FullSideEffect \<Rightarrow> H256" where
  "escrow_id_of env i fsx = generate_id (keccak env) (input fsx) (sfx_id_of env i fsx) 3333"

definition finalize_reward ::
  "'x circuit_env \<Rightarrow> H256 \<Rightarrow> Outcome \<Rightarrow> FullSideEffect \<Rightarrow> bool \<times> 'x am_state \<Rightarrow> bool \<times> 'x am_state" where
  "finalize_reward env i step_outcome fsx = (\<lambda>(finalized, am).
     let (ok, am') = finalize_infallible (am_cfg env) (sfx_id_of env i fsx) step_outcome am
     in if security_lvl fsx = Escrow
        then (case finalize_infallible (am_cfg env) (escrow_id_of env i fsx) step_outcome am' of
                (ok', am'') \<Rightarrow> (finalized \<and> ok \<and> ok', am''))
        else (finalized \<and> ok, am'))"

definition su_finalize ::
  "'x circuit_env \<Rightarrow> LocalXtxCtx \<Rightarrow> 'x circuit_state \<Rightarrow> (CircuitError, bool \<times> 'x circuit_state) res" where
  "su_finalize env ctx s =
     bind_res (read_current_step_fsx ctx) (\<lambda>step.
       case fold (finalize_bond env (xtx_id ctx)) step (True, Commit, account_manager s) of
         (finalized, step_outcome, am) \<Rightarrow>
           (case fold (finalize_reward env (xtx_id ctx) step_outcome) step (finalized, am) of
              (finalized', am') \<Rightarrow> Ok (finalized', s\<lparr>account_manager := am'\<rparr>)))"

end
