(* ===== verification/Machine.thy ===== *)
theory Machine
  imports Square_Up
begin

text \<open>
  The state machine of a transaction (\<open>pallets/circuit/src/machine\<close>) and the validation it
  starts from.  \<open>compile\<close> runs a precompile on the current step, updates the status, runs the
  post-update and applies the change to storage; the two closures are function arguments here
  as in the code.  A result carries the updated context and state; an error leaves the storage
  as it was, since the calls are transactional.
\<close>

section \<open>Validation\<close>

definition ensure_all_gateways_are_active ::
  "'x circuit_env \<Rightarrow> 'x circuit_state \<Rightarrow> TargetId list \<Rightarrow> bool" where
  "ensure_all_gateways_are_active env s targets =
     list_all (\<lambda>t. case read_last_activity env (ext s) t of Some active \<Rightarrow> active | None \<Rightarrow> False)
       targets"

definition validate_one ::
  "'x circuit_env \<Rightarrow> 'x circuit_state \<Rightarrow> nat \<times> SideEffect \<Rightarrow> (CircuitError, FullSideEffect) res" where
  "validate_one env s = (\<lambda>(n, sfx).
     bind_res (ok_or ABIOnSelectedTargetNotFoundForSubmittedSFX
         (get_sfx_abi env (ext s) (target sfx) (action sfx))) (\<lambda>abi.
     bind_res (map_err (\<lambda>_. SideEffectsValidationFailedAgainstABI)
         (sfx_validate (abi_cfg env) sfx abi Scale)) (\<lambda>_.
     bind_res (map_err (\<lambda>_. TargetAppearsNotToBeActiveAndDoesntHaveFinalizedHeight)
         (get_finalized_height env (ext s) (target sfx))) (\<lambda>h.
       case h of
         Height b \<Rightarrow>
           Ok \<lparr>input = sfx, confirmed = None,
               security_lvl = gateway_max_security_lvl env (ext s) (target sfx),
               submission_target_height = b, best_bid = None, index = of_nat n\<rparr>
       | NotActive \<Rightarrow> Err TargetAppearsNotToBeActiveAndDoesntHaveFinalizedHeight))))"

definition validate ::
  "'x circuit_env \<Rightarrow> SideEffect list \<Rightarrow> LocalXtxCtx \<Rightarrow> 'x circuit_state
     \<Rightarrow> (CircuitError, LocalXtxCtx) res" where
  "validate env side_effects ctx s =
     (if side_effects = [] then Ok (ctx\<lparr>full_side_effects := [[]]\<rparr>)
      else bind_res (ensure (ensure_all_gateways_are_active env s (map target side_effects))
             GatewayNotActive) (\<lambda>_.
        bind_res (map_res (validate_one env s) (enumerate 0 side_effects)) (\<lambda>fsx.
          Ok (ctx\<lparr>full_side_effects := [sort_key index fsx]\<rparr>))))"

definition setup_xtx ::
  "'x circuit_env \<Rightarrow> SideEffect list \<Rightarrow> AccountId \<Rightarrow> AdaptiveTimeout option \<Rightarrow> SecurityLvl
     \<Rightarrow> 'x circuit_state \<Rightarrow> (CircuitError, LocalXtxCtx) res" where
  "setup_xtx env side_effects req maybe_timeout preferred s =
     (let timeout = (case maybe_timeout of
                       None \<Rightarrow> new_emergency (XtxTimeoutDefault env + block_number s)
                     | Some t \<Rightarrow> t);
          (i, x) = xtx_setup_fresh (keccak env) (account_nonce env (ext s) req) req timeout
                     Speed_Finalized None
      in if smap_contains (XExecSignals s) i then Err SetupFailedDuplicatedXtx
         else validate env side_effects
                \<lparr>local_state = smap_empty, xtx_id = i, xtx = x, full_side_effects = []\<rparr> s)"

section \<open>Status\<close>

definition update_status ::
  "LocalXtxCtx \<Rightarrow> CircuitStatus option
     \<Rightarrow> (CircuitError, (CircuitStatus \<times> CircuitStatus) \<times> LocalXtxCtx) res" where
  "update_status ctx enforce_new_status =
     (let current = status (xtx ctx) in
      case current of
        Reverted _ \<Rightarrow> Err UpdateAttemptDoubleRevert
      | Killed _ \<Rightarrow> Err UpdateAttemptDoubleKill
      | _ \<Rightarrow>
          bind_res (map_err (\<lambda>_. UpdateStateTransitionDisallowed)
              (check_transition current (determine_xtx_status (full_side_effects ctx))
                enforce_new_status)) (\<lambda>new.
            Ok ((current, new),
                ctx\<lparr>xtx := (xtx ctx)\<lparr>steps_cnt := check_bump_steps ctx (current, new), status := new\<rparr>\<rparr>)))"

section \<open>Applying a status change\<close>

definition all_fsx_ids :: "'x circuit_env \<Rightarrow> LocalXtxCtx \<Rightarrow> H256 list" where
  "all_fsx_ids env ctx = map (sfx_id_of env (xtx_id ctx)) (concat (full_side_effects ctx))"

definition put_fsx :: "LocalXtxCtx \<Rightarrow> 'x circuit_state \<Rightarrow> 'x circuit_state" where
  "put_fsx ctx s =
     s\<lparr>FullSideEffects := smap_insert (xtx_id ctx) (full_side_effects ctx) (FullSideEffects s)\<rparr>"

definition put_xtx :: "LocalXtxCtx \<Rightarrow> 'x circuit_state \<Rightarrow> 'x circuit_state" where
  "put_xtx ctx s = s\<lparr>XExecSignals := smap_insert (xtx_id ctx) (xtx ctx) (XExecSignals s)\<rparr>"

definition drop_xtx :: "LocalXtxCtx \<Rightarrow> 'x circuit_state \<Rightarrow> 'x circuit_state" where
  "drop_xtx ctx s =
     s\<lparr>XExecSignals := smap_remove (xtx_id ctx) (XExecSignals s),
       FullSideEffects := smap_remove (xtx_id ctx) (FullSideEffects s),
       LocalXtxStates := smap_remove (xtx_id ctx) (LocalXtxStates s)\<rparr>"

text \<open>The branches of \<open>apply\<close> that are more than one write.\<close>

definition apply_request :: "'x circuit_env \<Rightarrow> LocalXtxCtx \<Rightarrow> 'x circuit_state \<Rightarrow> 'x circuit_state" where
  "apply_request env ctx s =
     put_xtx ctx ((put_fsx ctx s)
       \<lparr>SFX2XTXLinksMap := fold (\<lambda>k. smap_insert k (xtx_id ctx)) (all_fsx_ids env ctx) (SFX2XTXLinksMap s),
        LocalXtxStates := smap_insert (xtx_id ctx) (local_state ctx) (LocalXtxStates s),
        PendingXtxTimeoutsMap :=
          smap_insert (xtx_id ctx) (timeouts_at (xtx ctx)) (PendingXtxTimeoutsMap s),
        PendingXtxBidsTimeoutsMap :=
          smap_insert (xtx_id ctx) (SFXBiddingPeriod env + block_number s)
            (PendingXtxBidsTimeoutsMap s)\<rparr>)"

definition apply_kill :: "'x circuit_env \<Rightarrow> LocalXtxCtx \<Rightarrow> 'x circuit_state \<Rightarrow> 'x circuit_state" where
  "apply_kill env ctx s =
     (drop_xtx ctx s)
       \<lparr>PendingXtxTimeoutsMap := smap_remove (xtx_id ctx) (PendingXtxTimeoutsMap s),
        SFX2XTXLinksMap := fold smap_remove (all_fsx_ids env ctx) (SFX2XTXLinksMap s),
        PendingXtxBidsTimeoutsMap := smap_remove (xtx_id ctx) (PendingXtxBidsTimeoutsMap s)\<rparr>"

definition apply_revert :: "LocalXtxCtx \<Rightarrow> 'x circuit_state \<Rightarrow> 'x circuit_state" where
  "apply_revert ctx s =
     (drop_xtx ctx s)
       \<lparr>PendingXtxTimeoutsMap := smap_remove (xtx_id ctx) (PendingXtxTimeoutsMap s),
        DLQ := smap_remove (xtx_id ctx) (DLQ s)\<rparr>"

definition apply_finished :: "LocalXtxCtx \<Rightarrow> 'x circuit_state \<Rightarrow> 'x circuit_state" where
  "apply_finished ctx s =
     (put_fsx ctx (put_xtx ctx s))
       \<lparr>PendingXtxTimeoutsMap := smap_remove (xtx_id ctx) (PendingXtxTimeoutsMap s),
        DLQ := smap_remove (xtx_id ctx) (DLQ s),
        FinalizedXtx := smap_insert (xtx_id ctx) (block_number s) (FinalizedXtx s)\<rparr>"

definition is_killed :: "CircuitStatus \<Rightarrow> bool" where
  "is_killed st = (case st of Killed _ \<Rightarrow> True | _ \<Rightarrow> False)"

definition is_reverted :: "CircuitStatus \<Rightarrow> bool" where
  "is_reverted st = (case st of Reverted _ \<Rightarrow> True | _ \<Rightarrow> False)"

definition executing :: "CircuitStatus \<Rightarrow> bool" where
  "executing st = (st \<in> {Ready, PendingExecution, Finished})"

definition apply_xtx ::
  "'x circuit_env \<Rightarrow> LocalXtxCtx \<Rightarrow> CircuitStatus \<times> CircuitStatus \<Rightarrow> 'x circuit_state
     \<Rightarrow> (CircuitError, bool \<times> 'x circuit_state) res" where
  "apply_xtx env ctx change s =
     (case change of (old, new) \<Rightarrow>
        if old = new \<and> new \<noteq> PendingExecution \<and> new \<noteq> InBidding \<or> old = Committed
        then Ok (False, s)
        else if old = Requested \<and> new \<in> {Reserved, PendingBidding}
        then Ok (True, apply_request env ctx s)
        else if old = PendingBidding \<and> new = InBidding
        then Ok (True, put_fsx ctx (put_xtx ctx s))
        else if old = InBidding \<and> new = InBidding
        then Ok (True, put_fsx ctx s)
        else if old = InBidding \<and> new = Ready
        then Ok (True, (put_xtx ctx (put_fsx ctx s))
               \<lparr>PendingXtxBidsTimeoutsMap := smap_remove (xtx_id ctx) (PendingXtxBidsTimeoutsMap s)\<rparr>)
        else if old \<in> {Reserved, PendingBidding, InBidding} \<and> is_killed new
        then bind_res (su_kill env ctx (apply_kill env ctx s)) (\<lambda>(_, s'). Ok (True, s'))
        else if executing old \<and> is_reverted new
        then bind_res (su_finalize env ctx (apply_revert ctx s)) (\<lambda>(_, s'). Ok (True, s'))
        else if old = FinishedAllSteps \<and> new = Committed
        then Ok (True, drop_xtx ctx s)
        else if executing old \<and> new = FinishedAllSteps
        then bind_res (su_finalize env ctx (apply_finished ctx s)) (\<lambda>(_, s'). Ok (True, s'))
        else if executing old \<and> executing new
        then Ok (True, put_xtx ctx (put_fsx ctx s))
        else Ok (False, s))"

section \<open>Compiling\<close>

datatype PrecompileResult =
    TryUpdateFSX "FullSideEffect list"
  | TryBid H256 Balance AccountId
  | TryConfirm H256 ConfirmedSideEffect
  | TryRequest
  | Continue
  | ForceUpdateStatus CircuitStatus
  | TryKill Cause
  | Precompile_Revert Cause

text \<open>A precompile returns its result and the step it was given, which it may have changed.\<close>

type_synonym 'x precompile =
  "FullSideEffect list \<Rightarrow> LocalState \<Rightarrow> u32 \<times> u32 \<Rightarrow> CircuitStatus \<Rightarrow> AccountId \<Rightarrow> 'x circuit_state
     \<Rightarrow> (CircuitError, PrecompileResult \<times> FullSideEffect list) res"

type_synonym 'x post_update =
  "CircuitStatus \<times> CircuitStatus \<Rightarrow> LocalXtxCtx \<Rightarrow> 'x circuit_state
     \<Rightarrow> (CircuitError, 'x circuit_state) res"

text \<open>The match of \<open>compile\<close> on the precompile's result.\<close>

definition run_precompile_result ::
  "'x circuit_env \<Rightarrow> PrecompileResult \<Rightarrow> FullSideEffect list \<Rightarrow> LocalXtxCtx \<Rightarrow> 'x circuit_state
     \<Rightarrow> (CircuitError, CircuitStatus option \<times> LocalXtxCtx \<times> 'x circuit_state) res" where
  "run_precompile_result env pr current_fsx ctx s =
     (case pr of
        TryRequest \<Rightarrow>
          bind_res (map_err (\<lambda>_. RequesterNotEnoughBalance) (try_request env ctx s))
            (\<lambda>s'. Ok (None, ctx, s'))
      | TryUpdateFSX updated \<Rightarrow>
          bind_res (update_current_step_fsx ctx updated) (\<lambda>ctx'. Ok (None, ctx', s))
      | TryConfirm sfx_id confirmed_sfx \<Rightarrow>
          let matches = (\<lambda>f. sfx_id_of env (xtx_id ctx) f = sfx_id);
              updated = map (\<lambda>f. if matches f then f\<lparr>confirmed := Some confirmed_sfx\<rparr> else f) current_fsx
          in bind_res (ensure (list_ex matches current_fsx) FSXNotFoundById) (\<lambda>_.
             bind_res (update_current_step_fsx ctx updated) (\<lambda>ctx'. Ok (None, ctx', s)))
      | TryBid sfx_id bid_amount bidder \<Rightarrow>
          if status (xtx ctx) \<in> {PendingBidding, InBidding}
          then bind_res (try_bid env current_fsx bid_amount bidder (requester (xtx ctx)) sfx_id
                   (xtx_id ctx) s) (\<lambda>(updated, s').
               bind_res (update_current_step_fsx ctx updated) (\<lambda>ctx'.
                 Ok (Some InBidding, ctx', s')))
          else Err BiddingInactive
      | Continue \<Rightarrow> Ok (None, ctx, s)
      | TryKill cause \<Rightarrow> Ok (Some (Killed cause), ctx, s)
      | ForceUpdateStatus force_status \<Rightarrow>
          if status (xtx ctx) = InBidding \<and> force_status = Ready
          then bind_res (bind_bidders env ctx s) (\<lambda>(_, ctx', s').
               Ok (Some force_status, ctx', s'))
          else Ok (Some force_status, ctx, s)
      | Precompile_Revert cause \<Rightarrow> Ok (Some (Reverted cause), ctx, s))"

definition compile_xtx ::
  "'x circuit_env \<Rightarrow> LocalXtxCtx \<Rightarrow> 'x precompile \<Rightarrow> 'x post_update \<Rightarrow> 'x circuit_state
     \<Rightarrow> (CircuitError, bool \<times> LocalXtxCtx \<times> 'x circuit_state) res" where
  "compile_xtx env ctx precompile post_update s =
     bind_res (read_current_step_fsx ctx) (\<lambda>current_fsx.
     bind_res (precompile current_fsx (local_state ctx) (steps_cnt (xtx ctx)) (status (xtx ctx))
         (requester (xtx ctx)) s) (\<lambda>(pr, current_fsx').
     bind_res (run_precompile_result env pr current_fsx' ctx s) (\<lambda>(enforced, ctx1, s1).
     bind_res (update_status ctx1 enforced) (\<lambda>(change, ctx2).
     bind_res (post_update change ctx2 s1) (\<lambda>s2.
     bind_res (apply_xtx env ctx2 change s2) (\<lambda>(b, s3). Ok (b, ctx2, s3)))))))"

text \<open>
  \<open>compile_infallible\<close> unwraps the result: an error panics.  Its post-update returns nothing in
  the code; here it returns \<open>Ok\<close> of the new state, or \<open>Panic\<close>.
\<close>

definition compile_infallible ::
  "'x circuit_env \<Rightarrow> LocalXtxCtx
     \<Rightarrow> (FullSideEffect list \<Rightarrow> LocalState \<Rightarrow> u32 \<times> u32 \<Rightarrow> CircuitStatus \<Rightarrow> AccountId \<Rightarrow> PrecompileResult)
     \<Rightarrow> 'x post_update \<Rightarrow> 'x circuit_state \<Rightarrow> (CircuitError, bool \<times> LocalXtxCtx \<times> 'x circuit_state) res" where
  "compile_infallible env ctx precompile post_update s =
     expect (compile_xtx env ctx
       (\<lambda>fsx ls cnt st req _. Ok (precompile fsx ls cnt st req, fsx)) post_update s)"

definition machine_kill ::
  "'x circuit_env \<Rightarrow> H256 \<Rightarrow> Cause \<Rightarrow> 'x post_update \<Rightarrow> 'x circuit_state \<Rightarrow> (CircuitError, bool \<times> 'x circuit_state) res" where
  "machine_kill env i cause post_update s =
     (case load_xtx s i of
        Ok ctx \<Rightarrow>
          bind_res (compile_infallible env ctx (\<lambda>_ _ _ _ _. TryKill cause) post_update s)
            (\<lambda>(b, _, s'). Ok (b, s'))
      | Err _ \<Rightarrow> Ok (False, s)
      | Panic \<Rightarrow> Panic)"

definition machine_revert ::
  "'x circuit_env \<Rightarrow> H256 \<Rightarrow> Cause \<Rightarrow> 'x post_update \<Rightarrow> 'x circuit_state \<Rightarrow> (CircuitError, bool \<times> 'x circuit_state) res" where
  "machine_revert env i cause post_update s =
     (case load_xtx s i of
        Ok ctx \<Rightarrow>
          bind_res (compile_infallible env ctx (\<lambda>_ _ _ _ _. Precompile_Revert cause) post_update s)
            (\<lambda>(b, _, s'). Ok (b, s'))
      | Err _ \<Rightarrow> Ok (False, s)
      | Panic \<Rightarrow> Panic)"

section \<open>Ready-made closures and checks\<close>

definition no_mangle :: "'x precompile" where
  "no_mangle = (\<lambda>fsx _ _ _ _ _. Ok (Continue, fsx))"

definition no_post_updates :: "'x post_update" where
  "no_post_updates = (\<lambda>_ _ s. Ok s)"

definition infallible_no_post_updates :: "'x post_update" where
  "infallible_no_post_updates = (\<lambda>_ _ s. Ok s)"

definition validate_fsx_one :: "CircuitStatus \<Rightarrow> FullSideEffect \<Rightarrow> (CircuitError, unit) res" where
  "validate_fsx_one st fsx =
     bind_res (if st \<ge> Ready
         then bind_res (ensure (enforce_executor (input fsx) \<noteq> None)
                  InvalidFTXStateUnassignedExecutorForReadySFX) (\<lambda>_.
              case best_bid fsx of
                Some bid \<Rightarrow> ensure (Some (executor bid) = enforce_executor (input fsx))
                              InvalidFTXStateIncorrectExecutorForReadySFX
              | None \<Rightarrow> Err InvalidFTXStateEmptyBidForReadyXtx)
         else Ok ()) (\<lambda>_.
     if st \<ge> Finished \<and> st \<noteq> Reverted Timeout \<and> st \<noteq> Reverted IntentionalKill
     then ensure (confirmed fsx \<noteq> None) InvalidFTXStateEmptyConfirmationForFinishedXtx
     else Ok ())"

definition validate_fsx_against_xtx :: "LocalXtxCtx \<Rightarrow> (CircuitError, unit) res" where
  "validate_fsx_against_xtx ctx =
     fold_res (\<lambda>fsx _. validate_fsx_one (status (xtx ctx)) fsx) (concat (full_side_effects ctx)) ()"

end
