(* ===== verification/Circuit_Api.thy ===== *)
theory Circuit_Api
  imports Machine
begin

text \<open>
  The calls of \<open>pallets/circuit/src/lib.rs\<close>: reading side effects (\<open>ReadSFX\<close>), submitting
  an order, bidding, confirming, escrowing, cancelling and reverting, the triggers of local
  contracts, and the helpers they share.  The block hooks are in \<open>Circuit_Queues\<close>.
\<close>

section \<open>Reading\<close>

definition step_ids :: "'x circuit_env \<Rightarrow> H256 \<Rightarrow> FullSideEffect list \<Rightarrow> (H256 \<times> FullSideEffect) list" where
  "step_ids env i step =
     map (\<lambda>(n, fsx). (generate_id (keccak env) (input fsx) i (of_nat n), fsx)) (enumerate 0 step)"

definition get_fsx_of_xtx ::
  "'x circuit_env \<Rightarrow> 'x circuit_state \<Rightarrow> H256 \<Rightarrow> (DispatchError, H256 list) res" where
  "get_fsx_of_xtx env s i =
     bind_res (ok_or (Circuit_Error XtxNotFound) (smap_get (FullSideEffects s) i)) (\<lambda>steps.
       Ok (map fst (concat (map (step_ids env i) steps))))"

definition get_xtx_status ::
  "'x circuit_state \<Rightarrow> H256 \<Rightarrow> (DispatchError, CircuitStatus \<times> AdaptiveTimeout) res" where
  "get_xtx_status s i =
     ok_or (Circuit_Error XtxNotFound)
       (map_option (\<lambda>x. (status x, timeouts_at x)) (smap_get (XExecSignals s) i))"

definition get_fsx_status :: "'x circuit_state \<Rightarrow> H256 \<Rightarrow> (DispatchError, CircuitStatus) res" where
  "get_fsx_status s fsx_id =
     bind_res (ok_or (Circuit_Error XtxNotFound) (smap_get (SFX2XTXLinksMap s) fsx_id)) (\<lambda>i.
     bind_res (get_xtx_status s i) (\<lambda>(st, _). Ok st))"

definition get_pending_xtx_ids :: "'x circuit_state \<Rightarrow> H256 list" where
  "get_pending_xtx_ids s =
     map fst (filter (\<lambda>(_, x). status x < Finished) (XExecSignals s))"

definition recover_latest_submitted_xtx_id :: "'x circuit_state \<Rightarrow> (DispatchError, H256) res" where
  "recover_latest_submitted_xtx_id s =
     (let ids = get_pending_xtx_ids s
      in if ids = [] then Err (Circuit_Error XtxNotFound) else Ok (last ids))"

definition find_fsx ::
  "'x circuit_env \<Rightarrow> H256 \<Rightarrow> H256 \<Rightarrow> FullSideEffect list list \<Rightarrow> FullSideEffect option" where
  "find_fsx env i fsx_id steps =
     map_option snd (list_find (\<lambda>(k, _). k = fsx_id) (concat (map (step_ids env i) steps)))"

definition get_fsx_executor ::
  "'x circuit_env \<Rightarrow> 'x circuit_state \<Rightarrow> H256 \<Rightarrow> (DispatchError, AccountId option) res" where
  "get_fsx_executor env s fsx_id =
     bind_res (ok_or (Circuit_Error XtxNotFound) (smap_get (SFX2XTXLinksMap s) fsx_id)) (\<lambda>i.
     bind_res (ok_or (Circuit_Error XtxNotFound) (smap_get (FullSideEffects s) i)) (\<lambda>steps.
       if steps = [] then Err (Circuit_Error XtxNotFound)
       else case find_fsx env i fsx_id steps of
         Some fsx \<Rightarrow> Ok (enforce_executor (input fsx))
       | None \<Rightarrow> Ok None))"

definition get_fsx ::
  "'x circuit_env \<Rightarrow> 'x circuit_state \<Rightarrow> H256 \<Rightarrow> (DispatchError, FullSideEffect) res" where
  "get_fsx env s fsx_id =
     bind_res (ok_or (Circuit_Error XtxNotFound) (smap_get (SFX2XTXLinksMap s) fsx_id)) (\<lambda>i.
     bind_res (ok_or (Circuit_Error XtxNotFound) (smap_get (FullSideEffects s) i)) (\<lambda>steps.
       if steps = [] then Err (Circuit_Error FSXNotFoundById)
       else ok_or (Circuit_Error FSXNotFoundById) (find_fsx env i fsx_id steps)))"

definition get_fsx_requester :: "'x circuit_state \<Rightarrow> H256 \<Rightarrow> (DispatchError, AccountId) res" where
  "get_fsx_requester s fsx_id =
     bind_res (ok_or (Circuit_Error XtxNotFound) (smap_get (SFX2XTXLinksMap s) fsx_id)) (\<lambda>i.
     bind_res (ok_or (Circuit_Error XtxNotFound) (smap_get (XExecSignals s) i)) (\<lambda>x.
       Ok (requester x)))"

definition executor_fsx_of ::
  "'x circuit_env \<Rightarrow> 'x circuit_state \<Rightarrow> AccountId \<Rightarrow> H256 \<Rightarrow> (SideEffect \<times> H256) list" where
  "executor_fsx_of env s for_executor i =
     (case get_fsx_of_xtx env s i of
        Ok ids \<Rightarrow>
          concat (map (\<lambda>k. case get_fsx env s k of
              Ok fsx \<Rightarrow> if enforce_executor (input fsx) = Some for_executor then [(input fsx, k)] else []
            | _ \<Rightarrow> []) ids)
      | _ \<Rightarrow> [])"

definition get_pending_xtx_for ::
  "'x circuit_env \<Rightarrow> 'x circuit_state \<Rightarrow> AccountId \<Rightarrow> (H256 \<times> SideEffect list \<times> H256 list) list" where
  "get_pending_xtx_for env s for_executor =
     filter (\<lambda>(_, sfx, _). sfx \<noteq> [])
       (map (\<lambda>i. let own = executor_fsx_of env s for_executor i in (i, map fst own, map snd own))
         (get_pending_xtx_ids s))"

definition get_all_xtx_targets :: "'x circuit_env \<Rightarrow> 'x circuit_state \<Rightarrow> H256 \<Rightarrow> TargetId list" where
  "get_all_xtx_targets env s i =
     (case get_fsx_of_xtx env s i of
        Ok ids \<Rightarrow>
          concat (map (\<lambda>k. case get_fsx env s k of Ok fsx \<Rightarrow> [target (input fsx)] | _ \<Rightarrow> []) ids)
      | _ \<Rightarrow> [])"

definition get_pending_sfx_bids ::
  "'x circuit_env \<Rightarrow> 'x circuit_state \<Rightarrow> H256 \<Rightarrow> H256 \<Rightarrow> (CircuitError, SFXBid option) res" where
  "get_pending_sfx_bids env s i sfx_id =
     bind_res (load_xtx s i) (\<lambda>ctx.
     bind_res (read_current_step_fsx ctx) (\<lambda>step.
     bind_res (ok_or FSXNotFoundById (list_find (\<lambda>f. sfx_id_of env i f = sfx_id) step)) (\<lambda>fsx.
       Ok (case best_bid fsx of
             Some bid \<Rightarrow> (case enforce_executor (input fsx) of Some _ \<Rightarrow> None | None \<Rightarrow> Some bid)
           | None \<Rightarrow> None))))"

definition get_gmp_payload :: "'x circuit_state \<Rightarrow> H256 \<Rightarrow> H256 option" where
  "get_gmp_payload s i = smap_get (GMP s) i"

definition store_gmp_payload :: "H256 \<Rightarrow> H256 \<Rightarrow> 'x circuit_state \<Rightarrow> bool \<times> 'x circuit_state" where
  "store_gmp_payload i payload s =
     (if smap_contains (GMP s) i then (False, s)
      else (True, s\<lparr>GMP := smap_insert i payload (GMP s)\<rparr>))"

section \<open>Events and attestations\<close>

definition emit_sfx ::
  "'x circuit_env \<Rightarrow> H256 \<Rightarrow> AccountId \<Rightarrow> SideEffect list \<Rightarrow> 'x circuit_state \<Rightarrow> 'x circuit_state" where
  "emit_sfx env i subjected side_effects s =
     (if side_effects = [] then s
      else deposit_event (XTransactionReceivedForExec i)
        (deposit_event (NewSideEffectsAvailable subjected i side_effects
           (map (\<lambda>(n, sfx). generate_id (keccak env) sfx i (of_nat n)) (enumerate 0 side_effects))) s))"

definition status_event :: "H256 \<Rightarrow> CircuitStatus \<Rightarrow> CircuitEvent option" where
  "status_event i st =
     (case st of
        PendingBidding \<Rightarrow> Some (XTransactionReceivedForExec i)
      | Ready \<Rightarrow> Some (XTransactionReadyForExec i)
      | Finished \<Rightarrow> Some (XTransactionStepFinishedExec i)
      | FinishedAllSteps \<Rightarrow> Some (XTransactionXtxFinishedExecAllSteps i)
      | Reverted _ \<Rightarrow> Some (XTransactionXtxRevertedAfterTimeOut i)
      | Committed \<Rightarrow> Some (XTransactionXtxCommitted i)
      | Killed _ \<Rightarrow> Some (XTransactionXtxDroppedAtBidding i)
      | _ \<Rightarrow> None)"

definition emit_status_update ::
  "H256 \<Rightarrow> XExecSignal option \<Rightarrow> FullSideEffect list list option \<Rightarrow> 'x circuit_state
     \<Rightarrow> 'x circuit_state" where
  "emit_status_update i maybe_xtx maybe_fsx s =
     (case maybe_xtx of
        None \<Rightarrow> s
      | Some x \<Rightarrow>
          let s' = (case status_event i (status x) of Some e \<Rightarrow> deposit_event e s | None \<Rightarrow> s)
          in if status x \<ge> PendingExecution
             then (case maybe_fsx of Some fsx \<Rightarrow> deposit_event (SideEffectsConfirmed i fsx) s' | None \<Rightarrow> s')
             else s')"

definition attest_one ::
  "'x circuit_env \<Rightarrow> LocalXtxCtx \<Rightarrow> FullSideEffect \<Rightarrow> 'x circuit_state \<Rightarrow> 'x circuit_state" where
  "attest_one env ctx fsx s =
     (if security_lvl fsx \<noteq> Escrow then s
      else let sfx_id = sfx_id_of env (xtx_id ctx) fsx in
        case status (xtx ctx) of
          Reverted _ \<Rightarrow>
            (case request_sfx_attestation_revert env (target (input fsx)) sfx_id (ext s) of
               (ok, x) \<Rightarrow> deposit_event (if ok then SuccessfulFSXRevertAttestationRequest sfx_id
                   else UnsuccessfulFSXRevertAttestationRequest sfx_id) (set_ext x s))
        | st \<Rightarrow>
            if st = FinishedAllSteps \<or> st = Committed
            then (case request_sfx_attestation_commit env (target (input fsx)) sfx_id
                         (get_gmp_payload s sfx_id) (ext s) of
                    (ok, x) \<Rightarrow> deposit_event (if ok then SuccessfulFSXCommitAttestationRequest sfx_id
                        else UnsuccessfulFSXCommitAttestationRequest sfx_id) (set_ext x s))
            else s)"

definition request_sfx_attestation ::
  "'x circuit_env \<Rightarrow> LocalXtxCtx \<Rightarrow> 'x circuit_state \<Rightarrow> (CircuitError, 'x circuit_state) res" where
  "request_sfx_attestation env ctx s =
     bind_res (read_current_step_fsx ctx) (\<lambda>step. Ok (fold (attest_one env ctx) step s))"

section \<open>Submitting\<close>

definition authorize :: "Origin \<Rightarrow> CircuitRole \<Rightarrow> (DispatchError, AccountId) res" where
  "authorize origin rl =
     (if rl \<in> {Requester, ContractAuthor, Relayer, Executor} then ensure_signed origin
      else Err BadOrigin)"

definition do_on_extrinsic_trigger ::
  "'x circuit_env \<Rightarrow> AccountId \<Rightarrow> SideEffect list \<Rightarrow> SpeedMode \<Rightarrow> SecurityLvl \<Rightarrow> AccountId option
     \<Rightarrow> 'x circuit_state \<Rightarrow> (CircuitError, LocalXtxCtx \<times> 'x circuit_state) res" where
  "do_on_extrinsic_trigger env req side_effects speed preferred maybe_call_origin s =
     bind_res (setup_xtx env side_effects req
         (Some (estimate_adaptive_timeout env (ext s) (map target side_effects) speed
           (XtxTimeoutDefault env))) preferred s) (\<lambda>ctx.
     let fresh = ctx\<lparr>xtx := (xtx ctx)\<lparr>speed_mode := speed\<rparr>\<rparr>;
         call_origin = (case maybe_call_origin of Some a \<Rightarrow> a | None \<Rightarrow> req)
     in bind_res (map_err (\<lambda>_. XtxChargeFailedOnEscrowFee)
          (charge_finality_fee env fresh call_origin s)) (\<lambda>(_, s1).
        bind_res (compile_xtx env fresh (\<lambda>fsx _ _ _ _ _. Ok (TryRequest, fsx))
            (\<lambda>_ ctx' s'. Ok (emit_sfx env (xtx_id ctx') req side_effects s')) s1)
          (\<lambda>(_, ctx', s2). Ok (ctx', s2))))"

definition on_extrinsic_trigger ::
  "'x circuit_env \<Rightarrow> Origin \<Rightarrow> SideEffect list \<Rightarrow> SpeedMode \<Rightarrow> SecurityLvl \<Rightarrow> 'x circuit_state
     \<Rightarrow> (DispatchError, 'x circuit_state) res" where
  "on_extrinsic_trigger env origin side_effects speed preferred s =
     bind_res (authorize origin Requester) (\<lambda>req.
     bind_res (map_err Circuit_Error
         (do_on_extrinsic_trigger env req side_effects speed preferred None s))
       (\<lambda>(_, s'). Ok s'))"

definition on_remote_origin_trigger ::
  "'x circuit_env \<Rightarrow> Origin \<Rightarrow> AccountId \<Rightarrow> SideEffect list \<Rightarrow> SpeedMode \<Rightarrow> 'x circuit_state
     \<Rightarrow> (DispatchError, 'x circuit_state) res" where
  "on_remote_origin_trigger env origin order_origin side_effects speed s =
     bind_res (authorize origin Executor) (\<lambda>call_origin.
       case origin_new order_origin of
         Local _ \<Rightarrow> Err (Circuit_Error InvalidOrderOrigin)
       | Remote _ \<Rightarrow>
           bind_res (map_err Circuit_Error
               (do_on_extrinsic_trigger env order_origin side_effects speed Escrow
                 (Some call_origin) s))
             (\<lambda>(_, s'). Ok s'))"

section \<open>Bidding and confirming\<close>

definition bid_sfx ::
  "'x circuit_env \<Rightarrow> Origin \<Rightarrow> H256 \<Rightarrow> Balance \<Rightarrow> 'x circuit_state
     \<Rightarrow> (DispatchError, 'x circuit_state) res" where
  "bid_sfx env origin sfx_id bid_amount s =
     bind_res (authorize origin Executor) (\<lambda>bidder.
     bind_res (map_err Circuit_Error
       (bind_res (ok_or LocalSideEffectExecutionNotApplicable (smap_get (SFX2XTXLinksMap s) sfx_id)) (\<lambda>i.
        bind_res (load_xtx s i) (\<lambda>ctx.
          compile_xtx env ctx (\<lambda>fsx _ _ _ _ _. Ok (TryBid sfx_id bid_amount bidder, fsx))
            (\<lambda>_ _ s'. Ok (deposit_event (SFXNewBidReceived sfx_id bidder bid_amount) s')) s))))
       (\<lambda>(_, _, s'). Ok s'))"

definition confirm ::
  "'x circuit_env \<Rightarrow> H256 \<Rightarrow> FullSideEffect list \<Rightarrow> H256 \<Rightarrow> ConfirmedSideEffect \<Rightarrow> 'x circuit_state
     \<Rightarrow> (DispatchError, FullSideEffect list) res" where
  "confirm env i step sfx_id confirmation s =
     (if step = [] then Err (Other ''Xtx has an empty single step.'')
      else bind_res (ensure (ensure_all_gateways_are_active env s (map (\<lambda>f. target (input f)) step))
               (Circuit_Error GatewayNotActive)) (\<lambda>_.
        case list_find (\<lambda>f. sfx_id_of env i f = sfx_id) step of
          None \<Rightarrow> Err (Other ''Unable to find matching Side Effect in given Xtx to confirm'')
        | Some fsx \<Rightarrow>
            if confirmed fsx \<noteq> None then Err (Other ''Side Effect already confirmed'')
            else bind_res (map_err Circuit_Error (load_xtx s i)) (\<lambda>ctx.
              bind_res (map_err (\<lambda>_. Other ''SideEffect confirmation of inclusion failed'')
                  (verify_event_inclusion env (ext s) (target (input fsx)) (speed_mode (xtx ctx)) None
                    (inclusion_data confirmation))) (\<lambda>receipt.
              bind_res (ok_or (Other ''Unable to find matching Side Effect descriptor in XDNS'')
                  (get_sfx_abi env (ext s) (target (input fsx)) (action (input fsx)))) (\<lambda>abi.
              if receipt_height receipt < submission_target_height fsx
              then Err (Other ''SideEffect confirmation of inclusion failed - inclusion height is higher than target'')
              else bind_res (get_target_codec env (ext s) (target (input fsx))) (\<lambda>codec.
                bind_res (sfx_confirm (abi_cfg env) (input fsx) abi (receipt_message receipt) Scale codec) (\<lambda>_.
                  Ok (update_first (\<lambda>f. sfx_id_of env i f = sfx_id)
                       (\<lambda>f. f\<lparr>confirmed := Some confirmation\<rparr>) step))))))))"

definition confirm_post_update :: "'x circuit_env \<Rightarrow> H256 \<Rightarrow> 'x post_update" where
  "confirm_post_update env sfx_id = (\<lambda>(_, new) ctx s.
     let s1 = deposit_event (SideEffectConfirmed sfx_id) s in
     bind_res (if new = FinishedAllSteps \<or> new = Committed
               then request_sfx_attestation env ctx s1 else Ok s1) (\<lambda>s2.
       Ok (emit_status_update (xtx_id ctx) (Some (xtx ctx)) (Some (full_side_effects ctx)) s2)))"

definition confirm_side_effect ::
  "'x circuit_env \<Rightarrow> Origin \<Rightarrow> H256 \<Rightarrow> ConfirmedSideEffect \<Rightarrow> 'x circuit_state
     \<Rightarrow> (DispatchError, 'x circuit_state) res" where
  "confirm_side_effect env origin sfx_id confirmation s =
     bind_res (authorize origin Executor) (\<lambda>_.
     bind_res (map_err Circuit_Error
       (bind_res (ok_or LocalSideEffectExecutionNotApplicable (smap_get (SFX2XTXLinksMap s) sfx_id)) (\<lambda>i.
        bind_res (load_xtx s i) (\<lambda>ctx.
          compile_xtx env ctx
            (\<lambda>fsx _ _ _ _ s'. bind_res (map_err (\<lambda>_. ConfirmationFailed)
                (confirm env i fsx sfx_id confirmation s'))
              (\<lambda>fsx'. Ok (TryConfirm sfx_id confirmation, fsx')))
            (confirm_post_update env sfx_id) s))))
       (\<lambda>(_, _, s'). Ok s'))"

section \<open>Cancelling and reverting\<close>

definition cancel_precompile :: "AccountId \<Rightarrow> 'x precompile" where
  "cancel_precompile attempting = (\<lambda>current_fsx _ _ st req _.
     if attempting \<noteq> req \<or> st > PendingBidding then Err UnauthorizedCancellation
     else if list_ex (\<lambda>fsx. best_bid fsx \<noteq> None) current_fsx then Err UnauthorizedCancellation
     else Ok (TryKill IntentionalKill, current_fsx))"

definition cancel_xtx ::
  "'x circuit_env \<Rightarrow> Origin \<Rightarrow> H256 \<Rightarrow> 'x circuit_state \<Rightarrow> (DispatchError, 'x circuit_state) res" where
  "cancel_xtx env origin i s =
     bind_res (authorize origin Requester) (\<lambda>attempting.
     bind_res (map_err Circuit_Error
       (bind_res (load_xtx s i) (\<lambda>ctx.
          compile_xtx env ctx (cancel_precompile attempting) no_post_updates s)))
       (\<lambda>(_, _, s'). Ok s'))"

definition revert_call ::
  "'x circuit_env \<Rightarrow> Origin \<Rightarrow> H256 \<Rightarrow> 'x circuit_state \<Rightarrow> (DispatchError, 'x circuit_state) res" where
  "revert_call env origin i s =
     bind_res (ensure_root origin) (\<lambda>_.
     bind_res (map_err Circuit_Error (machine_revert env i IntentionalKill infallible_no_post_updates s))
       (\<lambda>(_, s'). Ok s'))"

definition on_xcm_trigger :: "Origin \<Rightarrow> (DispatchError, 'a) res" where
  "on_xcm_trigger origin = Err (Circuit_Error NotImplemented)"

definition on_remote_gateway_trigger :: "Origin \<Rightarrow> (DispatchError, 'a) res" where
  "on_remote_gateway_trigger origin = Err (Circuit_Error NotImplemented)"

section \<open>Escrowed execution\<close>

definition arg_at :: "bytes list \<Rightarrow> nat \<Rightarrow> string \<Rightarrow> (DispatchError, bytes) res" where
  "arg_at args n msg = (if n < length args then Ok (args ! n) else Err (Other msg))"

definition ESCROW_DECODE_ERROR :: DispatchError where
  "ESCROW_DECODE_ERROR = Other ''RecoverEscrowArgumentsFailedOnDecodingArguments''"

definition recover_escrow_arguments ::
  "'x circuit_env \<Rightarrow> FullSideEffect \<Rightarrow> (DispatchError, AssetId option \<times> AccountId \<times> Balance) res" where
  "recover_escrow_arguments env fsx =
     (let args = encoded_args (input fsx) in
      if action (input fsx) = TRANSFER_SIDE_EFFECT_ID then
        bind_res (arg_at args 0 ''RecoverEscrowArgumentsFailedToAccessTargetAccountFromField0'') (\<lambda>ta.
        bind_res (ok_or ESCROW_DECODE_ERROR (decode_account env ta)) (\<lambda>target_account.
        bind_res (arg_at args 1 ''RecoverEscrowArgumentsFailedToAccessAmountFromField1'') (\<lambda>am.
        bind_res (ok_or ESCROW_DECODE_ERROR (decode_balance env am)) (\<lambda>escrow_amount.
          Ok (None, target_account, escrow_amount)))))
      else if action (input fsx) = ASSETS_TRANSFER_SIDE_EFFECT_ID then
        bind_res (arg_at args 0 ''RecoverEscrowArgumentsFailedToAccessAssetIdFromField0'') (\<lambda>ab.
        bind_res (ok_or ESCROW_DECODE_ERROR (decode_asset env ab)) (\<lambda>asset.
        bind_res (arg_at args 1 ''RecoverEscrowArgumentsFailedToAccessTargetAccountFromField1'') (\<lambda>ta.
        bind_res (ok_or ESCROW_DECODE_ERROR (decode_account env ta)) (\<lambda>target_account.
        bind_res (arg_at args 2 ''RecoverEscrowArgumentsFailedToAccessAmountFromField2'') (\<lambda>am.
        bind_res (ok_or ESCROW_DECODE_ERROR (decode_balance env am)) (\<lambda>escrow_amount.
          Ok (Some asset, target_account, escrow_amount)))))))
      else Err (Other ''EscrowExecutionNotApplicableForThisSFXAction''))"

text \<open>
  The hot swap of dynamic destination deals: each side effect of the context that is still a
  deal becomes a transfer to the executor, and replaces the stored side effects with its
  identifier.
\<close>

definition ddd_swap ::
  "'x circuit_env \<Rightarrow> AccountId \<Rightarrow> FullSideEffect \<Rightarrow> (DispatchError, FullSideEffect) res" where
  "ddd_swap env exec fsx =
     bind_res (arg_at (encoded_args (input fsx)) 0 ''CannotAccessDDDAssetAsField0'') (\<lambda>asset.
     bind_res (arg_at (encoded_args (input fsx)) 1 ''CannotAccessDDDAmountAsField1'') (\<lambda>amnt.
       Ok (fsx\<lparr>input :=
         (if asset = encode_u32 env 0
          then (input fsx)\<lparr>action := TRANSFER_SIDE_EFFECT_ID, encoded_args := [exec, amnt]\<rparr>
          else (input fsx)\<lparr>action := ASSETS_TRANSFER_SIDE_EFFECT_ID,
                           encoded_args := [asset, exec, amnt]\<rparr>)\<rparr>)))"

definition swap_one ::
  "'x circuit_env \<Rightarrow> AccountId \<Rightarrow> H256 \<Rightarrow> FullSideEffect
     \<Rightarrow> (H256 \<times> H256 \<times> AccountId \<times> Sfx4bId) list \<times> 'x circuit_state
     \<Rightarrow> (DispatchError, (H256 \<times> H256 \<times> AccountId \<times> Sfx4bId) list \<times> 'x circuit_state) res" where
  "swap_one env exec i fsx = (\<lambda>(result, s).
     if action (input fsx) \<noteq> DDD_ACTION then Ok (result, s)
     else bind_res (ddd_swap env exec fsx) (\<lambda>fsx'.
       let sfx_id = sfx_id_of env i fsx' in
       case smap_get (FullSideEffects s) i of
         None \<Rightarrow> Ok (result, s)
       | Some steps \<Rightarrow>
           Ok (result @ map (\<lambda>_. (i, sfx_id, exec, action (input fsx')))
                 (filter (\<lambda>f. sfx_id_of env i f = sfx_id) (concat steps)),
               s\<lparr>FullSideEffects := smap_insert i
                   (map (map (\<lambda>f. if sfx_id_of env i f = sfx_id then fsx' else f)) steps)
                   (FullSideEffects s)\<rparr>)))"

definition perform_ddd_hot_swap ::
  "'x circuit_env \<Rightarrow> LocalXtxCtx \<Rightarrow> AccountId \<Rightarrow> 'x circuit_state
     \<Rightarrow> (DispatchError, (H256 \<times> H256 \<times> AccountId \<times> Sfx4bId) list \<times> 'x circuit_state) res" where
  "perform_ddd_hot_swap env ctx exec s =
     fold_res (swap_one env exec (xtx_id ctx)) (concat (full_side_effects ctx)) ([], s)"

definition escrow_confirmation :: "AccountId \<Rightarrow> BlockNumber \<Rightarrow> ConfirmedSideEffect" where
  "escrow_confirmation exec n =
     \<lparr>err = None, sfx_output = None, inclusion_data = [], executioner = exec, received_at = n,
      cost = None\<rparr>"

definition escrow ::
  "'x circuit_env \<Rightarrow> Origin \<Rightarrow> H256 \<Rightarrow> 'x circuit_state \<Rightarrow> (DispatchError, 'x circuit_state) res" where
  "escrow env origin sfx_id s =
     bind_res (authorize origin Executor) (\<lambda>exec.
     bind_res (ok_or (Circuit_Error XtxNotFound) (smap_get (SFX2XTXLinksMap s) sfx_id)) (\<lambda>i.
     bind_res (map_err Circuit_Error (load_xtx s i)) (\<lambda>ctx.
     bind_res (ok_or (Circuit_Error EscrowExecutionNotApplicableForThisSFX)
         (list_find (\<lambda>f. sfx_id_of env i f = sfx_id \<and> security_lvl f = Escrow)
           (concat (full_side_effects ctx)))) (\<lambda>fsx.
     bind_res (ensure (enforce_executor (input fsx) = Some exec)
         (Circuit_Error EscrowExecutionNotApplicableForThisSFX)) (\<lambda>_.
     bind_res (map_err (\<lambda>_. Circuit_Error EscrowExecutionNotApplicableForThisSFX)
         (recover_escrow_arguments env fsx)) (\<lambda>(escrow_asset, target_account, escrow_amount).
     bind_res (deposit (am_cfg env) (generate_id (keccak env) (input fsx) sfx_id 3333)
         \<lparr>payee = exec, offered_reward = escrow_amount, maybe_asset_id = escrow_asset,
          charge_fee = 0, recipient = Some target_account, source = EscrowUnlock,
          role = Requester\<rparr> (account_manager s)) (\<lambda>am.
     bind_res (map_err Circuit_Error (compile_xtx env ctx
         (\<lambda>step _ _ _ _ _. Ok (TryConfirm sfx_id (escrow_confirmation exec (block_number s)), step))
         (confirm_post_update env sfx_id) (s\<lparr>account_manager := am\<rparr>))) (\<lambda>(_, ctx', s1).
     bind_res (map_err (\<lambda>_. Circuit_Error FailedToPerformDynamicDestinationDealHotSwap)
         (perform_ddd_hot_swap env ctx' exec s1)) (\<lambda>(swapped, s2).
       Ok (fold (\<lambda>(x, k, e, a). deposit_event (DynamicDestinationDealReplaced x k e a)) swapped
            (deposit_event (SideEffectConfirmed sfx_id) s2)))))))))))"

section \<open>Local triggers and signals\<close>

record LocalTrigger =
  trigger_contract :: AccountId
  submitted_side_effects :: "bytes list"
  trigger_speed_mode :: SpeedMode
  maybe_xtx_id :: "H256 option"

record LocalStateExecutionView =
  view_local_state :: LocalState
  view_hardened_side_effects :: "HardenedSideEffect list list"
  view_steps_cnt :: "u32 \<times> u32"
  view_xtx_id :: H256

definition load_or_setup ::
  "'x circuit_env \<Rightarrow> AccountId \<Rightarrow> H256 option \<Rightarrow> 'x circuit_state
     \<Rightarrow> (CircuitError, LocalXtxCtx \<times> 'x circuit_state) res" where
  "load_or_setup env req maybe_id s =
     (case maybe_id of
        Some i \<Rightarrow> bind_res (load_xtx s i) (\<lambda>ctx. Ok (ctx, s))
      | None \<Rightarrow>
          bind_res (setup_xtx env [] req None Optimistic s) (\<lambda>ctx.
          bind_res (compile_xtx env ctx no_mangle no_post_updates s) (\<lambda>(_, ctx', s').
            Ok (ctx', s'))))"

definition load_local_state ::
  "'x circuit_env \<Rightarrow> Origin \<Rightarrow> H256 option \<Rightarrow> 'x circuit_state
     \<Rightarrow> (DispatchError, LocalStateExecutionView \<times> 'x circuit_state) res" where
  "load_local_state env origin maybe_id s =
     bind_res (authorize origin ContractAuthor) (\<lambda>req.
     bind_res (map_err Circuit_Error (load_or_setup env req maybe_id s)) (\<lambda>(ctx, s').
     bind_res (map_res (map_res harden) (full_side_effects ctx)) (\<lambda>hardened.
       Ok (\<lparr>view_local_state = local_state ctx, view_hardened_side_effects = hardened,
            view_steps_cnt = steps_cnt (xtx ctx), view_xtx_id = xtx_id ctx\<rparr>, s'))))"

definition exec_in_xtx_ctx ::
  "H256 \<Rightarrow> LocalState \<Rightarrow> FullSideEffect list \<Rightarrow> u32 \<times> u32 \<Rightarrow> (CircuitError, FullSideEffect list) res" where
  "exec_in_xtx_ctx i ls fsx cnt = Ok []"

definition on_local_trigger ::
  "'x circuit_env \<Rightarrow> Origin \<Rightarrow> LocalTrigger \<Rightarrow> 'x circuit_state
     \<Rightarrow> (DispatchError, LocalStateExecutionView \<times> 'x circuit_state) res" where
  "on_local_trigger env origin trigger s =
     bind_res (authorize origin ContractAuthor) (\<lambda>req.
     bind_res (map_err Circuit_Error (load_or_setup env req (maybe_xtx_id trigger) s)) (\<lambda>(ctx, s1).
     bind_res (map_err Circuit_Error (compile_xtx env ctx
         (\<lambda>current_fsx ls cnt st _ _.
            case exec_in_xtx_ctx (xtx_id ctx) ls current_fsx cnt of
              Err e \<Rightarrow> if st = Ready then Ok (TryKill IntentionalKill, current_fsx) else Err e
            | Ok new_fsx \<Rightarrow> Ok (TryUpdateFSX new_fsx, current_fsx)
            | Panic \<Rightarrow> Panic)
         (\<lambda>_ ctx' s'. Ok (emit_sfx env (xtx_id ctx') req
            (map input (concat (full_side_effects ctx'))) s')) s1)) (\<lambda>(_, _, s2).
       load_local_state env origin (Some (xtx_id ctx)) s2)))"

text \<open>The extrinsic; \<open>decode_trigger\<close> is the SCALE decoding of the trigger.\<close>

definition on_local_trigger_call ::
  "'x circuit_env \<Rightarrow> (bytes \<Rightarrow> LocalTrigger option) \<Rightarrow> Origin \<Rightarrow> bytes \<Rightarrow> 'x circuit_state
     \<Rightarrow> (DispatchError, 'x circuit_state) res" where
  "on_local_trigger_call env decode_trigger origin trigger s =
     bind_res (ok_or (Circuit_Error InsuranceBondNotRequired) (decode_trigger trigger)) (\<lambda>t.
     bind_res (on_local_trigger env origin t s) (\<lambda>(_, s'). Ok s'))"

definition on_signal ::
  "'x circuit_env \<Rightarrow> Origin \<Rightarrow> ExecutionSignal \<Rightarrow> 'x circuit_state
     \<Rightarrow> (DispatchError, 'x circuit_state) res" where
  "on_signal env origin signal s =
     bind_res (authorize origin ContractAuthor) (\<lambda>req.
       if length (SignalQueue s) < SignalQueueDepth env
       then Ok (s\<lparr>SignalQueue := SignalQueue s @ [(req, signal)]\<rparr>)
       else Err (Circuit_Error SignalQueueFull))"

text \<open>
  The conversion of submitted bytes: side effects that fail to parse are skipped, a truncated
  one panics.
\<close>

fun parse_all :: "nat \<Rightarrow> nat \<Rightarrow> bytes list \<Rightarrow> ('e, SideEffect list) res" where
  "parse_all acc bal [] = Ok []"
| "parse_all acc bal (b # bs) =
     (case sfx_try_from acc bal b of
        Ok sfx \<Rightarrow> bind_res (parse_all acc bal bs) (\<lambda>rest. Ok (sfx # rest))
      | Err _ \<Rightarrow> parse_all acc bal bs
      | Panic \<Rightarrow> Panic)"

definition convert_side_effects ::
  "nat \<Rightarrow> nat \<Rightarrow> bytes list \<Rightarrow> (string, SideEffect list) res" where
  "convert_side_effects acc bal side_effects =
     bind_res (parse_all acc bal side_effects) (\<lambda>sfx.
       if sfx = [] then Err ''No side effects provided'' else Ok sfx)"

end
