(* ===== verification/Circuit_Queues.thy ===== *)
theory Circuit_Queues
  imports Circuit_Api
begin

text \<open>
  The queues that the block hooks of the circuit work through: bidding timeouts and finished
  transactions, adaptive and emergency timeouts, the dead letter queue and the kill signals
  (\<open>pallets/circuit/src/lib.rs\<close>).  Iterating over a storage map visits the entries present
  when the loop starts: each visit changes only entries of the visited transaction.  Weights
  are reference times; a panic of a hook is the value \<open>Panic\<close>.
\<close>

section \<open>Dead letter queue\<close>

definition get_adaptive_timeout ::
  "'x circuit_env \<Rightarrow> 'x circuit_state \<Rightarrow> H256 \<Rightarrow> SpeedMode option \<Rightarrow> AdaptiveTimeout" where
  "get_adaptive_timeout env s i maybe_speed_mode =
     estimate_adaptive_timeout env (ext s) (get_all_xtx_targets env s i)
       (case maybe_speed_mode of Some m \<Rightarrow> m | None \<Rightarrow> Speed_Finalized) (XtxTimeoutDefault env)"

definition mutate_xtx :: "H256 \<Rightarrow> (XExecSignal \<Rightarrow> XExecSignal) \<Rightarrow> 'x circuit_state \<Rightarrow> 'x circuit_state" where
  "mutate_xtx i f s =
     (case smap_get (XExecSignals s) i of
        Some x \<Rightarrow> s\<lparr>XExecSignals := smap_insert i (f x) (XExecSignals s)\<rparr>
      | None \<Rightarrow> s)"

definition add_xtx_to_dlq ::
  "'x circuit_env \<Rightarrow> H256 \<Rightarrow> TargetId list \<Rightarrow> SpeedMode \<Rightarrow> 'x circuit_state
     \<Rightarrow> (Weight \<times> bool) \<times> 'x circuit_state" where
  "add_xtx_to_dlq env i targets speed s =
     (if smap_contains (DLQ s) i then ((db_reads env 1, False), s)
      else let s1 = s\<lparr>DLQ := smap_insert i (block_number s, targets, speed) (DLQ s)\<rparr>;
               s2 = mutate_xtx i (\<lambda>x. x\<lparr>timeouts_at := (timeouts_at x)\<lparr>dlq := Some (block_number s)\<rparr>\<rparr>) s1;
               s3 = (if smap_contains (PendingXtxTimeoutsMap s2) i
                     then s2\<lparr>PendingXtxTimeoutsMap := smap_remove i (PendingXtxTimeoutsMap s2)\<rparr>
                     else s2)
           in ((db_reads_writes env 2 3, True), s3))"

definition remove_xtx_from_dlq ::
  "'x circuit_env \<Rightarrow> H256 \<Rightarrow> 'x circuit_state \<Rightarrow> (Weight \<times> bool) \<times> 'x circuit_state" where
  "remove_xtx_from_dlq env i s =
     (case smap_get (DLQ s) i of
        None \<Rightarrow> ((db_reads env 1, False), s)
      | Some (_, _, speed) \<Rightarrow>
          let s1 = s\<lparr>DLQ := smap_remove i (DLQ s)\<rparr>;
              timeout = get_adaptive_timeout env s1 i (Some speed);
              s2 = s1\<lparr>PendingXtxTimeoutsMap := smap_insert i timeout (PendingXtxTimeoutsMap s1)\<rparr>
          in ((db_reads_writes env 2 3, True), mutate_xtx i (\<lambda>x. x\<lparr>timeouts_at := timeout\<rparr>) s2))"

definition dlq_visit ::
  "'x circuit_env \<Rightarrow> H256 \<times> BlockNumber \<times> TargetId list \<times> SpeedMode
     \<Rightarrow> Weight list \<times> 'x circuit_state \<Rightarrow> Weight list \<times> 'x circuit_state" where
  "dlq_visit env = (\<lambda>(i, _, targets, _) (ws, s).
     if ensure_all_gateways_are_active env s targets
     then (case remove_xtx_from_dlq env i s of ((w, _), s') \<Rightarrow> (ws @ [w], s'))
     else (ws @ [db_reads env 1], s))"

definition process_dlq :: "'x circuit_env \<Rightarrow> BlockNumber \<Rightarrow> 'x circuit_state \<Rightarrow> Weight \<times> 'x circuit_state" where
  "process_dlq env n s =
     (case fold (dlq_visit env) (DLQ s) ([], s) of
        ([], s') \<Rightarrow> (db_reads env 1, s')
      | (w # ws, s') \<Rightarrow> (foldl weight_add w ws, s'))"

definition trigger_dlq ::
  "'x circuit_env \<Rightarrow> Origin \<Rightarrow> 'x circuit_state \<Rightarrow> (DispatchError, 'x circuit_state) res" where
  "trigger_dlq env origin s =
     bind_res (ensure_signed origin) (\<lambda>_. Ok (snd (process_dlq env (block_number s) s)))"

section \<open>Reverting timed out transactions\<close>

definition revert_post_update :: "'x circuit_env \<Rightarrow> H256 \<Rightarrow> 'x post_update" where
  "revert_post_update env i = (\<lambda>_ ctx s.
     bind_res (request_sfx_attestation env ctx s) (\<lambda>s'.
       Ok (deposit_event (XTransactionXtxRevertedAfterTimeOut i) s')))"

definition process_revert_one ::
  "'x circuit_env \<Rightarrow> H256 \<Rightarrow> 'x circuit_state \<Rightarrow> (CircuitError, (Weight \<times> bool) \<times> 'x circuit_state) res" where
  "process_revert_one env i s =
     (let all_targets = get_all_xtx_targets env s i in
      if \<not> ensure_all_gateways_are_active env s all_targets
      then Ok (add_xtx_to_dlq env i all_targets Speed_Finalized s)
      else bind_res (machine_revert env i Timeout (revert_post_update env i) s) (\<lambda>(success, s').
             Ok ((db_reads_writes env 1 2, success), s')))"

definition process_adaptive_xtx_timeout_queue ::
  "'x circuit_env \<Rightarrow> BlockNumber \<Rightarrow> GatewayVendor \<Rightarrow> 'x circuit_state
     \<Rightarrow> (CircuitError, Weight \<times> 'x circuit_state) res" where
  "process_adaptive_xtx_timeout_queue env n verifier s =
     fold_res (\<lambda>(i, _) (w, s).
         bind_res (process_revert_one env i s) (\<lambda>((w1, _), s'). Ok (weight_add w w1, s')))
       (filter (\<lambda>(_, t). estimated_height_here t < n) (PendingXtxTimeoutsMap s)) (0, s)"

definition process_emergency_revert_xtx_queue ::
  "'x circuit_env \<Rightarrow> BlockNumber \<Rightarrow> BlockNumber \<Rightarrow> Weight \<Rightarrow> 'x circuit_state
     \<Rightarrow> (CircuitError, Weight \<times> 'x circuit_state) res" where
  "process_emergency_revert_xtx_queue env n revert_interval max_weight s =
     (if revert_interval = 0 then Ok (0, s)
      else if n mod revert_interval = 0 then
        fold_res (\<lambda>(i, _) (w, s).
            if w \<le> max_weight
            then bind_res (process_revert_one env i s) (\<lambda>((w1, _), s'). Ok (weight_add w w1, s'))
            else Ok (w, s))
          (filter (\<lambda>(_, t). emergency_timeout_here t \<le> n) (PendingXtxTimeoutsMap s)) (0, s)
      else Ok (0, s))"

section \<open>Closing the bidding and committing\<close>

definition status_post_update :: "'x post_update" where
  "status_post_update = (\<lambda>_ ctx s. Ok (emit_status_update (xtx_id ctx) (Some (xtx ctx)) None s))"

definition tick_one_precompile ::
  "FullSideEffect list \<Rightarrow> LocalState \<Rightarrow> u32 \<times> u32 \<Rightarrow> CircuitStatus \<Rightarrow> AccountId \<Rightarrow> PrecompileResult" where
  "tick_one_precompile current_fsx _ _ st _ =
     (if st = InBidding \<and> list_all (\<lambda>fsx. best_bid fsx \<noteq> None) current_fsx
      then ForceUpdateStatus Ready
      else TryKill Timeout)"

definition process_tick_one ::
  "'x circuit_env \<Rightarrow> H256 \<Rightarrow> 'x circuit_state \<Rightarrow> (CircuitError, Weight \<times> 'x circuit_state) res" where
  "process_tick_one env i s =
     bind_res (expect (load_xtx s i)) (\<lambda>ctx.
     bind_res (compile_infallible env ctx tick_one_precompile status_post_update s) (\<lambda>(_, _, s').
       Ok (db_reads_writes env 1 4, s')))"

definition tick_two_precompile ::
  "FullSideEffect list \<Rightarrow> LocalState \<Rightarrow> u32 \<times> u32 \<Rightarrow> CircuitStatus \<Rightarrow> AccountId \<Rightarrow> PrecompileResult" where
  "tick_two_precompile _ _ _ st _ =
     (if st = FinishedAllSteps then ForceUpdateStatus Committed else TryKill Timeout)"

definition process_tick_two ::
  "'x circuit_env \<Rightarrow> H256 \<Rightarrow> 'x circuit_state \<Rightarrow> (CircuitError, Weight \<times> 'x circuit_state) res" where
  "process_tick_two env i s =
     (case load_xtx s i of
        Ok ctx \<Rightarrow>
          bind_res (compile_infallible env ctx tick_two_precompile status_post_update s) (\<lambda>(_, _, s').
            Ok (db_reads_writes env 1 4, s'))
      | Err _ \<Rightarrow> Ok (db_reads_writes env 1 0, s)
      | Panic \<Rightarrow> Panic)"

definition tick_all ::
  "(H256 \<Rightarrow> 'x circuit_state \<Rightarrow> (CircuitError, Weight \<times> 'x circuit_state) res) \<Rightarrow> Weight \<Rightarrow> H256 list
     \<Rightarrow> Weight \<times> 'x circuit_state \<Rightarrow> (CircuitError, Weight \<times> 'x circuit_state) res" where
  "tick_all tick max_weight ids ws =
     fold_res (\<lambda>i (w, s).
         if w \<le> max_weight
         then bind_res (tick i s) (\<lambda>(w1, s'). Ok (weight_add w w1, s'))
         else Ok (w, s)) ids ws"

definition process_xtx_tick_queue ::
  "'x circuit_env \<Rightarrow> BlockNumber \<Rightarrow> BlockNumber \<Rightarrow> Weight \<Rightarrow> 'x circuit_state
     \<Rightarrow> (CircuitError, Weight \<times> 'x circuit_state) res" where
  "process_xtx_tick_queue env n kill_interval max_weight s =
     (if kill_interval = 0 then Ok (0, s)
      else if n mod kill_interval = 0 then
        bind_res (tick_all (process_tick_one env) max_weight
            (map fst (filter (\<lambda>(_, timeout_at). timeout_at \<le> n) (PendingXtxBidsTimeoutsMap s)))
            (0, s)) (\<lambda>(w, s1).
          tick_all (process_tick_two env) max_weight (map fst (FinalizedXtx s1)) (w, s1))
      else Ok (0, s))"

section \<open>Signals\<close>

text \<open>
  The bounded queue: \<open>swap_remove(0)\<close> takes the first element and moves the last one to the
  front, \<open>slide(0, len)\<close> moves the first element to the end.
\<close>

definition swap_remove_0 :: "'a list \<Rightarrow> 'a list" where
  "swap_remove_0 q = (case q of [] \<Rightarrow> [] | x # xs \<Rightarrow> if xs = [] then [] else last xs # butlast xs)"

definition slide_0_end :: "'a list \<Rightarrow> 'a list" where
  "slide_0_end q = (case q of [] \<Rightarrow> [] | x # xs \<Rightarrow> xs @ [x])"

definition checked_weight_add :: "Weight \<Rightarrow> Weight \<Rightarrow> Weight" where
  "checked_weight_add w v = (if w + v \<le> weight_max then w + v else w)"

text \<open>One iteration; the loop removes one signal at a time, so the queue's length bounds it.\<close>

definition handle_front_signal ::
  "'x circuit_env \<Rightarrow> Weight \<times> (AccountId \<times> ExecutionSignal) list \<times> 'x circuit_state
     \<Rightarrow> (CircuitError, Weight \<times> (AccountId \<times> ExecutionSignal) list \<times> 'x circuit_state) res" where
  "handle_front_signal env = (\<lambda>(w, q, s).
     let signal = snd (hd q); q' = swap_remove_0 q; w' = checked_weight_add w (db_reads env 4) in
     case load_xtx s (execution_id signal) of
       Ok ctx \<Rightarrow>
         bind_res (machine_kill env (xtx_id ctx) IntentionalKill no_post_updates s) (\<lambda>(_, s').
           Ok (checked_weight_add w' (db_reads_writes env 2 1), q', s'))
     | Err e \<Rightarrow> if e = XtxDoesNotExist then Ok (w', q', s) else Ok (w', slide_0_end q', s)
     | Panic \<Rightarrow> Panic)"

fun signal_loop ::
  "nat \<Rightarrow> 'x circuit_env \<Rightarrow> Weight \<Rightarrow> Weight \<times> (AccountId \<times> ExecutionSignal) list \<times> 'x circuit_state
     \<Rightarrow> (CircuitError, Weight \<times> (AccountId \<times> ExecutionSignal) list \<times> 'x circuit_state) res" where
  "signal_loop 0 env max_weight (w, q, s) = Ok (w, q, s)"
| "signal_loop (Suc n) env max_weight (w, q, s) =
     (if q \<noteq> [] \<and> w < max_weight
      then bind_res (handle_front_signal env (w, q, s)) (signal_loop n env max_weight)
      else Ok (w, q, s))"

definition process_signal_queue ::
  "'x circuit_env \<Rightarrow> BlockNumber \<Rightarrow> BlockNumber \<Rightarrow> Weight \<Rightarrow> 'x circuit_state
     \<Rightarrow> (CircuitError, Weight \<times> 'x circuit_state) res" where
  "process_signal_queue env n interval max_weight s =
     (if SignalQueue s = [] then Ok (0, s)
      else bind_res (signal_loop (length (SignalQueue s)) env max_weight (0, SignalQueue s, s))
        (\<lambda>(w, q, s'). Ok (checked_weight_add w (db_reads_writes env 1 1), s'\<lparr>SignalQueue := q\<rparr>)))"

section \<open>Recovery and migration\<close>

definition recover_local_ctx_by_sfx_id ::
  "'x circuit_state \<Rightarrow> H256 \<Rightarrow> (CircuitError, LocalXtxCtx) res" where
  "recover_local_ctx_by_sfx_id s sfx_id =
     bind_res (ok_or LocalSideEffectExecutionNotApplicable (smap_get (SFX2XTXLinksMap s) sfx_id))
       (load_xtx s)"

text \<open>
  \<open>on_runtime_upgrade\<close>: the stored side effects of version 1.3 are translated once;
  \<open>old\<close> are the entries in the old format.
\<close>

definition on_runtime_upgrade ::
  "'x circuit_env \<Rightarrow> (bytes \<Rightarrow> BlockNumber option) \<Rightarrow> (H256, FullSideEffectV13 list list) smap
     \<Rightarrow> 'x circuit_state \<Rightarrow> (CircuitError, Weight \<times> 'x circuit_state) res" where
  "on_runtime_upgrade env decode_block old s =
     (if StorageMigrations s = 0 then
        bind_res (map_res (\<lambda>(i, steps).
            bind_res (map_res (map_res (fsx_from_v13 decode_block)) steps) (\<lambda>steps'. Ok (i, steps'))) old)
          (\<lambda>migrated. Ok (db_reads_writes env 10 10,
             s\<lparr>FullSideEffects := migrated, StorageMigrations := 1\<rparr>))
      else Ok (0, s))"

end
