(* ===== verification/Circuit_Invariant.thy ===== *)
theory Circuit_Invariant
  imports Circuit_Queues
begin

text \<open>
  The invariant of the circuit's storage and its preservation by the state machine: the three
  maps of a transaction have the same keys, each stored transaction has one step that fits its
  status, the bidding timeouts belong to transactions that are still bidding, and a transaction
  that is both stored and listed as finalised has finished all steps.
\<close>

section \<open>Definitions\<close>

definition core where
  "core s = (XExecSignals s, FullSideEffects s, LocalXtxStates s, PendingXtxBidsTimeoutsMap s, FinalizedXtx s)"

definition step_ok :: "CircuitStatus \<Rightarrow> FullSideEffect list \<Rightarrow> bool" where
  "step_ok st step \<longleftrightarrow>
     (case st of
        Reserved \<Rightarrow> step = []
      | PendingBidding \<Rightarrow> step \<noteq> [] \<and> (\<forall>f \<in> set step. \<not> has_bid f)
      | InBidding \<Rightarrow> step \<noteq> []
      | Ready \<Rightarrow> step \<noteq> []
      | PendingExecution \<Rightarrow> step \<noteq> []
      | FinishedAllSteps \<Rightarrow>
          step \<noteq> [] \<and> (\<forall>f \<in> set step. has_bid f \<and> has_executor f \<and> is_confirmed f)
      | _ \<Rightarrow> False)"

text \<open>Every status that the machine writes back fits the step.\<close>

definition storing :: "CircuitStatus \<Rightarrow> bool" where
  "storing st \<longleftrightarrow> st \<in> {Reserved, PendingBidding, InBidding, Ready, PendingExecution, Finished, FinishedAllSteps}"

definition bidding :: "CircuitStatus \<Rightarrow> bool" where
  "bidding st \<longleftrightarrow> st \<in> {Reserved, PendingBidding, InBidding}"

definition absent :: "'x circuit_state \<Rightarrow> H256 \<Rightarrow> bool" where
  "absent s i \<longleftrightarrow>
     smap_get (XExecSignals s) i = None \<and> smap_get (FullSideEffects s) i = None
     \<and> smap_get (LocalXtxStates s) i = None \<and> smap_get (PendingXtxBidsTimeoutsMap s) i = None"

definition stored_with :: "'x circuit_state \<Rightarrow> H256 \<Rightarrow> XExecSignal \<Rightarrow> FullSideEffect list \<Rightarrow> bool" where
  "stored_with s i x step \<longleftrightarrow>
     smap_get (XExecSignals s) i = Some x \<and> smap_get (FullSideEffects s) i = Some [step]
     \<and> smap_get (LocalXtxStates s) i \<noteq> None \<and> step_ok (status x) step
     \<and> (smap_get (PendingXtxBidsTimeoutsMap s) i \<noteq> None \<longrightarrow> bidding (status x))
     \<and> (smap_get (FinalizedXtx s) i \<noteq> None \<longrightarrow> status x = FinishedAllSteps)"

definition inv_at :: "'x circuit_state \<Rightarrow> H256 \<Rightarrow> bool" where
  "inv_at s i \<longleftrightarrow> absent s i \<or> (\<exists>x step. stored_with s i x step)"

definition circuit_inv :: "'x circuit_state \<Rightarrow> bool" where
  "circuit_inv s \<longleftrightarrow>
     (\<forall>i. inv_at s i) \<and> smap_wf (PendingXtxBidsTimeoutsMap s) \<and> smap_wf (FinalizedXtx s)"

text \<open>Writes to one key leave the others alone.\<close>

definition same_at :: "H256 \<Rightarrow> 'x circuit_state \<Rightarrow> 'x circuit_state \<Rightarrow> bool" where
  "same_at j s s' \<longleftrightarrow>
     smap_get (XExecSignals s') j = smap_get (XExecSignals s) j
     \<and> smap_get (FullSideEffects s') j = smap_get (FullSideEffects s) j
     \<and> smap_get (LocalXtxStates s') j = smap_get (LocalXtxStates s) j
     \<and> smap_get (PendingXtxBidsTimeoutsMap s') j = smap_get (PendingXtxBidsTimeoutsMap s) j
     \<and> smap_get (FinalizedXtx s') j = smap_get (FinalizedXtx s) j"

definition queues_wf :: "'x circuit_state \<Rightarrow> bool" where
  "queues_wf s \<longleftrightarrow> smap_wf (PendingXtxBidsTimeoutsMap s) \<and> smap_wf (FinalizedXtx s)"

definition keeps_core :: "'x post_update \<Rightarrow> bool" where
  "keeps_core post \<longleftrightarrow> (\<forall>change ctx s s'. post change ctx s = Ok s' \<longrightarrow> core s' = core s)"

definition keeps_length :: "'x precompile \<Rightarrow> bool" where
  "keeps_length pre \<longleftrightarrow>
     (\<forall>fsx ls cnt st r s pr fsx'. pre fsx ls cnt st r s = Ok (pr, fsx') \<longrightarrow> length fsx' = length fsx)"

definition with_status :: "LocalXtxCtx \<Rightarrow> CircuitStatus \<Rightarrow> LocalXtxCtx" where
  "with_status ctx new =
     ctx\<lparr>xtx := (xtx ctx)\<lparr>steps_cnt := check_bump_steps ctx (status (xtx ctx), new), status := new\<rparr>\<rparr>"

section \<open>The stored core\<close>

lemma core_account_manager [simp]: "core (s\<lparr>account_manager := am\<rparr>) = core s"
  by (simp add: core_def)

lemma core_set_ext [simp]: "core (set_ext x s) = core s"
  by (simp add: core_def set_ext_def)

lemma core_deposit_event [simp]: "core (deposit_event e s) = core s"
  by (simp add: core_def deposit_event_def)

lemma try_request_core: "try_request env ctx s = Ok s' \<Longrightarrow> core s' = core s"
  by (auto simp: try_request_def Let_def res_simps split: if_splits)

lemma try_bid_core: "try_bid env fsx b a r k i s = Ok (fsx', s') \<Longrightarrow> core s' = core s \<and> length fsx' = length fsx"
  by (auto simp: try_bid_def Let_def res_simps split: if_splits)

lemma bind_step_length: "bind_step env i fs am = (b, fs', am') \<Longrightarrow> length fs' = length fs"
  by (induction fs arbitrary: b fs' am am') (auto split: prod.splits)

lemma su_kill_core: "su_kill env ctx s = Ok (b, s') \<Longrightarrow> core s' = core s"
  by (auto simp: su_kill_def res_simps case_prod_beta)

lemma su_finalize_core: "su_finalize env ctx s = Ok (b, s') \<Longrightarrow> core s' = core s"
  by (auto simp: su_finalize_def res_simps case_prod_beta)

lemma read_single: "full_side_effects ctx = [step] \<Longrightarrow> read_current_step_fsx ctx = Ok step"
  by (simp add: read_current_step_fsx_def current_step_index_def Let_def)

lemma update_single:
  "full_side_effects ctx = [step] \<Longrightarrow> update_current_step_fsx ctx fsx = Ok (ctx\<lparr>full_side_effects := [fsx]\<rparr>)"
  by (simp add: update_current_step_fsx_def current_step_index_def Let_def)

lemma ctx_single: "full_side_effects ctx = [step] \<Longrightarrow> ctx\<lparr>full_side_effects := [step]\<rparr> = ctx"
  by (cases ctx) simp

lemma bind_bidders_single:
  assumes "full_side_effects ctx = [step]" "bind_bidders env ctx s = Ok (b, ctx', s')"
  shows "core s' = core s \<and> (\<exists>step'. ctx' = ctx\<lparr>full_side_effects := [step']\<rparr> \<and> length step' = length step)"
  using assms
  by (auto simp: bind_bidders_def res_simps read_single update_single split: prod.splits dest: bind_step_length)

text \<open>
  What the interpretation of a precompile result may change: the step and the account manager.
\<close>

lemma run_precompile_result_single:
  assumes full: "full_side_effects ctx = [step]" and len: "length fsx = length step"
    and run: "run_precompile_result env pr fsx ctx s = Ok (enf, ctx', s')"
  shows "core s' = core s \<and> (\<exists>step'. ctx' = ctx\<lparr>full_side_effects := [step']\<rparr>
      \<and> (enf \<noteq> None \<longrightarrow> length step' = length step))"
proof -
  have same: "core s' = core s \<Longrightarrow> ctx' = ctx \<Longrightarrow> ?thesis"
    using ctx_single [OF full] by (intro conjI exI [of _ step]) simp_all
  note upd = update_single [OF full]
  show ?thesis
  proof (cases pr)
    case (TryUpdateFSX x1)
    then show ?thesis using run by (auto simp: run_precompile_result_def res_simps upd)
  next
    case (TryBid x21 x22 x23)
    then show ?thesis
      using run len by (auto simp: run_precompile_result_def res_simps upd split: if_splits dest!: try_bid_core)
  next
    case (TryConfirm x31 x32)
    then show ?thesis using run by (auto simp: run_precompile_result_def res_simps upd Let_def)
  next
    case TryRequest
    then show ?thesis
      using run by (intro same) (auto simp: run_precompile_result_def res_simps dest!: try_request_core)
  next
    case (ForceUpdateStatus x6)
    show ?thesis
    proof (cases "status (xtx ctx) = InBidding \<and> x6 = Ready")
      case True
      then obtain b where "bind_bidders env ctx s = Ok (b, ctx', s')"
        using run ForceUpdateStatus by (auto simp: run_precompile_result_def res_simps)
      then show ?thesis using bind_bidders_single [OF full] by blast
    next
      case False
      then show ?thesis using run ForceUpdateStatus by (intro same) (auto simp: run_precompile_result_def)
    qed
  qed (use run in \<open>intro same; simp add: run_precompile_result_def\<close>)+
qed

lemma step_ok_determined: "step_ok (determine_xtx_status [step]) step"
  by (cases "step = []")
    (auto simp: step_ok_def determine_xtx_status_single determine_step_status_eq,
     simp add: determine_xtx_status_def)

lemma check_transition_Some:
  assumes "check_transition p d (Some f) = Ok n"
  shows "n = d \<or> (\<exists>c. f = Reverted c \<and> n = Killed c \<and> d < Ready)
    \<or> n = f \<and> (case f of Killed IntentionalKill \<Rightarrow> d \<le> PendingBidding | Killed Timeout \<Rightarrow> d \<le> InBidding
        | Reverted _ \<Rightarrow> Ready \<le> d \<and> d < FinishedAllSteps | Ready \<Rightarrow> p = InBidding
        | InBidding \<Rightarrow> d = PendingBidding | PendingExecution \<Rightarrow> d = Ready | Reserved \<Rightarrow> d \<le> Reserved
        | Committed \<Rightarrow> d = FinishedAllSteps | _ \<Rightarrow> False)"
  using assms
  by (auto simp: check_transition_def forced_disallowed_def split: if_splits CircuitStatus.splits Cause.splits)

lemma check_transition_None: "check_transition p d None = Ok n \<longleftrightarrow> unforced_allowed p d \<and> n = d"
  by (auto simp: check_transition_def)

lemma transition_step_ok:
  assumes "check_transition old (determine_xtx_status [step]) enf = Ok new" "storing new"
    and "enf \<noteq> None \<Longrightarrow> old = InBidding \<Longrightarrow> step \<noteq> []"
  shows "step_ok new step"
proof (cases enf)
  case None
  then show ?thesis using assms(1) step_ok_determined by (auto simp: check_transition_None)
next
  case (Some f)
  let ?d = "determine_xtx_status [step]"
  have d: "step_ok ?d step" by (rule step_ok_determined)
  from check_transition_Some [OF assms(1) [unfolded Some]]
  consider "new = ?d" | "new = Ready" "old = InBidding" | "new = InBidding" "?d = PendingBidding"
    | "new = PendingExecution" "?d = Ready" | "new = Reserved" "?d \<le> Reserved"
    using assms(2) by (auto simp: storing_def split: CircuitStatus.splits Cause.splits)
  then show ?thesis
  proof cases
    case 2
    then show ?thesis using assms(3) Some by (simp add: step_ok_def)
  next
    case 5
    then show ?thesis using d by (auto simp: step_ok_def status_order split: CircuitStatus.splits)
  qed (use d in \<open>auto simp: step_ok_def\<close>)
qed

lemma step_ok_nonempty: "step_ok st step \<Longrightarrow> st \<noteq> Reserved \<Longrightarrow> step \<noteq> []"
  by (auto simp: step_ok_def split: CircuitStatus.splits)

lemma step_ok_stored: "step_ok st step \<Longrightarrow> st \<in> {Reserved, PendingBidding, InBidding, Ready, PendingExecution, FinishedAllSteps}"
  by (auto simp: step_ok_def split: CircuitStatus.splits)

section \<open>The invariant\<close>

lemma inv_at_core: "core s' = core s \<Longrightarrow> inv_at s' i = inv_at s i"
  by (simp add: inv_at_def absent_def stored_with_def core_def)

lemma circuit_inv_core: "core s' = core s \<Longrightarrow> circuit_inv s' = circuit_inv s"
  using inv_at_core [of s' s] by (simp add: circuit_inv_def core_def)

lemma inv_load:
  assumes "circuit_inv s" "load_xtx s i = Ok ctx"
  shows "\<exists>step. full_side_effects ctx = [step] \<and> stored_with s i (xtx ctx) step"
proof -
  from assms(2) have get: "smap_get (XExecSignals s) i = Some (xtx ctx)"
      "smap_get (FullSideEffects s) i = Some (full_side_effects ctx)"
    by (simp_all add: load_xtx_Ok)
  have "inv_at s i" using assms(1) by (simp add: circuit_inv_def)
  then obtain x step where st: "stored_with s i x step"
    using get(1) by (auto simp: inv_at_def absent_def)
  then have "x = xtx ctx" "full_side_effects ctx = [step]"
    using get by (simp_all add: stored_with_def)
  then show ?thesis using st by blast
qed

lemma same_at_core: "core s' = core s \<Longrightarrow> same_at j s s'"
  by (simp add: same_at_def core_def)

lemma same_at_trans: "same_at j s t \<Longrightarrow> same_at j t u \<Longrightarrow> same_at j s u"
  by (simp add: same_at_def)

lemma inv_at_same: "same_at j s s' \<Longrightarrow> inv_at s' j = inv_at s j"
  by (simp add: same_at_def inv_at_def absent_def stored_with_def)

lemmas writes = put_xtx_def put_fsx_def drop_xtx_def apply_request_def apply_kill_def
  apply_revert_def apply_finished_def

lemma writes_same_at:
  assumes "j \<noteq> xtx_id ctx"
  shows "same_at j s (apply_request env ctx s)" "same_at j s (apply_kill env ctx s)"
    "same_at j s (apply_revert ctx s)" "same_at j s (apply_finished ctx s)"
    "same_at j s (drop_xtx ctx s)" "same_at j s (put_xtx ctx s)" "same_at j s (put_fsx ctx s)"
    "same_at j s (s\<lparr>PendingXtxBidsTimeoutsMap := smap_remove (xtx_id ctx) (PendingXtxBidsTimeoutsMap s)\<rparr>)"
  using assms by (simp_all add: same_at_def writes)

lemma apply_xtx_cases:
  assumes "apply_xtx env ctx (old, new) s = Ok (b, s')"
  obtains (noop) "\<not> b" "s' = s"
  | (request) "b" "old = Requested" "new \<in> {Reserved, PendingBidding}" "s' = apply_request env ctx s"
  | (first_bid) "b" "old = PendingBidding" "new = InBidding" "s' = put_fsx ctx (put_xtx ctx s)"
  | (next_bid) "b" "old = InBidding" "new = InBidding" "s' = put_fsx ctx s"
  | (ready) "b" "old = InBidding" "new = Ready"
      "s' = (put_xtx ctx (put_fsx ctx s))
               \<lparr>PendingXtxBidsTimeoutsMap := smap_remove (xtx_id ctx) (PendingXtxBidsTimeoutsMap s)\<rparr>"
  | (kill) k where "b" "bidding old" "is_killed new"
      "su_kill env ctx (apply_kill env ctx s) = Ok (k, s')"
  | (revert) k where "b" "executing old" "is_reverted new"
      "su_finalize env ctx (apply_revert ctx s) = Ok (k, s')"
  | (commit) "b" "old = FinishedAllSteps" "new = Committed" "s' = drop_xtx ctx s"
  | (finished) k where "b" "executing old" "new = FinishedAllSteps"
      "su_finalize env ctx (apply_finished ctx s) = Ok (k, s')"
  | (execute) "b" "executing old" "executing new" "s' = put_xtx ctx (put_fsx ctx s)"
proof -
  note a0 = assms [unfolded apply_xtx_def prod.case]
  show ?thesis
  proof (cases "old = new \<and> new \<noteq> PendingExecution \<and> new \<noteq> InBidding \<or> old = Committed")
    case True
    from a0 [unfolded if_P [OF True]] True show ?thesis by (intro that(1)) simp_all
  next
    case c0: False
    note a1 = a0 [unfolded if_not_P [OF c0]]
    show ?thesis
  proof (cases "old = Requested \<and> new \<in> {Reserved, PendingBidding}")
    case True
    from a1 [unfolded if_P [OF True]] True show ?thesis by (intro that(2)) simp_all
  next
    case c1: False
    note a2 = a1 [unfolded if_not_P [OF c1]]
    show ?thesis
  proof (cases "old = PendingBidding \<and> new = InBidding")
    case True
    from a2 [unfolded if_P [OF True]] True show ?thesis by (intro that(3)) simp_all
  next
    case c2: False
    note a3 = a2 [unfolded if_not_P [OF c2]]
    show ?thesis
  proof (cases "old = InBidding \<and> new = InBidding")
    case True
    from a3 [unfolded if_P [OF True]] True show ?thesis by (intro that(4)) simp_all
  next
    case c3: False
    note a4 = a3 [unfolded if_not_P [OF c3]]
    show ?thesis
  proof (cases "old = InBidding \<and> new = Ready")
    case True
    from a4 [unfolded if_P [OF True]] True show ?thesis by (intro that(5)) simp_all
  next
    case c4: False
    note a5 = a4 [unfolded if_not_P [OF c4]]
    show ?thesis
  proof (cases "old \<in> {Reserved, PendingBidding, InBidding} \<and> is_killed new")
    case True
    from a5 [unfolded if_P [OF True]] True show ?thesis by (auto simp: bind_res_OkE bidding_def intro: that(6))
  next
    case c5: False
    note a6 = a5 [unfolded if_not_P [OF c5]]
    show ?thesis
  proof (cases "executing old \<and> is_reverted new")
    case True
    from a6 [unfolded if_P [OF True]] True show ?thesis by (auto simp: bind_res_OkE intro: that(7))
  next
    case c6: False
    note a7 = a6 [unfolded if_not_P [OF c6]]
    show ?thesis
  proof (cases "old = FinishedAllSteps \<and> new = Committed")
    case True
    from a7 [unfolded if_P [OF True]] True show ?thesis by (intro that(8)) simp_all
  next
    case c7: False
    note a8 = a7 [unfolded if_not_P [OF c7]]
    show ?thesis
  proof (cases "executing old \<and> new = FinishedAllSteps")
    case True
    from a8 [unfolded if_P [OF True]] True show ?thesis by (auto simp: bind_res_OkE intro: that(9))
  next
    case c8: False
    note a9 = a8 [unfolded if_not_P [OF c8]]
    show ?thesis
  proof (cases "executing old \<and> executing new")
    case True
    from a9 [unfolded if_P [OF True]] True show ?thesis by (intro that(10)) simp_all
  next
    case c9: False
    note a10 = a9 [unfolded if_not_P [OF c9]]
    show ?thesis
      using a10 by (intro that(1)) simp_all
  qed
  qed
  qed
  qed
  qed
  qed
  qed
  qed
  qed
  qed
qed

lemma apply_same_at:
  assumes "apply_xtx env ctx (old, new) s = Ok (b, s')" "j \<noteq> xtx_id ctx"
  shows "same_at j s s'"
  using assms(1)
proof (cases rule: apply_xtx_cases)
  case (kill k)
  then show ?thesis
    using same_at_trans [OF writes_same_at(2) [OF assms(2)] same_at_core [OF su_kill_core]] by blast
next
  case (revert k)
  then show ?thesis
    using same_at_trans [OF writes_same_at(3) [OF assms(2)] same_at_core [OF su_finalize_core]] by blast
next
  case (finished k)
  then show ?thesis
    using same_at_trans [OF writes_same_at(4) [OF assms(2)] same_at_core [OF su_finalize_core]] by blast
qed (use assms(2) in \<open>simp_all add: same_at_def writes\<close>)

lemma apply_inv_at:
  assumes "apply_xtx env ctx (old, status (xtx ctx)) s = Ok (b, s')" and "xtx_id ctx = i"
    and full: "full_side_effects ctx = [step]"
    and ok: "storing (status (xtx ctx)) \<Longrightarrow> step_ok (status (xtx ctx)) step"
    and old: "(old = Requested \<and> absent s i \<and> smap_get (FinalizedXtx s) i = None)
      \<or> (\<exists>x step0. stored_with s i x step0 \<and> status x = old)"
    and same: "old = InBidding \<Longrightarrow> status (xtx ctx) = InBidding \<Longrightarrow> smap_get (XExecSignals s) i = Some (xtx ctx)"
  shows "inv_at s' i"
proof -
  note i = assms(2)
  have B: "old \<noteq> Requested \<Longrightarrow> \<not> bidding old \<Longrightarrow> smap_get (PendingXtxBidsTimeoutsMap s) i = None"
    and F: "old \<noteq> FinishedAllSteps \<Longrightarrow> smap_get (FinalizedXtx s) i = None"
    and L: "old \<noteq> Requested \<Longrightarrow> smap_get (LocalXtxStates s) i \<noteq> None"
    using old by (auto simp: stored_with_def)
  have inv: "core s' = core t \<Longrightarrow> absent t i \<or> stored_with t i (xtx ctx) step \<Longrightarrow> inv_at s' i" for t
    using inv_at_core [of s' t i] by (auto simp: inv_at_def)
  note facts = stored_with_def absent_def writes storing_def
  show ?thesis
    using assms(1)
  proof (cases rule: apply_xtx_cases)
    case noop
    then show ?thesis using old by (auto simp: inv_at_def)
  next
    case (kill k)
    then show ?thesis using i by (intro inv [OF su_kill_core [OF kill(4)]] disjI1) (simp add: facts)
  next
    case (revert k)
    then have "old \<noteq> Requested" "\<not> bidding old" by (auto simp: executing_def bidding_def)
    then show ?thesis
      using i B by (intro inv [OF su_finalize_core [OF revert(4)]] disjI1) (simp add: facts)
  next
    case (finished k)
    then have "old \<noteq> Requested" "\<not> bidding old" by (auto simp: executing_def bidding_def)
    then show ?thesis
      using finished(3) i B L ok full
      by (intro inv [OF su_finalize_core [OF finished(4)]] disjI2) (simp add: facts)
  next
    case commit
    then show ?thesis using i B by (intro inv [OF refl] disjI1) (simp add: facts bidding_def)
  next
    case request
    then show ?thesis
      using i F ok full by (intro inv [OF refl] disjI2) (auto simp: facts bidding_def)
  next
    case first_bid
    then show ?thesis
      using i F L ok full by (intro inv [OF refl] disjI2) (simp add: facts bidding_def)
  next
    case next_bid
    then show ?thesis
      using i F L ok full same by (intro inv [OF refl] disjI2) (simp add: facts bidding_def)
  next
    case ready
    then show ?thesis
      using i F L ok full by (intro inv [OF refl] disjI2) (simp add: facts)
  next
    case execute
    then have "old \<noteq> Requested" "\<not> bidding old" "old \<noteq> FinishedAllSteps" "storing (status (xtx ctx))"
      by (auto simp: executing_def bidding_def storing_def)
    then show ?thesis
      using execute i B F L ok full by (intro inv [OF refl] disjI2) (simp add: facts)
  qed
qed

lemma apply_queues_wf:
  assumes "apply_xtx env ctx (old, new) s = Ok (b, s')" "queues_wf s"
  shows "queues_wf s'"
proof -
  have wf: "core s' = core t \<Longrightarrow> queues_wf t \<Longrightarrow> ?thesis" for t
    by (simp add: core_def queues_wf_def)
  from assms(1) show ?thesis
  proof (cases rule: apply_xtx_cases)
    case (kill k)
    show ?thesis
      using assms(2) by (intro wf [OF su_kill_core [OF kill(4)]]) (simp add: writes queues_wf_def)
  next
    case (revert k)
    show ?thesis
      using assms(2) by (intro wf [OF su_finalize_core [OF revert(4)]]) (simp add: writes queues_wf_def)
  next
    case (finished k)
    show ?thesis
      using assms(2) by (intro wf [OF su_finalize_core [OF finished(4)]]) (simp add: writes queues_wf_def)
  qed (use assms(2) in \<open>simp_all add: writes queues_wf_def\<close>)
qed

section \<open>Compiling keeps the invariant\<close>

lemma with_status_simps [simp]:
  "xtx_id (with_status ctx new) = xtx_id ctx"
  "full_side_effects (with_status ctx new) = full_side_effects ctx"
  "local_state (with_status ctx new) = local_state ctx"
  "status (xtx (with_status ctx new)) = new"
  "requester (xtx (with_status ctx new)) = requester (xtx ctx)"
  by (simp_all add: with_status_def)

lemma with_status_InBidding:
  "status (xtx ctx) = InBidding \<Longrightarrow> xtx (with_status ctx InBidding) = xtx ctx"
  by (simp add: with_status_def check_bump_steps_def)

lemma update_status_Ok:
  "update_status ctx enf = Ok (change, ctx') \<longleftrightarrow>
     \<not> is_reverted (status (xtx ctx)) \<and> \<not> is_killed (status (xtx ctx))
     \<and> (\<exists>new. check_transition (status (xtx ctx)) (determine_xtx_status (full_side_effects ctx)) enf = Ok new
        \<and> change = (status (xtx ctx), new) \<and> ctx' = with_status ctx new)"
  by (cases "status (xtx ctx)")
    (auto simp: update_status_def is_reverted_def is_killed_def res_simps with_status_def)

lemma compile_xtx_Ok:
  assumes "compile_xtx env ctx pre post s = Ok (b, ctx', s')"
    and "full_side_effects ctx = [step]" and "keeps_length pre"
  obtains enf step' s1 s2 new where
    "core s1 = core s" "enf \<noteq> None \<longrightarrow> length step' = length step"
    "check_transition (status (xtx ctx)) (determine_xtx_status [step']) enf = Ok new"
    "ctx' = with_status (ctx\<lparr>full_side_effects := [step']\<rparr>) new"
    "post (status (xtx ctx), new) ctx' s1 = Ok s2"
    "apply_xtx env ctx' (status (xtx ctx), new) s2 = Ok (b, s')"
proof -
  note read = read_single [OF assms(2)]
  from assms(1) obtain pr fsx enf ctx1 s1 change s2 where
    pre: "pre step (local_state ctx) (steps_cnt (xtx ctx)) (status (xtx ctx)) (requester (xtx ctx)) s = Ok (pr, fsx)"
    and run: "run_precompile_result env pr fsx ctx s = Ok (enf, ctx1, s1)"
    and upd: "update_status ctx1 enf = Ok (change, ctx')"
    and post: "post change ctx' s1 = Ok s2" and app: "apply_xtx env ctx' change s2 = Ok (b, s')"
    by (auto simp: compile_xtx_def read bind_res_OkE)
  have "length fsx = length step" using pre assms(3) unfolding keeps_length_def by blast
  from run_precompile_result_single [OF assms(2) this run] obtain step' where
    c: "core s1 = core s" and ctx1: "ctx1 = ctx\<lparr>full_side_effects := [step']\<rparr>"
    and len: "enf \<noteq> None \<longrightarrow> length step' = length step" by blast
  from upd obtain new where
    ct: "check_transition (status (xtx ctx)) (determine_xtx_status [step']) enf = Ok new"
    and change: "change = (status (xtx ctx), new)"
    and ctx': "ctx' = with_status (ctx\<lparr>full_side_effects := [step']\<rparr>) new"
    unfolding update_status_Ok ctx1 by auto
  show thesis using that [OF c len ct ctx'] post app by (simp add: change)
qed

lemma compile_inv:
  assumes comp: "compile_xtx env ctx pre post s = Ok (b, ctx', s')"
    and inv: "circuit_inv s" and pre: "keeps_length pre" and post: "keeps_core post"
    and full: "full_side_effects ctx = [step]"
    and ctx: "(status (xtx ctx) = Requested \<and> absent s (xtx_id ctx)
        \<and> smap_get (FinalizedXtx s) (xtx_id ctx) = None)
      \<or> load_xtx s (xtx_id ctx) = Ok ctx"
  shows "circuit_inv s' \<and> (\<forall>j. j \<noteq> xtx_id ctx \<longrightarrow> same_at j s s')"
proof -
  let ?i = "xtx_id ctx" and ?old = "status (xtx ctx)"
  from comp full pre obtain enf step' s1 s2 new where
    c1: "core s1 = core s" and len: "enf \<noteq> None \<longrightarrow> length step' = length step"
    and ct: "check_transition ?old (determine_xtx_status [step']) enf = Ok new"
    and ctx': "ctx' = with_status (ctx\<lparr>full_side_effects := [step']\<rparr>) new"
    and p: "post (?old, new) ctx' s1 = Ok s2" and app: "apply_xtx env ctx' (?old, new) s2 = Ok (b, s')"
    by (rule compile_xtx_Ok)
  from p post have "core s2 = core s1" by (auto simp: keeps_core_def)
  with c1 have c2: "core s2 = core s" by simp
  have stored: "?old = Requested \<and> absent s ?i \<and> smap_get (FinalizedXtx s) ?i = None
      \<or> stored_with s ?i (xtx ctx) step"
    using ctx inv_load [OF inv, of ?i ctx] full by auto
  then have stored2: "?old = Requested \<and> absent s2 ?i \<and> smap_get (FinalizedXtx s2) ?i = None
      \<or> stored_with s2 ?i (xtx ctx) step"
    using c2 by (simp add: core_def absent_def stored_with_def)
  have "?old = InBidding \<Longrightarrow> step \<noteq> []"
    using stored step_ok_nonempty [of InBidding step] by (auto simp: stored_with_def)
  then have ok: "storing new \<Longrightarrow> step_ok new step'"
    using transition_step_ok [OF ct] len by fastforce
  have same: "?old = InBidding \<Longrightarrow> new = InBidding \<Longrightarrow> smap_get (XExecSignals s2) ?i = Some (xtx ctx')"
    using stored2 with_status_InBidding [of "ctx\<lparr>full_side_effects := [step']\<rparr>"]
    by (auto simp: ctx' stored_with_def)
  have here: "inv_at s' ?i"
    using app ok same stored2 by (intro apply_inv_at [of env ctx' ?old s2 b s' ?i step']) (auto simp: ctx')
  have others: "same_at j s s'" if "j \<noteq> ?i" for j
    using apply_same_at [OF app, of j] that same_at_trans [OF same_at_core [OF c2]] by (simp add: ctx')
  then have "inv_at s' j" for j
    using here inv inv_at_same [OF others] by (cases "j = ?i") (auto simp: circuit_inv_def)
  moreover have "queues_wf s'"
    using apply_queues_wf [OF app] inv c2 by (simp add: circuit_inv_def core_def queues_wf_def)
  ultimately show ?thesis using others by (simp add: circuit_inv_def queues_wf_def)
qed

end
