(* ===== verification/Circuit_Calls.thy ===== *)
theory Circuit_Calls
  imports Circuit_Invariant
begin

text \<open>
  Every call of the circuit pallet keeps the invariant of \<open>Circuit_Invariant\<close>: the closures
  the calls pass to the machine keep the length of the step and the stored core, so each call is
  an instance of the preservation by \<open>compile_xtx\<close>.  A submission needs that the fresh
  identifier is not listed as finalised.
\<close>

text \<open>The identifier a submission of the requester gets next.\<close>

definition fresh_id :: "'x circuit_env \<Rightarrow> 'x circuit_state \<Rightarrow> AccountId \<Rightarrow> H256" where
  "fresh_id env s req = keccak env (req @ word_32b (account_nonce env (ext s) req))"

section \<open>Closures\<close>

lemma emit_sfx_core [simp]: "core (emit_sfx env i a sfx s) = core s"
  by (simp add: emit_sfx_def)

lemma emit_status_update_core [simp]: "core (emit_status_update i x f s) = core s"
  by (simp add: emit_status_update_def Let_def split: option.splits)

lemma attest_one_core [simp]: "core (attest_one env ctx f s) = core s"
  by (simp add: attest_one_def Let_def split: CircuitStatus.splits prod.splits)

lemma fold_attest_core [simp]: "core (fold (attest_one env ctx) fs s) = core s"
  by (induction fs arbitrary: s) simp_all

lemma request_sfx_attestation_core:
  "request_sfx_attestation env ctx s = Ok s' \<Longrightarrow> core s' = core s"
  by (auto simp: request_sfx_attestation_def res_simps)

lemma keeps_core_closures [simp]:
  "keeps_core no_post_updates" "keeps_core infallible_no_post_updates"
  "keeps_core status_post_update" "keeps_core (confirm_post_update env k)"
  "keeps_core (revert_post_update env i)"
  "keeps_core (\<lambda>_ ctx s. Ok (emit_sfx env (xtx_id ctx) r sfx s))"
  "keeps_core (\<lambda>_ ctx s. Ok (emit_sfx env (xtx_id ctx) r (map input (concat (full_side_effects ctx))) s))"
  "keeps_core (\<lambda>_ _ s. Ok (deposit_event e s))"
  by (auto simp: keeps_core_def no_post_updates_def infallible_no_post_updates_def
      status_post_update_def confirm_post_update_def revert_post_update_def Let_def res_simps
      split: if_splits dest!: request_sfx_attestation_core)

lemma confirm_length: "confirm env i step k c s = Ok step' \<Longrightarrow> length step' = length step"
  by (auto simp: confirm_def res_simps split: if_splits option.splits)

lemma keeps_length_closures [simp]:
  "keeps_length no_mangle" "keeps_length (cancel_precompile a)"
  "keeps_length (\<lambda>fsx _ _ _ _ _. Ok (pr, fsx))"
  "keeps_length (\<lambda>fsx ls cnt st r _. Ok (f fsx ls cnt st r, fsx))"
  "keeps_length (\<lambda>fsx _ _ _ _ s. bind_res (map_err e (confirm env i fsx k c s)) (\<lambda>fsx'. Ok (pr, fsx')))"
  "keeps_length (\<lambda>fsx ls cnt st _ _. case exec_in_xtx_ctx i ls fsx cnt of
      Err e \<Rightarrow> if st = Ready then Ok (TryKill IntentionalKill, fsx) else Err e
    | Ok new \<Rightarrow> Ok (TryUpdateFSX new, fsx) | Panic \<Rightarrow> Panic)"
  by (auto simp: keeps_length_def no_mangle_def cancel_precompile_def exec_in_xtx_ctx_def res_simps
      split: if_splits dest: confirm_length)

section \<open>Loaded and fresh contexts\<close>

lemma compile_loaded_inv:
  assumes "compile_xtx env ctx pre post s = Ok (b, ctx', s')" "circuit_inv s"
    "keeps_length pre" "keeps_core post" "load_xtx s i = Ok ctx"
  shows "circuit_inv s'"
proof -
  have i: "xtx_id ctx = i" using assms(5) by (simp add: load_xtx_Ok)
  obtain step where "full_side_effects ctx = [step]"
    using inv_load [OF assms(2,5)] by blast
  then show ?thesis using compile_inv [OF assms(1-4)] assms(5) i by blast
qed

lemma setup_xtx_Ok:
  assumes "setup_xtx env sfx req t lvl s = Ok ctx" "circuit_inv s"
  shows "xtx_id ctx = fresh_id env s req \<and> status (xtx ctx) = Requested \<and> absent s (xtx_id ctx)
    \<and> requester (xtx ctx) = req \<and> (\<exists>step. full_side_effects ctx = [step] \<and> length step = length sfx)"
proof -
  have abs: "\<not> smap_contains (XExecSignals s) i \<Longrightarrow> absent s i" for i
    using assms(2) by (auto simp: circuit_inv_def inv_at_def smap_contains_def stored_with_def dest!: spec [of _ i])
  show ?thesis
    using assms(1) abs
    by (auto simp: setup_xtx_def validate_def xtx_setup_fresh_def xtx_new_def xtx_generate_id_def
        fresh_id_def Let_def res_simps split: if_splits dest!: map_res_length)
qed

lemma do_on_extrinsic_trigger_inv:
  assumes "do_on_extrinsic_trigger env req sfx speed lvl call s = Ok (ctx, s')" "circuit_inv s"
    "smap_get (FinalizedXtx s) (fresh_id env s req) = None"
  shows "circuit_inv s'"
proof -
  from assms(1) obtain ctx0 fee s1 b where
    su: "setup_xtx env sfx req (Some (estimate_adaptive_timeout env (ext s) (map target sfx) speed
           (XtxTimeoutDefault env))) lvl s = Ok ctx0"
    and fee: "charge_finality_fee env (ctx0\<lparr>xtx := (xtx ctx0)\<lparr>speed_mode := speed\<rparr>\<rparr>)
       (case call of Some a \<Rightarrow> a | None \<Rightarrow> req) s = Ok (fee, s1)"
    and comp: "compile_xtx env (ctx0\<lparr>xtx := (xtx ctx0)\<lparr>speed_mode := speed\<rparr>\<rparr>)
       (\<lambda>fsx _ _ _ _ _. Ok (TryRequest, fsx))
       (\<lambda>_ ctx' s'. Ok (emit_sfx env (xtx_id ctx') req sfx s')) s1 = Ok (b, ctx, s')"
    by (auto simp: do_on_extrinsic_trigger_def Let_def res_simps)
  have "core s1 = core s" using fee by (auto simp: charge_finality_fee_def Let_def res_simps)
  then have inv1: "circuit_inv s1" and abs1: "absent s1 (xtx_id ctx0) = absent s (xtx_id ctx0)"
    and fin1: "FinalizedXtx s1 = FinalizedXtx s"
    using assms(2) circuit_inv_core [of s1 s] by (simp_all add: core_def absent_def)
  from setup_xtx_Ok [OF su assms(2)] obtain step where "full_side_effects ctx0 = [step]"
    and "xtx_id ctx0 = fresh_id env s req" and "status (xtx ctx0) = Requested"
    and "absent s (xtx_id ctx0)" by blast
  then show ?thesis
    using assms(3) abs1 fin1 by (intro compile_inv [OF comp inv1, THEN conjunct1] disjI1) simp_all
qed

lemma load_or_setup_inv:
  assumes "load_or_setup env req m s = Ok (ctx, s')" "circuit_inv s"
    "m = None \<Longrightarrow> smap_get (FinalizedXtx s) (fresh_id env s req) = None"
  shows "circuit_inv s'"
proof (cases m)
  case None
  with assms(1) obtain ctx0 b where su: "setup_xtx env [] req None Optimistic s = Ok ctx0"
    and comp: "compile_xtx env ctx0 no_mangle no_post_updates s = Ok (b, ctx, s')"
    by (auto simp: load_or_setup_def res_simps)
  obtain step where "full_side_effects ctx0 = [step]" using setup_xtx_Ok [OF su assms(2)] by blast
  then show ?thesis
    using compile_inv [OF comp assms(2)] setup_xtx_Ok [OF su assms(2)] assms(3) None by auto
next
  case (Some i)
  then show ?thesis using assms(1,2) by (auto simp: load_or_setup_def res_simps)
qed

lemma compile_empty:
  assumes "full_side_effects ctx = [[]]" "status (xtx ctx) = Requested"
  shows "compile_xtx env ctx no_mangle no_post_updates s
    = Ok (True, with_status ctx Reserved, apply_request env (with_status ctx Reserved) s)"
  using assms
  by (simp add: compile_xtx_def read_single no_mangle_def run_precompile_result_def update_status_def
      determine_xtx_status_def check_transition_def unforced_allowed_def no_post_updates_def
      apply_xtx_def with_status_def)

lemma load_after_request: "load_xtx (apply_request env ctx s) (xtx_id ctx) = Ok ctx"
  by (simp add: load_xtx_Ok writes)

lemma load_or_setup_loads:
  assumes "load_or_setup env req m s = Ok (ctx, s')" "circuit_inv s"
  shows "load_xtx s' (xtx_id ctx) = Ok ctx"
proof (cases m)
  case None
  with assms(1) obtain ctx0 b where su: "setup_xtx env [] req None Optimistic s = Ok ctx0"
    and comp: "compile_xtx env ctx0 no_mangle no_post_updates s = Ok (b, ctx, s')"
    by (auto simp: load_or_setup_def res_simps)
  have "full_side_effects ctx0 = [[]]" "status (xtx ctx0) = Requested"
    using setup_xtx_Ok [OF su assms(2)] by auto
  then have "ctx = with_status ctx0 Reserved" "s' = apply_request env (with_status ctx0 Reserved) s"
    using comp by (auto simp: compile_empty)
  then show ?thesis using load_after_request by metis
next
  case (Some i)
  then show ?thesis using assms(1) by (auto simp: load_or_setup_def res_simps load_xtx_Ok)
qed

section \<open>Calls\<close>

lemma on_extrinsic_trigger_inv:
  assumes "on_extrinsic_trigger env origin sfx speed lvl s = Ok s'" "circuit_inv s"
    "\<And>req. origin = Signed req \<Longrightarrow> smap_get (FinalizedXtx s) (fresh_id env s req) = None"
  shows "circuit_inv s'"
proof -
  from assms(1) obtain req ctx where o: "origin = Signed req"
    and d: "do_on_extrinsic_trigger env req sfx speed lvl None s = Ok (ctx, s')"
    by (auto simp: on_extrinsic_trigger_def authorize_def res_simps)
  show ?thesis by (rule do_on_extrinsic_trigger_inv [OF d assms(2) assms(3) [OF o]])
qed

lemma on_remote_origin_trigger_inv:
  assumes "on_remote_origin_trigger env origin order_origin sfx speed s = Ok s'" "circuit_inv s"
    "smap_get (FinalizedXtx s) (fresh_id env s order_origin) = None"
  shows "circuit_inv s'"
proof (cases "origin_new order_origin")
  case (Remote n)
  with assms(1) obtain ctx lvl call where
    "do_on_extrinsic_trigger env order_origin sfx speed lvl call s = Ok (ctx, s')"
    by (auto simp: on_remote_origin_trigger_def res_simps)
  then show ?thesis using assms(2,3) by (rule do_on_extrinsic_trigger_inv)
qed (use assms(1) in \<open>simp add: on_remote_origin_trigger_def res_simps\<close>)

lemma bid_sfx_inv: "bid_sfx env origin k v s = Ok s' \<Longrightarrow> circuit_inv s \<Longrightarrow> circuit_inv s'"
  by (auto simp: bid_sfx_def res_simps intro: compile_loaded_inv)

lemma confirm_side_effect_inv:
  "confirm_side_effect env origin k c s = Ok s' \<Longrightarrow> circuit_inv s \<Longrightarrow> circuit_inv s'"
  by (auto simp: confirm_side_effect_def res_simps intro: compile_loaded_inv)

lemma cancel_xtx_inv: "cancel_xtx env origin i s = Ok s' \<Longrightarrow> circuit_inv s \<Longrightarrow> circuit_inv s'"
  by (auto simp: cancel_xtx_def res_simps intro: compile_loaded_inv)

lemma compile_infallible_inv:
  "compile_infallible env ctx pre post s = Ok (b, ctx', s') \<Longrightarrow> load_xtx s i = Ok ctx \<Longrightarrow>
     keeps_core post \<Longrightarrow> circuit_inv s \<Longrightarrow> circuit_inv s'"
  by (auto simp: compile_infallible_def res_simps intro: compile_loaded_inv)

lemma machine_revert_inv:
  "machine_revert env i c post s = Ok (b, s') \<Longrightarrow> keeps_core post \<Longrightarrow> circuit_inv s \<Longrightarrow> circuit_inv s'"
  by (auto simp: machine_revert_def res_simps intro: compile_infallible_inv split: res.splits)

lemma machine_kill_inv:
  "machine_kill env i c post s = Ok (b, s') \<Longrightarrow> keeps_core post \<Longrightarrow> circuit_inv s \<Longrightarrow> circuit_inv s'"
  by (auto simp: machine_kill_def res_simps intro: compile_infallible_inv split: res.splits)

lemma revert_call_inv: "revert_call env origin i s = Ok s' \<Longrightarrow> circuit_inv s \<Longrightarrow> circuit_inv s'"
  by (auto simp: revert_call_def res_simps intro: machine_revert_inv)

lemma load_local_state_inv:
  assumes "load_local_state env origin m s = Ok (v, s')" "circuit_inv s"
    "\<And>req. m = None \<Longrightarrow> origin = Signed req \<Longrightarrow> smap_get (FinalizedXtx s) (fresh_id env s req) = None"
  shows "circuit_inv s'"
proof -
  from assms(1) obtain req ctx where o: "origin = Signed req"
    and l: "load_or_setup env req m s = Ok (ctx, s')"
    by (auto simp: load_local_state_def authorize_def res_simps)
  show ?thesis by (rule load_or_setup_inv [OF l assms(2) assms(3) [OF _ o]])
qed

lemma on_local_trigger_inv:
  assumes "on_local_trigger env origin t s = Ok (v, s')" "circuit_inv s"
    "\<And>req. maybe_xtx_id t = None \<Longrightarrow> origin = Signed req \<Longrightarrow>
       smap_get (FinalizedXtx s) (fresh_id env s req) = None"
  shows "circuit_inv s'"
proof -
  from assms(1) obtain req ctx s1 b ctx2 s2 pre post where o: "origin = Signed req"
    and los: "load_or_setup env req (maybe_xtx_id t) s = Ok (ctx, s1)"
    and comp: "compile_xtx env ctx pre post s1 = Ok (b, ctx2, s2)"
    and kp: "keeps_length pre" "keeps_core post"
    and view: "load_local_state env origin (Some (xtx_id ctx)) s2 = Ok (v, s')"
    by (auto simp: on_local_trigger_def authorize_def res_simps)
  have inv1: "circuit_inv s1" by (rule load_or_setup_inv [OF los assms(2) assms(3) [OF _ o]])
  have "circuit_inv s2"
    by (rule compile_loaded_inv [OF comp inv1 kp load_or_setup_loads [OF los assms(2)]])
  then show ?thesis by (rule load_local_state_inv [OF view]) simp
qed

lemma core_SignalQueue [simp]: "core (s\<lparr>SignalQueue := q\<rparr>) = core s"
  by (simp add: core_def)

lemma on_signal_inv:
  assumes "on_signal env origin g s = Ok s'" "circuit_inv s"
  shows "circuit_inv s'"
proof -
  from assms(1) obtain q where "s' = s\<lparr>SignalQueue := q\<rparr>"
    by (auto simp: on_signal_def res_simps split: if_splits)
  then have "core s' = core s" by simp
  then show ?thesis using assms(2) circuit_inv_core by metis
qed

end
