(* ===== verification/Circuit_Hooks.thy ===== *)
theory Circuit_Hooks
  imports Circuit_Calls
begin

text \<open>
  The block hooks and the dead letter queue keep the invariant of \<open>Circuit_Invariant\<close>: the
  queues visit transactions one by one through \<open>compile_infallible\<close>, and the dead letter queue
  changes only timeouts.
\<close>

section \<open>Dead letter queue\<close>

lemma circuit_inv_frame [simp]:
  "circuit_inv (s\<lparr>DLQ := q\<rparr>) = circuit_inv s"
  "circuit_inv (s\<lparr>PendingXtxTimeoutsMap := p\<rparr>) = circuit_inv s"
  "circuit_inv (s\<lparr>SignalQueue := g\<rparr>) = circuit_inv s"
  "circuit_inv (s\<lparr>GMP := h\<rparr>) = circuit_inv s"
  "circuit_inv (s\<lparr>account_manager := am\<rparr>) = circuit_inv s"
  "circuit_inv (s\<lparr>block_number := n\<rparr>) = circuit_inv s"
  "circuit_inv (deposit_event e s) = circuit_inv s"
  by (rule circuit_inv_core, simp add: core_def deposit_event_def)+

lemma mutate_xtx_inv:
  assumes "circuit_inv s" "\<And>x. status (f x) = status x"
  shows "circuit_inv (mutate_xtx i f s)"
proof (cases "smap_get (XExecSignals s) i")
  case None
  then show ?thesis using assms(1) by (simp add: mutate_xtx_def)
next
  case (Some x)
  let ?t = "s\<lparr>XExecSignals := smap_insert i (f x) (XExecSignals s)\<rparr>"
  have "inv_at ?t j" for j
  proof (cases "j = i")
    case True
    obtain y step where "stored_with s i y step"
      using assms(1) Some by (auto simp: circuit_inv_def inv_at_def absent_def dest: spec [of _ i])
    moreover from this have "y = x" using Some by (simp add: stored_with_def)
    ultimately have "stored_with ?t i (f x) step" using assms(2) by (simp add: stored_with_def)
    with True show ?thesis by (auto simp: inv_at_def)
  next
    case False
    then have "same_at j s ?t" by (simp add: same_at_def)
    from inv_at_same [OF this] show ?thesis using assms(1) by (simp add: circuit_inv_def)
  qed
  then show ?thesis using Some assms(1) by (simp add: mutate_xtx_def circuit_inv_def)
qed

lemma add_xtx_to_dlq_inv:
  "circuit_inv s \<Longrightarrow> circuit_inv (snd (add_xtx_to_dlq env i targets speed s))"
  by (auto simp: add_xtx_to_dlq_def Let_def intro!: mutate_xtx_inv)

lemma remove_xtx_from_dlq_inv:
  "circuit_inv s \<Longrightarrow> circuit_inv (snd (remove_xtx_from_dlq env i s))"
  by (auto simp: remove_xtx_from_dlq_def Let_def split: option.split prod.split
      intro!: mutate_xtx_inv)

lemma dlq_visit_inv: "circuit_inv (snd ws) \<Longrightarrow> circuit_inv (snd (dlq_visit env e ws))"
  using remove_xtx_from_dlq_inv [of "snd ws" env "fst e"]
  by (auto simp: dlq_visit_def case_prod_beta)

lemma process_dlq_inv:
  assumes "circuit_inv s" shows "circuit_inv (snd (process_dlq env n s))"
proof -
  have "circuit_inv (snd wss) \<Longrightarrow> circuit_inv (snd (fold (dlq_visit env) es wss))" for es wss
    by (induction es arbitrary: wss) (simp_all add: dlq_visit_inv)
  from this [of "([], s)" "DLQ s"] show ?thesis
    using assms by (auto simp: process_dlq_def split: prod.split list.split)
qed

lemma trigger_dlq_inv: "trigger_dlq env origin s = Ok s' \<Longrightarrow> circuit_inv s \<Longrightarrow> circuit_inv s'"
  by (auto simp: trigger_dlq_def res_simps process_dlq_inv)

section \<open>Hooks\<close>

lemma process_revert_one_inv:
  assumes "process_revert_one env i s = Ok (r, s')" "circuit_inv s"
  shows "circuit_inv s'"
proof (cases "ensure_all_gateways_are_active env s (get_all_xtx_targets env s i)")
  case True
  with assms(1) obtain b where
    r: "machine_revert env i Timeout (revert_post_update env i) s = Ok (b, s')"
    by (auto simp: process_revert_one_def Let_def res_simps)
  show ?thesis by (rule machine_revert_inv [OF r _ assms(2)]) simp
next
  case False
  with assms have "s' = snd (add_xtx_to_dlq env i (get_all_xtx_targets env s i) Speed_Finalized s)"
    by (simp add: process_revert_one_def Let_def)
  then show ?thesis using add_xtx_to_dlq_inv assms(2) by simp
qed

lemma weighted_loop_inv:
  assumes "fold_res f xs (w, s) = Ok (w', s')" "circuit_inv s"
    and "\<And>x w s w' s'. f x (w, s) = Ok (w', s') \<Longrightarrow> circuit_inv s \<Longrightarrow> circuit_inv s'"
  shows "circuit_inv s'"
  using fold_res_invariant [OF assms(1), of "\<lambda>ws. circuit_inv (snd ws)"] assms(2,3) by fastforce

lemma process_adaptive_xtx_timeout_queue_inv:
  "process_adaptive_xtx_timeout_queue env n v s = Ok (w, s') \<Longrightarrow> circuit_inv s \<Longrightarrow> circuit_inv s'"
  unfolding process_adaptive_xtx_timeout_queue_def
  by (erule weighted_loop_inv) (auto simp: res_simps dest: process_revert_one_inv)

lemma process_emergency_revert_xtx_queue_inv:
  "process_emergency_revert_xtx_queue env n k mw s = Ok (w, s') \<Longrightarrow> circuit_inv s \<Longrightarrow> circuit_inv s'"
  unfolding process_emergency_revert_xtx_queue_def
  by (auto split: if_splits elim!: weighted_loop_inv simp: res_simps dest: process_revert_one_inv)

lemma process_tick_one_inv:
  "process_tick_one env i s = Ok (w, s') \<Longrightarrow> circuit_inv s \<Longrightarrow> circuit_inv s'"
  by (auto simp: process_tick_one_def res_simps intro: compile_infallible_inv)

lemma process_tick_two_inv:
  "process_tick_two env i s = Ok (w, s') \<Longrightarrow> circuit_inv s \<Longrightarrow> circuit_inv s'"
  by (auto simp: process_tick_two_def res_simps intro: compile_infallible_inv split: res.splits)

lemma tick_all_inv:
  assumes "tick_all tick mw ids (w, s) = Ok (w', s')" "circuit_inv s"
    and "\<And>i s w s'. tick i s = Ok (w, s') \<Longrightarrow> circuit_inv s \<Longrightarrow> circuit_inv s'"
  shows "circuit_inv s'"
  using assms(1,2) unfolding tick_all_def
  by (rule weighted_loop_inv) (auto simp: res_simps split: if_splits dest: assms(3))

lemma process_xtx_tick_queue_inv:
  "process_xtx_tick_queue env n k mw s = Ok (w, s') \<Longrightarrow> circuit_inv s \<Longrightarrow> circuit_inv s'"
  by (auto simp: process_xtx_tick_queue_def res_simps split: if_splits
      elim!: tick_all_inv dest: process_tick_one_inv process_tick_two_inv)

lemma handle_front_signal_inv:
  "handle_front_signal env (w, q, s) = Ok (w', q', s') \<Longrightarrow> circuit_inv s \<Longrightarrow> circuit_inv s'"
  by (auto simp: handle_front_signal_def Let_def res_simps no_post_updates_def [symmetric]
      split: res.splits if_splits intro: machine_kill_inv)

lemma signal_loop_inv:
  "signal_loop n env mw (w, q, s) = Ok (w', q', s') \<Longrightarrow> circuit_inv s \<Longrightarrow> circuit_inv s'"
proof (induction n arbitrary: w q s)
  case 0
  then show ?case by simp
next
  case (Suc n)
  show ?case
  proof (cases "q \<noteq> [] \<and> w < mw")
    case True
    with Suc.prems(1) obtain w1 q1 s1 where one: "handle_front_signal env (w, q, s) = Ok (w1, q1, s1)"
      and rest: "signal_loop n env mw (w1, q1, s1) = Ok (w', q', s')"
      by (auto simp: res_simps)
    show ?thesis by (rule Suc.IH [OF rest handle_front_signal_inv [OF one Suc.prems(2)]])
  qed (use Suc.prems in auto)
qed

lemma process_signal_queue_inv:
  assumes "process_signal_queue env n k mw s = Ok (w, s')" "circuit_inv s"
  shows "circuit_inv s'"
proof (cases "SignalQueue s = []")
  case False
  with assms(1) obtain w1 q1 s1 where
    loop: "signal_loop (length (SignalQueue s)) env mw (0, SignalQueue s, s) = Ok (w1, q1, s1)"
    and s': "s' = s1\<lparr>SignalQueue := q1\<rparr>"
    by (auto simp: process_signal_queue_def res_simps)
  have "core s' = core s1" by (simp add: s')
  then show ?thesis using signal_loop_inv [OF loop assms(2)] circuit_inv_core by metis
qed (use assms in \<open>simp add: process_signal_queue_def\<close>)

end
