(* ===== verification/Circuit_Escrow.thy ===== *)
theory Circuit_Escrow
  imports Circuit_Hooks
begin

text \<open>
  The escrow call keeps the invariant: confirming a side effect and the hot swap of the dynamic
  destination deals afterwards replace stored side effects only by ones that fit the status.
\<close>

section \<open>Definitions\<close>

text \<open>A side effect that may replace a stored one of transaction \<open>i\<close>.\<close>

definition fits :: "'x circuit_state \<Rightarrow> H256 \<Rightarrow> FullSideEffect \<Rightarrow> bool" where
  "fits s i f \<longleftrightarrow> (\<forall>x. smap_get (XExecSignals s) i = Some x \<longrightarrow>
     (status x = PendingBidding \<longrightarrow> \<not> has_bid f)
     \<and> (status x = FinishedAllSteps \<longrightarrow> has_bid f \<and> has_executor f \<and> is_confirmed f))"

section \<open>Escrowed execution\<close>

lemma ddd_swap_flags:
  "ddd_swap env exec f = Ok f' \<Longrightarrow>
     has_bid f' = has_bid f \<and> has_executor f' = has_executor f \<and> is_confirmed f' = is_confirmed f"
  by (auto simp: ddd_swap_def res_simps fsx_flags split: if_splits)

lemma step_ok_map:
  assumes "step_ok st step" "st = PendingBidding \<longrightarrow> \<not> has_bid f'"
    "st = FinishedAllSteps \<longrightarrow> has_bid f' \<and> has_executor f' \<and> is_confirmed f'"
  shows "step_ok st (map (\<lambda>f. if p f then f' else f) step)"
  using assms by (auto simp: step_ok_def split: CircuitStatus.splits)

lemma swap_one_inv:
  assumes "swap_one env exec i f (r, s) = Ok (r', s')" "circuit_inv s" "fits s i f"
  shows "circuit_inv s' \<and> XExecSignals s' = XExecSignals s"
proof (cases "action (input f) = DDD_ACTION \<and> smap_get (FullSideEffects s) i \<noteq> None")
  case False
  then show ?thesis using assms(1,2) by (auto simp: swap_one_def Let_def res_simps split: option.splits if_splits)
next
  case True
  with assms(1) obtain f' steps where sw: "ddd_swap env exec f = Ok f'"
    and steps: "smap_get (FullSideEffects s) i = Some steps"
    and s': "s' = s\<lparr>FullSideEffects := smap_insert i
        (map (map (\<lambda>g. if sfx_id_of env i g = sfx_id_of env i f' then f' else g)) steps) (FullSideEffects s)\<rparr>"
    by (auto simp: swap_one_def Let_def res_simps)
  obtain x step where st: "stored_with s i x step"
    using assms(2) steps by (auto simp: circuit_inv_def inv_at_def absent_def dest: spec [of _ i])
  then have "steps = [step]" using steps by (simp add: stored_with_def)
  moreover have "step_ok (status x) (map (\<lambda>g. if sfx_id_of env i g = sfx_id_of env i f' then f' else g) step)"
    using st assms(3) ddd_swap_flags [OF sw] by (intro step_ok_map) (auto simp: stored_with_def fits_def)
  ultimately have "stored_with s' i x (map (\<lambda>g. if sfx_id_of env i g = sfx_id_of env i f' then f' else g) step)"
    using st by (simp add: stored_with_def s')
  then have here: "inv_at s' i" by (auto simp: inv_at_def)
  have "inv_at s' j" if "j \<noteq> i" for j
  proof -
    have "same_at j s s'" using that by (simp add: same_at_def s')
    from inv_at_same [OF this] show ?thesis using assms(2) by (simp add: circuit_inv_def)
  qed
  with here have "inv_at s' j" for j by (cases "j = i") auto
  then show ?thesis using assms(2) by (simp add: circuit_inv_def s')
qed

lemma perform_ddd_hot_swap_inv:
  assumes "perform_ddd_hot_swap env ctx exec s = Ok (r, s')" "circuit_inv s"
    "\<forall>f \<in> set (concat (full_side_effects ctx)). fits s (xtx_id ctx) f"
  shows "circuit_inv s'"
proof -
  let ?P = "\<lambda>rs. circuit_inv (snd rs) \<and> XExecSignals (snd rs) = XExecSignals s"
  have "?P (r, s')"
    using assms(1) unfolding perform_ddd_hot_swap_def
  proof (rule fold_res_invariant)
    show "?P ([], s)" using assms(2) by simp
    fix f rs rs'
    assume f: "f \<in> set (concat (full_side_effects ctx))" and "?P rs"
      and sw: "swap_one env exec (xtx_id ctx) f rs = Ok rs'"
    have "fits (snd rs) (xtx_id ctx) f"
      using bspec [OF assms(3) f] \<open>?P rs\<close> by (simp add: fits_def)
    then show "?P rs'"
      using swap_one_inv [of env exec "xtx_id ctx" f "fst rs" "snd rs" "fst rs'" "snd rs'"] sw \<open>?P rs\<close> by simp
  qed
  then show ?thesis by simp
qed

text \<open>
  Confirming adds no bid and no executor, and the machine then stores either the status that
  the confirmed step determines or nothing.
\<close>

lemma confirm_fits:
  assumes comp: "compile_xtx env ctx (\<lambda>step _ _ _ _ _. Ok (TryConfirm k c, step)) post s = Ok (b, ctx', s')"
    and inv: "circuit_inv s" and post: "keeps_core post" and load: "load_xtx s i = Ok ctx"
  shows "xtx_id ctx' = i \<and> (\<forall>f \<in> set (concat (full_side_effects ctx')). fits s' i f)"
proof -
  have i: "xtx_id ctx = i" using load by (simp add: load_xtx_Ok)
  obtain step where full: "full_side_effects ctx = [step]" and st: "stored_with s i (xtx ctx) step"
    using inv_load [OF inv load] by blast
  define step' where
    "step' = map (\<lambda>f. if sfx_id_of env i f = k then f\<lparr>confirmed := Some c\<rparr> else f) step"
  let ?old = "status (xtx ctx)" and ?new = "determine_xtx_status [step']"
  from comp obtain s2 where
    ctx': "ctx' = with_status (ctx\<lparr>full_side_effects := [step']\<rparr>) ?new"
    and p: "post (?old, ?new) ctx' s = Ok s2" and app: "apply_xtx env ctx' (?old, ?new) s2 = Ok (b, s')"
    by (auto simp: compile_xtx_def read_single [OF full] run_precompile_result_def Let_def res_simps
        update_status_Ok check_transition_None update_single [OF full] i step'_def)
  have "core s2 = core s" using p post by (auto simp: keeps_core_def)
  then have X2: "smap_get (XExecSignals s2) i = Some (xtx ctx)"
    using st by (simp add: core_def stored_with_def)
  have flags: "(?old = PendingBidding \<longrightarrow> \<not> has_bid f)
      \<and> (?old = FinishedAllSteps \<longrightarrow> has_bid f \<and> has_executor f \<and> is_confirmed f)" if "f \<in> set step'" for f
    using that st by (auto simp: step'_def stored_with_def step_ok_def fsx_flags split: if_splits)
  have det: "?new \<notin> {Committed} \<and> \<not> is_killed ?new \<and> \<not> is_reverted ?new"
    using step_ok_stored [OF step_ok_determined, of step'] by (auto simp: is_killed_def is_reverted_def)
  have req: "?old \<noteq> Requested" using st by (auto simp: stored_with_def dest: step_ok_stored)
  have id': "xtx_id ctx' = i" and full': "full_side_effects ctx' = [step']" and st': "status (xtx ctx') = ?new"
    by (simp_all add: ctx' i)
  from app have "\<forall>f \<in> set step'. fits s' i f"
  proof (cases rule: apply_xtx_cases)
    case noop
    then show ?thesis using flags X2 by (simp add: fits_def)
  next
    case next_bid
    then show ?thesis using X2 by (simp add: fits_def put_fsx_def)
  next
    case (finished n)
    have "XExecSignals s' = XExecSignals (apply_finished ctx' s2)"
      using su_finalize_core [OF finished(4)] by (simp add: core_def)
    then show ?thesis
      using finished(3) step_ok_determined [of step'] st' id'
      by (simp add: fits_def writes step_ok_def)
  qed (use det req id' st' in \<open>auto simp: fits_def writes executing_def\<close>)
  then show ?thesis by (simp add: id' full')
qed

lemma fold_events_inv:
  "circuit_inv (fold (\<lambda>(x, k, e, a). deposit_event (DynamicDestinationDealReplaced x k e a)) r t) = circuit_inv t"
  by (induction r arbitrary: t) (simp_all add: case_prod_beta)

lemma escrow_inv:
  assumes "escrow env origin k s = Ok s'" "circuit_inv s"
  shows "circuit_inv s'"
proof -
  from assms(1) obtain i ctx exec am c b ctx' s1 r s2 where load: "load_xtx s i = Ok ctx"
    and comp: "compile_xtx env ctx (\<lambda>step _ _ _ _ _. Ok (TryConfirm k c, step))
         (confirm_post_update env k) (s\<lparr>account_manager := am\<rparr>) = Ok (b, ctx', s1)"
    and swap: "perform_ddd_hot_swap env ctx' exec s1 = Ok (r, s2)"
    and s': "s' = fold (\<lambda>(x, k, e, a). deposit_event (DynamicDestinationDealReplaced x k e a)) r
            (deposit_event (SideEffectConfirmed k) s2)"
    by (auto simp: escrow_def res_simps)
  have load1: "load_xtx (s\<lparr>account_manager := am\<rparr>) i = Ok ctx"
    using load by (simp add: load_xtx_Ok)
  have inv0: "circuit_inv (s\<lparr>account_manager := am\<rparr>)" using assms(2) by simp
  have inv1: "circuit_inv s1" by (rule compile_loaded_inv [OF comp inv0 _ _ load1]) simp_all
  have "\<forall>f \<in> set (concat (full_side_effects ctx')). fits s1 (xtx_id ctx') f"
    using confirm_fits [OF comp inv0 _ load1] by simp
  from perform_ddd_hot_swap_inv [OF swap inv1 this] have "circuit_inv s2" .
  then show ?thesis by (simp add: s' fold_events_inv)
qed

end
