(* ===== verification/Circuit_Progress.thy ===== *)
theory Circuit_Progress
  imports Circuit_Escrow
begin

text \<open>
  The hooks return: under the invariant of \<open>Circuit_Invariant\<close> no transaction that a queue
  visits makes \<open>compile_infallible\<close> panic, and the queues over bids, commits and timeouts run
  to their end.
\<close>

section \<open>Progress of the machine\<close>

lemma su_kill_total: "full_side_effects ctx = [step] \<Longrightarrow> \<exists>k s'. su_kill env ctx s = Ok (k, s')"
  by (simp add: su_kill_def read_single split: prod.split)

lemma su_finalize_total: "full_side_effects ctx = [step] \<Longrightarrow> \<exists>k s'. su_finalize env ctx s = Ok (k, s')"
  by (simp add: su_finalize_def read_single split: prod.split)

lemma bind_bidders_total:
  "full_side_effects ctx = [step] \<Longrightarrow>
     \<exists>b step' s'. bind_bidders env ctx s = Ok (b, ctx\<lparr>full_side_effects := [step']\<rparr>, s')"
  by (cases "bind_step env (xtx_id ctx) step (account_manager s)")
    (auto simp: bind_bidders_def read_single update_single)

lemma request_sfx_attestation_total:
  "full_side_effects ctx = [step] \<Longrightarrow> \<exists>s'. request_sfx_attestation env ctx s = Ok s'"
  by (simp add: request_sfx_attestation_def read_single)

lemma apply_total:
  assumes "full_side_effects ctx = [step]"
  shows "\<exists>b s'. apply_xtx env ctx change s = Ok (b, s')"
proof -
  obtain k1 t1 where "su_kill env ctx (apply_kill env ctx s) = Ok (k1, t1)"
    using su_kill_total [OF assms] by blast
  moreover obtain k2 t2 where "su_finalize env ctx (apply_revert ctx s) = Ok (k2, t2)"
    using su_finalize_total [OF assms] by blast
  moreover obtain k3 t3 where "su_finalize env ctx (apply_finished ctx s) = Ok (k3, t3)"
    using su_finalize_total [OF assms] by blast
  ultimately have "is_ok (apply_xtx env ctx change s)"
    by (simp add: apply_xtx_def case_prod_beta if_distrib [of is_ok])
  then show ?thesis by (auto simp: is_ok_def split: res.splits)
qed

lemma compile_progress:
  assumes "full_side_effects ctx = [step]"
    and "pre step (local_state ctx) (steps_cnt (xtx ctx)) (status (xtx ctx)) (requester (xtx ctx)) s = Ok (pr, fsx)"
    and "run_precompile_result env pr fsx ctx s = Ok (enf, ctx\<lparr>full_side_effects := [step']\<rparr>, s1)"
    and "\<not> is_reverted (status (xtx ctx))" "\<not> is_killed (status (xtx ctx))"
    and "check_transition (status (xtx ctx)) (determine_xtx_status [step']) enf = Ok new"
    and "\<And>change c s. full_side_effects c = [step'] \<Longrightarrow> \<exists>s'. post change c s = Ok s'"
  shows "\<exists>b c s'. compile_xtx env ctx pre post s = Ok (b, c, s')"
proof -
  let ?c = "with_status (ctx\<lparr>full_side_effects := [step']\<rparr>) new" and ?ch = "(status (xtx ctx), new)"
  have upd: "update_status (ctx\<lparr>full_side_effects := [step']\<rparr>) enf = Ok (?ch, ?c)"
    using assms(4-6) by (simp add: update_status_Ok)
  have f: "full_side_effects ?c = [step']" by simp
  obtain s2 where "post ?ch ?c s1 = Ok s2" using assms(7) [OF f] by blast
  moreover obtain b s3 where "apply_xtx env ?c ?ch s2 = Ok (b, s3)" using apply_total [OF f] by fast
  ultimately show ?thesis
    using assms(2,3) upd by (simp add: compile_xtx_def read_single [OF assms(1)])
qed

lemma step_ok_determines:
  "step_ok Reserved step \<Longrightarrow> determine_xtx_status [step] = Reserved"
  "step_ok PendingBidding step \<Longrightarrow> determine_xtx_status [step] = PendingBidding"
  "step_ok FinishedAllSteps step \<Longrightarrow> determine_xtx_status [step] = FinishedAllSteps"
  by (auto simp: step_ok_def determine_xtx_status_single determine_step_status_eq,
      simp add: determine_xtx_status_def)

lemma stored_not_closed:
  "step_ok st step \<Longrightarrow> \<not> is_reverted st \<and> \<not> is_killed st"
  by (auto simp: is_reverted_def is_killed_def dest!: step_ok_stored)

lemma status_post_update_total: "\<exists>s'. status_post_update ch c s = Ok s'"
  by (simp add: status_post_update_def)

lemma revert_post_update_total:
  "full_side_effects c = [step] \<Longrightarrow> \<exists>s'. revert_post_update env i ch c s = Ok s'"
  using request_sfx_attestation_total [of c step env s] by (auto simp: revert_post_update_def)

lemma unbid_determines:
  "\<exists>f \<in> set step. \<not> has_bid f \<Longrightarrow> determine_xtx_status [step] \<in> {PendingBidding, InBidding}"
  by (cases step) (auto simp: determine_xtx_status_single determine_step_status_eq)

lemma kill_transition:
  assumes "step_ok st step" "bidding st" "st \<noteq> InBidding \<or> (\<exists>f \<in> set step. \<not> has_bid f)"
  shows "check_transition st (determine_xtx_status [step]) (Some (Killed Timeout)) = Ok (Killed Timeout)"
proof -
  have "determine_xtx_status [step] \<in> {Reserved, PendingBidding, InBidding}"
    using assms step_ok_determines [of step] unbid_determines [of step] by (auto simp: bidding_def)
  then show ?thesis by (auto simp: check_transition_def status_order)
qed


lemma stored_load:
  assumes "stored_with s i x step"
  obtains ctx where "load_xtx s i = Ok ctx" "xtx_id ctx = i" "xtx ctx = x" "full_side_effects ctx = [step]"
proof -
  from assms obtain ls where "smap_get (LocalXtxStates s) i = Some ls" by (auto simp: stored_with_def)
  then have "load_xtx s i = Ok \<lparr>local_state = ls, xtx_id = i, xtx = x, full_side_effects = [step]\<rparr>"
    using assms by (simp add: load_xtx_def stored_with_def)
  then show thesis by (rule that) simp_all
qed

lemma compile_loaded:
  assumes "compile_xtx env ctx pre post s = Ok (b, ctx', s')" "circuit_inv s"
    "keeps_length pre" "keeps_core post" "load_xtx s i = Ok ctx"
  shows "circuit_inv s' \<and> (\<forall>j. j \<noteq> i \<longrightarrow> same_at j s s')"
proof -
  have i: "xtx_id ctx = i" using assms(5) by (simp add: load_xtx_Ok)
  obtain step where "full_side_effects ctx = [step]"
    using inv_load [OF assms(2,5)] by blast
  then show ?thesis using compile_inv [OF assms(1-4)] assms(5) i by simp
qed

lemma infallible_step:
  assumes "stored_with s i x step" "circuit_inv s" "keeps_core post"
    and "run_precompile_result env (pre step ls cnt (status x) (requester x)) step ctx s
       = Ok (enf, ctx\<lparr>full_side_effects := [step']\<rparr>, s1)"
    and "local_state ctx = ls" "steps_cnt x = cnt"
    and "load_xtx s i = Ok ctx"
    and "check_transition (status x) (determine_xtx_status [step']) enf = Ok new"
    and "\<And>change c s. full_side_effects c = [step'] \<Longrightarrow> \<exists>s'. post change c s = Ok s'"
  shows "\<exists>b c s'. compile_infallible env ctx pre post s = Ok (b, c, s') \<and> circuit_inv s'
    \<and> (\<forall>j. j \<noteq> i \<longrightarrow> same_at j s s')"
proof -
  have x: "xtx ctx = x" and full: "full_side_effects ctx = [step]"
    using assms(1,7) by (simp_all add: load_xtx_Ok stored_with_def)
  note closed = stored_not_closed [of "status x" step]
  let ?pre = "\<lambda>fsx ls cnt st req _. Ok (pre fsx ls cnt st req, fsx)"
  obtain b c s' where comp: "compile_xtx env ctx ?pre post s = Ok (b, c, s')"
    using compile_progress [of ctx step ?pre s "pre step ls cnt (status x) (requester x)" step env enf step' s1 new post]
      assms(1,4-6,8,9) closed by (auto simp: x full stored_with_def)
  have "circuit_inv s' \<and> (\<forall>j. j \<noteq> i \<longrightarrow> same_at j s s')"
    by (rule compile_loaded [OF comp assms(2) _ assms(3,7)]) simp
  then show ?thesis using comp by (simp add: compile_infallible_def)
qed

lemma tick_one_total:
  assumes "circuit_inv s" "smap_get (PendingXtxBidsTimeoutsMap s) i \<noteq> None"
  shows "\<exists>w s'. process_tick_one env i s = Ok (w, s') \<and> circuit_inv s' \<and> (\<forall>j. j \<noteq> i \<longrightarrow> same_at j s s')"
proof -
  obtain x step where st: "stored_with s i x step"
    using assms by (auto simp: circuit_inv_def inv_at_def absent_def dest: spec [of _ i])
  then have bid: "bidding (status x)" and ok: "step_ok (status x) step"
    using assms(2) by (simp_all add: stored_with_def)
  obtain ctx where ctx: "load_xtx s i = Ok ctx" "xtx_id ctx = i" "xtx ctx = x" "full_side_effects ctx = [step]"
    using stored_load [OF st] .
  let ?pr = "tick_one_precompile step (local_state ctx) (steps_cnt x) (status x) (requester x)"
  have "\<exists>enf step' s1 new. run_precompile_result env ?pr step ctx s = Ok (enf, ctx\<lparr>full_side_effects := [step']\<rparr>, s1)
     \<and> check_transition (status x) (determine_xtx_status [step']) enf = Ok new"
  proof (cases "status x = InBidding \<and> (\<forall>f \<in> set step. has_bid f)")
    case True
    then have "?pr = ForceUpdateStatus Ready"
      by (auto simp: tick_one_precompile_def list_all_iff has_bid_def)
    moreover obtain b step' s' where "bind_bidders env ctx s = Ok (b, ctx\<lparr>full_side_effects := [step']\<rparr>, s')"
      using bind_bidders_total [OF ctx(4)] by blast
    ultimately show ?thesis
      using True by (auto simp: run_precompile_result_def ctx(3) check_transition_def)
  next
    case False
    then have "?pr = TryKill Timeout"
      by (auto simp: tick_one_precompile_def list_all_iff has_bid_def)
    then show ?thesis
      using False kill_transition [OF ok bid]
      by (auto simp: run_precompile_result_def ctx_single [OF ctx(4)] intro!: exI [of _ step])
  qed
  then obtain enf step' s1 new where
    "run_precompile_result env ?pr step ctx s = Ok (enf, ctx\<lparr>full_side_effects := [step']\<rparr>, s1)"
    "check_transition (status x) (determine_xtx_status [step']) enf = Ok new" by blast
  from infallible_step [where pre = tick_one_precompile and post = status_post_update,
      OF st assms(1) _ this(1) refl refl ctx(1) this(2)]
  show ?thesis using ctx(1) by (auto simp: process_tick_one_def status_post_update_total)
qed

lemma tick_two_total:
  assumes "circuit_inv s" "smap_get (FinalizedXtx s) i \<noteq> None"
  shows "\<exists>w s'. process_tick_two env i s = Ok (w, s') \<and> circuit_inv s' \<and> (\<forall>j. j \<noteq> i \<longrightarrow> same_at j s s')"
proof (cases "load_xtx s i")
  case (Ok ctx)
  then obtain step where full: "full_side_effects ctx = [step]" and st: "stored_with s i (xtx ctx) step"
    using inv_load [OF assms(1)] by blast
  then have fin: "status (xtx ctx) = FinishedAllSteps" and ok: "step_ok FinishedAllSteps step"
    using assms(2) by (auto simp: stored_with_def)
  have run: "run_precompile_result env (tick_two_precompile step (local_state ctx) (steps_cnt (xtx ctx))
      (status (xtx ctx)) (requester (xtx ctx))) step ctx s
    = Ok (Some Committed, ctx\<lparr>full_side_effects := [step]\<rparr>, s)"
    using full by (simp add: tick_two_precompile_def fin run_precompile_result_def ctx_single)
  have ct: "check_transition (status (xtx ctx)) (determine_xtx_status [step]) (Some Committed) = Ok Committed"
    using step_ok_determines(3) [OF ok] by (simp add: check_transition_def)
  from infallible_step [where pre = tick_two_precompile and post = status_post_update,
      OF st assms(1) _ run refl refl Ok ct]
  show ?thesis using Ok by (auto simp: process_tick_two_def status_post_update_total)
qed (use assms(1) in \<open>auto simp: process_tick_two_def load_xtx_not_Panic same_at_def\<close>)

lemma revert_transition: "\<exists>new. check_transition p d (Some (Reverted c)) = Ok new"
proof -
  have "is_ok (check_transition p d (Some (Reverted c)))"
    by (simp add: check_transition_def if_distrib [of is_ok])
  then show ?thesis by (auto simp: is_ok_def split: res.splits)
qed

lemma revert_total:
  assumes "circuit_inv s" "keeps_core post"
    "\<And>change c s step. full_side_effects c = [step] \<Longrightarrow> \<exists>s'. post change c s = Ok s'"
  shows "\<exists>b s'. machine_revert env i cause post s = Ok (b, s')"
proof (cases "load_xtx s i")
  case (Ok ctx)
  then obtain step where full: "full_side_effects ctx = [step]" and st: "stored_with s i (xtx ctx) step"
    using inv_load [OF assms(1)] by blast
  have run: "run_precompile_result env (Precompile_Revert cause) step ctx s
    = Ok (Some (Reverted cause), ctx\<lparr>full_side_effects := [step]\<rparr>, s)"
    using full by (simp add: run_precompile_result_def ctx_single)
  obtain new where ct: "check_transition (status (xtx ctx)) (determine_xtx_status [step]) (Some (Reverted cause)) = Ok new"
    using revert_transition by blast
  have "\<And>change c s. full_side_effects c = [step] \<Longrightarrow> \<exists>s'. post change c s = Ok s'"
    using assms(3) by blast
  from infallible_step [where pre = "\<lambda>_ _ _ _ _. Precompile_Revert cause",
      OF st assms(1,2) run refl refl Ok ct this]
  show ?thesis using Ok by (auto simp: machine_revert_def)
qed (auto simp: machine_revert_def load_xtx_not_Panic)

lemma process_revert_one_total:
  assumes "circuit_inv s"
  shows "\<exists>r s'. process_revert_one env i s = Ok (r, s') \<and> circuit_inv s'"
proof -
  obtain b t where "machine_revert env i Timeout (revert_post_update env i) s = Ok (b, t)"
    using revert_total [OF assms, of "revert_post_update env i" env i Timeout]
      revert_post_update_total [of _ _ env i] keeps_core_closures(5) by blast
  then have "\<exists>r s'. process_revert_one env i s = Ok (r, s')"
    by (cases "add_xtx_to_dlq env i (get_all_xtx_targets env s i) Speed_Finalized s")
      (auto simp: process_revert_one_def Let_def)
  then show ?thesis using process_revert_one_inv assms by blast
qed

text \<open>The loops: a visit touches only its own transaction, so the remaining ids stay due.\<close>

lemma tick_all_total:
  assumes "circuit_inv s" "distinct ids" "\<forall>i \<in> set ids. due s i"
    and tick: "\<And>i s. circuit_inv s \<Longrightarrow> due s i \<Longrightarrow>
      \<exists>w s'. tick i s = Ok (w, s') \<and> circuit_inv s' \<and> (\<forall>j. j \<noteq> i \<longrightarrow> same_at j s s')"
    and same: "\<And>j s s'. same_at j s s' \<Longrightarrow> due s' j = due s j"
  shows "\<exists>w' s'. tick_all tick mw ids (w, s) = Ok (w', s') \<and> circuit_inv s'"
  using assms(1-3)
proof (induction ids arbitrary: w s)
  case Nil
  then show ?case by (simp add: tick_all_def)
next
  case (Cons i ids)
  show ?case
  proof (cases "w \<le> mw")
    case True
    obtain w1 s1 where one: "tick i s = Ok (w1, s1)" and inv1: "circuit_inv s1"
      and others: "\<forall>j. j \<noteq> i \<longrightarrow> same_at j s s1"
      using tick [OF Cons.prems(1), of i] Cons.prems(3) by auto
    have "\<forall>j \<in> set ids. due s1 j"
      using Cons.prems(2,3) others same by (metis distinct.simps(2) list.set_intros(2))
    from Cons.IH [OF inv1 _ this, of "weight_add w w1"] show ?thesis
      using Cons.prems(2) one True by (simp add: tick_all_def)
  next
    case False
    from Cons.IH [OF Cons.prems(1), of w] show ?thesis
      using Cons.prems False by (simp add: tick_all_def)
  qed
qed

lemma same_at_due:
  "same_at j s s' \<Longrightarrow>
     (smap_get (PendingXtxBidsTimeoutsMap s') j \<noteq> None) = (smap_get (PendingXtxBidsTimeoutsMap s) j \<noteq> None)"
  "same_at j s s' \<Longrightarrow> (smap_get (FinalizedXtx s') j \<noteq> None) = (smap_get (FinalizedXtx s) j \<noteq> None)"
  by (simp_all add: same_at_def)

lemma process_xtx_tick_queue_total:
  assumes "circuit_inv s"
  shows "\<exists>w s'. process_xtx_tick_queue env n k mw s = Ok (w, s')"
proof -
  let ?ids = "map fst (filter (\<lambda>(_, timeout_at). timeout_at \<le> n) (PendingXtxBidsTimeoutsMap s))"
  have ids: "distinct ?ids"
    using assms smap_wf_distinct [of "PendingXtxBidsTimeoutsMap s"]
    by (simp add: circuit_inv_def distinct_map_filter)
  have due: "\<forall>i \<in> set ?ids. smap_get (PendingXtxBidsTimeoutsMap s) i \<noteq> None"
    using assms smap_in_get by (fastforce simp: circuit_inv_def)
  obtain w1 s1 where one: "tick_all (process_tick_one env) mw ?ids (0, s) = Ok (w1, s1)"
    and inv1: "circuit_inv s1"
    using tick_all_total [where due = "\<lambda>s i. smap_get (PendingXtxBidsTimeoutsMap s) i \<noteq> None"
        and tick = "process_tick_one env", OF assms ids due tick_one_total same_at_due(1)] by blast
  have ids1: "distinct (map fst (FinalizedXtx s1))"
    using inv1 smap_wf_distinct [of "FinalizedXtx s1"] by (simp add: circuit_inv_def)
  have due1: "\<forall>i \<in> set (map fst (FinalizedXtx s1)). smap_get (FinalizedXtx s1) i \<noteq> None"
    using inv1 smap_in_get by (fastforce simp: circuit_inv_def)
  obtain w2 s2 where
    "tick_all (process_tick_two env) mw (map fst (FinalizedXtx s1)) (w1, s1) = Ok (w2, s2)"
    using tick_all_total [where due = "\<lambda>s i. smap_get (FinalizedXtx s) i \<noteq> None"
        and tick = "process_tick_two env", OF inv1 ids1 due1 tick_two_total same_at_due(2)] by blast
  then show ?thesis using one by (simp add: process_xtx_tick_queue_def)
qed

lemma revert_loop_total:
  assumes "circuit_inv s"
    and "\<And>e w s. circuit_inv s \<Longrightarrow> \<exists>w' s'. f e (w, s) = Ok (w', s') \<and> circuit_inv s'"
  shows "\<exists>w' s'. fold_res f es (w, s) = Ok (w', s')"
  using assms(1)
proof (induction es arbitrary: w s)
  case Nil
  then show ?case by simp
next
  case (Cons e es)
  obtain w1 s1 where "f e (w, s) = Ok (w1, s1)" "circuit_inv s1" using assms(2) [OF Cons.prems] by blast
  with Cons.IH [of s1 w1] show ?case by simp
qed

lemma process_adaptive_xtx_timeout_queue_total:
  assumes "circuit_inv s" shows "\<exists>w s'. process_adaptive_xtx_timeout_queue env n v s = Ok (w, s')"
  unfolding process_adaptive_xtx_timeout_queue_def
proof (rule revert_loop_total [OF assms])
  fix e :: "H256 \<times> AdaptiveTimeout" and w and s :: "'a circuit_state"
  assume "circuit_inv s"
  then obtain r s' where "process_revert_one env (fst e) s = Ok (r, s')" "circuit_inv s'"
    using process_revert_one_total by blast
  then show "\<exists>w' s'. (case e of (i, _) \<Rightarrow> \<lambda>(w, s). bind_res (process_revert_one env i s)
      (\<lambda>((w1, _), s'). Ok (weight_add w w1, s'))) (w, s) = Ok (w', s') \<and> circuit_inv s'"
    by (simp add: case_prod_beta)
qed

lemma process_emergency_revert_xtx_queue_total:
  assumes "circuit_inv s" shows "\<exists>w s'. process_emergency_revert_xtx_queue env n k mw s = Ok (w, s')"
proof -
  have "\<exists>w' s'. fold_res (\<lambda>(i, _) (w, s).
            if w \<le> mw
            then bind_res (process_revert_one env i s) (\<lambda>((w1, _), s'). Ok (weight_add w w1, s'))
            else Ok (w, s))
          (filter (\<lambda>(_, t). emergency_timeout_here t \<le> n) (PendingXtxTimeoutsMap s)) (0, s) = Ok (w', s')"
  proof (rule revert_loop_total [OF assms])
    fix e :: "H256 \<times> AdaptiveTimeout" and w and s :: "'a circuit_state"
    assume "circuit_inv s"
    then obtain r s' where "process_revert_one env (fst e) s = Ok (r, s')" "circuit_inv s'"
      using process_revert_one_total by blast
    then show "\<exists>w' s'. (case e of (i, _) \<Rightarrow> \<lambda>(w, s). if w \<le> mw then bind_res (process_revert_one env i s)
        (\<lambda>((w1, _), s'). Ok (weight_add w w1, s')) else Ok (w, s)) (w, s) = Ok (w', s') \<and> circuit_inv s'"
      using \<open>circuit_inv s\<close> by (simp add: case_prod_beta)
  qed
  then show ?thesis by (simp add: process_emergency_revert_xtx_queue_def)
qed

end
