(* ===== verification/Circuit_Reachable.thy ===== *)
theory Circuit_Reachable
  imports Circuit_Progress
begin

text \<open>
  The circuit pallet as a transition system: its operations, a step relation over them, and the
  invariant of \<open>Circuit_Invariant\<close> in every reachable state.
\<close>

section \<open>Transition systems\<close>

text \<open>The interface of a system with an invariant: it holds initially and every step keeps it.\<close>

locale state_machine =
  fixes initial :: "'s \<Rightarrow> bool"
    and step :: "'s \<Rightarrow> 's \<Rightarrow> bool"
    and inv :: "'s \<Rightarrow> bool"
  assumes initial_inv: "initial s \<Longrightarrow> inv s"
    and step_inv: "inv s \<Longrightarrow> step s s' \<Longrightarrow> inv s'"
begin

lemma steps_inv: "step\<^sup>*\<^sup>* s s' \<Longrightarrow> inv s \<Longrightarrow> inv s'"
  by (induction rule: rtranclp_induct) (auto intro: step_inv)

lemma reachable_inv: "initial s0 \<Longrightarrow> step\<^sup>*\<^sup>* s0 s \<Longrightarrow> inv s"
  using steps_inv initial_inv by blast

end

section \<open>The circuit as a transition system\<close>

text \<open>The entry points of the pallet: its calls, its interface to other pallets and its hooks.\<close>

datatype circuit_op =
    Submit Origin "SideEffect list" SpeedMode SecurityLvl
  | Submit_Remote Origin AccountId "SideEffect list" SpeedMode
  | Bid Origin H256 Balance
  | Confirm Origin H256 ConfirmedSideEffect
  | Cancel Origin H256
  | Revert_Xtx Origin H256
  | Escrow_Execution Origin H256
  | Load_Local Origin "H256 option"
  | Local_Trigger Origin LocalTrigger
  | Signal Origin ExecutionSignal
  | Store_Gmp H256 H256
  | Trigger_Dlq Origin
  | Process_Dlq BlockNumber
  | Tick_Queue BlockNumber BlockNumber Weight
  | Adaptive_Queue BlockNumber GatewayVendor
  | Emergency_Queue BlockNumber BlockNumber Weight
  | Signal_Queue BlockNumber BlockNumber Weight

definition hook_result :: "(CircuitError, Weight \<times> 'x circuit_state) res \<Rightarrow> (DispatchError, 'x circuit_state) res" where
  "hook_result r = bind_res (map_err Circuit_Error r) (\<lambda>(_, s). Ok s)"

fun exec_op :: "'x circuit_env \<Rightarrow> circuit_op \<Rightarrow> 'x circuit_state \<Rightarrow> (DispatchError, 'x circuit_state) res" where
  "exec_op env (Submit origin sfx speed lvl) s = on_extrinsic_trigger env origin sfx speed lvl s"
| "exec_op env (Submit_Remote origin order_origin sfx speed) s =
     on_remote_origin_trigger env origin order_origin sfx speed s"
| "exec_op env (Bid origin k v) s = bid_sfx env origin k v s"
| "exec_op env (Confirm origin k c) s = confirm_side_effect env origin k c s"
| "exec_op env (Cancel origin i) s = cancel_xtx env origin i s"
| "exec_op env (Revert_Xtx origin i) s = revert_call env origin i s"
| "exec_op env (Escrow_Execution origin k) s = escrow env origin k s"
| "exec_op env (Load_Local origin m) s = bind_res (load_local_state env origin m s) (\<lambda>(_, s'). Ok s')"
| "exec_op env (Local_Trigger origin t) s = bind_res (on_local_trigger env origin t s) (\<lambda>(_, s'). Ok s')"
| "exec_op env (Signal origin g) s = on_signal env origin g s"
| "exec_op env (Store_Gmp i p) s = Ok (snd (store_gmp_payload i p s))"
| "exec_op env (Trigger_Dlq origin) s = trigger_dlq env origin s"
| "exec_op env (Process_Dlq n) s = Ok (snd (process_dlq env n s))"
| "exec_op env (Tick_Queue n k mw) s = hook_result (process_xtx_tick_queue env n k mw s)"
| "exec_op env (Adaptive_Queue n v) s = hook_result (process_adaptive_xtx_timeout_queue env n v s)"
| "exec_op env (Emergency_Queue n k mw) s = hook_result (process_emergency_revert_xtx_queue env n k mw s)"
| "exec_op env (Signal_Queue n k mw) s = hook_result (process_signal_queue env n k mw s)"

text \<open>
  The requesters under whose next identifier the operation may store a transaction.  The
  identifier hashes the requester with the account nonce, which increases with every signed
  extrinsic; the steps below ask that it does not repeat the identifier of a transaction that
  has already finished.
\<close>

fun submitters :: "circuit_op \<Rightarrow> AccountId set" where
  "submitters (Submit (Signed req) _ _ _) = {req}"
| "submitters (Submit_Remote _ order_origin _ _) = {order_origin}"
| "submitters (Load_Local (Signed req) None) = {req}"
| "submitters (Local_Trigger (Signed req) t) = (if maybe_xtx_id t = None then {req} else {})"
| "submitters _ = {}"

definition fresh_submission :: "'x circuit_env \<Rightarrow> circuit_op \<Rightarrow> 'x circuit_state \<Rightarrow> bool" where
  "fresh_submission env cop s \<longleftrightarrow>
     (\<forall>req \<in> submitters cop. smap_get (FinalizedXtx s) (fresh_id env s req) = None)"

text \<open>
  A step runs an operation that succeeds, moves to another block, or lets the other pallets
  change balances, charges and their own state; failed calls are rolled back.
\<close>

inductive circuit_step :: "'x circuit_env \<Rightarrow> 'x circuit_state \<Rightarrow> 'x circuit_state \<Rightarrow> bool" for env where
  operation: "exec_op env cop s = Ok s' \<Longrightarrow> fresh_submission env cop s \<Longrightarrow> circuit_step env s s'"
| new_block: "circuit_step env s (s\<lparr>block_number := n\<rparr>)"
| other_pallets: "circuit_step env s (s\<lparr>account_manager := am\<rparr>)"

inductive_cases circuit_stepE: "circuit_step env s s'"

definition circuit_initial :: "'x circuit_state \<Rightarrow> bool" where
  "circuit_initial s \<longleftrightarrow>
     XExecSignals s = [] \<and> FullSideEffects s = [] \<and> LocalXtxStates s = []
     \<and> PendingXtxBidsTimeoutsMap s = [] \<and> FinalizedXtx s = []"

lemma circuit_initial_inv: "circuit_initial s \<Longrightarrow> circuit_inv s"
  by (simp add: circuit_initial_def circuit_inv_def inv_at_def absent_def smap_get_def)

lemma hook_result_Ok: "hook_result r = Ok s \<longleftrightarrow> (\<exists>w. r = Ok (w, s))"
  by (auto simp: hook_result_def res_simps)

lemmas call_inv = on_extrinsic_trigger_inv on_remote_origin_trigger_inv bid_sfx_inv
  confirm_side_effect_inv cancel_xtx_inv revert_call_inv escrow_inv load_local_state_inv
  on_local_trigger_inv on_signal_inv trigger_dlq_inv process_dlq_inv process_xtx_tick_queue_inv
  process_adaptive_xtx_timeout_queue_inv process_emergency_revert_xtx_queue_inv
  process_signal_queue_inv

lemma exec_op_inv:
  assumes "exec_op env cop s = Ok s'" "circuit_inv s" "fresh_submission env cop s"
  shows "circuit_inv s'"
proof (cases cop)
  case (Submit origin sfx speed lvl)
  then show ?thesis
    using on_extrinsic_trigger_inv [of env origin sfx speed lvl s s'] assms
    by (simp add: fresh_submission_def)
next
  case (Submit_Remote origin a sfx speed)
  then show ?thesis
    using on_remote_origin_trigger_inv [of env origin a sfx speed s s'] assms
    by (simp add: fresh_submission_def)
next
  case (Load_Local origin m)
  then obtain v where l: "load_local_state env origin m s = Ok (v, s')"
    using assms(1) by (auto simp: res_simps)
  show ?thesis
    by (rule load_local_state_inv [OF l assms(2)]) (use assms(3) Load_Local in \<open>simp add: fresh_submission_def\<close>)
next
  case (Local_Trigger origin t)
  then obtain v where l: "on_local_trigger env origin t s = Ok (v, s')"
    using assms(1) by (auto simp: res_simps)
  show ?thesis
    by (rule on_local_trigger_inv [OF l assms(2)]) (use assms(3) Local_Trigger in \<open>simp add: fresh_submission_def\<close>)
next
  case (Store_Gmp i p)
  then show ?thesis
    using assms(1,2) by (auto simp: store_gmp_payload_def split: if_splits)
qed (use assms(1,2) in \<open>auto simp: hook_result_Ok process_dlq_inv dest: call_inv\<close>)

lemma circuit_step_inv: "circuit_inv s \<Longrightarrow> circuit_step env s s' \<Longrightarrow> circuit_inv s'"
  by (erule circuit_stepE) (auto dest: exec_op_inv)

interpretation circuit: state_machine circuit_initial "circuit_step env" circuit_inv for env
  by unfold_locales (auto intro: circuit_initial_inv circuit_step_inv)

end
