(* ===== verification/Abi_Typing.thy ===== *)
theory Abi_Typing
  imports Sfx_Abi
begin

text \<open>
  What a filled ABI looks like.  \<open>has_abi\<close> relates an ABI to the values that fill it: the
  same constructors and names, and for the scalar types of fixed width as many bytes as the width
  says.  Filling an ABI, whatever the codec and the data, gives such a value or no value at all.
  The fields of an EVM log are read from words of 32 bytes and may come out as a plain word or
  byte.
\<close>

section \<open>Definitions\<close>

inductive has_abi :: "Abi \<Rightarrow> FilledAbi \<Rightarrow> bool" where
  Struct: "list_all2 has_abi as xs \<Longrightarrow> has_abi (A_Struct name as) (F_Struct name xs memo)"
| Event: "list_all2 has_abi as xs \<Longrightarrow> has_abi (A_Event name as) (F_Struct name xs memo)"
| Log: "list_all2 has_abi as xs \<Longrightarrow> has_abi (A_Log name as) (F_Log name xs memo)"
| Log_Variant: "a \<in> set as \<Longrightarrow> has_abi a x \<Longrightarrow> has_abi (A_Log name as) x"
| Variant: "a \<in> set as \<Longrightarrow> has_abi a x \<Longrightarrow> has_abi (A_Enum name as) x"
| Optional: "has_abi a x \<Longrightarrow> has_abi (A_Option name a) (F_Option name x)"
| Bytes: "has_abi (A_Bytes name) (F_Bytes name bs)"
| Bytes4: "length bs = 4 \<Longrightarrow> has_abi (A_Bytes4 name) (F_Bytes4 name bs)"
| Account20: "length bs = 20 \<Longrightarrow> has_abi (A_Account20 name) (F_Account20 name bs)"
| Account32: "length bs = 32 \<Longrightarrow> has_abi (A_Account32 name) (F_Account32 name bs)"
| Account32_Word: "length bs = 32 \<Longrightarrow> has_abi (A_Account32 name) (F_H256 name bs)"
| H256: "length bs = 32 \<Longrightarrow> has_abi (A_H256 name) (F_H256 name bs)"
| Value256: "has_abi (A_Value256 name) (F_Value256 name bs)"
| Value128: "has_abi (A_Value128 name) (F_Value128 name bs)"
| Value64: "has_abi (A_Value64 name) (F_Value64 name bs)"
| Value32: "has_abi (A_Value32 name) (F_Value32 name bs)"
| Byte: "length bs = 1 \<Longrightarrow> has_abi (A_Byte name) (F_Byte name bs)"
| Codec_Byte: "length bs = 1 \<Longrightarrow> has_abi (A_Codec name) (F_Codec name bs)"
| Bool: "length bs = 1 \<Longrightarrow> has_abi (A_Bool name) (F_Bool name bs)"
| Bool_Word: "length bs = 1 \<Longrightarrow> has_abi (A_Bool name) (F_Byte name bs)"
| Vec: "(\<And>x. x \<in> set xs \<Longrightarrow> has_abi a x) \<Longrightarrow> has_abi (A_Vec name a) (F_Vec name xs memo)"
| Uniple: "has_abi a x \<Longrightarrow> has_abi (A_Uniple name a) (F_Uniple name x)"
| Tuple: "has_abi a x \<Longrightarrow> has_abi b y \<Longrightarrow> has_abi (A_Tuple name a b) (F_Tuple name x y)"
| Triple: "has_abi a x \<Longrightarrow> has_abi b y \<Longrightarrow> has_abi c z \<Longrightarrow> has_abi (A_Triple name a b c) (F_Triple name x y z)"
| Quadruple: "has_abi a x \<Longrightarrow> has_abi b y \<Longrightarrow> has_abi c z \<Longrightarrow> has_abi d u
    \<Longrightarrow> has_abi (A_Quadruple name a b c d) (F_Quadruple name x y z u)"
| Quintuple: "has_abi a x \<Longrightarrow> has_abi b y \<Longrightarrow> has_abi c z \<Longrightarrow> has_abi d u \<Longrightarrow> has_abi e v
    \<Longrightarrow> has_abi (A_Quintuple name a b c d e) (F_Quintuple name x y z u v)"
| Sextuple: "has_abi a x \<Longrightarrow> has_abi b y \<Longrightarrow> has_abi c z \<Longrightarrow> has_abi d u \<Longrightarrow> has_abi e v \<Longrightarrow> has_abi f w
    \<Longrightarrow> has_abi (A_Sextuple name a b c d e f) (F_Sextuple name x y z u v w)"

section \<open>Loops\<close>

lemma vec_loop_all:
  "\<lbrakk>vec_loop f m xs offset = Ok zs; x \<in> set zs; \<And>ys x n. f ys = Ok (x, n) \<Longrightarrow> P x\<rbrakk> \<Longrightarrow> P x"
proof (induction f m xs offset arbitrary: zs rule: vec_loop.induct)
  case (1 f m xs offset)
  show ?case
  proof (cases "offset + m \<le> length xs")
    case True
    with 1(2) obtain y n ys where y: "f (take m (drop offset xs)) = Ok (y, n)" "n \<noteq> 0"
      "vec_loop f m xs (offset + n) = Ok ys" "zs = y # ys"
      by (subst (asm) vec_loop.simps) (auto simp: res_simps split: if_splits)
    with 1(1) [OF True y(2,3) _ 1(4)] 1(3,4) show ?thesis by auto
  next
    case False
    with 1(2,3) show ?thesis by (subst (asm) vec_loop.simps) simp
  qed
qed

lemma topics_loop_all:
  "\<lbrakk>topics_loop f xs = Ok zs; x \<in> set zs; \<And>ys x n. f ys = Ok (x, n) \<Longrightarrow> P x\<rbrakk> \<Longrightarrow> P x"
proof (induction f xs arbitrary: zs rule: topics_loop.induct)
  case (1 f xs)
  show ?case
  proof (cases "xs = []")
    case True
    with 1(2,3) show ?thesis by (subst (asm) topics_loop.simps) simp
  next
    case False
    with 1(2) obtain y n ys where y: "f xs = Ok (y, n)" "\<not> length xs < MINIMUM_INPUT_LENGTH"
      "topics_loop f (take (length xs - MINIMUM_INPUT_LENGTH) xs) = Ok ys" "zs = y # ys"
      by (subst (asm) topics_loop.simps) (auto simp: res_simps split: if_splits)
    with 1(1) [OF False y(2,3) _ 1(4)] 1(3,4) show ?thesis by auto
  qed
qed

lemma fill_seq_all2:
  "fill_seq fs xs offset = Ok (ys, n) \<Longrightarrow> list_all2 (\<lambda>f y. \<exists>zs k. f zs = Ok (y, k)) fs ys"
  by (induction fs arbitrary: offset ys) (auto simp: res_simps split: if_splits)

lemma log_fields_all2:
  "log_fields cenv as ts d = Ok (xs, n) \<Longrightarrow> list_all2 (\<lambda>a x. \<exists>zs k. decode_topics_as_rlp cenv a zs = Ok (x, k)) as xs"
  by (induction cenv as ts d arbitrary: xs n rule: log_fields.induct)
    (auto simp: res_simps Let_def split: if_splits)


section \<open>Values of an ABI\<close>

lemma topic_wordD:
  "topic_word xs x = Ok (y, n) \<Longrightarrow> y = x \<and> n = 32 \<and> 32 \<le> length xs"
  by (auto simp: topic_word_def MINIMUM_INPUT_LENGTH_def split: if_splits)

lemma length_last_32b [simp]: "length (last_32b xs) = min 32 (length xs)"
  by (simp add: last_32b_def MINIMUM_INPUT_LENGTH_def)

lemma topics_typed:
  "decode_topics_as_rlp cenv a xs = Ok (x, n) \<Longrightarrow> has_abi a x"
  "decode_topics_fields cenv as xs = Ok ys \<Longrightarrow> list_all2 has_abi as ys"
proof (induction cenv a xs and cenv as xs arbitrary: x n and ys rule: decode_topics_as_rlp_decode_topics_fields.induct)
  case (13 cenv name a xs)
  then show ?case
    by (auto simp: res_simps intro!: has_abi.intros elim: topics_loop_all)
qed (auto simp: res_simps topic_number_def dest!: topic_wordD split: if_splits intro!: has_abi.intros)

lemma list_all2_Ok_typed:
  assumes "list_all2 (\<lambda>a x. \<exists>zs k. decode_topics_as_rlp cenv a zs = Ok (x, k)) as xs"
  shows "list_all2 has_abi as xs"
  using assms by (rule list_all2_mono) (auto intro: topics_typed)

lemma rlp_event_typed:
  assumes "rlp_event_to_filled cenv xs name flds = Ok (x, n)"
  shows "has_abi (A_Log name flds) x"
proof -
  from assms obtain ts d ys where ys: "log_fields cenv (rev flds) ts d = Ok (ys, n)" and x: "x = F_Log name (rev ys) 0"
    by (fastforce simp: rlp_event_to_filled_def res_simps split: option.splits)
  have "list_all2 has_abi (rev flds) ys" by (rule list_all2_Ok_typed [OF log_fields_all2 [OF ys]])
  then have "list_all2 has_abi flds (rev ys)" by (metis list_all2_rev rev_rev_ident)
  with x show ?thesis by (auto intro: has_abi.Log)
qed

lemma fill_typed:
  "recursive_fill_abi cenv codec a xs = Ok (x, n) \<Longrightarrow> has_abi a x"
  "fill_fields cenv codec as cs = Ok (ys, n) \<Longrightarrow> list_all2 has_abi as ys"
  "fill_variant cenv codec as i xs = Ok (x, n) \<Longrightarrow> \<exists>a \<in> set as. has_abi a x"
proof (induction cenv codec a xs and cenv codec as cs and cenv codec as i xs arbitrary: x n and ys n and x n
    rule: recursive_fill_abi_fill_fields_fill_variant.induct)
  case (1 cenv codec name flds xs)
  show ?case
  proof (cases codec)
    case Scale
    with 1 have "\<exists>a \<in> set flds. has_abi a x" by (cases xs) auto
    then show ?thesis by (auto intro: has_abi.Log_Variant)
  next
    case Rlp
    with 1 show ?thesis by (auto intro: rlp_event_typed)
  qed
next
  case (4 cenv codec name flds xs)
  then have "\<exists>a \<in> set flds. has_abi a x" by (cases xs) auto
  then show ?case by (auto intro: has_abi.Variant)
next
  case (18 cenv codec name a xs)
  then show ?case
    by (auto simp: res_simps split: if_splits intro!: has_abi.intros elim: vec_loop_all)
next
  case (20 cenv codec name a b xs)
  from 20(3) show ?case
    by (auto simp: res_simps tuple_of_def list_all2_Cons1 simp del: fill_seq.simps dest!: fill_seq_all2 20(1,2) intro!: has_abi.intros)
next
  case (21 cenv codec name a b c xs)
  from 21(4) show ?case
    by (auto simp: res_simps tuple_of_def list_all2_Cons1 simp del: fill_seq.simps dest!: fill_seq_all2 21(1-3) intro!: has_abi.intros)
next
  case (22 cenv codec name a b c d xs)
  from 22(5) show ?case
    by (auto simp: res_simps tuple_of_def list_all2_Cons1 simp del: fill_seq.simps dest!: fill_seq_all2 22(1-4) intro!: has_abi.intros)
next
  case (23 cenv codec name a b c d e xs)
  from 23(6) show ?case
    by (auto simp: res_simps tuple_of_def list_all2_Cons1 simp del: fill_seq.simps dest!: fill_seq_all2 23(1-5) intro!: has_abi.intros)
next
  case (24 cenv codec name a b c d e f xs)
  from 24(7) show ?case
    by (auto simp: res_simps tuple_of_def list_all2_Cons1 simp del: fill_seq.simps dest!: fill_seq_all2 24(1-6) intro!: has_abi.intros)
qed (auto simp: res_simps first_byte_def split: if_splits list.splits intro: has_abi.intros)

end
