(* ===== verification/Abi_Properties.thy ===== *)
theory Abi_Properties
  imports Abi_Typing
begin

text \<open>
  Properties of the ABI library: printing and parsing of flat descriptors, the bound on the
  parser's loop, what a confirmation of a transfer really checks on a Substrate chain and on an
  EVM chain, the absence of panics for the standard ABIs under SCALE, and three defects of the
  descriptors.
\<close>

section \<open>Definitions\<close>

text \<open>A name or type without delimiters, and the flat descriptors built from them.\<close>

definition plain :: "string \<Rightarrow> bool" where
  "plain w \<longleftrightarrow> list_all (\<lambda>c. utf8_between 0 127 c \<and> c \<notin> set ''<>(),:'') w"

fun print_fields :: "(Name \<times> string) list \<Rightarrow> string" where
  "print_fields [] = []"
| "print_fields [(n, ty)] = n @ '':'' @ ty"
| "print_fields ((n, ty) # fs) = n @ '':'' @ ty @ '','' @ print_fields fs"

definition print_flat :: "Name \<Rightarrow> string \<Rightarrow> (Name \<times> string) list \<Rightarrow> Descriptor" where
  "print_flat name kind fs = name @ '':'' @ kind @ ''('' @ print_fields fs @ '')''"

definition scalar_fields :: "(Name \<times> string) list \<Rightarrow> bool" where
  "scalar_fields fs \<longleftrightarrow> list_all (\<lambda>(n, ty). plain n \<and> scalar_abi ty (Some n) \<noteq> None) fs"

definition fields_abi :: "(Name \<times> string) list \<Rightarrow> Abi list" where
  "fields_abi fs = map (\<lambda>(n, ty). the (scalar_abi ty (Some n))) fs"

text \<open>The ABI of the standard transfers and the values that fill them.\<close>

abbreviation balances_transfer :: Abi where
  "balances_transfer \<equiv> A_Struct (Some ''Balances'') [A_Event (Some ''Transfer'')
     [A_Account32 (Some ''from''), A_Account32 (Some ''to''), A_Value128 (Some ''amount'')]]"

abbreviation filled_transfer :: "byte \<Rightarrow> byte \<Rightarrow> bytes \<Rightarrow> bytes \<Rightarrow> bytes \<Rightarrow> FilledAbi" where
  "filled_transfer memo ev frm dest amt \<equiv>
     F_Struct (Some ''Balances'') [F_Struct (Some ''Transfer'')
       [F_Account32 (Some ''from'') frm, F_Account32 (Some ''to'') dest, F_Value128 (Some ''amount'') amt] ev] memo"

abbreviation evm_transfer :: Abi where
  "evm_transfer \<equiv> A_Log (Some ''Transfer'')
     [A_Account20 (Some ''from+''), A_Account20 (Some ''to+''), A_Value256 (Some ''amount'')]"

abbreviation indexed_data :: "Eth2IngressEventLog \<Rightarrow> bytes" where
  "indexed_data l \<equiv> concat (drop 1 (log_topics l))"

abbreviation filled_log :: "bytes \<Rightarrow> bytes \<Rightarrow> bytes \<Rightarrow> FilledAbi" where
  "filled_log frm dest amt \<equiv> F_Log (Some ''Transfer'')
     [F_Account20 (Some ''from+'') frm, F_Account20 (Some ''to+'') dest, F_Value256 (Some ''amount'') amt] 0"

text \<open>ABIs that no data makes the filling panic on, under SCALE.\<close>

fun panic_free :: "Abi \<Rightarrow> bool" where
  "panic_free (A_Struct name flds) \<longleftrightarrow> list_all panic_free flds"
| "panic_free (A_Log name flds) \<longleftrightarrow> list_all panic_free flds"
| "panic_free (A_Event name flds) \<longleftrightarrow> list_all panic_free flds"
| "panic_free (A_Enum name flds) \<longleftrightarrow> list_all panic_free flds"
| "panic_free (A_Option name a) \<longleftrightarrow> False"
| "panic_free (A_Bytes4 name) \<longleftrightarrow> False"
| "panic_free (A_Vec name a) \<longleftrightarrow> False"
| "panic_free (A_Uniple name a) \<longleftrightarrow> panic_free a"
| "panic_free (A_Tuple name a b) \<longleftrightarrow> panic_free a \<and> panic_free b"
| "panic_free (A_Triple name a b c) \<longleftrightarrow> panic_free a \<and> panic_free b \<and> panic_free c"
| "panic_free (A_Quadruple name a b c d) \<longleftrightarrow> panic_free a \<and> panic_free b \<and> panic_free c \<and> panic_free d"
| "panic_free (A_Quintuple name a b c d e) \<longleftrightarrow>
     panic_free a \<and> panic_free b \<and> panic_free c \<and> panic_free d \<and> panic_free e"
| "panic_free (A_Sextuple name a b c d e f) \<longleftrightarrow>
     panic_free a \<and> panic_free b \<and> panic_free c \<and> panic_free d \<and> panic_free e \<and> panic_free f"
| "panic_free _ \<longleftrightarrow> True"

text \<open>A result that is no panic and does not consume more than there is.\<close>

definition within :: "nat \<Rightarrow> (DispatchError, 'a \<times> nat) res \<Rightarrow> bool" where
  "within k r \<longleftrightarrow> (case r of Ok (_, n) \<Rightarrow> n \<le> k | Err _ \<Rightarrow> True | Panic \<Rightarrow> False)"

definition parse_safe :: "Descriptor \<Rightarrow> bool" where
  "parse_safe d = (case abi_try_from d of Ok a \<Rightarrow> panic_free a | Err _ \<Rightarrow> True | Panic \<Rightarrow> False)"

text \<open>A codec library of the simplest kind, for examples: an EVM log is its topics and its data.\<close>

definition sample_codec :: codec_env where
  "sample_codec =
     \<lparr>rlp_items = (\<lambda>bs. [bs]), rlp_h160_at = (\<lambda>bs i. Some (replicate 20 0)),
      rlp_h256s_at = (\<lambda>bs i. Some [replicate 32 1, take 32 bs, take 32 (drop 32 bs)]),
      rlp_bytes_at = (\<lambda>bs i. Some (drop 64 bs)),
      rlp_encode_uint = (\<lambda>v. [of_nat v]), rlp_decode_uint = (\<lambda>w bs. None),
      rlp_encode_bytes = (\<lambda>bs. bs), rlp_encode_list = (\<lambda>bs. bs),
      scale_encode_uint = (\<lambda>w v. of_nat v # replicate (w - 1) 0), scale_decode_uint = (\<lambda>w bs. None),
      scale_decode_fixed = (\<lambda>w bs. if length bs < w then None else Some (take w bs)),
      u256_from_be = (\<lambda>bs. if length bs \<le> 32 then Some (foldl (\<lambda>n b. 256 * n + unat b) 0 bs) else None),
      u256_from_le = (\<lambda>bs. if length bs \<le> 32 then Some (foldr (\<lambda>b n. 256 * n + unat b) bs 0) else None),
      u256_to_be = (\<lambda>v. replicate 31 0 @ [of_nat v]), u256_to_le = (\<lambda>v. of_nat v # replicate 31 0)\<rparr>"

section \<open>Parsing\<close>

lemma from_parsed_Cons:
  "from_parsed_descriptor_recursive depth ((field, name, l) # rest) =
     (if depth > MAX_DEPTH
      then Err (Other ''CrossCodec::from_parsed_descriptor_recursive: max depth reached'')
      else if \<not> utf8_valid field then Err (Other ''CrossCodec::failed to stringify field descriptor'')
      else (case fixed_arity field of
            Some n \<Rightarrow>
              bind_res (parse_times (from_parsed_descriptor_recursive (depth + 1)) n rest) (\<lambda>(as, rest').
                Ok (fixed_abi field name as, rest'))
          | None \<Rightarrow>
              (case composite_abi field of
                 Some mk \<Rightarrow>
                   bind_res (parse_while (from_parsed_descriptor_recursive (depth + 1))
                       (of_nat (depth + 1)) (length rest) rest) (\<lambda>(as, rest').
                     Ok (mk name as, rest'))
               | None \<Rightarrow>
                   (case scalar_abi field name of
                      Some a \<Rightarrow> Ok (a, rest)
                    | None \<Rightarrow> Err (Other
                        ''CrossCodec::failed to parse field descriptor - field not recognized'')))))"
  by (subst from_parsed_descriptor_recursive.simps) simp

lemma from_parsed_Nil:
  "depth \<le> MAX_DEPTH \<Longrightarrow> from_parsed_descriptor_recursive depth [] =
     Err (Other ''CrossCodec::from_parsed_descriptor_recursive: no more fields'')"
  by (subst from_parsed_descriptor_recursive.simps) simp

lemma parse_times_numeral:
  "parse_times p (numeral k) flds = bind_res (p flds) (\<lambda>(a, rest).
     bind_res (parse_times p (pred_numeral k) rest) (\<lambda>(as, rest'). Ok (a # as, rest')))"
  by (simp add: numeral_eq_Suc)

lemmas parse_eval = parse_times_numeral abi_try_from_def parse_descriptor_flat_def from_parsed_Cons from_parsed_Nil MAX_DEPTH_def
  utf8_between_def utf8_cont_def fixed_arity_def composite_abi_def scalar_abi_def fixed_abi_def

lemma transfer_egress:
  "abi_try_from ''Transfer:Struct(to:Account32,amount:Value128)'' =
     Ok (A_Struct (Some ''Transfer'') [A_Account32 (Some ''to''), A_Value128 (Some ''amount'')])"
  by (simp add: parse_eval cong: eval_cong)

lemma transfer_ingress:
  "abi_try_from ''Balances:Struct(Transfer:Event(from:Account32,to:Account32,amount:Value128))'' =
     Ok (A_Struct (Some ''Balances'') [A_Event (Some ''Transfer'')
       [A_Account32 (Some ''from''), A_Account32 (Some ''to''), A_Value128 (Some ''amount'')]])"
  by (simp add: parse_eval cong: eval_cong)


lemma parse_times_shorter:
  assumes "\<And>fs a rest. p fs = Ok (a, rest) \<Longrightarrow> length rest < length fs"
  shows "parse_times p n flds = Ok (as, rest) \<Longrightarrow> length rest \<le> length flds"
proof (induction n arbitrary: flds as)
  case 0
  then show ?case by simp
next
  case (Suc n)
  then obtain a mid as' where "p flds = Ok (a, mid)" "parse_times p n mid = Ok (as', rest)"
    by (auto simp: res_simps)
  with assms [of flds a mid] Suc.IH [of mid as'] show ?case by simp
qed

lemma parse_while_shorter:
  assumes "\<And>fs a rest. p fs = Ok (a, rest) \<Longrightarrow> length rest < length fs"
  shows "parse_while p lvl n flds = Ok (as, rest) \<Longrightarrow> length rest \<le> length flds"
proof (induction n arbitrary: flds as)
  case 0
  then show ?case by simp
next
  case (Suc n)
  then consider "rest = flds" | a mid as' where "p flds = Ok (a, mid)" "parse_while p lvl n mid = Ok (as', rest)"
    by (auto simp: res_simps split: list.splits prod.splits if_splits)
  then show ?case
  proof cases
    case 1
    then show ?thesis by simp
  next
    case (2 a mid as')
    with assms [of flds a mid] Suc.IH [of mid as'] show ?thesis by simp
  qed
qed

text \<open>A parsed type takes at least the field that names it.\<close>

lemma from_parsed_shorter:
  "from_parsed_descriptor_recursive depth flds = Ok (a, rest) \<Longrightarrow> length rest < length flds"
proof (induction depth flds arbitrary: a rest rule: from_parsed_descriptor_recursive.induct)
  case (1 depth flds)
  from 1(3) obtain f tail where flds: "flds = f # tail"
    by (cases flds) (auto simp: from_parsed_descriptor_recursive.simps [of depth "[]"] split: if_splits)
  obtain field name l where f: "f = (field, name, l)" by (cases f)
  let ?p = "from_parsed_descriptor_recursive (depth + 1)"
  from 1(3) have ok: "\<not> depth > MAX_DEPTH" "utf8_valid field"
    by (auto simp: flds f from_parsed_Cons split: if_splits)
  show ?case
  proof (cases "fixed_arity field")
    case (Some n)
    with 1(3) ok obtain as where "parse_times ?p n tail = Ok (as, rest)"
      by (auto simp: flds f from_parsed_Cons res_simps)
    moreover have "\<And>fs a rest. ?p fs = Ok (a, rest) \<Longrightarrow> length rest < length fs"
      using 1(2) [OF ok(1) flds f [symmetric] refl] ok(2) Some by blast
    ultimately have "length rest \<le> length tail"
      by (intro parse_times_shorter)
    then show ?thesis by (simp add: flds)
  next
    case None
    show ?thesis
    proof (cases "composite_abi field")
      case (Some mk)
      with 1(3) ok None obtain as where "parse_while ?p (of_nat (depth + 1)) (length tail) tail = Ok (as, rest)"
        by (auto simp: flds f from_parsed_Cons res_simps)
      moreover have "\<And>fs a rest. ?p fs = Ok (a, rest) \<Longrightarrow> length rest < length fs"
        using 1(1) [OF ok(1) flds f [symmetric] refl] ok(2) None Some by blast
      ultimately have "length rest \<le> length tail"
        by (intro parse_while_shorter)
      then show ?thesis by (simp add: flds)
    next
      case not_composite: None
      with 1(3) ok None have "rest = tail"
        by (auto simp: flds f from_parsed_Cons split: option.splits)
      then show ?thesis by (simp add: flds)
    qed
  qed
qed

text \<open>C24: the loop over the fields of a composite type needs no more rounds than there are fields.  With any larger bound it
  returns the same, and it ends where the code's loop ends, at the end of the descriptor or before a field that is
  nested deeper.\<close>

theorem parse_loop_bounded:
  assumes "length flds \<le> n"
  shows "parse_while (from_parsed_descriptor_recursive depth) lvl n flds =
      parse_while (from_parsed_descriptor_recursive depth) lvl (length flds) flds
    \<and> (\<forall>as rest. parse_while (from_parsed_descriptor_recursive depth) lvl (length flds) flds = Ok (as, rest)
        \<longrightarrow> rest = [] \<or> lvl < snd (snd (hd rest)))"
  using assms
proof (induction "length flds" arbitrary: flds n rule: less_induct)
  case less
  let ?p = "from_parsed_descriptor_recursive depth"
  show ?case
  proof (cases flds)
    case Nil
    then show ?thesis by (cases n) auto
  next
    case (Cons f tail)
    obtain field name l where f: "f = (field, name, l)" by (cases f)
    from less.prems Cons obtain k where n: "n = Suc k" and k: "length tail \<le> k" by (cases n) auto
    show ?thesis
    proof (cases "lvl < l")
      case True
      then show ?thesis by (simp add: Cons f n)
    next
      case deeper: False
      show ?thesis
      proof (cases "?p flds")
        case (Ok r)
        obtain a mid where r: "r = (a, mid)" by (cases r)
        with Ok have mid: "length mid < length flds" by (auto dest: from_parsed_shorter)
        then have bounds: "length mid \<le> k" "length mid \<le> length tail" using k Cons by auto
        note ih = less.hyps [OF mid]
        have "parse_while ?p lvl k mid = parse_while ?p lvl (length tail) mid"
          using ih [OF bounds(1)] ih [OF bounds(2)] by simp
        moreover have "\<forall>as rest. parse_while ?p lvl (length tail) mid = Ok (as, rest)
            \<longrightarrow> rest = [] \<or> lvl < snd (snd (hd rest))"
          using ih [OF bounds(2)] by simp
        ultimately show ?thesis using Ok deeper by (auto simp: Cons f n r res_simps)
      qed (use deeper in \<open>simp_all add: Cons f n\<close>)
    qed
  qed
qed

theorem parse_loop_bounded_witness:
  "parse_while (from_parsed_descriptor_recursive 1) 1 5 [(''Byte'', None, 1), (''Bool'', None, 2)]
     = Ok ([A_Byte None], [(''Bool'', None, 2)])"
  using parse_loop_bounded [of "[(''Byte'', None, 1), (''Bool'', None, 2)]" 5 1 1]
  by (simp add: parse_eval cong: eval_cong)

lemma parse_plain: "plain w \<Longrightarrow> parse_chars (w @ xs) lvl name current = parse_chars xs lvl name (current @ w)"
  by (induction w arbitrary: current) (auto simp: plain_def)

lemma scalar_types_plain: "scalar_abi ty name = Some a \<Longrightarrow> plain ty \<and> ty \<noteq> [] \<and> fixed_arity ty = None \<and> composite_abi ty = None"
  by (auto simp: scalar_abi_def plain_def utf8_between_def fixed_arity_def composite_abi_def split: if_splits)

lemma composite_kinds:
  "composite_abi ty = Some mk \<Longrightarrow> ty \<in> {''Struct'', ''Enum'', ''Event'', ''Log''}"
  unfolding composite_abi_def by (metis insertCI option.distinct(1))

lemma composite_types_plain:
  assumes "composite_abi ty = Some mk" shows "plain ty \<and> ty \<noteq> [] \<and> fixed_arity ty = None"
  using composite_kinds [OF assms]
  by (elim insertE emptyE; simp add: plain_def utf8_between_def fixed_arity_def)

lemma utf8_ascii: "utf8_between 0 127 a \<Longrightarrow> utf8_valid (a # xs) = utf8_valid xs"
  by (subst utf8_valid.simps) simp

lemma utf8_valid_plain: "plain w \<Longrightarrow> utf8_valid (w @ xs) = utf8_valid xs"
  by (induction w) (simp_all add: plain_def utf8_ascii del: utf8_valid.simps(2))

lemma utf8_delims: "utf8_between 0 127 (CHR '':'')" "utf8_between 0 127 (CHR '','')" "utf8_between 0 127 (CHR ''('')"
    "utf8_between 0 127 (CHR '')'')"
  by (simp_all add: utf8_between_def)

lemma parse_fields:
  assumes "scalar_fields fs"
  shows "filter (\<lambda>(x, _, _). x \<noteq> []) (parse_chars (print_fields fs @ '')'') lvl None [])
    = map (\<lambda>(n, ty). (ty, Some n, lvl)) fs"
  using assms
  by (induction fs rule: print_fields.induct)
    (auto simp: scalar_fields_def parse_plain dest: scalar_types_plain)

lemma scalar_fields_Cons:
  assumes "scalar_fields ((n, ty) # fs)" shows "plain n \<and> plain ty \<and> scalar_fields fs"
  using assms scalar_types_plain by (auto simp: scalar_fields_def)

lemma utf8_fields: "scalar_fields fs \<Longrightarrow> utf8_valid (print_fields fs @ xs) = utf8_valid xs"
proof (induction fs rule: print_fields.induct)
  case 1
  then show ?case by simp
next
  case (2 n ty)
  from scalar_fields_Cons [OF 2] show ?case
    by (simp add: utf8_valid_plain utf8_ascii utf8_delims del: utf8_valid.simps(2))
next
  case (3 n ty f fs)
  from scalar_fields_Cons [OF 3(2)] 3(1) show ?case
    by (simp add: utf8_valid_plain utf8_ascii utf8_delims del: utf8_valid.simps(2))
qed

lemma parse_scalars:
  assumes "scalar_fields fs" "depth \<le> MAX_DEPTH" "l \<le> lvl"
  shows "parse_while (from_parsed_descriptor_recursive depth) lvl (length fs) (map (\<lambda>(n, ty). (ty, Some n, l)) fs)
    = Ok (fields_abi fs, [])"
  using assms(1)
proof (induction fs)
  case Nil
  then show ?case by (simp add: fields_abi_def)
next
  case (Cons f fs)
  obtain n ty where f: "f = (n, ty)" by (cases f)
  from Cons.prems f obtain a where a: "scalar_abi ty (Some n) = Some a" by (auto simp: scalar_fields_def)
  from scalar_types_plain [OF a] have "utf8_valid ty" "fixed_arity ty = None" "composite_abi ty = None"
    using utf8_valid_plain [of ty "[]"] by auto
  with Cons f a assms(2,3) show ?case
    by (auto simp: from_parsed_Cons scalar_fields_def fields_abi_def)
qed

text \<open>C25: the descriptor of a struct, an enum, an event or a log with named scalar fields parses back to that type, with
  its name and its fields in order.\<close>

theorem descriptor_roundtrip:
  assumes "plain name" "composite_abi kind = Some mk" "scalar_fields fs"
  shows "abi_try_from (print_flat name kind fs) = Ok (mk (Some name) (fields_abi fs))"
proof -
  note kind = composite_types_plain [OF assms(2)]
  have "utf8_valid (print_flat name kind fs)"
    using assms kind by (simp add: print_flat_def utf8_valid_plain utf8_fields utf8_ascii utf8_delims del: utf8_valid.simps(2))
  moreover have "filter (\<lambda>(x, _, _). x \<noteq> []) (parse_chars (print_flat name kind fs) 0 None [])
      = (kind, Some name, 0) # map (\<lambda>(n, ty). (ty, Some n, 1)) fs"
    using assms kind by (simp add: print_flat_def parse_plain parse_fields)
  moreover have "utf8_valid kind" using kind utf8_valid_plain [of kind "[]"] by simp
  ultimately show ?thesis
    using assms(2) kind parse_scalars [OF assms(3), of 1 1 1]
    by (simp add: abi_try_from_def parse_descriptor_flat_def from_parsed_Cons MAX_DEPTH_def)
qed

theorem descriptor_roundtrip_witness:
  "abi_try_from (print_flat ''Transfer'' ''Struct'' [(''to'', ''Account32''), (''amount'', ''Value128'')]) =
     Ok (A_Struct (Some ''Transfer'') [A_Account32 (Some ''to''), A_Value128 (Some ''amount'')])"
  using descriptor_roundtrip [of "''Transfer''" "''Struct''" A_Struct "[(''to'', ''Account32''), (''amount'', ''Value128'')]"]
  by (simp add: plain_def utf8_between_def composite_abi_def scalar_fields_def scalar_abi_def fields_abi_def)

section \<open>Values have the type of their ABI\<close>



section \<open>Confirming a transfer on a Substrate chain\<close>

lemmas fill_eval = try_fill_abi_def chop_encoded_def scale_chop_encoded_def strip_memo_def

lemma transfer_fill:
  assumes "length frm = 32" "length dest = 32" "length amt = 16"
  shows "try_fill_abi cenv balances_transfer (memo # ev # frm @ dest @ amt @ rest) Scale =
     Ok (F_Struct (Some ''Balances'') [F_Struct (Some ''Transfer'')
       [F_Account32 (Some ''from'') frm, F_Account32 (Some ''to'') dest, F_Value128 (Some ''amount'') amt] ev] memo)"
  using assms by (simp add: fill_eval)

lemma transfer_fill_short:
  assumes "length xs < 82"
  shows "\<exists>e. try_fill_abi cenv balances_transfer xs Scale = Err e"
  using assms by (cases xs) (simp_all add: fill_eval)

lemma split_transfer:
  fixes xs :: bytes
  assumes "\<not> length xs < 82"
  obtains memo ev frm dest amt rest where "xs = memo # ev # frm @ dest @ amt @ rest"
    "length frm = 32" "length dest = 32" "length amt = 16"
proof -
  define ys where "ys = drop 2 xs"
  have "xs = xs ! 0 # xs ! 1 # ys"
    using assms by (cases xs; cases "tl xs") (auto simp: ys_def)
  moreover have "ys = take 32 ys @ drop 32 ys" by simp
  moreover have "drop 32 ys = take 32 (drop 32 ys) @ drop 64 ys"
    using append_take_drop_id [of 32 "drop 32 ys"] by simp
  moreover have "drop 64 ys = take 16 (drop 64 ys) @ drop 80 ys"
    using append_take_drop_id [of 16 "drop 64 ys"] by simp
  ultimately have "xs = xs ! 0 # xs ! 1 # take 32 ys @ take 32 (drop 32 ys) @ take 16 (drop 64 ys) @ drop 80 ys"
    by metis
  then show thesis by (rule that) (use assms in \<open>simp_all add: ys_def\<close>)
qed

lemma check_argument_Ok:
  assumes "get_by_name filled name = Some found" "recode_as cenv p a True found = Ok bs" "utf8_valid name"
  shows "check_argument cenv filled a p (arg, name, True) u = Ok () \<longleftrightarrow> arg = bs"
  using assms by (auto simp: check_argument_def)

lemma fold_res_unit_Ok:
  "fold_res f xs () = Ok () \<longleftrightarrow> (\<forall>x \<in> set xs. f x () = Ok ())"
  by (induction xs) (auto simp: res_simps)

lemmas name_eval = named_or_def matches_name_def or_else_def

lemma filled_transfer_names:
  "get_by_name (filled_transfer memo ev frm dest amt) ''to'' = Some (F_Account32 (Some ''to'') dest)"
  "get_by_name (filled_transfer memo ev frm dest amt) ''amount'' = Some (F_Value128 (Some ''amount'') amt)"
  by (simp_all add: name_eval)

lemma filled_transfer_checks:
  "fold_res (check_argument cenv (filled_transfer memo ev frm dest amt) Scale Scale)
     [(a, ''to'', True), (b, ''amount'', True)] () = Ok () \<longleftrightarrow> a = dest \<and> b = amt"
  unfolding fold_res_unit_Ok
  using check_argument_Ok [OF filled_transfer_names(1), where cenv = cenv and a = Scale and p = Scale and bs = dest]
    check_argument_Ok [OF filled_transfer_names(2), where cenv = cenv and a = Scale and p = Scale and bs = amt]
  by (simp add: recode_account32_def recode_uint_def utf8_between_def del: get_by_name.simps)

lemma args_two_Ok:
  assumes "args_names abi = [(n, True), (k, True)]"
  shows "ensure_arguments_order abi args = Ok () \<longleftrightarrow> (\<exists>a b. args = [a, b] \<and> a \<noteq> [] \<and> b \<noteq> [])"
  using assms by (cases args; cases "tl args") (auto simp: ensure_arguments_order_def)

lemma transfer_validated:
  assumes "length dest = 32" "length amt = 16"
  shows "validate_ordered_arguments cenv (get_sfx_transfer_abi\<lparr>maybe_prefix_memo := Some memo\<rparr>) [dest, amt] Scale =
    Ok (F_Struct (Some ''Transfer'') [F_Account32 (Some ''to'') dest, F_Value128 (Some ''amount'') amt] memo)"
proof -
  have "dest \<noteq> []" "amt \<noteq> []" using assms by auto
  with assms show ?thesis
    by (simp add: validate_ordered_arguments_def ensure_arguments_order_def get_sfx_transfer_abi_def mk_abi_def
        get_expected_egress_descriptor_def transfer_egress fill_eval)
qed

lemma transfer_abi_facts:
  "args_names (get_sfx_transfer_abi\<lparr>maybe_prefix_memo := m\<rparr>) = [(''to'', True), (''amount'', True)]"
  "abi_try_from (get_expected_ingress_descriptor (get_sfx_transfer_abi\<lparr>maybe_prefix_memo := m\<rparr>) Scale) = Ok balances_transfer"
  by (simp_all add: get_sfx_transfer_abi_def mk_abi_def get_expected_ingress_descriptor_def transfer_ingress)

lemma transfer_confirmation:
  assumes len: "length frm = 32" "length dest = 32" "length amt = 16"
  shows "validate_arguments_against_received cenv (get_sfx_transfer_abi\<lparr>maybe_prefix_memo := Some memo\<rparr>) args
      (m # ev # frm @ dest @ amt @ rest) Scale Scale = Ok () \<longleftrightarrow> m = memo \<and> args = [dest, amt]"
proof -
  have "dest \<noteq> []" "amt \<noteq> []" using len by auto
  then show ?thesis
    unfolding validate_arguments_against_received_def transfer_abi_facts(2)
    using filled_transfer_checks [where cenv = cenv and memo = m and dest = dest and amt = amt]
    by (auto simp: res_simps args_two_Ok [OF transfer_abi_facts(1)] transfer_fill [OF len] transfer_abi_facts(1)
        simp del: get_by_name.simps fold_res.simps)
qed

text \<open>C12: on a Substrate chain the confirmation of a transfer is accepted exactly for a payload that starts with the
  pallet's index and an event index, followed by a sender, the recipient and the amount of the side effect in 32, 32 and 16
  bytes.  The event index, the sender and what follows are not looked at.\<close>

theorem transfer_confirmed_iff:
  "validate_arguments_against_received cenv (get_sfx_transfer_abi\<lparr>maybe_prefix_memo := Some memo\<rparr>) args payload Scale Scale = Ok ()
   \<longleftrightarrow> (\<exists>dest amt ev frm rest. args = [dest, amt] \<and> length frm = 32 \<and> length dest = 32 \<and> length amt = 16
         \<and> payload = memo # ev # frm @ dest @ amt @ rest)" (is "?validated \<longleftrightarrow> ?shape")
proof (cases "length payload < 82")
  case True
  then obtain e where "try_fill_abi cenv balances_transfer payload Scale = Err e"
    using transfer_fill_short by blast
  then have "\<not> ?validated" by (auto simp: validate_arguments_against_received_def transfer_abi_facts res_simps)
  with True show ?thesis by auto
next
  case False
  then obtain m ev frm dest amt rest where payload: "payload = m # ev # frm @ dest @ amt @ rest"
    and len: "length frm = 32" "length dest = 32" "length amt = 16"
    by (rule split_transfer)
  show ?thesis unfolding payload transfer_confirmation [OF len] using len by (auto simp: append_eq_append_conv)
qed

section \<open>Logs of the EVM\<close>

lemma evm_transfer_ingress:
  "abi_try_from ''Transfer:Log(from+:Account20,to+:Account20,amount:Value256)'' = Ok evm_transfer"
  by (simp add: parse_eval cong: eval_cong)

lemma evm_transfer_fill:
  "try_fill_abi cenv evm_transfer payload Rlp = Ok filled \<longleftrightarrow>
     (\<exists>l. decode_event_log cenv payload = Some l \<and> 32 \<le> length (log_data l) \<and> 64 \<le> length (indexed_data l)
        \<and> filled = filled_log (drop 12 (last_32b (truncate_by 32 (indexed_data l))))
             (drop 12 (last_32b (indexed_data l))) (last_32b (log_data l)))"
  by (auto simp: try_fill_abi_def rlp_event_to_filled_def topic_word_def MINIMUM_INPUT_LENGTH_def truncate_by_def
      res_simps split: option.splits if_splits)

lemma filled_log_names:
  "get_by_name (filled_log frm dest amt) ''to'' = Some (F_Account20 (Some ''to+'') dest)"
  "get_by_name (filled_log frm dest amt) ''amount'' = Some (F_Value256 (Some ''amount'') amt)"
  by (simp_all add: name_eval)

lemma args_three_Ok:
  assumes "args_names abi = [(i, False), (n, True), (k, True)]"
  shows "ensure_arguments_order abi args = Ok () \<longleftrightarrow> (\<exists>x a b. args = [x, a, b] \<and> a \<noteq> [] \<and> b \<noteq> [])"
  using assms by (cases args; cases "tl args"; cases "tl (tl args)") (auto simp: ensure_arguments_order_def)

lemma filled_log_checks:
  assumes "length dest = 20"
  shows "fold_res (check_argument cenv (filled_log frm dest amt) Scale Rlp)
     [(x, ''asset_id'', False), (a, ''to'', True), (b, ''amount'', True)] () =
       (if a \<noteq> replicate 12 0 @ dest
        then Err (Other ''SFXAbi::invalid payload argument for -- expected: doesn't match received and recoded'')
        else case u256_from_be cenv amt of
          None \<Rightarrow> Panic
        | Some v \<Rightarrow>
            if 2 ^ 128 \<le> v then Panic
            else if b = scale_encode_uint cenv 16 v then Ok ()
            else Err (Other ''SFXAbi::invalid payload argument for -- expected: doesn't match received and recoded''))"
  using assms
  by (simp add: check_argument_def filled_log_names utf8_between_def recode_account20_def recode_value256_def
      del: get_by_name.simps split: option.split)

text \<open>C13: on an EVM chain the confirmation of an asset transfer is accepted exactly when the last indexed word of the log
  holds the recipient and the last word of its data the amount.  The address of the contract that emitted the log, the
  signature of the event in the first topic, and the asset the side effect asks for are not looked at.\<close>

theorem evm_transfer_confirmed_iff:
  "validate_arguments_against_received cenv (get_sfx_transfer_asset_abi\<lparr>maybe_prefix_memo := m\<rparr>) args payload Scale Rlp = Ok ()
   \<longleftrightarrow> (\<exists>asset dest amt l v. args = [asset, dest, amt] \<and> amt \<noteq> []
         \<and> decode_event_log cenv payload = Some l \<and> 32 \<le> length (log_data l) \<and> 64 \<le> length (indexed_data l)
         \<and> dest = replicate 12 0 @ drop 12 (last_32b (indexed_data l))
         \<and> u256_from_be cenv (last_32b (log_data l)) = Some v \<and> v < 2 ^ 128
         \<and> amt = scale_encode_uint cenv 16 v)"
proof -
  let ?abi = "get_sfx_transfer_asset_abi\<lparr>maybe_prefix_memo := m\<rparr>"
  have names: "args_names ?abi = [(''asset_id'', False), (''to'', True), (''amount'', True)]"
    and desc: "abi_try_from (get_expected_ingress_descriptor ?abi Rlp) = Ok evm_transfer"
    by (simp_all add: get_sfx_transfer_asset_abi_def mk_abi_def get_expected_ingress_descriptor_def evm_transfer_ingress)
  have "validate_arguments_against_received cenv ?abi args payload Scale Rlp = Ok ()
      \<longleftrightarrow> (\<exists>asset dest amt l. args = [asset, dest, amt] \<and> dest \<noteq> [] \<and> amt \<noteq> []
         \<and> decode_event_log cenv payload = Some l \<and> 32 \<le> length (log_data l) \<and> 64 \<le> length (indexed_data l)
         \<and> fold_res (check_argument cenv (filled_log (drop 12 (last_32b (truncate_by 32 (indexed_data l))))
             (drop 12 (last_32b (indexed_data l))) (last_32b (log_data l))) Scale Rlp)
             [(asset, ''asset_id'', False), (dest, ''to'', True), (amt, ''amount'', True)] () = Ok ())"
    unfolding validate_arguments_against_received_def desc
    by (auto simp: res_simps args_three_Ok [OF names] evm_transfer_fill names simp del: fold_res.simps)
  also have "\<dots> \<longleftrightarrow> (\<exists>asset dest amt l v. args = [asset, dest, amt] \<and> amt \<noteq> []
         \<and> decode_event_log cenv payload = Some l \<and> 32 \<le> length (log_data l) \<and> 64 \<le> length (indexed_data l)
         \<and> dest = replicate 12 0 @ drop 12 (last_32b (indexed_data l))
         \<and> u256_from_be cenv (last_32b (log_data l)) = Some v \<and> v < 2 ^ 128
         \<and> amt = scale_encode_uint cenv 16 v)"
    by (auto simp: filled_log_checks simp del: fold_res.simps split: if_splits option.splits)
  finally show ?thesis .
qed

text \<open>a log with the right recipient and an amount of \<open>2 ^ 128\<close> or more makes the confirmation panic instead of
  refusing it.\<close>

theorem evm_amount_panics:
  assumes "decode_event_log cenv payload = Some l" "32 \<le> length (log_data l)" "64 \<le> length (indexed_data l)"
    and "u256_from_be cenv (last_32b (log_data l)) = Some v" "2 ^ 128 \<le> v" "amt \<noteq> []"
  shows "validate_arguments_against_received cenv (get_sfx_transfer_asset_abi\<lparr>maybe_prefix_memo := m\<rparr>)
     [asset, replicate 12 0 @ drop 12 (last_32b (indexed_data l)), amt] payload Scale Rlp = Panic"
proof -
  let ?abi = "get_sfx_transfer_asset_abi\<lparr>maybe_prefix_memo := m\<rparr>"
  have names: "args_names ?abi = [(''asset_id'', False), (''to'', True), (''amount'', True)]"
    and desc: "abi_try_from (get_expected_ingress_descriptor ?abi Rlp) = Ok evm_transfer"
    by (simp_all add: get_sfx_transfer_asset_abi_def mk_abi_def get_expected_ingress_descriptor_def evm_transfer_ingress)
  have fill: "try_fill_abi cenv evm_transfer payload Rlp =
      Ok (filled_log (drop 12 (last_32b (truncate_by 32 (indexed_data l))))
             (drop 12 (last_32b (indexed_data l))) (last_32b (log_data l)))"
    using assms(1-3) by (simp add: evm_transfer_fill)
  have order: "ensure_arguments_order ?abi [asset, replicate 12 0 @ drop 12 (last_32b (indexed_data l)), amt] = Ok ()"
    using assms(6) by (simp add: args_three_Ok [OF names])
  show ?thesis
    unfolding validate_arguments_against_received_def desc order fill bind_res_simps names
    using assms by (simp add: filled_log_checks del: fold_res.simps)
qed

theorem evm_amount_panics_witness:
  "validate_arguments_against_received sample_codec (get_sfx_transfer_asset_abi\<lparr>maybe_prefix_memo := None\<rparr>)
     [[7], replicate 12 0 @ replicate 20 3, [1]] (replicate 32 2 @ replicate 32 3 @
       [1, 0, 0, 0, 0, 0, 0, 0, 0, 0, 0, 0, 0, 0, 0, 0, 0, 0, 0, 0, 0, 0, 0, 0, 0, 0, 0, 0, 0, 0, 0, 0]) Scale Rlp = Panic"
proof -
  let ?d = "[1, 0, 0, 0, 0, 0, 0, 0, 0, 0, 0, 0, 0, 0, 0, 0, 0, 0, 0, 0, 0, 0, 0, 0, 0, 0, 0, 0, 0, 0, 0, 0] :: bytes"
  let ?log = "\<lparr>log_address = replicate 20 0, log_topics = [replicate 32 1, replicate 32 2, replicate 32 3], log_data = ?d\<rparr>"
  have len: "length ?d = 32" by simp
  have last: "last_32b ?d = ?d" "last_32b (indexed_data ?log) = replicate 32 3"
    by (simp_all add: last_32b_def MINIMUM_INPUT_LENGTH_def)
  have "decode_event_log sample_codec (replicate 32 2 @ replicate 32 3 @ ?d) = Some ?log"
    by (simp add: decode_event_log_def sample_codec_def)
  moreover have "u256_from_be sample_codec ?d = Some (256 ^ 31)" by (simp add: sample_codec_def)
  ultimately show ?thesis
    using evm_amount_panics [where cenv = sample_codec and l = ?log and v = "256 ^ 31" and amt = "[1]" and asset = "[7]"
        and m = None and payload = "replicate 32 2 @ replicate 32 3 @ ?d"] last by simp
qed

section \<open>Absence of panics\<close>


lemma within_simps [simp]:
  "within k (Ok (x, n)) \<longleftrightarrow> n \<le> k" "within k (Err e)" "\<not> within k Panic"
  by (simp_all add: within_def)

lemma within_bind:
  "within k m \<Longrightarrow> (\<And>x n. m = Ok (x, n) \<Longrightarrow> n \<le> k \<Longrightarrow> within j (f (x, n))) \<Longrightarrow> within j (bind_res m f)"
  by (cases m) auto

lemma within_mono: "within k r \<Longrightarrow> k \<le> j \<Longrightarrow> within j r"
  by (auto simp: within_def split: res.splits)

lemma chop_fields_within:
  "\<exists>e. chop_fields as xs = Err e \<or> (\<exists>ys. chop_fields as xs = Ok ys \<and> sum_list (map length ys) \<le> length xs)"
proof (induction as arbitrary: xs)
  case Nil
  then show ?case by simp
next
  case (Cons a as)
  from Cons.IH [of "drop (get_size a) xs"] show ?case by auto
qed

lemma fill_seq_within:
  assumes "\<And>f xs. f \<in> set fs \<Longrightarrow> within (length xs) (f xs)" and "offset \<le> length xs"
  shows "within (length xs) (fill_seq fs xs offset)"
  using assms
proof (induction fs arbitrary: offset)
  case Nil
  then show ?case by simp
next
  case (Cons f fs)
  have f: "within (length (drop offset xs)) (f (drop offset xs))" by (rule Cons.prems) simp
  have "within (length xs) (bind_res (f (drop offset xs)) (\<lambda>(x, n).
           bind_res (fill_seq fs xs (offset + n)) (\<lambda>(ys, k). Ok (x # ys, k))))"
  proof (rule within_bind [OF f], simp)
    fix x n
    assume "n \<le> length xs - offset"
    then have "within (length xs) (fill_seq fs xs (offset + n))"
      using Cons.prems by (intro Cons.IH) auto
    then show "within (length xs) (bind_res (fill_seq fs xs (offset + n)) (\<lambda>(ys, k). Ok (x # ys, k)))"
      by (rule within_bind) simp
  qed
  with Cons.prems(2) show ?case by simp
qed

lemma tuple_within:
  assumes "\<And>f xs. f \<in> set fs \<Longrightarrow> within (length xs) (f xs)"
  shows "within (length xs) (bind_res (fill_seq fs xs 0) (\<lambda>(ys, n). Ok (tuple_of name ys, n)))"
  by (rule within_bind [OF fill_seq_within]) (use assms in auto)

lemma struct_within:
  assumes "\<And>cs. within (sum_list (map length cs)) (fill_fields cenv Scale flds cs)"
  shows "within (length xs) (bind_res (chop_encoded cenv Scale xs flds) (\<lambda>(chunks, memo).
     bind_res (fill_fields cenv Scale flds chunks) (\<lambda>(ys, n). Ok (F_Struct name ys memo, n))))"
proof (cases xs)
  case Nil
  then show ?thesis by (simp add: chop_encoded_def scale_chop_encoded_def)
next
  case (Cons memo rest)
  consider e where "chop_fields flds rest = Err e"
    | ys where "chop_fields flds rest = Ok ys" "sum_list (map length ys) \<le> length rest"
    using chop_fields_within by blast
  then show ?thesis
  proof cases
    case 1
    with Cons show ?thesis by (simp add: chop_encoded_def scale_chop_encoded_def)
  next
    case (2 ys)
    have "within (length xs) (bind_res (fill_fields cenv Scale flds ys) (\<lambda>(zs, n). Ok (F_Struct name zs memo, n)))"
      by (rule within_bind [OF assms]) (use 2(2) Cons in auto)
    with 2(1) Cons show ?thesis by (simp add: chop_encoded_def scale_chop_encoded_def)
  qed
qed

lemma fill_within:
  "panic_free a \<Longrightarrow> codec = Scale \<Longrightarrow> within (length xs) (recursive_fill_abi cenv codec a xs)"
  "list_all panic_free as \<Longrightarrow> codec = Scale \<Longrightarrow> within (sum_list (map length cs)) (fill_fields cenv codec as cs)"
  "list_all panic_free as \<Longrightarrow> codec = Scale \<Longrightarrow> within (length xs) (fill_variant cenv codec as i xs)"
proof (induction cenv codec a xs and cenv codec as cs and cenv codec as i xs
    rule: recursive_fill_abi_fill_fields_fill_variant.induct)
  case (1 cenv codec name flds xs)
  then show ?case by (auto split: list.split intro: within_mono)
next
  case (2 cenv codec name flds xs)
  then show ?case by (simp add: struct_within)
next
  case (3 cenv codec name flds xs)
  then show ?case by (simp add: struct_within)
next
  case (4 cenv codec name flds xs)
  then show ?case by (auto split: list.split intro: within_mono)
next
  case (19 cenv codec name a xs)
  then show ?case by (auto intro: within_bind)
next
  case (20 cenv codec name a b xs)
  then show ?case unfolding recursive_fill_abi.simps by (intro tuple_within) auto
next
  case (21 cenv codec name a b c xs)
  then show ?case unfolding recursive_fill_abi.simps by (intro tuple_within) auto
next
  case (22 cenv codec name a b c d xs)
  then show ?case unfolding recursive_fill_abi.simps by (intro tuple_within) auto
next
  case (23 cenv codec name a b c d e xs)
  then show ?case unfolding recursive_fill_abi.simps by (intro tuple_within) auto
next
  case (24 cenv codec name a b c d e f xs)
  then show ?case unfolding recursive_fill_abi.simps by (intro tuple_within) auto
next
  case (26 cenv codec a as chunks)
  show ?case
  proof (cases chunks)
    case Nil
    then show ?thesis by simp
  next
    case (Cons c cs)
    have a: "within (length c) (recursive_fill_abi cenv codec a c)" using 26 Cons by simp
    have "within (sum_list (map length chunks)) (bind_res (recursive_fill_abi cenv codec a c) (\<lambda>(x, n).
          bind_res (fill_fields cenv codec as cs) (\<lambda>(xs, k). Ok (x # xs, n + k))))"
    proof (rule within_bind [OF a], simp)
      fix x n
      assume x: "recursive_fill_abi cenv codec a c = Ok (x, n)" "n \<le> length c"
      have "within (sum_list (map length cs)) (fill_fields cenv codec as cs)" using 26 Cons x by simp
      then show "within (sum_list (map length chunks))
          (bind_res (fill_fields cenv codec as cs) (\<lambda>(xs, k). Ok (x # xs, n + k)))"
        by (rule within_bind) (use x Cons in simp)
    qed
    with Cons show ?thesis by simp
  qed
qed (auto simp: strip_memo_def first_byte_def split: list.split)


lemma recode_same_not_Panic:
  "recode_as cenv c c w x \<noteq> Panic" "recode_fields cenv c c w xs \<noteq> Panic"
  by (induction cenv c c w x and cenv c c w xs rule: recode_as_recode_fields.induct)
    (auto simp: bind_res_Panic recode_account32_def recode_account20_def recode_uint_def recode_value256_def
      recode_bytes4_def split: Codec.splits prod.splits)

lemmas safe_eval = parse_safe_def parse_eval mk_abi_def

lemma standard_egress_safe:
  "parse_safe (for_scale (egress_abi_descriptors get_data_abi))"
  "parse_safe (for_scale (egress_abi_descriptors get_dynamic_destination_deal_abi))"
  "parse_safe (for_scale (egress_abi_descriptors get_sfx_transfer_abi))"
  "parse_safe (for_scale (egress_abi_descriptors get_sfx_transfer_asset_abi))"
  "parse_safe (for_scale (egress_abi_descriptors get_swap_abi))"
  "parse_safe (for_scale (egress_abi_descriptors get_add_liquidity_abi))"
  "parse_safe (for_scale (egress_abi_descriptors get_remove_liquidity_abi))"
  "parse_safe (for_scale (egress_abi_descriptors get_call_evm_contract_abi))"
  "parse_safe (for_scale (egress_abi_descriptors get_call_wasm_contract_abi))"
  "parse_safe (for_scale (egress_abi_descriptors get_call_generic_abi))"
  by (simp_all add: safe_eval get_data_abi_def get_dynamic_destination_deal_abi_def get_sfx_transfer_abi_def
      get_sfx_transfer_asset_abi_def get_swap_abi_def get_add_liquidity_abi_def get_remove_liquidity_abi_def
      get_call_evm_contract_abi_def get_call_wasm_contract_abi_def get_call_generic_abi_def cong: eval_cong)

lemma standard_ingress_safe:
  "parse_safe (for_scale (ingress_abi_descriptors get_data_abi))"
  "parse_safe (for_scale (ingress_abi_descriptors get_dynamic_destination_deal_abi))"
  "parse_safe (for_scale (ingress_abi_descriptors get_sfx_transfer_abi))"
  "parse_safe (for_scale (ingress_abi_descriptors get_sfx_transfer_asset_abi))"
  "parse_safe (for_scale (ingress_abi_descriptors get_swap_abi))"
  "parse_safe (for_scale (ingress_abi_descriptors get_add_liquidity_abi))"
  "parse_safe (for_scale (ingress_abi_descriptors get_remove_liquidity_abi))"
  "parse_safe (for_scale (ingress_abi_descriptors get_call_evm_contract_abi))"
  "parse_safe (for_scale (ingress_abi_descriptors get_call_wasm_contract_abi))"
  "parse_safe (for_scale (ingress_abi_descriptors get_call_generic_abi))"
  by (simp_all add: safe_eval get_data_abi_def get_dynamic_destination_deal_abi_def get_sfx_transfer_abi_def
      get_sfx_transfer_asset_abi_def get_swap_abi_def get_add_liquidity_abi_def get_remove_liquidity_abi_def
      get_call_evm_contract_abi_def get_call_wasm_contract_abi_def get_call_generic_abi_def cong: eval_cong)

lemma safe_fill_not_Panic:
  assumes "parse_safe d"
  shows "bind_res (abi_try_from d) (\<lambda>abi. bind_res (try_fill_abi cenv abi xs Scale) f) = Panic
     \<longleftrightarrow> (\<exists>abi filled. abi_try_from d = Ok abi \<and> try_fill_abi cenv abi xs Scale = Ok filled \<and> f filled = Panic)"
proof (cases "abi_try_from d")
  case (Ok a)
  with assms have "within (length xs) (recursive_fill_abi cenv Scale a xs)"
    by (intro fill_within(1)) (simp_all add: parse_safe_def)
  then have "try_fill_abi cenv a xs Scale \<noteq> Panic"
    by (auto simp: try_fill_abi_def within_def bind_res_Panic)
  with Ok show ?thesis by (auto simp: bind_res_Panic)
qed (use assms in \<open>auto simp: parse_safe_def\<close>)

lemma check_argument_not_Panic: "check_argument cenv filled Scale Scale x u \<noteq> Panic"
  by (cases x) (simp add: check_argument_def bind_res_Panic recode_same_not_Panic)

lemma fold_check_not_Panic: "fold_res (check_argument cenv filled Scale Scale) xs () \<noteq> Panic"
  by (induction xs) (simp_all add: bind_res_Panic check_argument_not_Panic)

text \<open>C23: whatever the arguments and the payload, neither validating nor confirming a side effect under one of the standard
  ABIs panics when both sides use SCALE.\<close>

theorem standard_abis_never_panic:
  assumes "(sfx_4b_id, abi) \<in> set standard_sfx_abi"
  shows "validate_ordered_arguments cenv (abi\<lparr>maybe_prefix_memo := memo\<rparr>) args Scale \<noteq> Panic
    \<and> validate_arguments_against_received cenv (abi\<lparr>maybe_prefix_memo := memo\<rparr>) args payload Scale Scale \<noteq> Panic"
proof -
  have safe: "parse_safe (for_scale (egress_abi_descriptors abi))" "parse_safe (for_scale (ingress_abi_descriptors abi))"
    using assms standard_egress_safe standard_ingress_safe by (auto simp: standard_sfx_abi_def)
  have order: "ensure_arguments_order a xs \<noteq> Panic" for a xs by (simp add: ensure_arguments_order_def)
  have "validate_ordered_arguments cenv (abi\<lparr>maybe_prefix_memo := memo\<rparr>) args Scale \<noteq> Panic"
    using safe_fill_not_Panic [OF safe(1), where cenv = cenv and f = Ok] order
    by (auto simp: validate_ordered_arguments_def bind_res_Panic get_expected_egress_descriptor_def)
  moreover have "validate_arguments_against_received cenv (abi\<lparr>maybe_prefix_memo := memo\<rparr>) args payload Scale Scale \<noteq> Panic"
    unfolding validate_arguments_against_received_def bind_res_Panic [of "ensure_arguments_order _ _"]
    by (simp add: order get_expected_ingress_descriptor_def safe_fill_not_Panic [OF safe(2)] fold_check_not_Panic split: if_splits)
  ultimately show ?thesis by blast
qed

theorem standard_abis_never_panic_witness:
  "validate_ordered_arguments sample_codec (get_sfx_transfer_abi\<lparr>maybe_prefix_memo := Some 10\<rparr>) [[1], []] Scale \<noteq> Panic
   \<and> validate_arguments_against_received sample_codec (get_sfx_transfer_abi\<lparr>maybe_prefix_memo := Some 10\<rparr>) [[1], []] [2] Scale Scale \<noteq> Panic"
  by (rule standard_abis_never_panic [of TRANSFER_SIDE_EFFECT_ID]) (simp add: standard_sfx_abi_def)

section \<open>Unusable descriptors\<close>

text \<open>
  A descriptor without a delimiter has no field: the side effect \<open>data\<close>, described by \<open>H256\<close>
  alone, is always refused.  A composite type inside another takes the fields that follow it.
\<close>


theorem data_abi_unusable:
  "validate_ordered_arguments cenv (get_data_abi\<lparr>maybe_prefix_memo := memo\<rparr>) args codec \<noteq> Ok filled"
proof -
  have "abi_try_from ''H256'' = Err (Other ''CrossCodec::from_parsed_descriptor_recursive: no more fields'')"
    by (simp add: parse_eval cong: eval_cong)
  then show ?thesis
    by (cases codec) (auto simp: validate_ordered_arguments_def get_data_abi_def mk_abi_def
        get_expected_egress_descriptor_def res_simps)
qed

theorem nested_composite_takes_siblings:
  "abi_try_from ''Outer:Struct(Inner:Struct(a:Byte),b:Bool)'' =
     Ok (A_Struct (Some ''Outer'') [A_Struct (Some ''Inner'') [A_Byte (Some ''a''), A_Bool (Some ''b'')]])"
  by (simp add: parse_eval cong: eval_cong)

end
