(* ===== verification/Circuit_Sample.thy ===== *)
theory Circuit_Sample
  imports Circuit_Reachable Abi_Properties
begin

text \<open>
  A concrete configuration and the life of one transaction in it: submitted, bid on, closed for
  bidding, confirmed and committed.  The states are written out and the operations are
  evaluated on them by rewriting; the witnesses of the circuit's properties use them.
\<close>

section \<open>Definitions\<close>

text \<open>A transfer to a gateway whose balances pallet has index 10, and the event that confirms it.\<close>

definition sample_abi :: SFXAbi where
  "sample_abi = get_sfx_transfer_abi\<lparr>maybe_prefix_memo := Some 10\<rparr>"

definition sample_to :: bytes where "sample_to = replicate 32 6"

definition sample_amount :: bytes where "sample_amount = replicate 16 1"

definition sample_event :: bytes where
  "sample_event = 10 # 2 # replicate 32 5 @ sample_to @ sample_amount"

definition sample_env :: "(AccountId \<Rightarrow> Balance) circuit_env" where
  "sample_env =
     \<lparr>am_cfg = plain_env sample_escrow, keccak = (\<lambda>bs. bs), hashing = (\<lambda>bs. bs),
      XtxTimeoutDefault = 400, SFXBiddingPeriod = 3, SignalQueueDepth = 5,
      db_read = 1, db_write = 2, account_nonce = (\<lambda>x a. 7), existential_deposit = 1,
      currency_transfer = (\<lambda>a b v x. if v = 0 then Ok x else Err (External_Error 2)),
      treasury_account = (\<lambda>t. replicate 32 9), read_last_activity = (\<lambda>x t. Some True),
      gateway_max_security_lvl = (\<lambda>x t. Optimistic), get_sfx_abi = (\<lambda>x t a. Some sample_abi),
      get_target_codec = (\<lambda>x t. Ok Scale),
      estimate_adaptive_timeout = (\<lambda>x ts m e. new_emergency e),
      get_finalized_height = (\<lambda>x t. Ok (Height 10)),
      verify_event_inclusion = (\<lambda>x t m src msg.
        Ok \<lparr>receipt_height = 20, including_header = [], receipt_message = msg\<rparr>),
      estimate_finality_fee = (\<lambda>x t. 0),
      request_sfx_attestation_commit = (\<lambda>t k p x. (True, x)),
      request_sfx_attestation_revert = (\<lambda>t k x. (True, x)),
      abi_cfg = sample_codec,
      decode_account = (\<lambda>b. Some b), decode_balance = (\<lambda>b. Some 1), decode_asset = (\<lambda>b. Some 1),
      encode_u32 = u32_to_le_bytes\<rparr>"

definition empty_circuit :: "(AccountId \<Rightarrow> Balance) circuit_state" where
  "empty_circuit =
     \<lparr>StorageMigrations = 1, GMP = [], SFX2XTXLinksMap = [], PendingXtxTimeoutsMap = [],
      PendingXtxBidsTimeoutsMap = [], FinalizedXtx = [], XExecSignals = [], LocalXtxStates = [],
      FullSideEffects = [], DLQ = [], SignalQueue = [], circuit_events = [],
      account_manager = sample_state [], block_number = 100\<rparr>"

definition sample_sfx :: SideEffect where
  "sample_sfx =
     \<lparr>target = [1, 2, 3, 4], max_reward = 50, insurance = 10, action = TRANSFER_SIDE_EFFECT_ID,
      encoded_args = [sample_to, sample_amount], signature = [], enforce_executor = None, reward_asset_id = None\<rparr>"

definition submitted_fsx :: FullSideEffect where
  "submitted_fsx = \<lparr>input = sample_sfx, confirmed = None, security_lvl = Optimistic,
     submission_target_height = 10, best_bid = None, index = 0\<rparr>"

definition sample_xid :: H256 where
  "sample_xid = sample_payee @ word_32b 7"

definition sample_sid :: H256 where
  "sample_sid = sfx_id_of sample_env sample_xid submitted_fsx"

definition sample_signal :: "CircuitStatus \<Rightarrow> XExecSignal" where
  "sample_signal st =
     \<lparr>requester = sample_payee, requester_nonce = 7, timeouts_at = new_emergency 400,
      speed_mode = Fast, delay_steps_at = None, status = st, steps_cnt = (0, 1)\<rparr>"

definition reward_charge :: "AccountId option \<Rightarrow> RequestCharge" where
  "reward_charge r =
     \<lparr>payee = sample_payee, offered_reward = 50, maybe_asset_id = None, charge_fee = 0,
      recipient = r, source = TrafficFees, role = Executor\<rparr>"

definition submitted_circuit :: "(AccountId \<Rightarrow> Balance) circuit_state" where
  "submitted_circuit =
     \<lparr>StorageMigrations = 1, GMP = [], SFX2XTXLinksMap = [(sample_sid, sample_xid)],
      PendingXtxTimeoutsMap = [(sample_xid, new_emergency 400)],
      PendingXtxBidsTimeoutsMap = [(sample_xid, 103)], FinalizedXtx = [],
      XExecSignals = [(sample_xid, sample_signal PendingBidding)],
      LocalXtxStates = [(sample_xid, [])],
      FullSideEffects = [(sample_xid, [[submitted_fsx]])], DLQ = [], SignalQueue = [],
      circuit_events = [NewSideEffectsAvailable sample_payee sample_xid [sample_sfx] [sample_sid],
        XTransactionReceivedForExec sample_xid],
      account_manager = \<lparr>PendingCharges = [(sample_sid, reward_charge None)], SettlementsPerRound = (\<lambda>r. []),
        ContractsRegistryExecutionNonce = 0, am_events = [DepositReceived sample_sid sample_payee None 50],
        CurrentRound = round_default, ledger = (\<lambda>a. 1000)(sample_payee := 950)\<rparr>,
      block_number = 100\<rparr>"

definition sample_bidder :: AccountId where "sample_bidder = replicate 32 5"

definition sample_bid :: SFXBid where
  "sample_bid = \<lparr>amount = 40, bid_insurance = 10, reserved_bond = None, bid_reward_asset_id = None,
     executor = sample_bidder, bid_requester = sample_payee\<rparr>"

definition sample_bid_id :: H256 where "sample_bid_id = sample_sid @ sample_bidder"

definition bond_charge :: RequestCharge where
  "bond_charge =
     \<lparr>payee = sample_bidder, offered_reward = 10, maybe_asset_id = None, charge_fee = 0,
      recipient = Some sample_payee, source = TrafficRewards, role = Executor\<rparr>"

definition bid_circuit :: "(AccountId \<Rightarrow> Balance) circuit_state" where
  "bid_circuit = submitted_circuit
     \<lparr>XExecSignals := [(sample_xid, sample_signal InBidding)],
      FullSideEffects := [(sample_xid, [[submitted_fsx\<lparr>best_bid := Some sample_bid\<rparr>]])],
      circuit_events := circuit_events submitted_circuit @ [SFXNewBidReceived sample_sid sample_bidder 40],
      account_manager := (account_manager submitted_circuit)
        \<lparr>PendingCharges := [(sample_sid, reward_charge None), (sample_bid_id, bond_charge)],
         am_events := am_events (account_manager submitted_circuit)
           @ [DepositReceived sample_bid_id sample_bidder (Some sample_payee) 10],
         ledger := (\<lambda>a. 1000)(sample_payee := 950, sample_bidder := 990)\<rparr>\<rparr>"

definition ready_fsx :: FullSideEffect where
  "ready_fsx = submitted_fsx\<lparr>input := sample_sfx\<lparr>enforce_executor := Some sample_bidder\<rparr>, best_bid := Some sample_bid\<rparr>"

definition ready_circuit :: "(AccountId \<Rightarrow> Balance) circuit_state" where
  "ready_circuit = bid_circuit
     \<lparr>PendingXtxBidsTimeoutsMap := [], XExecSignals := [(sample_xid, sample_signal Ready)],
      FullSideEffects := [(sample_xid, [[ready_fsx]])],
      circuit_events := circuit_events bid_circuit @ [XTransactionReadyForExec sample_xid],
      account_manager := (account_manager bid_circuit)
        \<lparr>PendingCharges := [(sample_sid, reward_charge (Some sample_bidder)), (sample_bid_id, bond_charge)]\<rparr>\<rparr>"

definition sample_confirmation :: ConfirmedSideEffect where
  "sample_confirmation = \<lparr>err = None, sfx_output = None, inclusion_data = sample_event, executioner = sample_bidder,
      received_at = 111, cost = None\<rparr>"

definition finished_circuit :: "(AccountId \<Rightarrow> Balance) circuit_state" where
  "finished_circuit = ready_circuit
     \<lparr>PendingXtxTimeoutsMap := [], FinalizedXtx := [(sample_xid, 100)],
      XExecSignals := [(sample_xid, (sample_signal FinishedAllSteps)\<lparr>steps_cnt := (1, 1)\<rparr>)],
      FullSideEffects := [(sample_xid, [[ready_fsx\<lparr>confirmed := Some sample_confirmation\<rparr>]])],
      circuit_events := circuit_events ready_circuit
        @ [SideEffectConfirmed sample_sid, XTransactionXtxFinishedExecAllSteps sample_xid,
           SideEffectsConfirmed sample_xid [[ready_fsx\<lparr>confirmed := Some sample_confirmation\<rparr>]]],
      account_manager := (account_manager ready_circuit)
        \<lparr>PendingCharges := [],
         SettlementsPerRound := (\<lambda>r. [])(round_default :=
           [(sample_sid, settlement_of (plain_env sample_escrow) (reward_charge (Some sample_bidder)) Commit)]),
         ledger := (\<lambda>a. 1000)(sample_payee := 950, sample_bidder := 1000)\<rparr>\<rparr>"

definition committed_circuit :: "(AccountId \<Rightarrow> Balance) circuit_state" where
  "committed_circuit = finished_circuit
     \<lparr>XExecSignals := [], FullSideEffects := [], LocalXtxStates := [],
      circuit_events := circuit_events finished_circuit @ [XTransactionXtxCommitted sample_xid]\<rparr>"

lemma sample_env_simps [simp]:
  "am_cfg sample_env = plain_env sample_escrow"
  "keccak sample_env = (\<lambda>bs. bs)"
  "hashing sample_env = (\<lambda>bs. bs)"
  "XtxTimeoutDefault sample_env = 400"
  "SFXBiddingPeriod sample_env = 3"
  "SignalQueueDepth sample_env = 5"
  "db_read sample_env = 1"
  "db_write sample_env = 2"
  "account_nonce sample_env = (\<lambda>x a. 7)"
  "existential_deposit sample_env = 1"
  "currency_transfer sample_env = (\<lambda>a b v x. if v = 0 then Ok x else Err (External_Error 2))"
  "treasury_account sample_env = (\<lambda>t. replicate 32 9)"
  "read_last_activity sample_env = (\<lambda>x t. Some True)"
  "gateway_max_security_lvl sample_env = (\<lambda>x t. Optimistic)"
  "get_sfx_abi sample_env = (\<lambda>x t a. Some sample_abi)"
  "get_target_codec sample_env = (\<lambda>x t. Ok Scale)"
  "estimate_adaptive_timeout sample_env = (\<lambda>x ts m e. new_emergency e)"
  "get_finalized_height sample_env = (\<lambda>x t. Ok (Height 10))"
  "verify_event_inclusion sample_env = (\<lambda>x t m src msg. Ok \<lparr>receipt_height = 20, including_header = [], receipt_message = msg\<rparr>)"
  "estimate_finality_fee sample_env = (\<lambda>x t. 0)"
  "request_sfx_attestation_commit sample_env = (\<lambda>t k p x. (True, x))"
  "request_sfx_attestation_revert sample_env = (\<lambda>t k x. (True, x))"
  "abi_cfg sample_env = sample_codec"
  "decode_account sample_env = (\<lambda>b. Some b)"
  "decode_balance sample_env = (\<lambda>b. Some 1)"
  "decode_asset sample_env = (\<lambda>b. Some 1)"
  "encode_u32 sample_env = u32_to_le_bytes"
  by (simp_all add: sample_env_def)

lemma sample_args [simp]:
  "encoded_args sample_sfx = [sample_to, sample_amount]" "inclusion_data sample_confirmation = sample_event"
  by (simp_all add: sample_sfx_def sample_confirmation_def)

lemma sample_validate [simp]:
  "encoded_args sfx = [sample_to, sample_amount] \<Longrightarrow> sfx_validate sample_codec sfx sample_abi Scale = Ok ()"
  by (simp add: sfx_validate_def sample_abi_def transfer_validated sample_to_def sample_amount_def)

lemma sample_confirmed [simp]:
  "encoded_args sfx = [sample_to, sample_amount] \<Longrightarrow> sfx_confirm sample_codec sfx sample_abi sample_event Scale Scale = Ok ()"
  using transfer_confirmation [of "replicate 32 5" sample_to sample_amount sample_codec 10 "[sample_to, sample_amount]" 10 2 "[]"]
  by (simp add: sfx_confirm_def sample_abi_def sample_event_def sample_to_def sample_amount_def)

lemmas sample_eval = authorize_def on_extrinsic_trigger_def do_on_extrinsic_trigger_def setup_xtx_def
   xtx_setup_fresh_def xtx_new_def xtx_generate_id_def validate_def validate_one_def
   ensure_all_gateways_are_active_def Let_def ensure_signed_def charge_finality_fee_def finality_fees_sum_def read_current_step_fsx_def
   current_step_index_def compile_xtx_def run_precompile_result_def try_request_def am_can_withdraw_def
   monetary_can_withdraw_def request_charge_def deposit_batch_def validate_deposit_def
   no_charge_or_fail_def smap_get_def smap_contains_def checked_add_def deposit_one_def
   withdraw_immediately_def monetary_withdraw_def get_charge_or_fail_def update_status_def
   determine_xtx_status_def determine_step_status_def determine_bidding_status_def determine_fsx_bidding_status_def
   determine_execution_status_def check_transition_def unforced_allowed_def apply_xtx_def status_order
   update_current_step_fsx_def set_ext_def



lemma sample_submit:
  "exec_op sample_env (Submit (Signed sample_payee) [sample_sfx] Fast Optimistic) empty_circuit = Ok submitted_circuit"
  by (simp add: sample_eval sample_sfx_def sample_simps empty_circuit_def submitted_circuit_def
     apply_request_def put_xtx_def put_fsx_def emit_sfx_def deposit_event_def all_fsx_ids_def check_bump_steps_def
     sample_xid_def sample_sid_def sample_signal_def reward_charge_def submitted_fsx_def smap_empty_def calc_sfx_id_def cong: eval_cong)

lemma sample_bidder_facts [simp]:
  "is_remote (origin_new sample_bidder) = False" "sample_bidder \<noteq> []" "sample_payee \<noteq> sample_bidder"
  "sample_bidder \<noteq> sample_payee"
  by (simp_all add: sample_bidder_def sample_payee_def origin_new_def is_remote_def replicate_eq_replicate list_all_iff)

lemma submitted_fsx_simps [simp]:
  "input submitted_fsx = sample_sfx" "confirmed submitted_fsx = None" "security_lvl submitted_fsx = Optimistic"
  "submission_target_height submitted_fsx = 10" "best_bid submitted_fsx = None" "index submitted_fsx = 0"
  by (simp_all add: submitted_fsx_def)

lemma sample_ids [simp]:
  "calc_sfx_id (\<lambda>bs. bs) submitted_fsx sample_xid = sample_sid"
  "sample_sid < sample_bid_id" "\<not> sample_bid_id < sample_sid" "sample_bid_id \<noteq> sample_sid"
  "sample_sid \<noteq> sample_bid_id" "sample_sid @ sample_bidder = sample_bid_id"
proof -
  show "sample_sid < sample_bid_id" by (simp add: sample_bid_id_def list_less_def lexord_append_rightI neq_Nil_conv [symmetric])
  then show "\<not> sample_bid_id < sample_sid" by simp
qed (simp_all add: sample_sid_def sample_bid_id_def)

lemma sample_bid_call:
  "exec_op sample_env (Bid (Signed sample_bidder) sample_sid 40) submitted_circuit = Ok bid_circuit"
  by (simp add: sample_eval bid_sfx_def load_xtx_def try_bid_def su_try_bid_def sample_simps submitted_circuit_def
     put_xtx_def put_fsx_def deposit_event_def check_bump_steps_def adjust_bid_def optimistic_bond_def reduce_rewards_def
     deposit_def bid_generate_id_def new_none_optimistic_def sample_sfx_def
     sample_signal_def reward_charge_def bid_circuit_def sample_bid_def bond_charge_def cong: eval_cong)

lemma sample_ready:
  "exec_op sample_env (Tick_Queue 110 1 1000) bid_circuit = Ok ready_circuit"
  by (simp add: sample_eval hook_result_def process_xtx_tick_queue_def tick_all_def process_tick_one_def compile_infallible_def
     tick_one_precompile_def bind_bidders_def bind_one_def assign_deposit_def status_post_update_def emit_status_update_def status_event_def
     db_reads_writes_def db_reads_def weight_add_def weight_max_def smap_remove_def
     load_xtx_def sample_simps submitted_circuit_def
     put_xtx_def put_fsx_def deposit_event_def check_bump_steps_def
     ready_circuit_def ready_fsx_def
     sample_signal_def reward_charge_def bid_circuit_def sample_bid_def bond_charge_def cong: eval_cong)

lemma sample_confirm:
  "exec_op sample_env (Confirm (Signed sample_bidder) sample_sid sample_confirmation) ready_circuit = Ok finished_circuit"
  by (simp add: sample_eval confirm_side_effect_def confirm_def confirm_post_update_def request_sfx_attestation_def attest_one_def
     emit_status_update_def status_event_def executing_def is_killed_def is_reverted_def
     su_finalize_def finalize_bond_def finalize_reward_def finalize_infallible_def take_fee_and_drop_def drop_charge_def
     deposit_immediately_def monetary_deposit_def insert_settlement_def bid_generate_id_def apply_finished_def
     smap_remove_def load_xtx_def sample_simps submitted_circuit_def
     put_xtx_def put_fsx_def deposit_event_def check_bump_steps_def
     ready_circuit_def ready_fsx_def finished_circuit_def settlement_of_def
     sample_signal_def reward_charge_def bid_circuit_def sample_bid_def bond_charge_def cong: eval_cong)

lemma sample_commit:
  "exec_op sample_env (Tick_Queue 112 1 1000) finished_circuit = Ok committed_circuit"
  by (simp add: sample_eval hook_result_def process_xtx_tick_queue_def tick_all_def process_tick_two_def compile_infallible_def
     tick_two_precompile_def status_post_update_def emit_status_update_def status_event_def
     db_reads_writes_def db_reads_def weight_add_def weight_max_def smap_remove_def
     load_xtx_def sample_simps submitted_circuit_def executing_def is_killed_def is_reverted_def
     drop_xtx_def deposit_event_def check_bump_steps_def
     ready_circuit_def ready_fsx_def finished_circuit_def committed_circuit_def
     sample_signal_def bid_circuit_def sample_bid_def bond_charge_def cong: eval_cong)
end
