(* ===== verification/Circuit_Settlement.thy ===== *)
theory Circuit_Settlement
  imports Circuit_Sample
begin

text \<open>
  What the square-up does with the money of a transaction: binding the bidders, killing and
  finalising, stated over all charges of the step with the laws of the account manager's
  charge book.
\<close>

section \<open>Definitions\<close>

text \<open>A side effect bound to its best bidder, and the bond charge of its bid.\<close>

definition bound :: "FullSideEffect \<Rightarrow> FullSideEffect" where
  "bound f = f\<lparr>input := (input f)\<lparr>enforce_executor := map_option executor (best_bid f)\<rparr>\<rparr>"

definition bond_id_of :: "'x circuit_env \<Rightarrow> H256 \<Rightarrow> FullSideEffect \<Rightarrow> H256 option" where
  "bond_id_of env i f = map_option (\<lambda>bid. bid_generate_id (hashing env) bid (sfx_id_of env i f)) (best_bid f)"

text \<open>A charge whose commit becomes a settlement of the round.\<close>

definition settles :: "RequestCharge \<Rightarrow> bool" where
  "settles c \<longleftrightarrow> offered_reward c > 0 \<and> is_local (origin_new (payee c)) \<and> source c \<noteq> EscrowUnlock"

definition bond_outcome :: "FullSideEffect \<Rightarrow> Outcome" where
  "bond_outcome f = (if is_confirmed f then Revert else Slash)"

text \<open>The charges of a step: its rewards and the bonds of its bids.\<close>

definition step_charges :: "'x circuit_env \<Rightarrow> H256 \<Rightarrow> FullSideEffect list \<Rightarrow> H256 list" where
  "step_charges env i step =
     concat (map (\<lambda>f. sfx_id_of env i f # (case bond_id_of env i f of Some k \<Rightarrow> [k] | None \<Rightarrow> [])) step)"

definition confirmed_ctx :: LocalXtxCtx where
  "confirmed_ctx = \<lparr>local_state = [], xtx_id = sample_xid, xtx = sample_signal Ready,
     full_side_effects = [[ready_fsx\<lparr>confirmed := Some sample_confirmation\<rparr>]]\<rparr>"

section \<open>Binding\<close>

lemma bind_step_bound:
  assumes "\<forall>f \<in> set step. has_bid f \<and> charge_at am (sfx_id_of env i f) \<noteq> None"
    "distinct (map (sfx_id_of env i) step)"
  shows "\<exists>am'. bind_step env i step am = (step \<noteq> [], map bound step, am')
    \<and> (\<forall>f \<in> set step. charge_at am' (sfx_id_of env i f) =
         map_option (\<lambda>c. c\<lparr>recipient := map_option executor (best_bid f)\<rparr>) (charge_at am (sfx_id_of env i f)))
    \<and> (\<forall>k. k \<notin> sfx_id_of env i ` set step \<longrightarrow> charge_at am' k = charge_at am k)"
  using assms
proof (induction step arbitrary: am)
  case Nil
  then show ?case by simp
next
  case (Cons f step)
  from Cons.prems obtain bid where bid: "best_bid f = Some bid" by (auto simp: has_bid_def)
  define am1 where "am1 = snd (assign_deposit (sfx_id_of env i f) (executor bid) am)"
  have flag: "assign_deposit (sfx_id_of env i f) (executor bid) am = (True, am1)"
    using Cons.prems am.assign_flag [of "sfx_id_of env i f" "executor bid" am] by (simp add: am1_def prod_eq_iff)
  have look: "charge_at am1 k = (if k = sfx_id_of env i f
      then map_option (\<lambda>c. c\<lparr>recipient := Some (executor bid)\<rparr>) (charge_at am k) else charge_at am k)" for k
    using am.assign_lookup [of "sfx_id_of env i f" "executor bid" am k] by (simp add: am1_def)
  have "bind_one env i f am = (True, bound f, am1)"
    by (simp add: bind_one_def bid flag bound_def)
  moreover have "\<forall>g \<in> set step. has_bid g \<and> charge_at am1 (sfx_id_of env i g) \<noteq> None"
    using Cons.prems by (auto simp: look)
  from Cons.IH [OF this] Cons.prems(2) obtain am' where am':
    "bind_step env i step am1 = (step \<noteq> [], map bound step, am')"
    "\<forall>g \<in> set step. charge_at am' (sfx_id_of env i g) =
       map_option (\<lambda>c. c\<lparr>recipient := map_option executor (best_bid g)\<rparr>) (charge_at am1 (sfx_id_of env i g))"
    "\<forall>k. k \<notin> sfx_id_of env i ` set step \<longrightarrow> charge_at am' k = charge_at am1 k" by auto
  moreover have "charge_at am' (sfx_id_of env i f) = charge_at am1 (sfx_id_of env i f)"
    using am'(3) Cons.prems(2) by simp
  moreover have "\<forall>g \<in> set step. sfx_id_of env i g \<noteq> sfx_id_of env i f"
    using Cons.prems(2) by (force simp: image_iff)
  ultimately show ?case by (simp add: look bid)
qed

section \<open>Finalising\<close>

lemma get_settlement_finalize:
  "get_settlement (snd (finalize_infallible e k oc am)) j =
     (case charge_at am k of
        Some c \<Rightarrow> if j = k \<and> oc = Commit \<and> settles c then Some (settlement_of e c Commit) else get_settlement am j
      | None \<Rightarrow> get_settlement am j)"
  by (auto simp: finalize_infallible_def settles_def take_fee_and_drop_def Let_def drop_charge_def
      deposit_immediately_def insert_settlement_def get_settlement_def is_local_not_remote
      split: option.split Outcome.split)

lemma finalize_keys_settlement:
  assumes "\<forall>k \<in> set ks. \<forall>c. charge_at am k = Some c \<longrightarrow> settles c"
  shows "get_settlement (fold (\<lambda>k am. snd (finalize_infallible e k oc am)) ks am) j =
     (case charge_at am j of
        Some c \<Rightarrow> if j \<in> set ks \<and> oc = Commit then Some (settlement_of e c Commit) else get_settlement am j
      | None \<Rightarrow> get_settlement am j)"
  using assms
proof (induction ks arbitrary: am)
  case Nil
  then show ?case by (simp split: option.split)
next
  case (Cons k ks)
  let ?am = "snd (finalize_infallible e k oc am)"
  have look: "charge_at ?am l = (if l = k then None else charge_at am l)" for l
    using am.fin_lookup [of e k oc am l] Cons.prems by (auto simp: keeps_charge_def settles_def)
  have "\<forall>l \<in> set ks. \<forall>c. charge_at ?am l = Some c \<longrightarrow> settles c"
    using Cons.prems by (auto simp: look)
  from Cons.IH [OF this] show ?case
    using Cons.prems by (auto simp: look get_settlement_finalize split: option.split)
qed

lemma finalize_keys_charges:
  assumes "\<forall>k \<in> set ks. \<forall>c. charge_at am k = Some c \<longrightarrow> settles c"
  shows "charge_at (fold (\<lambda>k am. snd (finalize_infallible e k oc am)) ks am) j =
     (if j \<in> set ks then None else charge_at am j)"
proof -
  have "fold (\<lambda>k am. snd (finalize_infallible e k oc am)) ks am
      = fold (\<lambda>(k, oc) am. snd (finalize_infallible e k oc am)) (map (\<lambda>k. (k, oc)) ks) am"
    by (simp add: fold_map comp_def)
  moreover have "fst ` set (map (\<lambda>k. (k, oc)) ks) = set ks" by force
  ultimately show ?thesis
    using am.finalize_all [of "map (\<lambda>k. (k, oc)) ks" am e j] assms
    by (auto simp: keeps_charge_def settles_def)
qed

text \<open>The two loops of \<open>finalize\<close> as folds over the charges they finalise.\<close>

lemma finalize_bonds_fold:
  "\<exists>b. fold (finalize_bond env i) step (fz, oc, am) =
     (b, (if \<exists>f \<in> set step. has_bid f \<and> \<not> is_confirmed f then Revert else oc),
      fold (\<lambda>f am. case bond_id_of env i f of
          Some k \<Rightarrow> snd (finalize_infallible (am_cfg env) k (bond_outcome f) am)
        | None \<Rightarrow> am) step am)"
proof (induction step arbitrary: fz oc am)
  case Nil
  then show ?case by simp
next
  case (Cons f step)
  obtain b where "finalize_bond env i f (fz, oc, am) =
     (b, (if has_bid f \<and> \<not> is_confirmed f then Revert else oc),
      (case bond_id_of env i f of
          Some k \<Rightarrow> snd (finalize_infallible (am_cfg env) k (bond_outcome f) am)
        | None \<Rightarrow> am))"
    by (cases "best_bid f"; cases "confirmed f")
      (auto simp: finalize_bond_def bond_id_of_def bond_outcome_def has_bid_def is_confirmed_def
        case_prod_beta Let_def)
  then show ?case
    using Cons.IH [of b "if has_bid f \<and> \<not> is_confirmed f then Revert else oc"
        "case bond_id_of env i f of
           Some k \<Rightarrow> snd (finalize_infallible (am_cfg env) k (bond_outcome f) am)
         | None \<Rightarrow> am"]
    by (simp cong: if_cong) (auto split: if_split)
qed

lemma finalize_rewards_fold:
  assumes "\<forall>f \<in> set step. security_lvl f \<noteq> Escrow"
  shows "\<exists>b. fold (finalize_reward env i oc) step (fz, am) =
     (b, fold (\<lambda>k am. snd (finalize_infallible (am_cfg env) k oc am)) (map (sfx_id_of env i) step) am)"
  using assms
proof (induction step arbitrary: fz am)
  case Nil
  then show ?case by simp
next
  case (Cons f step)
  then show ?case by (auto simp: finalize_reward_def case_prod_beta Let_def)
qed

lemma finalize_bonds_frame:
  assumes "\<forall>f \<in> set step. bond_id_of env i f \<noteq> Some k"
  shows "charge_at (fold (\<lambda>f am. case bond_id_of env i f of
          Some k \<Rightarrow> snd (finalize_infallible (am_cfg env) k (bond_outcome f) am)
        | None \<Rightarrow> am) step am) k = charge_at am k"
  using assms
proof (induction step arbitrary: am)
  case Nil
  then show ?case by simp
next
  case (Cons f step)
  then show ?case
    by (simp add: am.fin_lookup split: option.split)
qed

lemma finalize_bonds_settlements:
  "get_settlement (fold (\<lambda>f am. case bond_id_of env i f of
          Some k \<Rightarrow> snd (finalize_infallible (am_cfg env) k (bond_outcome f) am)
        | None \<Rightarrow> am) step am) k = get_settlement am k"
  by (induction step arbitrary: am)
    (auto simp: get_settlement_finalize bond_outcome_def split: option.split)

text \<open>C4: a transaction is settled as a whole: when \<open>SquareUp::finalize\<close> runs on the only step of
  a transaction whose side effects are all optimistic, have local settling reward charges and bonds of their
  own, every reward charge is closed, and either every side effect that has a bid is confirmed and
  every reward becomes the committed settlement of its charge, or one of them is not and
  no side effect of the transaction gains a settlement.\<close>

theorem finalize_all_or_nothing:
  assumes "su_finalize env ctx s = Ok (b, s')"
    and "full_side_effects ctx = [step]"
    and "\<forall>f \<in> set step. security_lvl f \<noteq> Escrow"
    and "\<forall>f \<in> set step. \<exists>c. charge_at (account_manager s) (sfx_id_of env (xtx_id ctx) f) = Some c \<and> settles c"
    and "\<forall>f \<in> set step. \<forall>g \<in> set step. bond_id_of env (xtx_id ctx) f \<noteq> Some (sfx_id_of env (xtx_id ctx) g)"
    and "f \<in> set step"
  shows "charge_at (account_manager s') (sfx_id_of env (xtx_id ctx) f) = None
    \<and> get_settlement (account_manager s') (sfx_id_of env (xtx_id ctx) f) =
        (if \<forall>g \<in> set step. has_bid g \<longrightarrow> is_confirmed g
         then Some (settlement_of (am_cfg env) (the (charge_at (account_manager s) (sfx_id_of env (xtx_id ctx) f))) Commit)
         else get_settlement (account_manager s) (sfx_id_of env (xtx_id ctx) f))"
proof -
  let ?i = "xtx_id ctx" and ?oc = "if \<exists>g \<in> set step. has_bid g \<and> \<not> is_confirmed g then Revert else Commit"
  define am1 where "am1 = fold (\<lambda>f am. case bond_id_of env ?i f of
      Some k \<Rightarrow> snd (finalize_infallible (am_cfg env) k (bond_outcome f) am) | None \<Rightarrow> am) step (account_manager s)"
  have am': "account_manager s' = fold (\<lambda>k am. snd (finalize_infallible (am_cfg env) k ?oc am))
      (map (sfx_id_of env ?i) step) am1"
  proof -
    obtain b1 where "fold (finalize_bond env ?i) step (True, Commit, account_manager s) = (b1, ?oc, am1)"
      using finalize_bonds_fold [of env ?i step True Commit "account_manager s"] by (auto simp: am1_def)
    moreover obtain b2 where "fold (finalize_reward env ?i ?oc) step (b1, am1) =
        (b2, fold (\<lambda>k am. snd (finalize_infallible (am_cfg env) k ?oc am)) (map (sfx_id_of env ?i) step) am1)"
      using finalize_rewards_fold [OF assms(3), of env ?i ?oc b1 am1] by blast
    ultimately show ?thesis
      using assms(1,2) by (auto simp: su_finalize_def read_single)
  qed
  have charges: "charge_at am1 (sfx_id_of env ?i g) = charge_at (account_manager s) (sfx_id_of env ?i g)"
    if "g \<in> set step" for g
    unfolding am1_def using assms(5) that by (intro finalize_bonds_frame) blast
  have settle: "\<forall>k \<in> set (map (sfx_id_of env ?i) step). \<forall>c. charge_at am1 k = Some c \<longrightarrow> settles c"
    using assms(4) by (fastforce simp: charges)
  obtain c where c: "charge_at am1 (sfx_id_of env ?i f) = Some c"
    using assms(4,6) charges by force
  have "get_settlement am1 k = get_settlement (account_manager s) k" for k
    by (simp add: am1_def finalize_bonds_settlements)
  then show ?thesis
    using assms(6) c charges [OF assms(6)]
    unfolding am' finalize_keys_charges [OF settle] finalize_keys_settlement [OF settle]
    by auto
qed

theorem finalize_all_or_nothing_witness:
  "\<exists>b s'. su_finalize sample_env confirmed_ctx ready_circuit = Ok (b, s')
     \<and> charge_at (account_manager s') sample_sid = None
     \<and> get_settlement (account_manager s') sample_sid
       = Some (settlement_of (plain_env sample_escrow) (reward_charge (Some sample_bidder)) Commit)"
proof -
  have full: "full_side_effects confirmed_ctx = [[ready_fsx\<lparr>confirmed := Some sample_confirmation\<rparr>]]"
    by (simp add: confirmed_ctx_def)
  obtain b s' where "su_finalize sample_env confirmed_ctx ready_circuit = Ok (b, s')"
    using su_finalize_total [OF full] by blast
  moreover have "sfx_id_of sample_env sample_xid (ready_fsx\<lparr>confirmed := Some sample_confirmation\<rparr>) = sample_sid"
    by (simp add: sample_sid_def calc_sfx_id_def ready_fsx_def generate_id_def)
  moreover have "charge_at (account_manager ready_circuit) sample_sid = Some (reward_charge (Some sample_bidder))"
    by (simp add: ready_circuit_def smap_get_def)
  ultimately show ?thesis
    using finalize_all_or_nothing [OF _ full, of sample_env ready_circuit b s'
        "ready_fsx\<lparr>confirmed := Some sample_confirmation\<rparr>"]
    by (simp add: confirmed_ctx_def ready_fsx_def settles_def reward_charge_def bond_id_of_def
        bid_generate_id_def sample_bid_def sample_simps is_confirmed_def is_local_not_remote)
qed



section \<open>Killing\<close>

lemma kill_step_fold:
  "snd (fold (kill_one env i) step (b, am)) =
     fold (\<lambda>k am. snd (cancel_deposit (am_cfg env) k am)) (step_charges env i step) am"
proof (induction step arbitrary: b am)
  case Nil
  then show ?case by (simp add: step_charges_def)
next
  case (Cons f step)
  then show ?case
    by (cases "best_bid f")
      (simp_all add: kill_one_def step_charges_def bond_id_of_def case_prod_beta Let_def)
qed

text \<open>\<open>SquareUp::kill\<close> always returns and releases every charge of the transaction's step,
  the rewards of its side effects and the bonds of their best bids, and no other charge.\<close>

theorem kill_releases:
  assumes "full_side_effects ctx = [step]"
  shows "\<exists>killed s'. su_kill env ctx s = Ok (killed, s')
    \<and> (\<forall>k. charge_at (account_manager s') k =
         (if k \<in> set (step_charges env (xtx_id ctx) step) then None else charge_at (account_manager s) k))"
proof -
  obtain killed am where k: "fold (kill_one env (xtx_id ctx)) step (False, account_manager s) = (killed, am)"
    by (cases "fold (kill_one env (xtx_id ctx)) step (False, account_manager s)")
  then have "am = fold (\<lambda>k am. snd (cancel_deposit (am_cfg env) k am)) (step_charges env (xtx_id ctx) step)
      (account_manager s)"
    using kill_step_fold [of env "xtx_id ctx" step False "account_manager s"] by simp
  then show ?thesis
    using assms k by (simp add: su_kill_def read_single am.cancel_all)
qed

theorem kill_releases_witness:
  "\<exists>killed s'. su_kill sample_env confirmed_ctx ready_circuit = Ok (killed, s')
     \<and> charge_at (account_manager s') sample_sid = None \<and> charge_at (account_manager s') sample_bid_id = None"
proof -
  have "full_side_effects confirmed_ctx = [[ready_fsx\<lparr>confirmed := Some sample_confirmation\<rparr>]]"
    by (simp add: confirmed_ctx_def)
  from kill_releases [OF this, of sample_env ready_circuit]
  show ?thesis
    by (auto simp: confirmed_ctx_def step_charges_def bond_id_of_def ready_fsx_def calc_sfx_id_def
      generate_id_def bid_generate_id_def sample_bid_def sample_sid_def sample_bid_id_def)
qed

end
