(* ===== verification/Circuit_Lifecycle.thy ===== *)
theory Circuit_Lifecycle
  imports Circuit_Settlement
begin

text \<open>
  Properties of the circuit as a whole: the invariant and the totality of the hooks in
  reachable states, and how a transaction leaves bidding and is committed.
\<close>

section \<open>Definitions\<close>

text \<open>The sample transaction with a kill signal waiting for it.\<close>

definition signalled_circuit :: "(AccountId \<Rightarrow> Balance) circuit_state" where
  "signalled_circuit = bid_circuit\<lparr>SignalQueue :=
     [(sample_payee, \<lparr>signal_step = 0, signal_kind = Complete, execution_id = sample_xid\<rparr>)]\<rparr>"

text \<open>What is left of a transaction that has been killed.\<close>

definition released ::
  "'x circuit_env \<Rightarrow> H256 \<Rightarrow> FullSideEffect list \<Rightarrow> 'x circuit_state \<Rightarrow> 'x circuit_state \<Rightarrow> bool" where
  "released env i step s s' \<longleftrightarrow>
     absent s' i \<and> smap_get (PendingXtxTimeoutsMap s') i = None
     \<and> (\<forall>f \<in> set step. smap_get (SFX2XTXLinksMap s') (sfx_id_of env i f) = None)
     \<and> (\<forall>k. charge_at (account_manager s') k =
          (if k \<in> set (step_charges env i step) then None else charge_at (account_manager s) k))"

section \<open>Reachable states\<close>

lemma empty_initial [simp]: "circuit_initial empty_circuit"
  by (simp add: circuit_initial_def empty_circuit_def)

lemma sample_path:
  "(circuit_step sample_env)\<^sup>*\<^sup>* empty_circuit submitted_circuit"
  "(circuit_step sample_env)\<^sup>*\<^sup>* empty_circuit bid_circuit"
  "(circuit_step sample_env)\<^sup>*\<^sup>* empty_circuit ready_circuit"
  "(circuit_step sample_env)\<^sup>*\<^sup>* empty_circuit finished_circuit"
  "(circuit_step sample_env)\<^sup>*\<^sup>* empty_circuit committed_circuit"
proof -
  have "circuit_step sample_env empty_circuit submitted_circuit"
    by (rule circuit_step.operation [OF sample_submit]) (simp add: fresh_submission_def empty_circuit_def smap_get_def)
  then show 1: "(circuit_step sample_env)\<^sup>*\<^sup>* empty_circuit submitted_circuit" by simp
  have "circuit_step sample_env submitted_circuit bid_circuit"
    by (rule circuit_step.operation [OF sample_bid_call]) (simp add: fresh_submission_def)
  with 1 show 2: "(circuit_step sample_env)\<^sup>*\<^sup>* empty_circuit bid_circuit" by simp
  have "circuit_step sample_env bid_circuit ready_circuit"
    by (rule circuit_step.operation [OF sample_ready]) (simp add: fresh_submission_def)
  with 2 show 3: "(circuit_step sample_env)\<^sup>*\<^sup>* empty_circuit ready_circuit" by simp
  have "circuit_step sample_env ready_circuit finished_circuit"
    by (rule circuit_step.operation [OF sample_confirm]) (simp add: fresh_submission_def)
  with 3 show 4: "(circuit_step sample_env)\<^sup>*\<^sup>* empty_circuit finished_circuit" by simp
  have "circuit_step sample_env finished_circuit committed_circuit"
    by (rule circuit_step.operation [OF sample_commit]) (simp add: fresh_submission_def)
  with 4 show "(circuit_step sample_env)\<^sup>*\<^sup>* empty_circuit committed_circuit" by simp
qed





section \<open>Signals\<close>

lemma determined_range:
  "determine_xtx_status [step] \<in> {Reserved, PendingBidding, InBidding, Ready, PendingExecution, FinishedAllSteps}"
  by (cases "step = []") (auto simp: determine_xtx_status_single determine_step_status_eq step_ok_determines(1) step_ok_def)

lemma kill_panics:
  assumes "stored_with s i x step" "PendingBidding < determine_xtx_status [step]"
  shows "machine_kill env i IntentionalKill no_post_updates s = Panic"
proof -
  obtain ctx where ctx: "load_xtx s i = Ok ctx" "xtx_id ctx = i" "xtx ctx = x" "full_side_effects ctx = [step]"
    using stored_load [OF assms(1)] .
  have "\<not> is_reverted (status x)" "\<not> is_killed (status x)"
    using assms(1) stored_not_closed by (auto simp: stored_with_def)
  moreover have "check_transition (status x) (determine_xtx_status [step]) (Some (Killed IntentionalKill))
      = forced_disallowed"
    using assms(2) determined_range [of step] by (auto simp: check_transition_def)
  ultimately have "update_status ctx (Some (Killed IntentionalKill)) = Err UpdateStateTransitionDisallowed"
    using ctx(3,4)
    by (cases "status x") (auto simp: update_status_def forced_disallowed_def is_reverted_def is_killed_def)
  then show ?thesis
    using ctx by (simp add: machine_kill_def compile_infallible_def compile_xtx_def read_single
        run_precompile_result_def)
qed

text \<open>C10: a signal that reaches the front of the queue while its transaction has received a bid makes
  the hook panic: \<open>process_signal_queue\<close> kills through \<open>compile_infallible\<close>, and the
  transition to \<open>Killed(IntentionalKill)\<close> is refused as soon as the determined status is beyond
  \<open>PendingBidding\<close>.\<close>

theorem signal_after_bid_panics:
  assumes "SignalQueue s = (a, g) # q" "stored_with s (execution_id g) x step"
    and "PendingBidding < determine_xtx_status [step]" "0 < mw"
  shows "process_signal_queue env n k mw s = Panic"
proof -
  obtain ctx where "load_xtx s (execution_id g) = Ok ctx" "xtx_id ctx = execution_id g"
    using stored_load [OF assms(2)] .
  then show ?thesis
    using assms(1,4) kill_panics [OF assms(2,3)]
    by (simp add: process_signal_queue_def handle_front_signal_def Let_def)
qed

theorem signal_after_bid_panics_witness:
  "process_signal_queue sample_env 110 1 1000 signalled_circuit = Panic"
proof -
  let ?step = "[submitted_fsx\<lparr>best_bid := Some sample_bid\<rparr>]"
  have "stored_with signalled_circuit sample_xid (sample_signal InBidding) ?step"
    by (simp add: stored_with_def signalled_circuit_def bid_circuit_def submitted_circuit_def smap_get_def
        step_ok_def sample_signal_def bidding_def)
  moreover have "PendingBidding < determine_xtx_status [?step]"
    by (simp add: determine_xtx_status_single determine_step_status_eq has_bid_def status_order)
  ultimately show ?thesis
    using signal_after_bid_panics [of signalled_circuit sample_payee
        "\<lparr>signal_step = 0, signal_kind = Complete, execution_id = sample_xid\<rparr>" "[]"
        "sample_signal InBidding" ?step 1000 sample_env 110 1]
    by (simp add: signalled_circuit_def)
qed

section \<open>Closing the bidding\<close>

lemma compile_runs:
  assumes "full_side_effects ctx = [step]"
    and "pre step (local_state ctx) (steps_cnt (xtx ctx)) (status (xtx ctx)) (requester (xtx ctx)) s = Ok (pr, fsx)"
    and "run_precompile_result env pr fsx ctx s = Ok (enf, ctx1, s1)"
    and "\<not> is_reverted (status (xtx ctx1))" "\<not> is_killed (status (xtx ctx1))"
    and "check_transition (status (xtx ctx1)) (determine_xtx_status (full_side_effects ctx1)) enf = Ok new"
    and "post (status (xtx ctx1), new) (with_status ctx1 new) s1 = Ok s2"
  shows "compile_xtx env ctx pre post s =
    bind_res (apply_xtx env (with_status ctx1 new) (status (xtx ctx1), new) s2)
      (\<lambda>(b, s3). Ok (b, with_status ctx1 new, s3))"
proof -
  have "update_status ctx1 enf = Ok ((status (xtx ctx1), new), with_status ctx1 new)"
    using assms(4-6) by (simp add: update_status_Ok)
  then show ?thesis using assms(1-3,7) by (simp add: compile_xtx_def read_single)
qed

lemma emit_status_update_events: "\<exists>es. emit_status_update i x f s = s\<lparr>circuit_events := es\<rparr>"
  by (rule exI [of _ "circuit_events (emit_status_update i x f s)"])
    (simp add: emit_status_update_def Let_def deposit_event_def split: option.split)

lemma fold_smap_remove:
  "smap_get (fold smap_remove ks m) (k :: H256) = (if k \<in> set ks then None else smap_get m k)"
  by (induction ks arbitrary: m) auto

lemma apply_kill_released:
  assumes "full_side_effects ctx = [step]" "bidding old"
  shows "\<exists>s'. apply_xtx env ctx (old, Killed c) s = Ok (True, s') \<and> released env (xtx_id ctx) step s s'"
proof -
  let ?s = "apply_kill env ctx s"
  obtain killed am where k: "fold (kill_one env (xtx_id ctx)) step (False, account_manager ?s) = (killed, am)"
    by (cases "fold (kill_one env (xtx_id ctx)) step (False, account_manager ?s)")
  then have am: "am = fold (\<lambda>k am. snd (cancel_deposit (am_cfg env) k am)) (step_charges env (xtx_id ctx) step)
      (account_manager s)"
    using kill_step_fold [of env "xtx_id ctx" step False "account_manager ?s"] by (simp add: writes)
  have "su_kill env ctx ?s = Ok (killed, ?s\<lparr>account_manager := am\<rparr>)"
    using k by (simp add: su_kill_def read_single [OF assms(1)])
  then have "apply_xtx env ctx (old, Killed c) s = Ok (True, ?s\<lparr>account_manager := am\<rparr>)"
    using assms(2) by (auto simp: apply_xtx_def bidding_def is_killed_def)
  moreover have "released env (xtx_id ctx) step s (?s\<lparr>account_manager := am\<rparr>)"
    by (simp add: released_def am am.cancel_all absent_def writes fold_smap_remove all_fsx_ids_def assms(1))
  ultimately show ?thesis by blast
qed

lemma released_events: "released env i step (s\<lparr>circuit_events := es\<rparr>) s' = released env i step s s'"
  by (simp add: released_def)

lemma tick_one_releases:
  assumes "stored_with s i x step" "bidding (status x)"
    and "status x \<noteq> InBidding \<or> (\<exists>f \<in> set step. \<not> has_bid f)"
  shows "\<exists>w s'. process_tick_one env i s = Ok (w, s') \<and> released env i step s s'"
proof -
  obtain ctx where ctx: "load_xtx s i = Ok ctx" "xtx_id ctx = i" "xtx ctx = x" "full_side_effects ctx = [step]"
    using stored_load [OF assms(1)] .
  have ok: "step_ok (status x) step" using assms(1) by (simp add: stored_with_def)
  note nc = stored_not_closed [OF ok]
  obtain es where es: "emit_status_update i (Some (xtx (with_status ctx (Killed Timeout)))) None s = s\<lparr>circuit_events := es\<rparr>"
    using emit_status_update_events by blast
  have pre: "tick_one_precompile step ls cnt (status x) r = TryKill Timeout" for ls cnt r
    using assms(3) by (auto simp: tick_one_precompile_def list_all_iff has_bid_def)
  have "compile_xtx env ctx (\<lambda>fsx ls cnt st req _. Ok (tick_one_precompile fsx ls cnt st req, fsx)) status_post_update s
    = bind_res (apply_xtx env (with_status ctx (Killed Timeout)) (status (xtx ctx), Killed Timeout) (s\<lparr>circuit_events := es\<rparr>))
      (\<lambda>(b, s3). Ok (b, with_status ctx (Killed Timeout), s3))"
    using assms(3) kill_transition [OF ok assms(2)] nc ctx es
    by (intro compile_runs [where step = step and pr = "TryKill Timeout" and fsx = step and enf = "Some (Killed Timeout)" and ?s1.0 = s])
      (simp_all add: pre run_precompile_result_def status_post_update_def)
  moreover obtain s' where "apply_xtx env (with_status ctx (Killed Timeout)) (status x, Killed Timeout)
      (s\<lparr>circuit_events := es\<rparr>) = Ok (True, s')" "released env i step s s'"
    using apply_kill_released [of "with_status ctx (Killed Timeout)" step "status x" env Timeout "s\<lparr>circuit_events := es\<rparr>"]
      assms(2) ctx by (auto simp: released_events)
  ultimately show ?thesis
    using ctx by (simp add: process_tick_one_def compile_infallible_def)
qed

text \<open>C9: a transaction whose bidding time has passed without a bid on every side effect is killed by
  \<open>process_tick_one\<close>: nothing of it stays in storage, the links of its side effects and its
  timeouts are gone, all its charges are released, and no other charge changes.\<close>

theorem tick_kills_unbid:
  assumes "stored_with s i x step" "bidding (status x)"
    and "status x \<noteq> InBidding \<or> (\<exists>f \<in> set step. \<not> has_bid f)"
  shows "\<exists>w s'. process_tick_one env i s = Ok (w, s') \<and> released env i step s s'"
  using assms by (rule tick_one_releases)

theorem tick_kills_unbid_witness:
  "\<exists>w s'. process_tick_one sample_env sample_xid submitted_circuit = Ok (w, s')
     \<and> released sample_env sample_xid [submitted_fsx] submitted_circuit s'"
  by (rule tick_kills_unbid [of _ _ "sample_signal PendingBidding"])
    (simp_all add: stored_with_def submitted_circuit_def smap_get_def step_ok_def sample_signal_def
      bidding_def has_bid_def)

lemma validate_fsx_all:
  assumes "\<forall>f \<in> set fs. validate_fsx_one st f = Ok ()"
  shows "fold_res (\<lambda>f _. validate_fsx_one st f) fs () = Ok ()"
  using assms by (induction fs) simp_all

lemma validate_bound:
  assumes "has_bid f"
  shows "validate_fsx_one Ready (bound f) = Ok ()"
proof -
  from assms obtain bid where "best_bid f = Some bid" by (auto simp: has_bid_def)
  then show ?thesis by (simp add: validate_fsx_one_def bound_def ensure_def status_order)
qed

text \<open>C8: a transaction in bidding with a bid and a charge behind every side effect becomes \<open>Ready\<close> when
  its bidding time has passed: it stays stored with every side effect bound to its best bidder, it
  has no bidding timeout any more, its record passes the checks of \<open>validate_fsx_against_xtx\<close>,
  and the best bidders are the recipients of the rewards.\<close>

theorem tick_readies_bid:
  assumes "stored_with s i x step" "status x = InBidding"
    and "\<forall>f \<in> set step. has_bid f \<and> charge_at (account_manager s) (sfx_id_of env i f) \<noteq> None"
    and "distinct (map (sfx_id_of env i) step)"
  shows "\<exists>w s' ctx. process_tick_one env i s = Ok (w, s') \<and> load_xtx s' i = Ok ctx
    \<and> status (xtx ctx) = Ready \<and> full_side_effects ctx = [map bound step]
    \<and> validate_fsx_against_xtx ctx = Ok () \<and> smap_get (PendingXtxBidsTimeoutsMap s') i = None
    \<and> (\<forall>f \<in> set step. map_option recipient (charge_at (account_manager s') (sfx_id_of env i f))
         = Some (map_option executor (best_bid f)))"
proof -
  obtain ctx where ctx: "load_xtx s i = Ok ctx" "xtx_id ctx = i" "xtx ctx = x" "full_side_effects ctx = [step]"
    using stored_load [OF assms(1)] .
  let ?ctx = "with_status (ctx\<lparr>full_side_effects := [map bound step]\<rparr>) Ready"
  obtain am where am: "bind_step env i step (account_manager s) = (step \<noteq> [], map bound step, am)"
    "\<forall>f \<in> set step. charge_at am (sfx_id_of env i f) =
       map_option (\<lambda>c. c\<lparr>recipient := map_option executor (best_bid f)\<rparr>) (charge_at (account_manager s) (sfx_id_of env i f))"
    using bind_step_bound [OF assms(3,4)] by blast
  let ?s1 = "s\<lparr>account_manager := am\<rparr>"
  obtain es where es: "emit_status_update i (Some (xtx ?ctx)) None ?s1 = ?s1\<lparr>circuit_events := es\<rparr>"
    using emit_status_update_events by blast
  let ?s' = "(put_xtx ?ctx (put_fsx ?ctx (?s1\<lparr>circuit_events := es\<rparr>)))
      \<lparr>PendingXtxBidsTimeoutsMap := smap_remove i (PendingXtxBidsTimeoutsMap s)\<rparr>"
  have bind: "bind_bidders env ctx s = Ok (step \<noteq> [], ctx\<lparr>full_side_effects := [map bound step]\<rparr>, ?s1)"
    using am(1) ctx(2,4) by (simp add: bind_bidders_def read_single update_single)
  have pre: "tick_one_precompile step ls cnt InBidding r = ForceUpdateStatus Ready" for ls cnt r
    using assms(3) by (auto simp: tick_one_precompile_def list_all_iff has_bid_def)
  have "compile_xtx env ctx (\<lambda>fsx ls cnt st req _. Ok (tick_one_precompile fsx ls cnt st req, fsx)) status_post_update s
    = bind_res (apply_xtx env ?ctx (InBidding, Ready) (?s1\<lparr>circuit_events := es\<rparr>)) (\<lambda>(b, s3). Ok (b, ?ctx, s3))"
    using assms(2) ctx es
      compile_runs [where step = step and pr = "ForceUpdateStatus Ready" and fsx = step and enf = "Some Ready"
        and ?s1.0 = ?s1 and ctx = ctx and ?ctx1.0 = "ctx\<lparr>full_side_effects := [map bound step]\<rparr>" and new = Ready
        and pre = "\<lambda>fsx ls cnt st req _. Ok (tick_one_precompile fsx ls cnt st req, fsx)" and s = s and env = env
        and post = status_post_update and ?s2.0 = "?s1\<lparr>circuit_events := es\<rparr>"]
    by (simp add: pre bind run_precompile_result_def status_post_update_def check_transition_def
        is_reverted_def is_killed_def)
  then have tick: "process_tick_one env i s = Ok (db_reads_writes env 1 4, ?s')"
    using ctx by (simp add: process_tick_one_def compile_infallible_def apply_xtx_def)
  have valid: "validate_fsx_against_xtx ?ctx = Ok ()"
    using assms(3) validate_bound by (simp add: validate_fsx_against_xtx_def validate_fsx_all)
  have "load_xtx ?s' i = Ok ?ctx"
    using ctx(1,2) by (auto simp: writes load_xtx_Ok)
  then show ?thesis
    using tick valid am(2) assms(3)
    by (intro exI [of _ "db_reads_writes env 1 4"] exI [of _ ?s'] exI [of _ ?ctx]) (auto simp: writes)
qed

theorem tick_readies_bid_witness:
  "\<exists>w s' ctx. process_tick_one sample_env sample_xid bid_circuit = Ok (w, s') \<and> load_xtx s' sample_xid = Ok ctx
     \<and> status (xtx ctx) = Ready \<and> full_side_effects ctx = [[ready_fsx]]
     \<and> map_option recipient (charge_at (account_manager s') sample_sid) = Some (Some sample_bidder)"
proof -
  let ?step = "[submitted_fsx\<lparr>best_bid := Some sample_bid\<rparr>]"
  have st: "stored_with bid_circuit sample_xid (sample_signal InBidding) ?step"
    by (simp add: stored_with_def bid_circuit_def submitted_circuit_def smap_get_def
        step_ok_def sample_signal_def bidding_def)
  show ?thesis
    using tick_readies_bid [OF st, of sample_env]
    by (auto simp: sample_signal_def has_bid_def bid_circuit_def smap_get_def bound_def ready_fsx_def sample_bid_def)
qed

lemma tick_two_drops:
  assumes "stored_with s i x step" "status x = FinishedAllSteps"
  shows "\<exists>w c es. process_tick_two env i s = Ok (w, drop_xtx c (s\<lparr>circuit_events := es\<rparr>)) \<and> xtx_id c = i"
proof -
  obtain ctx where ctx: "load_xtx s i = Ok ctx" "xtx_id ctx = i" "xtx ctx = x" "full_side_effects ctx = [step]"
    using stored_load [OF assms(1)] .
  let ?ctx = "with_status ctx Committed"
  have ok: "step_ok FinishedAllSteps step" using assms by (simp add: stored_with_def)
  obtain es where es: "emit_status_update i (Some (xtx ?ctx)) None s = s\<lparr>circuit_events := es\<rparr>"
    using emit_status_update_events by blast
  have "compile_xtx env ctx (\<lambda>fsx ls cnt st req _. Ok (tick_two_precompile fsx ls cnt st req, fsx)) status_post_update s
    = bind_res (apply_xtx env ?ctx (FinishedAllSteps, Committed) (s\<lparr>circuit_events := es\<rparr>)) (\<lambda>(b, s3). Ok (b, ?ctx, s3))"
    using assms(2) ctx es step_ok_determines(3) [OF ok]
      compile_runs [where step = step and pr = "ForceUpdateStatus Committed" and fsx = step and enf = "Some Committed"
        and ?s1.0 = s and ctx = ctx and ?ctx1.0 = ctx and new = Committed
        and pre = "\<lambda>fsx ls cnt st req _. Ok (tick_two_precompile fsx ls cnt st req, fsx)" and s = s and env = env
        and post = status_post_update and ?s2.0 = "s\<lparr>circuit_events := es\<rparr>"]
    by (simp add: tick_two_precompile_def run_precompile_result_def status_post_update_def check_transition_def
        is_reverted_def is_killed_def)
  then have "process_tick_two env i s = Ok (db_reads_writes env 1 4, drop_xtx ?ctx (s\<lparr>circuit_events := es\<rparr>))"
    using ctx by (simp add: process_tick_two_def compile_infallible_def apply_xtx_def is_killed_def executing_def)
  then show ?thesis using ctx(2) by (metis with_status_simps(1))
qed

text \<open>\<open>process_tick_two\<close> commits a transaction that has finished all steps: its maps are cleared and no
  charge, settlement or balance changes any more.\<close>

theorem tick_commits_finished:
  assumes "stored_with s i x step" "status x = FinishedAllSteps"
  shows "\<exists>w s'. process_tick_two env i s = Ok (w, s') \<and> load_xtx s' i = Err XtxDoesNotExist
    \<and> account_manager s' = account_manager s \<and> (\<forall>j. j \<noteq> i \<longrightarrow> same_at j s s')"
  using tick_two_drops [OF assms, of env] by (auto simp: drop_xtx_def same_at_def load_xtx_def)

theorem tick_commits_finished_witness:
  "\<exists>w s'. process_tick_two sample_env sample_xid finished_circuit = Ok (w, s')
     \<and> load_xtx s' sample_xid = Err XtxDoesNotExist"
proof -
  have "stored_with finished_circuit sample_xid ((sample_signal FinishedAllSteps)\<lparr>steps_cnt := (1, 1)\<rparr>)
      [ready_fsx\<lparr>confirmed := Some sample_confirmation\<rparr>]"
    by (simp add: stored_with_def finished_circuit_def ready_circuit_def bid_circuit_def submitted_circuit_def
        smap_get_def step_ok_def sample_signal_def bidding_def ready_fsx_def has_bid_def has_executor_def is_confirmed_def)
  from tick_commits_finished [OF this, of sample_env] show ?thesis by (auto simp: sample_signal_def)
qed

end
