(* ===== verification/Circuit_Orders.thy ===== *)
theory Circuit_Orders
  imports Circuit_Lifecycle
begin

text \<open>
  The calls of requesters and executors before execution: what a submitted order leaves in
  storage, which bids are accepted, who may cancel, and that the bidding ends.
\<close>

section \<open>Submitting\<close>

lemma sorted_indices: "n \<le> 2 ^ 32 \<Longrightarrow> sorted (map of_nat [0..<n] :: u32 list)"
  by (auto simp: sorted_iff_nth_mono_less word_le_nat_alt unat_of_nat take_bit_eq_mod)

lemma validate_one_Ok:
  assumes "validate_one env s (n, sfx) = Ok f"
  shows "input f = sfx \<and> index f = of_nat n \<and> best_bid f = None \<and> confirmed f = None"
proof -
  from assms obtain h where "(case h of
      Height b \<Rightarrow> Ok \<lparr>input = sfx, confirmed = None,
        security_lvl = gateway_max_security_lvl env (ext s) (target sfx),
        submission_target_height = b, best_bid = None, index = of_nat n\<rparr>
    | NotActive \<Rightarrow> Err TargetAppearsNotToBeActiveAndDoesntHaveFinalizedHeight) = Ok f"
    by (auto simp: validate_one_def res_simps)
  then show ?thesis by (cases h) auto
qed

lemma validate_Ok:
  assumes "validate env sfxs ctx s = Ok ctx'" "sfxs \<noteq> []" "length sfxs \<le> 2 ^ 32"
  shows "\<exists>step. ctx' = ctx\<lparr>full_side_effects := [step]\<rparr> \<and> map input step = sfxs
    \<and> (\<forall>f \<in> set step. best_bid f = None \<and> confirmed f = None)"
proof -
  from assms(1,2) obtain fsx where m: "map_res (validate_one env s) (enumerate 0 sfxs) = Ok fsx"
    and ctx': "ctx' = ctx\<lparr>full_side_effects := [sort_key index fsx]\<rparr>"
    by (auto simp: validate_def res_simps)
  have len: "length fsx = length sfxs" using map_res_length [OF m] by simp
  have one: "input (fsx ! n) = sfxs ! n \<and> index (fsx ! n) = of_nat n \<and> best_bid (fsx ! n) = None
      \<and> confirmed (fsx ! n) = None" if "n < length sfxs" for n
    using validate_one_Ok [of env s n] map_res_nth [OF m, of n] that by (simp add: nth_enumerate_eq)
  have "map index fsx = map of_nat [0..<length sfxs]"
    by (rule nth_equalityI) (simp_all add: len one)
  then have "sort_key index fsx = fsx"
    using sorted_indices [OF assms(3)] by (simp add: sort_key_id_if_sorted)
  moreover have "map input fsx = sfxs" by (rule nth_equalityI) (simp_all add: len one)
  moreover have "\<forall>f \<in> set fsx. best_bid f = None \<and> confirmed f = None"
    using one len by (auto simp: in_set_conv_nth)
  ultimately show ?thesis using ctx' by auto
qed

lemma deposit_fold_charges:
  assumes "fold_res (deposit_one env) reqs am = Ok am'" "distinct (map fst reqs)"
  shows "(\<forall>(k, c, t) \<in> set reqs. charge_at am' k = Some c)
    \<and> (\<forall>k. k \<notin> fst ` set reqs \<longrightarrow> charge_at am' k = charge_at am k)"
  using assms
proof (induction reqs arbitrary: am)
  case Nil
  then show ?case by simp
next
  case (Cons r reqs)
  obtain k c t where r: "r = (k, c, t)" by (cases r)
  from Cons.prems(1) obtain am1 where 1: "deposit_one env (k, c, t) am = Ok am1"
    "fold_res (deposit_one env) reqs am1 = Ok am'" by (auto simp: r res_simps)
  have "charge_at am1 j = (if j = k then Some c else charge_at am j)" for j
    using 1(1) by (auto simp: deposit_one_Ok)
  then show ?case using Cons.IH [OF 1(2)] Cons.prems(2) by (auto simp: r)
qed

lemma deposit_batch_charges:
  assumes "deposit_batch env batch am = Ok am'" "distinct (map fst batch)" "(k, c) \<in> set batch"
  shows "charge_at am k = None \<and> charge_at am' k = Some c"
proof -
  from assms(1) obtain reqs where
    v: "map_res (\<lambda>(i, c). bind_res (validate_deposit am i c) (\<lambda>total. Ok (i, c, total))) batch = Ok reqs"
    and f: "fold_res (deposit_one env) reqs am = Ok am'"
    by (auto simp: deposit_batch_def res_simps)
  from assms(3) obtain n where n: "n < length batch" "batch ! n = (k, c)" by (auto simp: in_set_conv_nth)
  have one: "\<exists>t. reqs ! m = (fst (batch ! m), snd (batch ! m), t) \<and> charge_at am (fst (batch ! m)) = None"
    if "m < length batch" for m
    using map_res_nth [OF v that]
    by (auto simp: res_simps validate_deposit_def no_charge_or_fail_def case_prod_beta split: option.splits)
      metis
  have len: "length reqs = length batch" using map_res_length [OF v] .
  have "map fst reqs = map fst batch"
    using one by (intro nth_equalityI) (fastforce simp: len)+
  then have "\<forall>(k, c, t) \<in> set reqs. charge_at am' k = Some c"
    using deposit_fold_charges [OF f] assms(2) by simp
  moreover have "\<exists>t. (k, c, t) \<in> set reqs" using one [OF n(1)] n len by (auto simp: in_set_conv_nth)
  ultimately show ?thesis using one [OF n(1)] n(2) by auto
qed

lemma try_request_charges:
  assumes "try_request env ctx s = Ok s'" "full_side_effects ctx = [step]"
    "distinct (map (sfx_id_of env (xtx_id ctx)) step)" "f \<in> set step"
  shows "charge_at (account_manager s) (sfx_id_of env (xtx_id ctx) f) = None
    \<and> charge_at (account_manager s') (sfx_id_of env (xtx_id ctx) f) = Some (request_charge (requester (xtx ctx)) f)"
proof -
  let ?charges = "map (\<lambda>f. (sfx_id_of env (xtx_id ctx) f, request_charge (requester (xtx ctx)) f)) step"
  from assms(1) obtain am where am: "deposit_batch (am_cfg env) ?charges (account_manager s) = Ok am"
    and s': "s' = s\<lparr>account_manager := am\<rparr>"
    by (auto simp: try_request_def read_single [OF assms(2)] Let_def res_simps split: if_splits)
  from deposit_batch_charges [OF am, of "sfx_id_of env (xtx_id ctx) f" "request_charge (requester (xtx ctx)) f"]
  show ?thesis using assms(3,4) by (auto simp: s' comp_def)
qed

lemma fold_smap_insert:
  "smap_get (fold (\<lambda>k. smap_insert k v) ks m) (k :: H256) = (if k \<in> set ks then Some v else smap_get m k)"
  by (induction ks arbitrary: m) auto

lemma emit_sfx_frame [simp]:
  "account_manager (emit_sfx env i a sfx s) = account_manager s" "block_number (emit_sfx env i a sfx s) = block_number s"
  by (simp_all add: emit_sfx_def deposit_event_def)



section \<open>Bidding\<close>

lemma adjust_bid_simps [simp]:
  "amount (adjust_bid env x r i k step f bid) = amount bid"
  "executor (adjust_bid env x r i k step f bid) = executor bid"
  by (simp_all add: adjust_bid_def)

lemma new_none_optimistic_simps [simp]:
  "amount (new_none_optimistic v ins b r a) = v" "executor (new_none_optimistic v ins b r a) = b"
  by (simp_all add: new_none_optimistic_def)

lemma deposit_charge: "deposit env i c am = Ok am' \<Longrightarrow> charge_at am' i = Some c"
  by (simp add: am.dep_lookup)

lemma su_try_bid_charge:
  assumes "su_try_bid env k r (executor bid) bid current am = Ok am'"
  shows "\<exists>c t. charge_at am' (bid_generate_id (hashing env) bid k) = Some c \<and> payee c = executor bid
    \<and> checked_add (case reserved_bond bid of Some b \<Rightarrow> b | None \<Rightarrow> 0) (bid_insurance bid) = Some t
    \<and> offered_reward c = t \<and> (\<forall>best. current = Some best \<longrightarrow> amount bid < amount best)"
proof (cases current)
  case None
  then show ?thesis
    using assms by (auto simp: su_try_bid_def res_simps dest!: deposit_charge)
next
  case (Some best)
  with assms obtain t where t:
    "checked_add (case reserved_bond bid of Some b \<Rightarrow> b | None \<Rightarrow> 0) (bid_insurance bid) = Some t"
    "amount bid < amount best"
    "transfer_deposit (am_cfg env) (bid_generate_id (hashing env) best k) (bid_generate_id (hashing env) bid k)
       (Some t) (Some (executor bid)) None am = Ok am'"
    by (auto simp: su_try_bid_def res_simps not_le split: if_splits)
  then obtain c am1 where "deposit (am_cfg env) (bid_generate_id (hashing env) bid k)
      (c\<lparr>offered_reward := t, payee := executor bid\<rparr>) am1 = Ok am'"
    by (auto simp: transfer_deposit_def Let_def split: option.splits prod.splits bool.splits)
  from am.dep_lookup [OF this] t Some show ?thesis by auto
qed

lemma try_bid_Ok:
  assumes "try_bid env step v b r k i s = Ok (step', s1)"
  shows "\<exists>f bid am c. f \<in> set step \<and> sfx_id_of env i f = k \<and> confirmed f = None
    \<and> existential_deposit env \<le> v \<and> v \<le> max_reward (input f)
    \<and> (\<forall>best. best_bid f = Some best \<longrightarrow> v < amount best)
    \<and> amount bid = v \<and> executor bid = b \<and> s1 = s\<lparr>account_manager := am\<rparr>
    \<and> step' = update_first (\<lambda>f. sfx_id_of env i f = k) (\<lambda>f. f\<lparr>best_bid := Some bid\<rparr>) step
    \<and> charge_at am (bid_generate_id (hashing env) bid k) = Some c \<and> payee c = b"
proof -
  let ?bid = "\<lambda>(ctx :: LocalXtxCtx) f. adjust_bid env (ext s) (requester (xtx ctx)) i k step f
        (new_none_optimistic v (insurance (input f)) b r (reward_asset_id (input f)))"
  from assms obtain f where
    f: "list_find (\<lambda>f. sfx_id_of env i f = k) (filter (\<lambda>f. confirmed f = None) step) = Some f"
    by (auto simp: try_bid_def res_simps)
  from assms obtain ctx :: LocalXtxCtx and am where am: "su_try_bid env k r b (?bid ctx f) (best_bid f) (account_manager s) = Ok am"
    and ok: "existential_deposit env \<le> v" "v \<le> max_reward (input f)"
      "step' = update_first (\<lambda>f. sfx_id_of env i f = k) (\<lambda>g. g\<lparr>best_bid := Some (?bid ctx f)\<rparr>) step"
      "s1 = s\<lparr>account_manager := am\<rparr>"
    by (auto simp: try_bid_def Let_def res_simps f not_less split: if_splits)
  define bid where "bid = ?bid ctx f"
  note am = am [folded bid_def] and ok = ok [folded bid_def]
  have "amount bid = v" "executor bid = b" by (simp_all add: bid_def)
  then show ?thesis
    using list_find_Some [OF f] ok su_try_bid_charge [of env k r bid "best_bid f" "account_manager s" am] am by auto
qed

text \<open>C6: a bid is accepted only on an unconfirmed side effect of a transaction that is open for bids, at no less
  than the existential deposit, no more than the maximal reward and strictly below the best bid so far; it then
  becomes the best bid of that side effect, the transaction is \<open>InBidding\<close>, and a charge on the bidder backs it.\<close>

theorem bid_improves:
  assumes "bid_sfx env (Signed b) k v s = Ok s'" "circuit_inv s"
  shows "\<exists>i x step f bid. smap_get (SFX2XTXLinksMap s) k = Some i \<and> stored_with s i x step
    \<and> status x \<in> {PendingBidding, InBidding}
    \<and> f \<in> set step \<and> sfx_id_of env i f = k \<and> confirmed f = None
    \<and> existential_deposit env \<le> v \<and> v \<le> max_reward (input f)
    \<and> (\<forall>best. best_bid f = Some best \<longrightarrow> v < amount best)
    \<and> amount bid = v \<and> executor bid = b
    \<and> smap_get (FullSideEffects s') i =
        Some [update_first (\<lambda>f. sfx_id_of env i f = k) (\<lambda>f. f\<lparr>best_bid := Some bid\<rparr>) step]
    \<and> map_option status (smap_get (XExecSignals s') i) = Some InBidding
    \<and> map_option payee (charge_at (account_manager s') (bid_generate_id (hashing env) bid k)) = Some b"
proof -
  let ?pre = "\<lambda>fsx _ _ _ _ _. Ok (TryBid k v b, fsx)"
  let ?post = "\<lambda>_ _ s'. Ok (deposit_event (SFXNewBidReceived k b v) s')"
  from assms(1) obtain i ctx p c' where i: "smap_get (SFX2XTXLinksMap s) k = Some i"
    and ld: "load_xtx s i = Ok ctx" and comp: "compile_xtx env ctx ?pre ?post s = Ok (p, c', s')"
    by (auto simp: bid_sfx_def res_simps authorize_def ensure_signed_def)
  obtain step where full: "full_side_effects ctx = [step]" and st: "stored_with s i (xtx ctx) step"
    using inv_load [OF assms(2) ld] by blast
  have id: "xtx_id ctx = i" using ld by (simp add: load_xtx_Ok)
  from comp obtain step' s1 where open': "status (xtx ctx) \<in> {PendingBidding, InBidding}"
    and bid: "try_bid env step v b (requester (xtx ctx)) k i s = Ok (step', s1)"
    and ct: "check_transition (status (xtx ctx)) (determine_xtx_status [step']) (Some InBidding) = Ok InBidding"
    and ap: "apply_xtx env (with_status (ctx\<lparr>full_side_effects := [step']\<rparr>) InBidding) (status (xtx ctx), InBidding)
        (deposit_event (SFXNewBidReceived k b v) s1) = Ok (p, s')"
    by (auto simp: compile_xtx_def read_single [OF full] run_precompile_result_def res_simps update_single [OF full]
        update_status_Ok check_transition_def forced_disallowed_def id split: if_splits)
  obtain f bid am c where f: "f \<in> set step" "sfx_id_of env i f = k" "confirmed f = None"
    "existential_deposit env \<le> v" "v \<le> max_reward (input f)"
    "\<forall>best. best_bid f = Some best \<longrightarrow> v < amount best"
    "amount bid = v" "executor bid = b" "s1 = s\<lparr>account_manager := am\<rparr>"
    "step' = update_first (\<lambda>f. sfx_id_of env i f = k) (\<lambda>f. f\<lparr>best_bid := Some bid\<rparr>) step"
    "charge_at am (bid_generate_id (hashing env) bid k) = Some c" "payee c = b"
    using try_bid_Ok [OF bid] by blast
  have "smap_get (FullSideEffects s') i = Some [step']
      \<and> map_option status (smap_get (XExecSignals s') i) = Some InBidding \<and> account_manager s' = am"
    using ap open' id st f(9) by (auto simp: apply_xtx_def writes deposit_event_def stored_with_def)
  then show ?thesis using i st open' f by blast
qed

theorem bid_improves_witness:
  "\<exists>i x step f. smap_get (SFX2XTXLinksMap submitted_circuit) sample_sid = Some i
     \<and> stored_with submitted_circuit i x step \<and> f \<in> set step \<and> sfx_id_of sample_env i f = sample_sid
     \<and> 40 \<le> max_reward (input f) \<and> map_option status (smap_get (XExecSignals bid_circuit) i) = Some InBidding"
proof -
  have "bid_sfx sample_env (Signed sample_bidder) sample_sid 40 submitted_circuit = Ok bid_circuit"
    using sample_bid_call by simp
  from bid_improves [OF this circuit.reachable_inv [OF empty_initial sample_path(1)]]
  show ?thesis by blast
qed

section \<open>Cancelling\<close>

text \<open>C7: \<open>cancel_xtx\<close> on a stored transaction succeeds exactly when the caller is its requester, it has not
  left \<open>PendingBidding\<close> and none of its side effects has a bid; it then removes everything the transaction
  had in storage and releases its charges.  Otherwise it fails with \<open>UnauthorizedCancellation\<close>.\<close>

theorem cancel_only_unbid:
  assumes "stored_with s i x step"
  shows "if a = requester x \<and> status x \<le> PendingBidding \<and> (\<forall>f \<in> set step. \<not> has_bid f)
    then \<exists>s'. cancel_xtx env (Signed a) i s = Ok s' \<and> released env i step s s'
    else cancel_xtx env (Signed a) i s = Err (Circuit_Error UnauthorizedCancellation)"
proof -
  obtain ctx where ctx: "load_xtx s i = Ok ctx" "xtx_id ctx = i" "xtx ctx = x" "full_side_effects ctx = [step]"
    using stored_load [OF assms] .
  have ok: "step_ok (status x) step" using assms by (simp add: stored_with_def)
  show ?thesis
  proof (cases "a = requester x \<and> status x \<le> PendingBidding \<and> (\<forall>f \<in> set step. \<not> has_bid f)")
    case True
    let ?ctx = "with_status ctx (Killed IntentionalKill)"
    have bid: "status x \<in> {Reserved, PendingBidding}"
      using True step_ok_stored [OF ok] by (auto simp: status_order)
    then have det: "determine_xtx_status [step] = status x"
      using ok step_ok_determines(1,2) by auto
    have "compile_xtx env ctx (cancel_precompile a) no_post_updates s
      = bind_res (apply_xtx env ?ctx (status x, Killed IntentionalKill) s) (\<lambda>(b, s3). Ok (b, ?ctx, s3))"
      using True ctx det bid
        compile_runs [where step = step and pr = "TryKill IntentionalKill" and fsx = step
          and enf = "Some (Killed IntentionalKill)" and ?s1.0 = s and ctx = ctx and ?ctx1.0 = ctx
          and new = "Killed IntentionalKill" and pre = "cancel_precompile a" and s = s and env = env
          and post = no_post_updates and ?s2.0 = s]
      by (auto simp: cancel_precompile_def list_ex_iff has_bid_def run_precompile_result_def
          no_post_updates_def check_transition_def is_reverted_def is_killed_def status_order)
    moreover obtain s' where "apply_xtx env ?ctx (status x, Killed IntentionalKill) s = Ok (True, s')"
      "released env i step s s'"
      using apply_kill_released [of ?ctx step "status x" env IntentionalKill s] ctx bid
      by (auto simp: bidding_def)
    ultimately show ?thesis
      using True ctx by (simp add: cancel_xtx_def authorize_def ensure_signed_def)
  next
    case False
    then have "cancel_precompile a step (local_state ctx) (steps_cnt x) (status x) (requester x) s
        = Err UnauthorizedCancellation"
      by (auto simp: cancel_precompile_def list_ex_iff has_bid_def not_le)
    then have "cancel_xtx env (Signed a) i s = Err (Circuit_Error UnauthorizedCancellation)"
      using ctx by (simp add: cancel_xtx_def authorize_def ensure_signed_def compile_xtx_def read_single)
    then show ?thesis by (simp only: if_not_P [OF False])
  qed
qed

theorem cancel_only_unbid_witness:
  "(\<exists>s'. cancel_xtx sample_env (Signed sample_payee) sample_xid submitted_circuit = Ok s'
      \<and> released sample_env sample_xid [submitted_fsx] submitted_circuit s')
    \<and> cancel_xtx sample_env (Signed sample_payee) sample_xid bid_circuit = Err (Circuit_Error UnauthorizedCancellation)"
proof -
  have 1: "stored_with submitted_circuit sample_xid (sample_signal PendingBidding) [submitted_fsx]"
    by (simp add: stored_with_def submitted_circuit_def smap_get_def step_ok_def sample_signal_def bidding_def has_bid_def)
  have 2: "stored_with bid_circuit sample_xid (sample_signal InBidding) [submitted_fsx\<lparr>best_bid := Some sample_bid\<rparr>]"
    by (simp add: stored_with_def bid_circuit_def submitted_circuit_def smap_get_def
        step_ok_def sample_signal_def bidding_def)
  show ?thesis
    using cancel_only_unbid [OF 1, of sample_payee sample_env] cancel_only_unbid [OF 2, of sample_payee sample_env]
    by (simp add: sample_signal_def has_bid_def)
qed

section \<open>The end of the bidding\<close>

lemma tick_one_closes:
  assumes "circuit_inv s" "smap_get (PendingXtxBidsTimeoutsMap s) i \<noteq> None"
    "process_tick_one env i s = Ok (w, s')"
  shows "smap_get (PendingXtxBidsTimeoutsMap s') i = None"
proof -
  obtain x step where st: "stored_with s i x step"
    using assms by (auto simp: circuit_inv_def inv_at_def absent_def dest: spec [of _ i])
  then have bid: "bidding (status x)" using assms(2) by (simp add: stored_with_def)
  show ?thesis
  proof (cases "status x = InBidding \<and> (\<forall>f \<in> set step. has_bid f)")
    case True
    obtain ctx where ctx: "load_xtx s i = Ok ctx" "xtx_id ctx = i" "xtx ctx = x" "full_side_effects ctx = [step]"
      using stored_load [OF st] .
    obtain b step' s1 where bind: "bind_bidders env ctx s = Ok (b, ctx\<lparr>full_side_effects := [step']\<rparr>, s1)"
      using bind_bidders_total [OF ctx(4)] by blast
    have pre: "tick_one_precompile step ls cnt InBidding r = ForceUpdateStatus Ready" for ls cnt r
      using True by (auto simp: tick_one_precompile_def list_all_iff has_bid_def)
    let ?ctx = "with_status (ctx\<lparr>full_side_effects := [step']\<rparr>) Ready"
    obtain s2 where s2: "status_post_update (InBidding, Ready) ?ctx s1 = Ok s2"
      using status_post_update_total by blast
    have "compile_xtx env ctx (\<lambda>fsx ls cnt st req _. Ok (tick_one_precompile fsx ls cnt st req, fsx)) status_post_update s
      = bind_res (apply_xtx env ?ctx (InBidding, Ready) s2) (\<lambda>(b, s3). Ok (b, ?ctx, s3))"
      using True ctx bind s2
        compile_runs [where step = step and pr = "ForceUpdateStatus Ready" and fsx = step and enf = "Some Ready"
          and ?s1.0 = s1 and ctx = ctx and ?ctx1.0 = "ctx\<lparr>full_side_effects := [step']\<rparr>" and new = Ready
          and pre = "\<lambda>fsx ls cnt st req _. Ok (tick_one_precompile fsx ls cnt st req, fsx)" and s = s and env = env
          and post = status_post_update and ?s2.0 = s2]
      by (simp add: pre run_precompile_result_def check_transition_def is_reverted_def is_killed_def)
    then show ?thesis
      using assms(3) ctx by (auto simp: process_tick_one_def compile_infallible_def apply_xtx_def writes)
  next
    case False
    then show ?thesis
      using tick_one_releases [OF st bid, of env] assms(3) by (auto simp: released_def absent_def)
  qed
qed

lemma tick_all_closes:
  assumes "circuit_inv s" "distinct ids" "\<forall>i \<in> set ids. smap_get (PendingXtxBidsTimeoutsMap s) i \<noteq> None"
    "w \<le> mw" "weight_max \<le> mw"
    "tick_all (process_tick_one env) mw ids (w, s) = Ok (w', s')"
  shows "circuit_inv s' \<and> w' \<le> mw
    \<and> (\<forall>j. smap_get (PendingXtxBidsTimeoutsMap s') j =
         (if j \<in> set ids then None else smap_get (PendingXtxBidsTimeoutsMap s) j))"
  using assms(1-4,6)
proof (induction ids arbitrary: w s)
  case Nil
  then show ?case by (simp add: tick_all_def)
next
  case (Cons i ids)
  obtain v t where t: "process_tick_one env i s = Ok (v, t)" "circuit_inv t" "\<forall>j. j \<noteq> i \<longrightarrow> same_at j s t"
    using tick_one_total [of s i env] Cons.prems by auto
  have i: "smap_get (PendingXtxBidsTimeoutsMap t) i = None"
    using tick_one_closes [OF _ _ t(1)] Cons.prems by auto
  have rest: "smap_get (PendingXtxBidsTimeoutsMap t) j = smap_get (PendingXtxBidsTimeoutsMap s) j" if "j \<noteq> i" for j
    using t(3) that by (simp add: same_at_def)
  have "weight_add w v \<le> mw" using assms(5) by (simp add: weight_add_def)
  moreover have "tick_all (process_tick_one env) mw ids (weight_add w v, t) = Ok (w', s')"
    using Cons.prems t(1) by (simp add: tick_all_def)
  moreover have "\<forall>j \<in> set ids. smap_get (PendingXtxBidsTimeoutsMap t) j \<noteq> None"
    using Cons.prems rest by (metis distinct.simps(2) list.set_intros(2))
  ultimately show ?case
    using Cons.IH [OF t(2)] Cons.prems(2) i rest by auto
qed

lemma tick_two_bids:
  assumes "circuit_inv s" "smap_get (FinalizedXtx s) i \<noteq> None"
  shows "\<exists>w s'. process_tick_two env i s = Ok (w, s') \<and> circuit_inv s'
    \<and> PendingXtxBidsTimeoutsMap s' = PendingXtxBidsTimeoutsMap s \<and> FinalizedXtx s' = FinalizedXtx s"
proof -
  obtain w s' where t: "process_tick_two env i s = Ok (w, s')" "circuit_inv s'"
    using tick_two_total [OF assms, of env] by blast
  show ?thesis
  proof (cases "absent s i")
    case True
    then have "process_tick_two env i s = Ok (db_reads_writes env 1 0, s)"
      by (simp add: process_tick_two_def load_xtx_def absent_def)
    then show ?thesis using assms(1) by auto
  next
    case False
    then obtain x step where st: "stored_with s i x step"
      using assms(1) by (auto simp: circuit_inv_def inv_at_def dest: spec [of _ i])
    then have "status x = FinishedAllSteps" using assms(2) by (simp add: stored_with_def)
    from tick_two_drops [OF st this, of env] t show ?thesis by (auto simp: drop_xtx_def)
  qed
qed

lemma tick_all_two_bids:
  assumes "circuit_inv s" "\<forall>i \<in> set ids. smap_get (FinalizedXtx s) i \<noteq> None"
    "tick_all (process_tick_two env) mw ids (w, s) = Ok (w', s')"
  shows "PendingXtxBidsTimeoutsMap s' = PendingXtxBidsTimeoutsMap s"
  using assms
proof (induction ids arbitrary: w s)
  case Nil
  then show ?case by (simp add: tick_all_def)
next
  case (Cons i ids)
  obtain v t where t: "process_tick_two env i s = Ok (v, t)" "circuit_inv t"
    "PendingXtxBidsTimeoutsMap t = PendingXtxBidsTimeoutsMap s" "FinalizedXtx t = FinalizedXtx s"
    using tick_two_bids [of s i env] Cons.prems by auto
  show ?case
  proof (cases "w \<le> mw")
    case True
    then have "tick_all (process_tick_two env) mw ids (weight_add w v, t) = Ok (w', s')"
      using Cons.prems t(1) by (simp add: tick_all_def)
    then show ?thesis using Cons.IH [OF t(2)] Cons.prems t(3,4) by simp
  next
    case False
    then have "tick_all (process_tick_two env) mw ids (w, s) = Ok (w', s')"
      using Cons.prems by (simp add: tick_all_def)
    then show ?thesis using Cons.IH Cons.prems by simp
  qed
qed



end
