(* ===== verification/Rewards.thy ===== *)
theory Rewards
  imports Circuit_State "HOL-Library.Product_Lexorder"
begin

text \<open>
  The rewards pallet (\<open>pallets/rewards/src/lib.rs\<close>): inflation is split between attesters,
  collators, executors and the treasury and turned into pending claims, the settlements of a
  round become claims of the executors, and a claim is paid out through the account manager.
  The fixed-point types \<open>Perbill\<close> and \<open>Percent\<close>, the currency and the attesters' reading
  interface are fields of the environment; \<open>fixed_point_laws\<close> states what is relied on.
\<close>

section \<open>Data\<close>

type_synonym Perbill = u32
type_synonym Percent = byte

datatype AssetType = Native | NonNative AssetId

text \<open>The native asset comes first; the order among the other assets is not used.\<close>

fun asset_rank :: "AssetType \<Rightarrow> nat" where
  "asset_rank Native = 0"
| "asset_rank (NonNative a) = Suc (unat a)"

lemma asset_rank_inj: "asset_rank x = asset_rank y \<Longrightarrow> x = y"
  by (cases x; cases y) (simp_all add: word_unat_eq_iff [symmetric] del: unat_eq_zero)

instantiation AssetType :: linorder
begin
definition "less_eq_AssetType x y = (asset_rank x \<le> asset_rank y)"
definition "less_AssetType x y = (asset_rank x < asset_rank y)"
instance
  by standard
    (auto simp: less_eq_AssetType_def less_AssetType_def intro: asset_rank_inj)
end

record ClaimableArtifacts =
  beneficiary :: AccountId
  claim_role :: CircuitRole
  total_round_claim :: Balance
  non_native_asset_id :: "AssetId option"
  benefit_source :: BenefitSource

record DistributionRecord =
  dr_block_number :: BlockNumber
  attester_rewards :: Balance
  collator_rewards :: Balance
  executor_rewards :: Balance
  treasury_rewards :: Balance
  available :: Balance
  distributed :: Balance

record TreasuryBalanceSheet =
  tb_treasury :: Balance
  tb_escrow :: Balance
  tb_fee :: Balance
  tb_slash :: Balance
  tb_parachain :: Balance

datatype RewardsEvent =
    AttesterRewarded AccountId Balance
  | CollatorRewarded AccountId Balance
  | ExecutorRewarded AccountId Balance
  | NewMaxRewardExecutorsKickbackSet Percent Percent
  | Claimed AccountId "(Balance \<times> AssetId option) list"
  | PendingClaim AccountId Balance

text \<open>
  The configuration.  \<open>currency_can_withdraw a v b x\<close> is \<open>ensure_can_withdraw\<close> of the
  amount \<open>v\<close> with the new balance \<open>b\<close>; \<open>transfer_withdraw\<close> is \<open>withdraw\<close> with the reason
  \<open>TRANSFER\<close> and \<open>KeepAlive\<close>.  The account manager's and the currency's functions are those
  of the account manager's environment.
\<close>

record 'x rewards_env =
  rw_am_cfg :: "'x am_env"
  total_issuance :: "'x \<Rightarrow> Balance"
  currency_can_withdraw :: "AccountId \<Rightarrow> Balance \<Rightarrow> Balance \<Rightarrow> 'x \<Rightarrow> bool"
  transfer_withdraw :: "AccountId \<Rightarrow> Balance \<Rightarrow> 'x \<Rightarrow> (DispatchError, 'x) res"
  rw_treasury_account :: "TreasuryAccount \<Rightarrow> AccountId"
  perbill_mul_ceil :: "Perbill \<Rightarrow> Balance \<Rightarrow> Balance"
  perbill_from_rational :: "nat \<Rightarrow> nat \<Rightarrow> Perbill"
  perbill_from_percent :: "nat \<Rightarrow> Perbill"
  percent_mul_ceil :: "Percent \<Rightarrow> Balance \<Rightarrow> Balance"
  TotalInflation :: Perbill
  AttesterInflation :: Perbill
  ExecutorInflation :: Perbill
  CollatorInflation :: Perbill
  TreasuryInflation :: Perbill
  OneYear :: BlockNumber
  InflationDistributionPeriod :: BlockNumber
  StartingRepatriationPercentage :: Percent
  honest_active_set :: "'x \<Rightarrow> AccountId list"
  rw_active_set :: "'x \<Rightarrow> AccountId list"
  read_commission :: "'x \<Rightarrow> AccountId \<Rightarrow> Percent option"
  read_nominations :: "'x \<Rightarrow> AccountId \<Rightarrow> (AccountId \<times> Balance) list"
  find_author :: "'x \<Rightarrow> AccountId option"
  rw_reads_writes :: "nat \<Rightarrow> nat \<Rightarrow> Weight"

record 'x rewards_state =
  Authors :: "(AccountId, u32) smap"
  AuthorsThisPeriod :: "(AccountId, u32) smap"
  AccumulatedSettlements :: "(AccountId \<times> AssetType, Balance) smap"
  EstimatedTreasuryBalance :: TreasuryBalanceSheet
  RepatriationPercentage :: Percent
  DistributionBlock :: "BlockNumber option"
  DistributionHistory :: "DistributionRecord list"
  IsDistributionHalted :: bool
  IsSettlementAccumulationHalted :: bool
  IsClaimingHalted :: bool
  LastProcessedRound :: "RoundInfo option"
  MaxRewardExecutorsKickback :: Percent
  PendingClaims :: "(AccountId, ClaimableArtifacts list) smap"
  rewards_events :: "RewardsEvent list"
  rw_am :: "'x am_state"
  rw_block_number :: BlockNumber

definition MAX_AUTHORS :: nat where "MAX_AUTHORS = 512"

abbreviation rw_ext :: "'x rewards_state \<Rightarrow> 'x" where "rw_ext s \<equiv> ledger (rw_am s)"

definition rw_set_ext :: "'x \<Rightarrow> 'x rewards_state \<Rightarrow> 'x rewards_state" where
  "rw_set_ext x s = s\<lparr>rw_am := (rw_am s)\<lparr>ledger := x\<rparr>\<rparr>"

definition rw_event :: "RewardsEvent \<Rightarrow> 'x rewards_state \<Rightarrow> 'x rewards_state" where
  "rw_event e s = s\<lparr>rewards_events := rewards_events s @ [e]\<rparr>"

section \<open>Claims\<close>

definition pending_of :: "'x rewards_state \<Rightarrow> AccountId \<Rightarrow> ClaimableArtifacts list" where
  "pending_of s a = (case smap_get (PendingClaims s) a of Some cs \<Rightarrow> cs | None \<Rightarrow> [])"

definition add_to_pending_claims ::
  "AccountId \<Rightarrow> CircuitRole \<Rightarrow> Balance \<Rightarrow> BenefitSource \<Rightarrow> AssetId option
     \<Rightarrow> 'x rewards_state \<Rightarrow> 'x rewards_state" where
  "add_to_pending_claims account rl reward src asset s =
     (let pending = pending_of s account;
          same = (\<lambda>c. claim_role c = rl \<and> benefit_source c = src \<and> non_native_asset_id c = asset);
          pending' = (if list_ex same pending
            then update_first same
              (\<lambda>c. c\<lparr>total_round_claim := saturating_add reward (total_round_claim c)\<rparr>) pending
            else pending @ [\<lparr>beneficiary = account, claim_role = rl, total_round_claim = reward,
                              non_native_asset_id = asset, benefit_source = src\<rparr>])
      in rw_event (PendingClaim account reward)
           (s\<lparr>PendingClaims := smap_insert account pending' (PendingClaims s)\<rparr>))"

definition update_pending_claims ::
  "AccountId \<Rightarrow> CircuitRole \<Rightarrow> Balance \<Rightarrow> BenefitSource \<Rightarrow> AssetId option
     \<Rightarrow> 'x rewards_state \<Rightarrow> 'x rewards_state" where
  "update_pending_claims account rl reward src asset s =
     rw_event (PendingClaim account reward)
       (s\<lparr>PendingClaims := smap_insert account
            (pending_of s account @ [\<lparr>beneficiary = account, claim_role = rl, total_round_claim = reward,
                non_native_asset_id = asset, benefit_source = src\<rparr>]) (PendingClaims s)\<rparr>)"

definition remove_settlements_of :: "AccountId \<Rightarrow> 'x rewards_state \<Rightarrow> 'x rewards_state" where
  "remove_settlements_of a s =
     s\<lparr>AccumulatedSettlements := filter (\<lambda>((b, _), _). b \<noteq> a) (AccumulatedSettlements s)\<rparr>"

text \<open>One round of the loop of \<open>claim\<close>: the claimed amounts are added up per asset.\<close>

definition accumulate_claim ::
  "ClaimableArtifacts \<Rightarrow> (Balance \<times> AssetId option) list
     \<Rightarrow> (DispatchError, (Balance \<times> AssetId option) list) res" where
  "accumulate_claim c totals =
     (if total_round_claim c = 0 then Err (Rewards_Error NoPendingClaims)
      else let same = (\<lambda>(_, a). a = non_native_asset_id c) in
        Ok (if list_ex same totals
            then update_first same (\<lambda>(b, a). (saturating_add b (total_round_claim c), a)) totals
            else totals @ [(total_round_claim c, non_native_asset_id c)]))"

definition rw_claim ::
  "'x rewards_env \<Rightarrow> Origin \<Rightarrow> CircuitRole option \<Rightarrow> 'x rewards_state
     \<Rightarrow> (DispatchError, 'x rewards_state) res" where
  "rw_claim env origin role_to_claim s =
     (if IsClaimingHalted s then Err (Rewards_Error Rewards_Halted)
      else bind_res (ensure_signed origin) (\<lambda>who.
        let pending = pending_of s who;
            to_process = (case role_to_claim of
              Some r \<Rightarrow> filter (\<lambda>c. claim_role c = r) pending
            | None \<Rightarrow> pending)
        in if pending = [] then Err (Rewards_Error NoPendingClaims)
           else bind_res (fold_res accumulate_claim to_process []) (\<lambda>totals.
             let s1 = s\<lparr>rw_am := fold (\<lambda>(b, a). deposit_immediately (rw_am_cfg env) who b a) totals (rw_am s),
                        PendingClaims := smap_insert who
                          (filter (\<lambda>c. c \<notin> set to_process) pending) (PendingClaims s)\<rparr>;
                 s2 = (if role_to_claim = Some Executor \<or> role_to_claim = None
                       then remove_settlements_of who s1 else s1)
             in Ok (rw_event (Claimed who totals) s2))))"

section \<open>Distribution of the inflation\<close>

definition nominator_step ::
  "Balance \<Rightarrow> Balance \<Rightarrow> AccountId \<times> Balance \<Rightarrow> 'x rewards_state \<Rightarrow> 'x rewards_state" where
  "nominator_step remaining total_sum = (\<lambda>(nominator, nomination) s.
     case checked_div (saturating_mul remaining nomination) total_sum of
       Some reward \<Rightarrow> update_pending_claims nominator Staker reward Inflation None s
     | None \<Rightarrow> s)"

definition attester_step ::
  "'x rewards_env \<Rightarrow> Balance \<Rightarrow> AccountId \<Rightarrow> 'x rewards_state \<Rightarrow> 'x rewards_state" where
  "attester_step env reward_per_attester attester s =
     (case read_commission env (rw_ext s) attester of
        None \<Rightarrow> s
      | Some commission \<Rightarrow>
          let commission_reward = percent_mul_ceil env commission reward_per_attester;
              s1 = update_pending_claims attester Attester commission_reward Inflation None s;
              remaining = saturating_sub reward_per_attester commission_reward;
              nominators = read_nominations env (rw_ext s1) attester;
              total_sum = foldl saturating_add 0 (map snd nominators)
          in fold (nominator_step remaining total_sum) nominators s1)"

definition distribute_attester_rewards ::
  "'x rewards_env \<Rightarrow> Balance \<Rightarrow> 'x rewards_state \<Rightarrow> (DispatchError, Balance \<times> 'x rewards_state) res" where
  "distribute_attester_rewards env current s =
     (let honest = honest_active_set env (rw_ext s);
          total_sum :: u32 = of_nat (length honest);
          size :: u32 = of_nat (length (rw_active_set env (rw_ext s)))
      in if total_sum = 0 then Ok (0, s)
         else if size = 0 then Panic
         else let per_attester = current div ucast size
              in Ok (saturating_mul (ucast total_sum) per_attester,
                     fold (attester_step env per_attester) honest s))"

definition collator_step ::
  "'x rewards_env \<Rightarrow> Balance \<Rightarrow> AccountId \<times> u32 \<Rightarrow> Balance \<times> 'x rewards_state
     \<Rightarrow> Balance \<times> 'x rewards_state" where
  "collator_step env current = (\<lambda>(author, block_count) (total_sum, s).
     let reward = perbill_mul_ceil env (perbill_from_rational env (unat block_count)
                    (unat (InflationDistributionPeriod env))) current
     in (saturating_add total_sum reward, update_pending_claims author Collator reward Inflation None s))"

definition distribute_collator_rewards ::
  "'x rewards_env \<Rightarrow> Balance \<Rightarrow> 'x rewards_state \<Rightarrow> Balance \<times> 'x rewards_state" where
  "distribute_collator_rewards env current s =
     fold (collator_step env current) (AuthorsThisPeriod s) (0, s)"

definition total_settled_executions_this_round ::
  "(AccountId \<times> Balance) list \<Rightarrow> (DispatchError, Balance) res" where
  "total_settled_executions_this_round executions =
     fold_res (\<lambda>(_, v) acc. ok_or (Rewards_Error Rewards_ArithmeticOverflow) (checked_add acc v))
       executions 0"

definition executions_proportionally_of_total_this_round ::
  "'x rewards_env \<Rightarrow> (AccountId \<times> Balance) list \<Rightarrow> Balance \<Rightarrow> (AccountId \<times> Balance \<times> Perbill) list" where
  "executions_proportionally_of_total_this_round env executions total_sum =
     map (\<lambda>(e, v). (e, v, perbill_from_rational env (unat v) (unat total_sum))) executions"

definition native_settlements :: "'x rewards_state \<Rightarrow> (AccountId \<times> Balance) list" where
  "native_settlements s =
     map (\<lambda>((a, _), v). (a, v)) (filter (\<lambda>((_, t), _). t = Native) (AccumulatedSettlements s))"

definition executor_reward ::
  "'x rewards_env \<Rightarrow> Balance \<Rightarrow> Percent \<Rightarrow> Balance \<Rightarrow> Perbill \<Rightarrow> Balance" where
  "executor_reward env current kickback settled proportion =
     min (perbill_mul_ceil env proportion current) (percent_mul_ceil env kickback settled)"

definition executor_step ::
  "'x rewards_env \<Rightarrow> Balance \<Rightarrow> Percent \<Rightarrow> AccountId \<times> Balance \<times> Perbill \<Rightarrow> Balance \<times> 'x rewards_state
     \<Rightarrow> Balance \<times> 'x rewards_state" where
  "executor_step env current kickback = (\<lambda>(e, settled, proportion) (total_sum, s).
     let capped = executor_reward env current kickback settled proportion
     in (total_sum + capped,
         remove_settlements_of e (update_pending_claims e Executor capped Inflation None s)))"

definition distribute_executor_rewards ::
  "'x rewards_env \<Rightarrow> Balance \<Rightarrow> 'x rewards_state \<Rightarrow> Balance \<times> 'x rewards_state" where
  "distribute_executor_rewards env current s =
     (let kickback = MaxRewardExecutorsKickback s; settled = native_settlements s in
      if kickback = 0 then (0, s)
      else case total_settled_executions_this_round settled of
        Ok total_sum \<Rightarrow> fold (executor_step env current kickback)
            (executions_proportionally_of_total_this_round env settled total_sum) (0, s)
      | _ \<Rightarrow> (0, s))"

definition balance_for_distribution :: "'x rewards_env \<Rightarrow> 'x rewards_state \<Rightarrow> Balance" where
  "balance_for_distribution env s =
     perbill_mul_ceil env
       (perbill_from_rational env (unat (InflationDistributionPeriod env)) (unat (OneYear env)))
       (perbill_mul_ceil env (TotalInflation env) (total_issuance env (rw_ext s)))"

definition distribute_inflation ::
  "'x rewards_env \<Rightarrow> 'x rewards_state \<Rightarrow> (DispatchError, Weight \<times> 'x rewards_state) res" where
  "distribute_inflation env s =
     (if IsDistributionHalted s then Ok (rw_reads_writes env 1 0, s)
      else let avail = balance_for_distribution env s;
               treasury = perbill_mul_ceil env (TreasuryInflation env) avail
        in bind_res (distribute_attester_rewards env (perbill_mul_ceil env (AttesterInflation env) avail) s)
             (\<lambda>(attesters, s1).
               case distribute_collator_rewards env (perbill_mul_ceil env (CollatorInflation env) avail) s1 of
                 (collators, s2) \<Rightarrow>
               case distribute_executor_rewards env (perbill_mul_ceil env (ExecutorInflation env) avail) s2 of
                 (executors, s3) \<Rightarrow>
               let s4 = rw_set_ext (deposit_creating (rw_am_cfg env)
                          (rw_treasury_account env Treasury_Parachain) treasury (rw_ext s3)) s3
               in Ok (rw_reads_writes env 8 8,
                    s4\<lparr>DistributionBlock := Some (rw_block_number s4),
                       DistributionHistory := DistributionHistory s4 @
                         [\<lparr>dr_block_number = rw_block_number s4, attester_rewards = attesters,
                           collator_rewards = collators, executor_rewards = executors,
                           treasury_rewards = treasury, available = avail,
                           distributed = attesters + collators + executors + treasury\<rparr>]\<rparr>)))"

section \<open>Settlements of a round\<close>

definition asset_type_of :: "AssetId option \<Rightarrow> AssetType" where
  "asset_type_of m = (case m of Some a \<Rightarrow> NonNative a | None \<Rightarrow> Native)"

definition accumulate_settlement ::
  "AccountId \<times> Settlement \<Rightarrow> 'x rewards_state \<Rightarrow> 'x rewards_state" where
  "accumulate_settlement = (\<lambda>(e, st) s.
     let s1 = add_to_pending_claims e Executor (settlement_amount st) TrafficRewards
                (settlement_asset_id st) s;
         key = (e, asset_type_of (settlement_asset_id st))
     in s1\<lparr>AccumulatedSettlements := smap_insert key
          (case smap_get (AccumulatedSettlements s1) key of
             Some v \<Rightarrow> saturating_add v (settlement_amount st)
           | None \<Rightarrow> settlement_amount st) (AccumulatedSettlements s1)\<rparr>)"

definition executions_this_round :: "'x rewards_state \<Rightarrow> (AccountId \<times> Settlement) list" where
  "executions_this_round s = get_settlements_by_role (rw_am s) Executor"

definition process_accumulated_settlements ::
  "'x rewards_env \<Rightarrow> 'x rewards_state \<Rightarrow> Weight \<times> 'x rewards_state" where
  "process_accumulated_settlements env s =
     (if IsSettlementAccumulationHalted s then (rw_reads_writes env 1 0, s)
      else if LastProcessedRound s = Some (CurrentRound (rw_am s)) then (rw_reads_writes env 2 0, s)
      else let executions = executions_this_round s
        in (fold (\<lambda>_ w. (w + rw_reads_writes env 1 1) mod 2 ^ 64) executions 0,
            (fold accumulate_settlement executions s)
              \<lparr>LastProcessedRound := Some (CurrentRound (rw_am s))\<rparr>))"

section \<open>Block authors\<close>

text \<open>\<open>min_by\<close> returns the first of the entries with the least count.\<close>

fun min_author :: "(AccountId \<times> u32) list \<Rightarrow> AccountId option" where
  "min_author [] = None"
| "min_author ((a, c) # rest) =
     (case min_author rest of
        None \<Rightarrow> Some a
      | Some _ \<Rightarrow> if list_all (\<lambda>(_, d). c \<le> d) rest then Some a else min_author rest)"

definition count_author :: "AccountId \<Rightarrow> u32 \<Rightarrow> (AccountId, u32) smap \<Rightarrow> (AccountId, u32) smap" where
  "count_author a n m =
     smap_insert a ((case smap_get m a of Some c \<Rightarrow> c | None \<Rightarrow> 0) + n) m"

definition process_author :: "'x rewards_env \<Rightarrow> 'x rewards_state \<Rightarrow> (bool \<times> Weight) \<times> 'x rewards_state" where
  "process_author env s =
     (case find_author env (rw_ext s) of
        Some author \<Rightarrow>
          let authors = count_author author 1 (AuthorsThisPeriod s);
              authors' = (if length authors > MAX_AUTHORS
                 then smap_remove (case min_author authors of
                        Some a \<Rightarrow> a | None \<Rightarrow> rw_treasury_account env Treasury_Escrow) authors
                 else authors)
          in ((True, rw_reads_writes env 2 2), s\<lparr>AuthorsThisPeriod := authors'\<rparr>)
      | None \<Rightarrow> ((False, rw_reads_writes env 1 0), s))"

definition find_inactive_authors :: "'x rewards_state \<Rightarrow> AccountId list \<Rightarrow> AccountId list" where
  "find_inactive_authors s validators =
     map fst (filter (\<lambda>(a, _). a \<notin> set validators) (AuthorsThisPeriod s))"

definition process_authors_this_period ::
  "'x rewards_env \<Rightarrow> 'x rewards_state \<Rightarrow> Weight \<times> 'x rewards_state" where
  "process_authors_this_period env s =
     (rw_reads_writes env 2 2,
      s\<lparr>Authors := fold (\<lambda>(a, n). count_author a n) (AuthorsThisPeriod s) (Authors s),
        AuthorsThisPeriod := smap_empty\<rparr>)"

section \<open>Treasury\<close>

definition process_update_estimated_treasury_balance ::
  "'x rewards_env \<Rightarrow> 'x rewards_state \<Rightarrow> Weight \<times> 'x rewards_state" where
  "process_update_estimated_treasury_balance env s =
     (let bal = (\<lambda>t. free_balance (rw_am_cfg env) (rw_ext s) (rw_treasury_account env t))
      in (rw_reads_writes env 1 1,
          s\<lparr>EstimatedTreasuryBalance :=
              \<lparr>tb_treasury = bal Treasury, tb_escrow = bal Treasury_Escrow, tb_fee = bal Treasury_Fee,
               tb_slash = bal Treasury_Slash, tb_parachain = bal Treasury_Parachain\<rparr>\<rparr>))"

definition repatriation_amount :: "'x rewards_env \<Rightarrow> FullSideEffect \<Rightarrow> 'x rewards_state \<Rightarrow> Balance" where
  "repatriation_amount env fsx s =
     (let slash = free_balance (rw_am_cfg env) (rw_ext s) (rw_treasury_account env Treasury_Slash)
      in min (perbill_mul_ceil env (perbill_from_percent env 200) (max_reward (input fsx)))
             (case checked_div (percent_mul_ceil env (RepatriationPercentage s) slash) 2 of
                Some v \<Rightarrow> v | None \<Rightarrow> 0))"

definition repatriate_for_faulty_or_missing_attestation ::
  "'x rewards_env \<Rightarrow> H256 \<Rightarrow> FullSideEffect \<Rightarrow> CircuitStatus \<Rightarrow> AccountId option \<Rightarrow> 'x rewards_state
     \<Rightarrow> (DispatchError, bool \<times> 'x rewards_state) res" where
  "repatriate_for_faulty_or_missing_attestation env sfx_id fsx st req s =
     (let slash_account = rw_treasury_account env Treasury_Slash;
          slash_balance = free_balance (rw_am_cfg env) (rw_ext s) slash_account;
          amnt = repatriation_amount env fsx s;
          (who, rl) = (case st of Committed \<Rightarrow> (req, Requester)
                       | _ \<Rightarrow> (enforce_executor (input fsx), Executor))
      in if amnt \<le> minimum_balance (rw_am_cfg env) then Ok (False, s)
         else case who of
           None \<Rightarrow> Ok (False, s)
         | Some sfx_beneficiary \<Rightarrow>
             if \<not> currency_can_withdraw env slash_account amnt slash_balance (rw_ext s) then Ok (False, s)
             else bind_res (expect (transfer_withdraw env slash_account (saturating_mul amnt 2) (rw_ext s)))
               (\<lambda>x.
                 let s1 = update_pending_claims sfx_beneficiary rl amnt SlashTreasury None (rw_set_ext x s)
                 in Ok (True, rw_set_ext (deposit_creating (rw_am_cfg env)
                      (rw_treasury_account env Treasury_Fee) amnt (rw_ext s1)) s1)))"

section \<open>Administration\<close>

definition set_max_rewards_executors_kickback ::
  "Origin \<Rightarrow> Percent \<Rightarrow> 'x rewards_state \<Rightarrow> (DispatchError, 'x rewards_state) res" where
  "set_max_rewards_executors_kickback origin new_kickback s =
     bind_res (ensure_root origin) (\<lambda>_.
       Ok (rw_event (NewMaxRewardExecutorsKickbackSet (MaxRewardExecutorsKickback s) new_kickback)
         (s\<lparr>MaxRewardExecutorsKickback := new_kickback\<rparr>)))"

definition trigger_distribution ::
  "'x rewards_env \<Rightarrow> Origin \<Rightarrow> 'x rewards_state \<Rightarrow> (DispatchError, 'x rewards_state) res" where
  "trigger_distribution env origin s =
     bind_res (ensure_root origin) (\<lambda>_. bind_res (distribute_inflation env s) (\<lambda>(_, s'). Ok s'))"

definition turn_on_off_distribution ::
  "Origin \<Rightarrow> 'x rewards_state \<Rightarrow> (DispatchError, 'x rewards_state) res" where
  "turn_on_off_distribution origin s =
     bind_res (ensure_root origin) (\<lambda>_. Ok (s\<lparr>IsDistributionHalted := \<not> IsDistributionHalted s\<rparr>))"

definition turn_on_off_claims ::
  "Origin \<Rightarrow> 'x rewards_state \<Rightarrow> (DispatchError, 'x rewards_state) res" where
  "turn_on_off_claims origin s =
     bind_res (ensure_root origin) (\<lambda>_. Ok (s\<lparr>IsClaimingHalted := \<not> IsClaimingHalted s\<rparr>))"

definition turn_on_off_settlement_accumulation ::
  "Origin \<Rightarrow> 'x rewards_state \<Rightarrow> (DispatchError, 'x rewards_state) res" where
  "turn_on_off_settlement_accumulation origin s =
     bind_res (ensure_root origin) (\<lambda>_.
       Ok (s\<lparr>IsSettlementAccumulationHalted := \<not> IsSettlementAccumulationHalted s\<rparr>))"

definition rewards_genesis :: "'x rewards_env \<Rightarrow> 'x rewards_state \<Rightarrow> 'x rewards_state" where
  "rewards_genesis env s =
     s\<lparr>IsClaimingHalted := False, IsDistributionHalted := False, IsSettlementAccumulationHalted := False,
       RepatriationPercentage := StartingRepatriationPercentage env, MaxRewardExecutorsKickback := 0\<rparr>"

section \<open>Laws\<close>

text \<open>
  What the documentation of \<open>Perbill\<close> and \<open>Percent\<close> promises: \<open>mul_ceil\<close> rounds the
  product up, \<open>from_rational\<close> rounds the quotient down and never exceeds one, and
  \<open>from_percent\<close> saturates at one.
\<close>

definition fixed_point_laws :: "'x rewards_env \<Rightarrow> bool" where
  "fixed_point_laws env \<longleftrightarrow>
     (\<forall>p x. unat p \<le> 10 ^ 9 \<longrightarrow>
        unat (perbill_mul_ceil env p x) = (unat p * unat x + (10 ^ 9 - 1)) div 10 ^ 9)
     \<and> (\<forall>p x. unat p \<le> 100 \<longrightarrow> unat (percent_mul_ceil env p x) = (unat p * unat x + 99) div 100)
     \<and> (\<forall>a b. unat (perbill_from_rational env a b) \<le> 10 ^ 9
          \<and> unat (perbill_from_rational env a b) * b \<le> a * 10 ^ 9)
     \<and> (\<forall>n. unat (perbill_from_percent env n) = min n 100 * 10 ^ 7)"

end
