(* ===== verification/Attesters_State.thy ===== *)
theory Attesters_State
  imports Rewards Circuit_Api
begin

text \<open>
  The data, the storage and the reading interface of the attesters pallet
  (\<open>pallets/attesters/src/lib.rs\<close>, \<open>primitives/src/attesters.rs\<close>): batches of side effects and
  committee changes, the message an attester signs, the verification of a signature, the
  nominations, the finality fee and the finality reward.  Elliptic curves, hashing, the codec,
  the XDNS pallet, the portal and the currency's reserves are fields of the environment.
\<close>

section \<open>Data\<close>

type_synonym u16 = "16 word"

definition OVERCHARGE_FACTOR :: Percent where "OVERCHARGE_FACTOR = 32"
definition SIX_EPOCHS_IN_LOCAL_BLOCKS_U8 :: byte where "SIX_EPOCHS_IN_LOCAL_BLOCKS_U8 = 6 * 32"
definition TWO_EPOCHS_IN_LOCAL_BLOCKS_U8 :: byte where "TWO_EPOCHS_IN_LOCAL_BLOCKS_U8 = 2 * 32"
definition ONE_EPOCHS_IN_LOCAL_BLOCKS_U8 :: byte where "ONE_EPOCHS_IN_LOCAL_BLOCKS_U8 = 32"
definition REWARD_ADJUSTMENT :: Percent where "REWARD_ADJUSTMENT = 25"
definition COMMITTEE_SIZE :: nat where "COMMITTEE_SIZE = 32"

datatype BatchStatus =
    PendingMessage
  | PendingAttestation
  | ReadyForSubmissionByMajority
  | ReadyForSubmissionFullyApproved
  | Repatriated
  | Expired
  | Batch_Committed

datatype LatencyStatus = OnTime | Late u32 u32

datatype ExecutionVendor = Vendor_Substrate | Vendor_EVM

record BatchMessage =
  available_to_commit_at :: BlockNumber
  committed_sfx :: "bytes list option"
  reverted_sfx :: "H256 list option"
  next_committee :: "bytes list option"
  banned_committee :: "bytes list option"
  b_index :: u32
  b_signatures :: "(u32 \<times> bytes) list"
  b_created :: BlockNumber
  b_status :: BatchStatus
  b_latency :: LatencyStatus
  b_halt :: bool

record AttesterInfo =
  key_ed :: bytes
  key_ec :: bytes
  key_sr :: bytes
  commission :: Percent
  a_index :: u32

record BatchingFactor =
  latest_confirmed :: u16
  latest_signed :: u16
  current_next :: u16
  up_to_last_10_confirmed :: "u16 list"

record TargetBatchDispatchEvent =
  tb_hash :: H256
  executor_on_target :: bytes
  attesting_committee :: H256

record LightClientHeartbeat =
  last_heartbeat :: BlockNumber
  last_finalized_height :: BlockNumber
  last_rational_height :: BlockNumber
  last_fast_height :: BlockNumber
  hb_is_halted :: bool
  ever_initialized :: bool

definition batch_default :: BatchMessage where
  "batch_default =
     \<lparr>available_to_commit_at = 0, committed_sfx = None, reverted_sfx = None, next_committee = None,
      banned_committee = None, b_index = 0, b_signatures = [], b_created = 0, b_status = PendingMessage,
      b_latency = OnTime, b_halt = False\<rparr>"

section \<open>The message of a batch\<close>

text \<open>Only recoverable addresses of 20 bytes are encoded, each as a word of 32 bytes.\<close>

definition encode_committee :: "bytes list \<Rightarrow> bytes" where
  "encode_committee committee =
     concat (map (\<lambda>r. replicate 12 0 @ r) (filter (\<lambda>r. length r = 20) committee))"

definition opt_list :: "'a list option \<Rightarrow> 'a list" where
  "opt_list m = (case m of Some xs \<Rightarrow> xs | None \<Rightarrow> [])"

definition message :: "BatchMessage \<Rightarrow> bytes" where
  "message b =
     encode_committee (opt_list (next_committee b)) @ encode_committee (opt_list (banned_committee b))
     @ concat (opt_list (committed_sfx b)) @ concat (opt_list (reverted_sfx b))
     @ u32_to_be_bytes (b_index b)"

definition message_hash :: "(bytes \<Rightarrow> H256) \<Rightarrow> BatchMessage \<Rightarrow> H256" where
  "message_hash keccak256 b = keccak256 (message b)"

definition batch_is_empty :: "BatchMessage \<Rightarrow> bool" where
  "batch_is_empty b \<longleftrightarrow> next_committee b = None \<and> banned_committee b = None
     \<and> committed_sfx b = None \<and> reverted_sfx b = None"

definition has_no_sfx :: "BatchMessage \<Rightarrow> bool" where
  "has_no_sfx b \<longleftrightarrow> committed_sfx b = None \<and> reverted_sfx b = None"

definition read_batching_factor :: "BatchMessage \<Rightarrow> u16" where
  "read_batching_factor b =
     (let n = (case committed_sfx b of Some xs \<Rightarrow> of_nat (length xs) | None \<Rightarrow> 0)
      in case reverted_sfx b of Some xs \<Rightarrow> saturating_add n (of_nat (length xs)) | None \<Rightarrow> n)"

section \<open>Configuration and storage\<close>

text \<open>
  \<open>parse_public_key\<close> parses a compressed key and gives its 65-byte form;
  \<open>signature_from_slice\<close> tells whether 64 bytes are a signature, and
  \<open>recover_from_prehash\<close> gives the compressed key a signature is from.  \<open>random_value\<close> is the
  randomness source on the subject \<open>i\<close>.
\<close>

record 'x attesters_env =
  at_rewards_cfg :: "'x rewards_env"
  CommitteeSize :: u32
  BatchingWindow :: BlockNumber
  RepatriationPeriod :: BlockNumber
  ShufflingFrequency :: BlockNumber
  DefaultCommission :: Percent
  MinNominatorBond :: Balance
  MinAttesterBond :: Balance
  reserve :: "AccountId \<Rightarrow> Balance \<Rightarrow> 'x \<Rightarrow> (DispatchError, 'x) res"
  unreserve :: "AccountId \<Rightarrow> Balance \<Rightarrow> 'x \<Rightarrow> 'x"
  at_transfer :: "AccountId \<Rightarrow> AccountId \<Rightarrow> Balance \<Rightarrow> 'x \<Rightarrow> (DispatchError, 'x) res"
  random_value :: "'x \<Rightarrow> nat \<Rightarrow> bytes"
  at_keccak :: "bytes \<Rightarrow> H256"
  hash_committee :: "AccountId list \<Rightarrow> H256"
  xdns_escrow_account :: "'x \<Rightarrow> TargetId \<Rightarrow> (DispatchError, bytes) res"
  xdns_verification_vendor :: "'x \<Rightarrow> TargetId \<Rightarrow> (DispatchError, GatewayVendor) res"
  xdns_target_codec :: "'x \<Rightarrow> TargetId \<Rightarrow> (DispatchError, Codec) res"
  at_verify_event_inclusion ::
    "'x \<Rightarrow> TargetId \<Rightarrow> SpeedMode \<Rightarrow> bytes option \<Rightarrow> bytes \<Rightarrow> (DispatchError, InclusionReceipt) res"
  decode_execution_source :: "bytes \<Rightarrow> bytes option"
  at_abi_cfg :: codec_env
  decode_batch_event :: "bytes \<Rightarrow> TargetBatchDispatchEvent option"
  parse_public_key :: "bytes \<Rightarrow> bytes option"
  signature_from_slice :: "bytes \<Rightarrow> bool"
  recover_from_prehash :: "bytes \<Rightarrow> bytes \<Rightarrow> byte \<Rightarrow> bytes option"
  ed25519_verify :: "bytes \<Rightarrow> bytes \<Rightarrow> bytes \<Rightarrow> bool option"
  sr25519_verify :: "bytes \<Rightarrow> bytes \<Rightarrow> bytes \<Rightarrow> bool option"
  on_new_epoch :: "GatewayVendor \<Rightarrow> BlockNumber \<Rightarrow> LightClientHeartbeat \<Rightarrow> 'x \<Rightarrow> 'x"

datatype AttestersEvent =
    AttesterRegistered AccountId
  | AttesterDeregistrationScheduled AccountId BlockNumber
  | AttesterDeregistered AccountId
  | AttestationSubmitted AccountId
  | BatchingFactorRead "(TargetId \<times> BatchingFactor option) list"
  | BatchCommitted TargetId BatchMessage bytes H256 Balance
  | CollusionDetected TargetId H256
  | UserFinalityFeeEstimated TargetId Balance
  | NewAttestationBatch TargetId BatchMessage
  | NewAttestationMessageHash TargetId H256 ExecutionVendor
  | NewConfirmationBatch TargetId BatchMessage bytes H256
  | Nominated AccountId AccountId Balance
  | NewTargetActivated TargetId
  | NewTargetProposed TargetId
  | AttesterAgreedToNewTarget AccountId TargetId bytes
  | CurrentPendingAttestationBatches TargetId "(u32 \<times> H256) list"
  | AttestationTargetRemoved TargetId "TargetId list"
  | ShufflingCompleted "AccountId list" "AccountId list" "AccountId list"

record 'x attesters_state =
  AttesterInfos :: "(AccountId, AttesterInfo) smap"
  NextCommittee :: "AccountId list"
  CurrentCommittee :: "AccountId list"
  PreviousCommittee :: "AccountId list"
  CommitteeTransitionOn :: "(TargetId, u32) smap"
  SortedNominatedAttesters :: "(AccountId \<times> Balance) list"
  ActiveSet :: "AccountId list"
  PermanentSlashes :: "AccountId list"
  InvulnerableAttester :: "AccountId option"
  AttestationTargets :: "TargetId list"
  PendingAttestationTargets :: "TargetId list"
  AttestersAgreements :: "(AccountId \<times> TargetId, bytes) smap"
  NextBatch :: "(TargetId, BatchMessage) smap"
  NextCommitteeOnTarget :: "(TargetId, (u32 \<times> bytes) list) smap"
  BatchesToSign :: "(TargetId, BatchMessage list) smap"
  Batches :: "(TargetId, BatchMessage list) smap"
  PendingUnnominations :: "(AccountId, (AccountId \<times> Balance \<times> BlockNumber) list) smap"
  Nominations :: "(AccountId \<times> AccountId, Balance) smap"
  PaidFinalityFees :: "(TargetId, Balance list) smap"
  attesters_events :: "AttestersEvent list"
  at_rewards :: "'x rewards_state"
  at_block_number :: BlockNumber

abbreviation at_ext :: "'x attesters_state \<Rightarrow> 'x" where "at_ext s \<equiv> rw_ext (at_rewards s)"

definition at_set_ext :: "'x \<Rightarrow> 'x attesters_state \<Rightarrow> 'x attesters_state" where
  "at_set_ext x s = s\<lparr>at_rewards := rw_set_ext x (at_rewards s)\<rparr>"

definition at_event :: "AttestersEvent \<Rightarrow> 'x attesters_state \<Rightarrow> 'x attesters_state" where
  "at_event e s = s\<lparr>attesters_events := attesters_events s @ [e]\<rparr>"

definition at_events :: "AttestersEvent list \<Rightarrow> 'x attesters_state \<Rightarrow> 'x attesters_state" where
  "at_events es s = fold at_event es s"

definition at_writes :: "'x attesters_env \<Rightarrow> nat \<Rightarrow> nat \<Rightarrow> Weight \<Rightarrow> Weight" where
  "at_writes env r w acc = (acc + rw_reads_writes (at_rewards_cfg env) r w) mod 2 ^ 64"

abbreviation at_percent :: "'x attesters_env \<Rightarrow> Percent \<Rightarrow> Balance \<Rightarrow> Balance" where
  "at_percent env \<equiv> percent_mul_ceil (at_rewards_cfg env)"

abbreviation hash_of :: "'x attesters_env \<Rightarrow> BatchMessage \<Rightarrow> H256" where
  "hash_of env \<equiv> message_hash (at_keccak env)"

definition at_err :: "AttestersError \<Rightarrow> (DispatchError, 'a) res" where
  "at_err e = Err (Attesters_Error e)"

definition at_ensure :: "bool \<Rightarrow> AttestersError \<Rightarrow> (DispatchError, unit) res" where
  "at_ensure b e = ensure b (Attesters_Error e)"

text \<open>A stable sort by a number, the largest first.\<close>

definition sort_desc :: "('a \<Rightarrow> nat) \<Rightarrow> 'a list \<Rightarrow> 'a list" where
  "sort_desc f xs = sort_key (\<lambda>x. - int (f x)) xs"

section \<open>Signatures\<close>

definition ecdsa_pubkey_to_eth_address ::
  "'x attesters_env \<Rightarrow> bytes \<Rightarrow> (DispatchError, bytes) res" where
  "ecdsa_pubkey_to_eth_address env pubkey =
     (case parse_public_key env pubkey of
        None \<Rightarrow> Err (Other ''Failed to parse ECDSA public key - Compressed 33b secp256k1 PK expected'')
      | Some serialized \<Rightarrow> Ok (drop 12 (at_keccak env (drop 1 serialized))))"

text \<open>A recovery identifier is one of 0 to 3; None is the error \<open>InvalidSignature\<close>.\<close>

definition verify_secp256k1_ecdsa_signature ::
  "'x attesters_env \<Rightarrow> bytes \<Rightarrow> bytes \<Rightarrow> bytes \<Rightarrow> bool option" where
  "verify_secp256k1_ecdsa_signature env msg sig pk =
     (if length sig \<noteq> 65 then None
      else let v = sig ! 64;
               recovery_id = (if v > 26 then v - 27 else v)
        in if recovery_id > 3 then None
           else if \<not> signature_from_slice env (take 64 sig) then None
           else case recover_from_prehash env msg (take 64 sig) recovery_id of
             None \<Rightarrow> None
           | Some recovered \<Rightarrow> Some (recovered = pk))"

datatype KeyTypeId = Key_ecat | Key_edat | Key_srat | Key_other

definition verify_attestation_signature ::
  "'x attesters_env \<Rightarrow> AttesterInfo \<Rightarrow> KeyTypeId \<Rightarrow> bytes \<Rightarrow> bytes \<Rightarrow> bytes \<Rightarrow> GatewayVendor
     \<Rightarrow> (DispatchError, bool) res" where
  "verify_attestation_signature env info key_type msg sig recoverable vendor =
     (case key_type of
        Key_ecat \<Rightarrow>
          bind_res (if vendor = Ethereum
              then bind_res (ecdsa_pubkey_to_eth_address env (key_ec info)) (\<lambda>address.
                     ensure (address = recoverable) (Other ''RecoveredAddressMismatch''))
              else Ok ()) (\<lambda>_.
            ok_or (Other ''InvalidSecp256k1Signature'')
              (verify_secp256k1_ecdsa_signature env msg sig (key_ec info)))
      | Key_edat \<Rightarrow> ok_or (Other ''InvalidSignature'') (ed25519_verify env (key_ed info) msg sig)
      | Key_srat \<Rightarrow> ok_or (Other ''InvalidSignature'') (sr25519_verify env (key_sr info) msg sig)
      | Key_other \<Rightarrow> Err (Other ''InvalidKeyTypeId''))"

section \<open>Batches\<close>

definition batches_of :: "'x attesters_state \<Rightarrow> TargetId \<Rightarrow> BatchMessage list" where
  "batches_of s t = opt_list (smap_get (Batches s) t)"

definition get_batches :: "'x attesters_state \<Rightarrow> TargetId \<Rightarrow> BatchStatus \<Rightarrow> BatchMessage list" where
  "get_batches s t by_status = filter (\<lambda>b. b_status b = by_status) (batches_of s t)"

definition find_batches ::
  "'x attesters_state \<Rightarrow> TargetId \<Rightarrow> bytes \<Rightarrow> (DispatchError, BatchMessage list) res" where
  "find_batches s t msg =
     (case smap_get (Batches s) t of
        Some bs \<Rightarrow> if list_ex (\<lambda>b. message b = msg) bs then Ok bs else Panic
      | None \<Rightarrow> Panic)"

definition get_batch_by_message :: "'x attesters_state \<Rightarrow> TargetId \<Rightarrow> bytes \<Rightarrow> BatchMessage option" where
  "get_batch_by_message s t msg = list_find (\<lambda>b. message b = msg) (batches_of s t)"

definition get_batch_by_message_hash ::
  "'x attesters_env \<Rightarrow> 'x attesters_state \<Rightarrow> TargetId \<Rightarrow> H256 \<Rightarrow> BatchMessage option" where
  "get_batch_by_message_hash env s t h = list_find (\<lambda>b. hash_of env b = h) (batches_of s t)"

definition get_batches_to_commit :: "'x attesters_state \<Rightarrow> TargetId \<Rightarrow> BatchMessage list" where
  "get_batches_to_commit s t =
     filter (\<lambda>b. b_status b = ReadyForSubmissionByMajority \<or> b_status b = ReadyForSubmissionFullyApproved)
       (batches_of s t)"

definition first_of :: "'a list \<Rightarrow> 'a option" where
  "first_of xs = (case xs of [] \<Rightarrow> None | x # _ \<Rightarrow> Some x)"

definition get_latest_batch_to_commit :: "'x attesters_state \<Rightarrow> TargetId \<Rightarrow> BatchMessage option" where
  "get_latest_batch_to_commit s t = first_of (sort_desc (\<lambda>b. unat (b_index b)) (get_batches_to_commit s t))"

definition get_all_batches_to_sign :: "'x attesters_state \<Rightarrow> TargetId \<Rightarrow> BatchMessage list" where
  "get_all_batches_to_sign s t = sort_desc (\<lambda>b. unat (b_created b)) (get_batches s t PendingAttestation)"

definition get_latest_batch_to_sign :: "'x attesters_state \<Rightarrow> TargetId \<Rightarrow> BatchMessage option" where
  "get_latest_batch_to_sign s t = first_of (get_all_batches_to_sign s t)"

definition get_latest_batch_to_sign_hash ::
  "'x attesters_env \<Rightarrow> 'x attesters_state \<Rightarrow> TargetId \<Rightarrow> H256 option" where
  "get_latest_batch_to_sign_hash env s t = first_of (map (hash_of env) (get_all_batches_to_sign s t))"

definition get_latest_batch_to_sign_message :: "'x attesters_state \<Rightarrow> TargetId \<Rightarrow> bytes option" where
  "get_latest_batch_to_sign_message s t = first_of (map message (get_all_batches_to_sign s t))"

definition is_last_transition_attested :: "'x attesters_state \<Rightarrow> bool" where
  "is_last_transition_attested s =
     list_all (\<lambda>(t, i). case list_find (\<lambda>b. b_index b = i) (batches_of s t) of
         Some b \<Rightarrow> b_status b \<noteq> PendingAttestation
       | None \<Rightarrow> True) (CommitteeTransitionOn s)"

section \<open>Reading interface\<close>

definition is_permanently_slashed :: "'x attesters_state \<Rightarrow> AccountId \<Rightarrow> bool" where
  "is_permanently_slashed s a \<longleftrightarrow> a \<in> set (PermanentSlashes s)"

definition at_honest_active_set :: "'x attesters_state \<Rightarrow> AccountId list" where
  "at_honest_active_set s = filter (\<lambda>a. \<not> is_permanently_slashed s a) (ActiveSet s)"

definition read_attester_info :: "'x attesters_state \<Rightarrow> AccountId \<Rightarrow> AttesterInfo option" where
  "read_attester_info s a = smap_get (AttesterInfos s) a"

definition nominations_of :: "'x attesters_state \<Rightarrow> AccountId \<Rightarrow> (AccountId \<times> Balance) list" where
  "nominations_of s a = map (\<lambda>((_, n), v). (n, v)) (filter (\<lambda>((b, _), _). b = a) (Nominations s))"

definition read_attestation_latency :: "'x attesters_state \<Rightarrow> TargetId \<Rightarrow> LatencyStatus option" where
  "read_attestation_latency s t =
     map_option b_latency (first_of (sort_key b_created (get_batches s t PendingAttestation)))"

definition read_latest_batching_factor :: "'x attesters_state \<Rightarrow> TargetId \<Rightarrow> BatchingFactor option" where
  "read_latest_batching_factor s t =
     (if t \<notin> set (AttestationTargets s) then None
      else let last10 = map read_batching_factor (take 10 (rev (get_batches s t Batch_Committed)))
        in Some \<lparr>latest_confirmed = (case last10 of [] \<Rightarrow> 0 | f # _ \<Rightarrow> f),
                 latest_signed = (case get_latest_batch_to_sign s t of
                    Some b \<Rightarrow> read_batching_factor b | None \<Rightarrow> 0),
                 current_next = (case smap_get (NextBatch s) t of
                    Some b \<Rightarrow> read_batching_factor b | None \<Rightarrow> 0),
                 up_to_last_10_confirmed = last10\<rparr>)"

definition base_user_fee_for_single_user :: Balance where
  "base_user_fee_for_single_user = 10000000000000"

definition latest_paid_fee :: "'x attesters_state \<Rightarrow> TargetId \<Rightarrow> Balance" where
  "latest_paid_fee s t =
     (case smap_get (PaidFinalityFees s) t of
        Some fees \<Rightarrow> if fees = [] then base_user_fee_for_single_user else last fees
      | None \<Rightarrow> base_user_fee_for_single_user)"

definition at_estimate_finality_fee :: "'x attesters_env \<Rightarrow> 'x attesters_state \<Rightarrow> TargetId \<Rightarrow> Balance" where
  "at_estimate_finality_fee env s t =
     (let number_of_users :: u32 = (case read_latest_batching_factor s t of
            Some f \<Rightarrow> ucast (latest_signed f) | None \<Rightarrow> 1);
          base_user_fee = (case checked_div (latest_paid_fee s t) (ucast number_of_users) of
            Some v \<Rightarrow> v | None \<Rightarrow> base_user_fee_for_single_user)
      in saturating_add (at_percent env OVERCHARGE_FACTOR base_user_fee) base_user_fee)"

definition adjust_up :: "'x attesters_env \<Rightarrow> Balance \<Rightarrow> Balance" where
  "adjust_up env r = saturating_add (at_percent env REWARD_ADJUSTMENT r) r"

definition estimate_finality_reward ::
  "'x attesters_env \<Rightarrow> 'x attesters_state \<Rightarrow> TargetId \<Rightarrow> BlockNumber \<Rightarrow> Balance" where
  "estimate_finality_reward env s t blocks_delay =
     (let capped = min blocks_delay (ucast SIX_EPOCHS_IN_LOCAL_BLOCKS_U8);
          epochs_delayed = unat (capped div ucast ONE_EPOCHS_IN_LOCAL_BLOCKS_U8);
          reward = (adjust_up env ^^ epochs_delayed) (latest_paid_fee s t)
      in if capped < ucast ONE_EPOCHS_IN_LOCAL_BLOCKS_U8
         then saturating_sub reward (at_percent env REWARD_ADJUSTMENT reward) else reward)"

section \<open>Committees\<close>

definition get_current_committee_transition_for_target ::
  "'x attesters_state \<Rightarrow> TargetId \<Rightarrow> (u32 \<times> bytes) list" where
  "get_current_committee_transition_for_target s t =
     sort_key fst (concat (map (\<lambda>a. case (smap_get (AttesterInfos s) a, smap_get (AttestersAgreements s) (a, t)) of
         (Some info, Some recoverable) \<Rightarrow> [(a_index info, recoverable)]
       | _ \<Rightarrow> []) (NextCommittee s)))"

text \<open>The array has 32 entries: writing to a later one panics.\<close>

definition set_committee_index ::
  "'x attesters_state \<Rightarrow> nat \<times> AccountId \<Rightarrow> u32 list \<Rightarrow> (DispatchError, u32 list) res" where
  "set_committee_index s = (\<lambda>(i, a) xs.
     case smap_get (AttesterInfos s) a of
       Some info \<Rightarrow> if i < length xs then Ok (xs[i := a_index info]) else Panic
     | None \<Rightarrow> Ok xs)"

definition get_current_committee_indices :: "'x attesters_state \<Rightarrow> (DispatchError, u32 list) res" where
  "get_current_committee_indices s =
     bind_res (fold_res (set_committee_index s)
        (zip [0..<length (CurrentCommittee s)] (CurrentCommittee s)) (replicate COMMITTEE_SIZE 0))
       (\<lambda>xs. Ok (sort xs))"

definition apply_partial_stake_slash ::
  "'x attesters_env \<Rightarrow> AccountId \<Rightarrow> (AccountId \<times> Balance) list \<Rightarrow> Percent \<Rightarrow> Percent
     \<Rightarrow> Balance \<times> (AccountId \<times> Balance) list" where
  "apply_partial_stake_slash env attester noms percent_slash percent_nominator_grace =
     (let self_nomination = (case list_find (\<lambda>(n, _). n = attester) noms of
            Some (_, b) \<Rightarrow> b | None \<Rightarrow> 0)
      in if self_nomination = 0 then (0, [])
         else let slash_amount = at_percent env percent_slash self_nomination
           in (saturating_sub self_nomination slash_amount,
               map (\<lambda>(n, b). if n = attester then (n, saturating_sub b slash_amount)
                             else (n, saturating_sub b (at_percent env percent_nominator_grace b))) noms))"

end
