(* ===== verification/Xdns_State.thy ===== *)
theory Xdns_State
  imports Attesters_State Circuit_Queues "HOL-Library.Product_Lexorder"
begin

text \<open>
  The registry of gateways, tokens and side effect ABIs (\<open>pallets/xdns/src/lib.rs\<close>,
  \<open>primitives/src/xdns.rs\<close>): its storage, the reading functions of the \<open>Xdns\<close> trait and the
  operations that write gateways, tokens and ABIs.  The assets pallet and the light clients are
  fields of \<open>xdns_env\<close> over the state \<open>'y\<close> of the remaining pallets.  A double map is a map
  from pairs, and \<open>iter_prefix\<close> a filter on the first component.
\<close>

section \<open>Data\<close>

text \<open>\<open>#[derive(PartialOrd, Ord)]\<close>: the vendors in the order of their declaration.\<close>

fun vendor_rank :: "GatewayVendor \<Rightarrow> nat" where
  "vendor_rank Polkadot = 0"
| "vendor_rank Kusama = 1"
| "vendor_rank Rococo = 2"
| "vendor_rank Ethereum = 3"
| "vendor_rank Sepolia = 4"
| "vendor_rank XBI = 5"
| "vendor_rank Attesters = 6"

lemma vendor_rank_inj: "vendor_rank x = vendor_rank y \<Longrightarrow> x = y"
  by (cases x; cases y) simp_all

instantiation GatewayVendor :: linorder
begin
definition "less_eq_GatewayVendor x y = (vendor_rank x \<le> vendor_rank y)"
definition "less_GatewayVendor x y = (vendor_rank x < vendor_rank y)"
instance
  by standard (auto simp: less_eq_GatewayVendor_def less_GatewayVendor_def dest: vendor_rank_inj)
end

definition vendors :: "GatewayVendor list" where
  "vendors = [Polkadot, Kusama, Rococo, Ethereum, Sepolia, XBI, Attesters]"

datatype TokenInfo =
    Token_Substrate u32 bytes byte
  | Token_Ethereum bytes byte "bytes option"

record TokenRecord =
  tok_id :: AssetId
  tok_gateway :: TargetId
  tok_props :: TokenInfo

record GatewayRecord =
  gw_id :: TargetId
  gw_verification_vendor :: GatewayVendor
  gw_execution_vendor :: ExecutionVendor
  gw_codec :: Codec
  gw_registrant :: "AccountId option"
  gw_escrow_account :: "AccountId option"
  gw_allowed_side_effects :: "(Sfx4bId \<times> byte option) list"

record FullGatewayRecord =
  gateway_record :: GatewayRecord
  gateway_tokens :: "TokenRecord list"

record XDNSTopology =
  topo_gateways :: "FullGatewayRecord list"
  topo_assets :: "TokenRecord list"

record FinalityVerifierActivity =
  va_verifier :: GatewayVendor
  va_reported_at :: BlockNumber
  va_justified_height :: BlockNumber
  va_finalized_height :: BlockNumber
  va_updated_height :: BlockNumber
  va_epoch :: BlockNumber
  va_is_active :: bool

record GatewayActivity =
  ga_gateway_id :: TargetId
  ga_reported_at :: BlockNumber
  ga_justified_height :: BlockNumber
  ga_finalized_height :: BlockNumber
  ga_updated_height :: BlockNumber
  ga_attestation_latency :: "LatencyStatus option"
  ga_security_lvl :: SecurityLvl
  ga_is_active :: bool

datatype XdnsEvent =
    GatewayRecordStored TargetId
  | NewTokenLinkedToGateway AssetId TargetId
  | NewTokenAssetRegistered AssetId TargetId
  | GatewayRecordPurged AccountId TargetId
  | XdnsRecordPurged AccountId TargetId
  | XdnsRecordUpdated TargetId
  | XDNSTopologyZip XDNSTopology

text \<open>The trait \<open>LightClient\<close>: what the portal asks a finality verifier for.\<close>

record 'y light_client =
  lc_latest_finalized_header :: "'y \<Rightarrow> bytes option"
  lc_fast_height :: "'y \<Rightarrow> HeightResult"
  lc_rational_height :: "'y \<Rightarrow> HeightResult"
  lc_finalized_height :: "'y \<Rightarrow> HeightResult"
  lc_latest_heartbeat :: "'y \<Rightarrow> (DispatchError, LightClientHeartbeat) res"
  lc_initialize :: "Origin \<Rightarrow> TargetId \<Rightarrow> bytes \<Rightarrow> 'y \<Rightarrow> (DispatchError, 'y) res"
  lc_verify_event_inclusion ::
    "'y \<Rightarrow> TargetId \<Rightarrow> SpeedMode \<Rightarrow> bytes option \<Rightarrow> bytes \<Rightarrow> (DispatchError, InclusionReceipt) res"
  lc_verify_state_inclusion ::
    "'y \<Rightarrow> TargetId \<Rightarrow> SpeedMode \<Rightarrow> bytes \<Rightarrow> (DispatchError, InclusionReceipt) res"
  lc_verify_tx_inclusion ::
    "'y \<Rightarrow> TargetId \<Rightarrow> SpeedMode \<Rightarrow> bytes \<Rightarrow> (DispatchError, InclusionReceipt) res"

text \<open>
  \<open>select_light_client\<close> is the runtime's \<open>SelectLightClient\<close>, \<open>None\<close> its error
  \<open>LightClientNotFoundByVendor\<close>; the asset operations are those of \<open>PalletAssetsOverlay\<close>.
\<close>

record 'y xdns_env =
  SelfTokenId :: AssetId
  SelfGatewayId :: TargetId
  xd_treasury_account :: "TreasuryAccount \<Rightarrow> AccountId"
  xd_minimum_balance :: Balance
  contains_asset :: "'y \<Rightarrow> AssetId \<Rightarrow> bool"
  force_create_asset :: "Origin \<Rightarrow> AssetId \<Rightarrow> AccountId \<Rightarrow> Balance \<Rightarrow> 'y \<Rightarrow> (DispatchError, 'y) res"
  mint_asset :: "Origin \<Rightarrow> AssetId \<Rightarrow> AccountId \<Rightarrow> Balance \<Rightarrow> 'y \<Rightarrow> (DispatchError, 'y) res"
  burn_asset :: "Origin \<Rightarrow> AssetId \<Rightarrow> AccountId \<Rightarrow> Balance \<Rightarrow> 'y \<Rightarrow> (DispatchError, 'y) res"
  destroy_asset :: "Origin \<Rightarrow> AssetId \<Rightarrow> 'y \<Rightarrow> (DispatchError, 'y) res"
  decode_topology :: "bytes \<Rightarrow> XDNSTopology option"
  select_light_client :: "GatewayVendor \<Rightarrow> 'y light_client option"

record 'y xdns_state =
  xd_StorageMigrations :: u32
  StandardSideEffects :: "(Sfx4bId, bytes) smap"
  StandardSFXABIs :: "(Sfx4bId, SFXAbi) smap"
  SFXABIRegistry :: "(TargetId \<times> Sfx4bId, SFXAbi) smap"
  Gateways :: "(TargetId, GatewayRecord) smap"
  Tokens :: "(AssetId \<times> TargetId, TokenRecord) smap"
  GatewayTokens :: "(TargetId, AssetId list) smap"
  AllTokenIds :: "AssetId list"
  AuthorizedMintAssets :: "(AssetId \<times> TargetId) list"
  AllGatewayIds :: "TargetId list"
  RemoteOrderAddresses :: "(TargetId, H256) smap"
  RemoteBiddingAddresses :: "(TargetId, H256) smap"
  GatewaysOverviewStore :: "GatewayActivity list"
  VerifierOverviewStore :: "FinalityVerifierActivity list"
  GatewaysOverviewStoreHistory :: "(TargetId, GatewayActivity list) smap"
  VerifierOverviewStoreHistory :: "(GatewayVendor, FinalityVerifierActivity list) smap"
  EpochHistory :: "(GatewayVendor, EpochEstimate list) smap"
  xdns_events :: "XdnsEvent list"
  xd_ext :: 'y

abbreviation xd_err :: "XdnsError \<Rightarrow> (DispatchError, 'a) res" where
  "xd_err e \<equiv> Err (Xdns_Error e)"

text \<open>Reading a map with \<open>ValueQuery\<close>: an absent list is empty.\<close>

definition list_at :: "('k, 'v list) smap \<Rightarrow> 'k \<Rightarrow> 'v list" where
  "list_at m k = (case smap_get m k of Some xs \<Rightarrow> xs | None \<Rightarrow> [])"

definition xd_event :: "XdnsEvent \<Rightarrow> 'y xdns_state \<Rightarrow> 'y xdns_state" where
  "xd_event e s = s\<lparr>xdns_events := xdns_events s @ [e]\<rparr>"

text \<open>\<open>ensure_signed_or_root\<close> of the runtime: no account stands for the root origin.\<close>

definition ensure_signed_or_root :: "Origin \<Rightarrow> (DispatchError, AccountId option) res" where
  "ensure_signed_or_root origin =
     (case origin of Root \<Rightarrow> Ok None | Signed who \<Rightarrow> Ok (Some who) | Unsigned \<Rightarrow> Err BadOrigin)"

text \<open>The signer, or the escrow account of the treasury for the root origin.\<close>

definition admin_of :: "'y xdns_env \<Rightarrow> Origin \<Rightarrow> (DispatchError, AccountId) res" where
  "admin_of env origin = bind_res (ensure_signed_or_root origin) (\<lambda>who.
     Ok (case who of Some a \<Rightarrow> a | None \<Rightarrow> xd_treasury_account env Treasury_Escrow))"

section \<open>Reading\<close>

definition list_available_mint_assets :: "'y xdns_state \<Rightarrow> TargetId \<Rightarrow> TokenRecord list" where
  "list_available_mint_assets s gateway =
     List.map_filter (\<lambda>(asset, t). if t = gateway then smap_get (Tokens s) (asset, gateway) else None)
       (AuthorizedMintAssets s)"

definition check_asset_is_mintable :: "'y xdns_state \<Rightarrow> TargetId \<Rightarrow> AssetId \<Rightarrow> bool" where
  "check_asset_is_mintable s gateway asset =
     list_ex (\<lambda>tok. tok_id tok = asset) (list_available_mint_assets s gateway)"

text \<open>A token without a record, or with the record of a Substrate chain, ends the search.\<close>

fun find_eth_token ::
  "'y xdns_state \<Rightarrow> TargetId \<Rightarrow> bytes \<Rightarrow> AssetId list \<Rightarrow> (DispatchError, TokenRecord) res" where
  "find_eth_token s gateway addr [] = xd_err TokenRecordNotFoundInGateway"
| "find_eth_token s gateway addr (t # ts) =
     bind_res (ok_or (Xdns_Error TokenRecordNotFoundInGateway) (smap_get (Tokens s) (t, gateway))) (\<lambda>tok.
       case tok_props tok of
         Token_Ethereum _ _ a \<Rightarrow> if a = Some addr then Ok tok else find_eth_token s gateway addr ts
       | Token_Substrate _ _ _ \<Rightarrow> xd_err TokenRecordNotFoundInGateway)"

definition get_token_by_eth_address ::
  "'y xdns_state \<Rightarrow> TargetId \<Rightarrow> bytes \<Rightarrow> (DispatchError, TokenRecord) res" where
  "get_token_by_eth_address s gateway addr = find_eth_token s gateway addr (list_at (GatewayTokens s) gateway)"

definition get_all_sfx_abi :: "'y xdns_state \<Rightarrow> TargetId \<Rightarrow> (Sfx4bId \<times> SFXAbi) list" where
  "get_all_sfx_abi s gateway =
     map (\<lambda>((_, k), abi). (k, abi)) (filter (\<lambda>((g, _), _). g = gateway) (SFXABIRegistry s))"

definition xd_get_sfx_abi :: "'y xdns_state \<Rightarrow> TargetId \<Rightarrow> Sfx4bId \<Rightarrow> SFXAbi option" where
  "xd_get_sfx_abi s gateway k = smap_get (SFXABIRegistry s) (gateway, k)"

definition allowed_side_effects :: "'y xdns_state \<Rightarrow> TargetId \<Rightarrow> (Sfx4bId \<times> byte option) list" where
  "allowed_side_effects s gateway =
     (case smap_get (Gateways s) gateway of Some r \<Rightarrow> gw_allowed_side_effects r | None \<Rightarrow> [])"

definition get_verification_vendor :: "'y xdns_state \<Rightarrow> TargetId \<Rightarrow> (DispatchError, GatewayVendor) res" where
  "get_verification_vendor s chain =
     bind_res (ok_or (Xdns_Error XdnsRecordNotFound) (smap_get (Gateways s) chain)) (\<lambda>r.
       Ok (gw_verification_vendor r))"

definition xd_get_target_codec :: "'y xdns_state \<Rightarrow> TargetId \<Rightarrow> (DispatchError, Codec) res" where
  "xd_get_target_codec s chain =
     bind_res (ok_or (Xdns_Error XdnsRecordNotFound) (smap_get (Gateways s) chain)) (\<lambda>r. Ok (gw_codec r))"

definition get_escrow_account :: "'y xdns_state \<Rightarrow> TargetId \<Rightarrow> (DispatchError, bytes) res" where
  "get_escrow_account s chain =
     bind_res (ok_or (Xdns_Error XdnsRecordNotFound) (smap_get (Gateways s) chain)) (\<lambda>r.
       ok_or (Xdns_Error EscrowAccountNotFound) (gw_escrow_account r))"

definition get_gateway_max_security_lvl :: "'y xdns_state \<Rightarrow> TargetId \<Rightarrow> SecurityLvl" where
  "get_gateway_max_security_lvl s chain =
     (if chain = [3, 3, 3, 3] then Escrow
      else if is_ok (get_escrow_account s chain) then Escrow else Optimistic)"

definition fetch_full_gateway_records :: "'y xdns_state \<Rightarrow> FullGatewayRecord list" where
  "fetch_full_gateway_records s =
     map (\<lambda>(_, r). \<lparr>gateway_record = r,
            gateway_tokens = filter (\<lambda>tok. tok_gateway tok = gw_id r) (map snd (Tokens s))\<rparr>) (Gateways s)"

definition get_remote_order_contract_address :: "'y xdns_state \<Rightarrow> TargetId \<Rightarrow> (DispatchError, H256) res" where
  "get_remote_order_contract_address s gateway =
     ok_or (Xdns_Error RemoteOrderAddressNotFound) (smap_get (RemoteOrderAddresses s) gateway)"

definition get_remote_bidding_contract_address :: "'y xdns_state \<Rightarrow> TargetId \<Rightarrow> (DispatchError, H256) res" where
  "get_remote_bidding_contract_address s gateway =
     ok_or (Xdns_Error RemoteOrderAddressNotFound) (smap_get (RemoteBiddingAddresses s) gateway)"

section \<open>Gateways and their ABIs\<close>

text \<open>
  The loop of \<open>override_gateway\<close>: the flag tells whether every ABI was found.  Entries written
  before a missing one stay, unless the caller's call is rolled back.
\<close>

fun populate_abis ::
  "TargetId \<Rightarrow> (Sfx4bId \<times> byte option) list \<Rightarrow> 'y xdns_state \<Rightarrow> bool \<times> 'y xdns_state" where
  "populate_abis gateway [] s = (True, s)"
| "populate_abis gateway ((k, memo) # ks) s =
     (case smap_get (StandardSFXABIs s) k of
        None \<Rightarrow> (False, s)
      | Some abi \<Rightarrow> populate_abis gateway ks
          (s\<lparr>SFXABIRegistry := smap_insert (gateway, k) (abi\<lparr>maybe_prefix_memo := memo\<rparr>) (SFXABIRegistry s)\<rparr>))"

definition override_gateway ::
  "GatewayRecord \<Rightarrow> 'y xdns_state \<Rightarrow> (DispatchError, 'y xdns_state) res" where
  "override_gateway r s =
     (case populate_abis (gw_id r) (gw_allowed_side_effects r) s of
        (False, _) \<Rightarrow> xd_err SideEffectABINotFound
      | (True, s1) \<Rightarrow> Ok (xd_event (GatewayRecordStored (gw_id r))
          (s1\<lparr>Gateways := smap_insert (gw_id r) r (Gateways s1),
              AllGatewayIds := remove1 (gw_id r) (AllGatewayIds s1) @ [gw_id r]\<rparr>)))"

definition add_new_gateway ::
  "GatewayRecord \<Rightarrow> 'y xdns_state \<Rightarrow> (DispatchError, 'y xdns_state) res" where
  "add_new_gateway r s =
     (if smap_contains (Gateways s) (gw_id r) then xd_err GatewayRecordAlreadyExists
      else override_gateway r s)"

definition extend_sfx_abi ::
  "Origin \<Rightarrow> TargetId \<Rightarrow> Sfx4bId \<Rightarrow> SFXAbi \<Rightarrow> 'y xdns_state \<Rightarrow> (DispatchError, 'y xdns_state) res" where
  "extend_sfx_abi origin gateway k abi s =
     bind_res (ensure_root origin) (\<lambda>_.
       if \<not> smap_contains (Gateways s) gateway then xd_err XdnsRecordNotFound
       else if smap_contains (SFXABIRegistry s) (gateway, k) then xd_err SideEffectABIAlreadyExists
       else Ok (s\<lparr>SFXABIRegistry := smap_insert (gateway, k) abi (SFXABIRegistry s)\<rparr>))"

definition override_sfx_abi ::
  "TargetId \<Rightarrow> (Sfx4bId \<times> SFXAbi) list \<Rightarrow> 'y xdns_state \<Rightarrow> (DispatchError, 'y xdns_state) res" where
  "override_sfx_abi gateway new_sfx_abis s =
     bind_res (ok_or (Xdns_Error XdnsRecordNotFound) (smap_get (Gateways s) gateway)) (\<lambda>r.
       Ok (s\<lparr>Gateways := smap_insert gateway
               (r\<lparr>gw_allowed_side_effects := map (\<lambda>(k, abi). (k, maybe_prefix_memo abi)) new_sfx_abis\<rparr>)
               (Gateways s),
             SFXABIRegistry := fold (\<lambda>(k, abi). smap_insert (gateway, k) abi) new_sfx_abis
               (SFXABIRegistry s)\<rparr>))"

definition add_escrow_account ::
  "Origin \<Rightarrow> TargetId \<Rightarrow> AccountId \<Rightarrow> 'y xdns_state \<Rightarrow> (DispatchError, 'y xdns_state) res" where
  "add_escrow_account origin gateway account s =
     bind_res (ensure_root origin) (\<lambda>_.
     bind_res (ok_or (Xdns_Error GatewayRecordNotFound) (smap_get (Gateways s) gateway)) (\<lambda>r.
       Ok (s\<lparr>Gateways := smap_insert gateway (r\<lparr>gw_escrow_account := Some account\<rparr>) (Gateways s)\<rparr>)))"

section \<open>Tokens\<close>

definition override_token ::
  "AssetId \<Rightarrow> TargetId \<Rightarrow> TokenInfo \<Rightarrow> 'y xdns_state \<Rightarrow> 'y xdns_state" where
  "override_token token gateway props s =
     (let toks = list_at (GatewayTokens s) gateway in
      xd_event (NewTokenLinkedToGateway token gateway)
       (s\<lparr>Tokens := smap_insert (token, gateway) \<lparr>tok_id = token, tok_gateway = gateway, tok_props = props\<rparr> (Tokens s),
          GatewayTokens := smap_insert gateway (if token \<in> set toks then toks else toks @ [token]) (GatewayTokens s),
          AllTokenIds := (if token \<in> set (AllTokenIds s) then AllTokenIds s else AllTokenIds s @ [token])\<rparr>))"

definition link_token_to_gateway ::
  "'y xdns_env \<Rightarrow> AssetId \<Rightarrow> TargetId \<Rightarrow> TokenInfo \<Rightarrow> 'y xdns_state \<Rightarrow> (DispatchError, 'y xdns_state) res" where
  "link_token_to_gateway env token gateway props s =
     (if \<not> smap_contains (Gateways s) gateway then xd_err GatewayRecordNotFound
      else if smap_contains (Tokens s) (token, gateway) then xd_err TokenRecordAlreadyExists
      else if \<not> contains_asset env (xd_ext s) token then xd_err TokenRecordNotFoundInAssetsOverlay
      else Ok (override_token token gateway props s))"

definition register_new_token ::
  "'y xdns_env \<Rightarrow> Origin \<Rightarrow> AssetId \<Rightarrow> TokenInfo \<Rightarrow> 'y xdns_state \<Rightarrow> (DispatchError, 'y xdns_state) res" where
  "register_new_token env origin token props s =
     (if contains_asset env (xd_ext s) token then xd_err TokenRecordAlreadyExists
      else if token \<in> set (AllTokenIds s) then xd_err TokenRecordAlreadyExists
      else bind_res (admin_of env origin) (\<lambda>admin.
           bind_res (force_create_asset env origin token admin (xd_minimum_balance env) (xd_ext s)) (\<lambda>y.
           bind_res (link_token_to_gateway env token (SelfGatewayId env) props (s\<lparr>xd_ext := y\<rparr>)) (\<lambda>s1.
             Ok (xd_event (NewTokenAssetRegistered token (SelfGatewayId env))
                   (s1\<lparr>AllTokenIds := AllTokenIds s1 @ [token]\<rparr>))))))"

text \<open>The assertions of \<open>mint\<close> and \<open>burn\<close> panic.\<close>

definition xd_mint ::
  "'y xdns_env \<Rightarrow> AssetId \<Rightarrow> AccountId \<Rightarrow> Balance \<Rightarrow> 'y xdns_state \<Rightarrow> (DispatchError, 'y xdns_state) res" where
  "xd_mint env asset user amt s =
     (if \<not> check_asset_is_mintable s (SelfGatewayId env) asset then Panic
      else bind_res (mint_asset env (Signed (xd_treasury_account env Treasury_Escrow)) asset user amt (xd_ext s))
             (\<lambda>y. Ok (s\<lparr>xd_ext := y\<rparr>)))"

definition xd_burn ::
  "'y xdns_env \<Rightarrow> AssetId \<Rightarrow> AccountId \<Rightarrow> Balance \<Rightarrow> 'y xdns_state \<Rightarrow> (DispatchError, 'y xdns_state) res" where
  "xd_burn env asset user amt s =
     (if \<not> check_asset_is_mintable s (SelfGatewayId env) asset then Panic
      else bind_res (burn_asset env (Signed (xd_treasury_account env Treasury_Escrow)) asset user amt (xd_ext s))
             (\<lambda>y. Ok (s\<lparr>xd_ext := y\<rparr>)))"

section \<open>Topology\<close>

definition do_zip_topology :: "'y xdns_env \<Rightarrow> 'y xdns_state \<Rightarrow> XDNSTopology" where
  "do_zip_topology env s =
     \<lparr>topo_gateways = fetch_full_gateway_records s,
      topo_assets = List.map_filter (\<lambda>asset. smap_get (Tokens s) (asset, SelfGatewayId env)) (AllTokenIds s)\<rparr>"

definition unzip_asset ::
  "'y xdns_env \<Rightarrow> Origin \<Rightarrow> TokenRecord \<Rightarrow> 'y xdns_state \<Rightarrow> (DispatchError, 'y xdns_state) res" where
  "unzip_asset env origin asset s =
     (if tok_id asset \<notin> set (AllTokenIds s)
      then register_new_token env origin (tok_id asset) (tok_props asset) s
      else link_token_to_gateway env (tok_id asset) (tok_gateway asset) (tok_props asset) s)"

definition do_unzip_topology ::
  "'y xdns_env \<Rightarrow> Origin \<Rightarrow> XDNSTopology \<Rightarrow> 'y xdns_state \<Rightarrow> (DispatchError, 'y xdns_state) res" where
  "do_unzip_topology env origin topology s =
     bind_res (fold_res (\<lambda>g. override_gateway (gateway_record g)) (topo_gateways topology) s)
       (fold_res (unzip_asset env origin) (topo_assets topology))"

section \<open>The gateway of the chain itself\<close>

definition BALANCES_INDEX :: byte where "BALANCES_INDEX = 10"
definition ASSETS_INDEX :: byte where "ASSETS_INDEX = 12"
definition EVM_INDEX :: byte where "EVM_INDEX = 120"
definition WASM_INDEX :: byte where "WASM_INDEX = 121"

text \<open>The byte strings \<open>b"tran"\<close>, \<open>b"tddd"\<close>, \<open>b"tass"\<close>, \<open>b"cevm"\<close> and \<open>b"wasm"\<close>; the three transfers are all pushed as \<open>tran\<close>.\<close>

definition self_side_effects :: "'y xdns_state \<Rightarrow> (Sfx4bId \<times> byte option) list" where
  "self_side_effects s =
     (let known = smap_contains (StandardSFXABIs s) in
        (if known [116, 114, 97, 110] then [([116, 114, 97, 110], Some BALANCES_INDEX)] else [])
      @ (if known [116, 100, 100, 100] then [([116, 114, 97, 110], Some ASSETS_INDEX)] else [])
      @ (if known [116, 97, 115, 115] then [([116, 114, 97, 110], Some ASSETS_INDEX)] else [])
      @ (if known [99, 101, 118, 109] then [([99, 101, 118, 109], Some EVM_INDEX)] else [])
      @ (if known [119, 97, 115, 109] then [([119, 97, 115, 109], Some WASM_INDEX)] else []))"

text \<open>The registry's standard ABIs are replaced by the current ones and keep their memo.\<close>

definition refresh_standard ::
  "Sfx4bId \<times> SFXAbi \<Rightarrow> (TargetId \<times> Sfx4bId, SFXAbi) smap \<Rightarrow> (TargetId \<times> Sfx4bId, SFXAbi) smap" where
  "refresh_standard = (\<lambda>(k, abi).
     map (\<lambda>((g, k'), old). ((g, k'),
       if k' = k then abi\<lparr>maybe_prefix_memo := maybe_prefix_memo old\<rparr> else old)))"

definition do_reboot_self_gateway ::
  "'y xdns_env \<Rightarrow> Origin \<Rightarrow> GatewayVendor \<Rightarrow> 'y xdns_state \<Rightarrow> (DispatchError, 'y xdns_state) res" where
  "do_reboot_self_gateway env origin vendor s =
     bind_res (admin_of env origin) (\<lambda>admin.
       let s1 = s\<lparr>StandardSFXABIs := fold (\<lambda>(k, abi). smap_insert k abi) standard_sfx_abi smap_empty\<rparr> in
       bind_res (override_gateway
           \<lparr>gw_id = SelfGatewayId env, gw_verification_vendor = vendor, gw_execution_vendor = Vendor_Substrate,
            gw_codec = Scale, gw_registrant = Some admin, gw_escrow_account = Some admin,
            gw_allowed_side_effects = self_side_effects s1\<rparr> s1) (\<lambda>s2.
         Ok (s2\<lparr>SFXABIRegistry := fold refresh_standard standard_sfx_abi (SFXABIRegistry s2)\<rparr>)))"

section \<open>Calls\<close>

definition add_supported_bridging_asset ::
  "Origin \<Rightarrow> AssetId \<Rightarrow> TargetId \<Rightarrow> 'y xdns_state \<Rightarrow> (DispatchError, 'y xdns_state) res" where
  "add_supported_bridging_asset origin asset t s =
     bind_res (ensure_root origin) (\<lambda>_.
       Ok (if (asset, t) \<in> set (AuthorizedMintAssets s) then s
           else s\<lparr>AuthorizedMintAssets := AuthorizedMintAssets s @ [(asset, t)]\<rparr>))"

definition enroll_bridge_asset ::
  "'y xdns_env \<Rightarrow> Origin \<Rightarrow> AssetId \<Rightarrow> TargetId \<Rightarrow> TokenInfo \<Rightarrow> 'y xdns_state
     \<Rightarrow> (DispatchError, 'y xdns_state) res" where
  "enroll_bridge_asset env origin asset t props s =
     bind_res (ensure_root origin) (\<lambda>_.
       if check_asset_is_mintable s t asset then Panic
       else bind_res (if asset \<notin> set (AllTokenIds s) then register_new_token env origin asset props s else Ok s) (\<lambda>s1.
            bind_res (if \<not> smap_contains (Tokens s1) (asset, t)
                      then link_token_to_gateway env asset t props s1 else Ok s1) (\<lambda>s2.
              let s3 = s2\<lparr>AuthorizedMintAssets := AuthorizedMintAssets s2 @ [(asset, t)]\<rparr>
              in if check_asset_is_mintable s3 t asset then Ok s3 else Panic)))"

definition enroll_new_abi_to_selected_gateway ::
  "Origin \<Rightarrow> TargetId \<Rightarrow> Sfx4bId \<Rightarrow> SFXAbi option \<Rightarrow> byte option \<Rightarrow> 'y xdns_state
     \<Rightarrow> (DispatchError, 'y xdns_state) res" where
  "enroll_new_abi_to_selected_gateway origin t k expected pallet s =
     bind_res (ensure_root origin) (\<lambda>_.
     bind_res (case expected of
         Some abi \<Rightarrow> Ok abi
       | None \<Rightarrow> bind_res (ok_or (Xdns_Error SideEffectABINotFound) (smap_get (StandardSFXABIs s) k)) (\<lambda>abi.
           Ok (abi\<lparr>maybe_prefix_memo := pallet\<rparr>))) (\<lambda>abi.
       let s1 = s\<lparr>SFXABIRegistry := smap_insert (t, k) abi (SFXABIRegistry s)\<rparr>
       in override_sfx_abi t (get_all_sfx_abi s1 t) s1))"

definition unroll_abi_of_selected_gateway ::
  "Origin \<Rightarrow> TargetId \<Rightarrow> Sfx4bId \<Rightarrow> 'y xdns_state \<Rightarrow> (DispatchError, 'y xdns_state) res" where
  "unroll_abi_of_selected_gateway origin t k s =
     bind_res (ensure_root origin) (\<lambda>_.
       let s1 = s\<lparr>SFXABIRegistry := smap_remove (t, k) (SFXABIRegistry s)\<rparr>
       in override_sfx_abi t (get_all_sfx_abi s1 t) s1)"

definition add_remote_order_address ::
  "Origin \<Rightarrow> TargetId \<Rightarrow> H256 \<Rightarrow> 'y xdns_state \<Rightarrow> (DispatchError, 'y xdns_state) res" where
  "add_remote_order_address origin t addr s =
     bind_res (ensure_root origin) (\<lambda>_.
       Ok (s\<lparr>RemoteOrderAddresses := smap_insert t addr (RemoteOrderAddresses s)\<rparr>))"

definition add_remote_bidding_address ::
  "Origin \<Rightarrow> TargetId \<Rightarrow> H256 \<Rightarrow> 'y xdns_state \<Rightarrow> (DispatchError, 'y xdns_state) res" where
  "add_remote_bidding_address origin t addr s =
     bind_res (ensure_root origin) (\<lambda>_.
       Ok (s\<lparr>RemoteBiddingAddresses := smap_insert t addr (RemoteBiddingAddresses s)\<rparr>))"

definition purge_supported_bridging_asset ::
  "Origin \<Rightarrow> AssetId \<Rightarrow> TargetId \<Rightarrow> 'y xdns_state \<Rightarrow> (DispatchError, 'y xdns_state) res" where
  "purge_supported_bridging_asset origin asset t s =
     bind_res (ensure_root origin) (\<lambda>_.
       Ok (if (asset, t) \<in> set (AuthorizedMintAssets s)
           then s\<lparr>AuthorizedMintAssets := filter (\<lambda>(a, t'). a \<noteq> asset \<and> t' \<noteq> t) (AuthorizedMintAssets s)\<rparr>
           else s))"

definition unlink_token ::
  "Origin \<Rightarrow> TargetId \<Rightarrow> AssetId \<Rightarrow> 'y xdns_state \<Rightarrow> (DispatchError, 'y xdns_state) res" where
  "unlink_token origin gateway token s =
     bind_res (ensure_root origin) (\<lambda>_.
       Ok (s\<lparr>Tokens := smap_remove (token, gateway) (Tokens s),
             GatewayTokens := smap_insert gateway (filter (\<lambda>t. t \<noteq> token) (list_at (GatewayTokens s) gateway))
               (GatewayTokens s)\<rparr>))"

definition link_token ::
  "'y xdns_env \<Rightarrow> Origin \<Rightarrow> TargetId \<Rightarrow> AssetId \<Rightarrow> TokenInfo \<Rightarrow> 'y xdns_state
     \<Rightarrow> (DispatchError, 'y xdns_state) res" where
  "link_token env origin gateway token props s =
     bind_res (ensure_root origin) (\<lambda>_. link_token_to_gateway env token gateway props s)"

definition purge_token_record ::
  "'y xdns_env \<Rightarrow> Origin \<Rightarrow> AssetId \<Rightarrow> 'y xdns_state \<Rightarrow> (DispatchError, 'y xdns_state) res" where
  "purge_token_record env origin token s =
     bind_res (ensure_signed_or_root origin) (\<lambda>who.
     bind_res (destroy_asset env
         (case who of None \<Rightarrow> Signed (xd_treasury_account env Treasury_Escrow) | Some _ \<Rightarrow> origin) token (xd_ext s)) (\<lambda>y.
       Ok (s\<lparr>Tokens := filter (\<lambda>((t, _), _). t \<noteq> token) (Tokens s),
             xd_ext := y,
             AllTokenIds := filter (\<lambda>t. t \<noteq> token) (AllTokenIds s)\<rparr>)))"

definition zip_topology ::
  "'y xdns_env \<Rightarrow> Origin \<Rightarrow> 'y xdns_state \<Rightarrow> (DispatchError, 'y xdns_state) res" where
  "zip_topology env origin s =
     bind_res (ensure_signed origin) (\<lambda>_. Ok (xd_event (XDNSTopologyZip (do_zip_topology env s)) s))"

definition unzip_topology ::
  "'y xdns_env \<Rightarrow> Origin \<Rightarrow> XDNSTopology option \<Rightarrow> bytes option \<Rightarrow> 'y xdns_state
     \<Rightarrow> (DispatchError, 'y xdns_state) res" where
  "unzip_topology env origin decoded encoded s =
     bind_res (ensure_root origin) (\<lambda>_.
     bind_res (case decoded of
         Some topology \<Rightarrow> Ok topology
       | None \<Rightarrow> (case encoded of
           Some bs \<Rightarrow> ok_or (Xdns_Error TopologyDecodeError) (decode_topology env bs)
         | None \<Rightarrow> xd_err EmptyTopologySubmitted)) (\<lambda>topology.
       do_unzip_topology env origin topology s))"

section \<open>Genesis and migration\<close>

text \<open>A record whose ABIs are unknown is skipped, with the ABIs found before the missing one left behind.\<close>

definition genesis_gateway :: "GatewayRecord \<Rightarrow> 'y xdns_state \<Rightarrow> 'y xdns_state" where
  "genesis_gateway r s =
     (case override_gateway r s of
        Ok s' \<Rightarrow> s'
      | _ \<Rightarrow> snd (populate_abis (gw_id r) (gw_allowed_side_effects r) s))"

definition xdns_genesis ::
  "GatewayRecord list \<Rightarrow> (Sfx4bId \<times> SFXAbi) list \<Rightarrow> 'y xdns_state \<Rightarrow> 'y xdns_state" where
  "xdns_genesis records abis s =
     fold genesis_gateway records
       (s\<lparr>StandardSFXABIs := fold (\<lambda>(k, abi). smap_insert k abi) abis (StandardSFXABIs s)\<rparr>)"

text \<open>
  \<open>on_runtime_upgrade\<close>: versions 1 and 2 kill raw keys of entries that are no longer declared,
  which the typed storage does not show.
\<close>

definition xdns_on_runtime_upgrade :: "'y xdns_state \<Rightarrow> 'y xdns_state" where
  "xdns_on_runtime_upgrade s =
     (if xd_StorageMigrations s = 0
      then s\<lparr>StandardSFXABIs := fold (\<lambda>(k, _) m.
               case get_standard_interface k of Some abi \<Rightarrow> smap_insert k abi m | None \<Rightarrow> m)
               (StandardSideEffects s) (StandardSFXABIs s),
             StandardSideEffects := smap_empty, xd_StorageMigrations := 2\<rparr>
      else if xd_StorageMigrations s \<in> {1, 2} then s\<lparr>xd_StorageMigrations := 2\<rparr>
      else s)"

end
