(* ===== verification/Portal.thy ===== *)
theory Portal
  imports Xdns_State
begin

text \<open>
  The portal (\<open>pallets/portal/src/lib.rs\<close>): it finds the light client of a gateway through the
  registry and forwards the question, and it registers gateways.  Forwarding a batch of headers
  and switching a verifier on or off are calls of the verifiers themselves.
\<close>

section \<open>Light clients\<close>

definition match_vendor_with_codec :: "GatewayVendor \<Rightarrow> Codec" where
  "match_vendor_with_codec vendor = (if vendor \<in> {Ethereum, Sepolia} then Rlp else Scale)"

abbreviation portal_err :: "PortalError \<Rightarrow> (DispatchError, 'a) res" where
  "portal_err e \<equiv> Err (Portal_Error e)"

definition match_light_client_by_gateway_id ::
  "'y xdns_env \<Rightarrow> 'y xdns_state \<Rightarrow> TargetId \<Rightarrow> (DispatchError, 'y light_client) res" where
  "match_light_client_by_gateway_id env s gateway =
     bind_res (map_err (\<lambda>_. Portal_Error GatewayVendorNotFound) (get_verification_vendor s gateway)) (\<lambda>vendor.
       ok_or (Portal_Error LightClientNotFoundByVendor) (select_light_client env vendor))"

text \<open>\<open>LightClientHeartbeat::default()\<close>.\<close>

definition heartbeat_default :: LightClientHeartbeat where
  "heartbeat_default = \<lparr>last_heartbeat = 0, last_finalized_height = 0, last_rational_height = 0,
     last_fast_height = 0, hb_is_halted = False, ever_initialized = False\<rparr>"

definition get_latest_heartbeat ::
  "'y xdns_env \<Rightarrow> 'y xdns_state \<Rightarrow> TargetId \<Rightarrow> (DispatchError, LightClientHeartbeat) res" where
  "get_latest_heartbeat env s gateway =
     bind_res (match_light_client_by_gateway_id env s gateway) (\<lambda>lc. lc_latest_heartbeat lc (xd_ext s))"

text \<open>An error of the light client gives the default; a panic passes through.\<close>

definition get_latest_heartbeat_by_vendor ::
  "'y xdns_env \<Rightarrow> 'y xdns_state \<Rightarrow> GatewayVendor \<Rightarrow> ('e, LightClientHeartbeat) res" where
  "get_latest_heartbeat_by_vendor env s vendor =
     (case select_light_client env vendor of
        None \<Rightarrow> Ok heartbeat_default
      | Some lc \<Rightarrow> (case lc_latest_heartbeat lc (xd_ext s) of
          Ok h \<Rightarrow> Ok h | Err _ \<Rightarrow> Ok heartbeat_default | Panic \<Rightarrow> Panic))"

definition portal_latest_finalized_header ::
  "'y xdns_env \<Rightarrow> 'y xdns_state \<Rightarrow> TargetId \<Rightarrow> (DispatchError, bytes option) res" where
  "portal_latest_finalized_header env s gateway =
     bind_res (match_light_client_by_gateway_id env s gateway) (\<lambda>lc. Ok (lc_latest_finalized_header lc (xd_ext s)))"

text \<open>The three heights, by the field of the light client that holds them.\<close>

definition portal_height ::
  "('y light_client \<Rightarrow> 'y \<Rightarrow> HeightResult) \<Rightarrow> 'y xdns_env \<Rightarrow> 'y xdns_state \<Rightarrow> TargetId
     \<Rightarrow> (DispatchError, HeightResult) res" where
  "portal_height height env s gateway =
     bind_res (match_light_client_by_gateway_id env s gateway) (\<lambda>lc. Ok (height lc (xd_ext s)))"

definition portal_height_precompile ::
  "('y light_client \<Rightarrow> 'y \<Rightarrow> HeightResult) \<Rightarrow> 'y xdns_env \<Rightarrow> 'y xdns_state \<Rightarrow> TargetId \<Rightarrow> BlockNumber" where
  "portal_height_precompile height env s gateway =
     (case portal_height height env s gateway of Ok (Height h) \<Rightarrow> h | _ \<Rightarrow> 0)"

definition portal_verify_event_inclusion ::
  "'y xdns_env \<Rightarrow> 'y xdns_state \<Rightarrow> TargetId \<Rightarrow> SpeedMode \<Rightarrow> bytes option \<Rightarrow> bytes
     \<Rightarrow> (DispatchError, InclusionReceipt) res" where
  "portal_verify_event_inclusion env s gateway speed src msg =
     bind_res (match_light_client_by_gateway_id env s gateway) (\<lambda>lc.
       lc_verify_event_inclusion lc (xd_ext s) gateway speed src msg)"

text \<open>State and transaction proofs, by the field of the light client that checks them.\<close>

definition portal_verify_inclusion ::
  "('y light_client \<Rightarrow> 'y \<Rightarrow> TargetId \<Rightarrow> SpeedMode \<Rightarrow> bytes \<Rightarrow> (DispatchError, InclusionReceipt) res)
     \<Rightarrow> 'y xdns_env \<Rightarrow> 'y xdns_state \<Rightarrow> TargetId \<Rightarrow> SpeedMode \<Rightarrow> bytes \<Rightarrow> (DispatchError, InclusionReceipt) res" where
  "portal_verify_inclusion verify env s gateway speed msg =
     bind_res (match_light_client_by_gateway_id env s gateway) (\<lambda>lc. verify lc (xd_ext s) gateway speed msg)"

text \<open>The common tail of the functions \<open>*_and_recode\<close>.\<close>

definition recode_receipt ::
  "codec_env \<Rightarrow> 'y xdns_state \<Rightarrow> TargetId \<Rightarrow> Descriptor \<Rightarrow> Codec \<Rightarrow> InclusionReceipt
     \<Rightarrow> (DispatchError, InclusionReceipt) res" where
  "recode_receipt cenv s gateway descriptor out_codec receipt =
     bind_res (map_err (\<lambda>_. Portal_Error GatewayVendorNotFound) (get_verification_vendor s gateway)) (\<lambda>vendor.
     bind_res (recode_bytes_with_descriptor cenv (receipt_message receipt) descriptor
         (match_vendor_with_codec vendor) out_codec) (\<lambda>msg.
       Ok (receipt\<lparr>receipt_message := msg\<rparr>)))"

definition portal_initialize ::
  "'y xdns_env \<Rightarrow> Origin \<Rightarrow> TargetId \<Rightarrow> bytes \<Rightarrow> 'y xdns_state \<Rightarrow> (DispatchError, 'y xdns_state) res" where
  "portal_initialize env origin gateway data s =
     bind_res (match_light_client_by_gateway_id env s gateway) (\<lambda>lc.
     bind_res (lc_initialize lc origin gateway data (xd_ext s)) (\<lambda>y. Ok (s\<lparr>xd_ext := y\<rparr>)))"

section \<open>Registration\<close>

text \<open>The event \<open>GatewayRegistered\<close> is the gateway's identifier in the second component.\<close>

definition register_gateway ::
  "'y xdns_env \<Rightarrow> Origin \<Rightarrow> GatewayRecord \<Rightarrow> AssetId \<Rightarrow> TokenInfo \<Rightarrow> bytes \<Rightarrow> 'y xdns_state
     \<Rightarrow> (DispatchError, 'y xdns_state \<times> TargetId) res" where
  "register_gateway env origin r token props data s =
     bind_res (ensure_root origin) (\<lambda>_.
     bind_res (add_new_gateway r s) (\<lambda>s1.
     bind_res (register_new_token env origin token props s1) (\<lambda>s2.
     bind_res (link_token_to_gateway env token (gw_id r) props s2) (\<lambda>s3.
     bind_res (if data \<noteq> [] then portal_initialize env origin (gw_id r) data s3 else Ok s3) (\<lambda>s4.
       Ok (s4, gw_id r))))))"

end
