(* ===== verification/Xdns_Overview.thy ===== *)
theory Xdns_Overview
  imports Portal
begin

text \<open>
  The activity of finality verifiers and gateways (\<open>pallets/xdns/src/lib.rs\<close>,
  \<open>FinalityVerifierActivity\<close> of \<open>primitives/src/lib.rs\<close>): reports and their histories, epoch
  lengths and their moving averages, the timeouts derived from them, and the calls into the
  circuit's queues.  The circuit runs on an external state that contains the registry, so the
  operations that call it work on a circuit state.
\<close>

section \<open>Reports of a verifier\<close>

definition MAX_GATEWAY_OVERVIEW_RECORDS :: nat where
  "MAX_GATEWAY_OVERVIEW_RECORDS = 1000"

text \<open>\<open>FinalityVerifierActivity::default()\<close>.\<close>

definition activity_default :: FinalityVerifierActivity where
  "activity_default = \<lparr>va_verifier = Rococo, va_reported_at = 0, va_justified_height = 0,
     va_finalized_height = 0, va_updated_height = 0, va_epoch = 0, va_is_active = False\<rparr>"

definition new_for_finalized_compare :: "BlockNumber \<Rightarrow> BlockNumber \<Rightarrow> FinalityVerifierActivity" where
  "new_for_finalized_compare at finalized =
     activity_default\<lparr>va_reported_at := at, va_finalized_height := finalized\<rparr>"

text \<open>The oldest and the latest report, by a stable sort on the block they were made at.\<close>

definition determine_finalized_reports_increase ::
  "FinalityVerifierActivity list \<Rightarrow> (BlockNumber \<times> BlockNumber) option" where
  "determine_finalized_reports_increase activities =
     (if length activities < 2 then None
      else let sorted = sort_key va_reported_at activities; oldest = hd sorted; latest = last sorted in
        if va_finalized_height oldest = 0 \<or> va_reported_at oldest = 0
           \<or> va_finalized_height latest = 0 \<or> va_reported_at latest = 0
        then None
        else Some (saturating_sub (va_finalized_height latest) (va_finalized_height oldest),
                   saturating_sub (va_reported_at latest) (va_reported_at oldest)))"

definition moving_average :: "(EpochEstimate \<Rightarrow> BlockNumber) \<Rightarrow> EpochEstimate list \<Rightarrow> BlockNumber" where
  "moving_average f history =
     (case checked_div (sum_list (map f history)) (of_nat (length history)) of Some a \<Rightarrow> a | None \<Rightarrow> 0)"

definition update_epoch_history ::
  "GatewayVendor \<Rightarrow> BlockNumber \<Rightarrow> BlockNumber \<Rightarrow> 'y xdns_state \<Rightarrow> 'y xdns_state" where
  "update_epoch_history verifier there here s =
     (let history = list_at (EpochHistory s) verifier;
          kept = drop (length history - 10) history;
          estimate = \<lparr>epoch_local = here, epoch_remote = there,
                      moving_average_local = moving_average epoch_local kept,
                      moving_average_remote = moving_average epoch_remote kept\<rparr>
      in s\<lparr>EpochHistory := smap_insert verifier (kept @ [estimate]) (EpochHistory s)\<rparr>)"

definition push_bounded :: "'a \<Rightarrow> 'a list \<Rightarrow> 'a list" where
  "push_bounded x xs = (if length xs = MAX_GATEWAY_OVERVIEW_RECORDS then tl xs else xs) @ [x]"

definition update_historic_overview ::
  "GatewayVendor \<Rightarrow> FinalityVerifierActivity \<Rightarrow> 'y xdns_state \<Rightarrow> 'y xdns_state" where
  "update_historic_overview verifier act s =
     s\<lparr>VerifierOverviewStoreHistory :=
         smap_insert verifier (push_bounded act (list_at (VerifierOverviewStoreHistory s) verifier))
           (VerifierOverviewStoreHistory s)\<rparr>"

definition update_overview_store ::
  "GatewayVendor \<Rightarrow> FinalityVerifierActivity \<Rightarrow> 'y xdns_state \<Rightarrow> 'y xdns_state" where
  "update_overview_store verifier act s =
     s\<lparr>VerifierOverviewStore :=
         (if list_ex (\<lambda>o'. va_verifier o' = verifier) (VerifierOverviewStore s)
          then update_first (\<lambda>o'. va_verifier o' = verifier) (\<lambda>_. act) (VerifierOverviewStore s)
          else VerifierOverviewStore s @ [act])\<rparr>"

section \<open>Processing a report\<close>

text \<open>
  The increase of the finalized height and of the block number since the last report, zero where
  the code leaves its variables at zero; the last report but one decides when there is none.
\<close>

definition increase_since ::
  "FinalityVerifierActivity list \<Rightarrow> FinalityVerifierActivity \<Rightarrow> BlockNumber \<times> BlockNumber" where
  "increase_since history new =
     (if history = [] then (0, 0)
      else case determine_finalized_reports_increase [last history, new] of
        Some inc \<Rightarrow> inc | None \<Rightarrow> (0, 0))"

definition moved_since_previous ::
  "FinalityVerifierActivity list \<Rightarrow> FinalityVerifierActivity \<Rightarrow> bool" where
  "moved_since_previous history new =
     (if length history < 2 then False
      else case determine_finalized_reports_increase [history ! (length history - 2), last history, new] of
        Some (there, _) \<Rightarrow> there > 0 | None \<Rightarrow> False)"

text \<open>The part on the registry's own storage; the result tells whether the verifier has become active.\<close>

definition record_verifier_activity ::
  "BlockNumber \<Rightarrow> GatewayVendor \<Rightarrow> BlockNumber \<Rightarrow> LightClientHeartbeat \<Rightarrow> 'y xdns_state
     \<Rightarrow> bool \<times> 'y xdns_state" where
  "record_verifier_activity n verifier epoch hb s =
     (let history = list_at (VerifierOverviewStoreHistory s) verifier;
          last_record = (if history = [] then activity_default else last history);
          new = new_for_finalized_compare n (last_finalized_height hb);
          (there, here) = increase_since history new;
          s1 = (if there > 0 then update_epoch_history verifier there here s else s);
          is_moving = (there > 0 \<or> moved_since_previous history new);
          act = (if hb_is_halted hb then last_record\<lparr>va_reported_at := n, va_is_active := False\<rparr>
                 else \<lparr>va_verifier = verifier, va_reported_at = n,
                       va_justified_height = last_rational_height hb,
                       va_finalized_height = last_finalized_height hb,
                       va_updated_height = last_fast_height hb, va_epoch = epoch,
                       va_is_active = is_moving\<rparr>)
      in (\<not> va_is_active last_record \<and> va_is_active act,
          update_overview_store verifier act (update_historic_overview verifier act s1)))"

definition process_single_verifier_overview ::
  "'y xdns_state circuit_env \<Rightarrow> BlockNumber \<Rightarrow> GatewayVendor \<Rightarrow> BlockNumber \<Rightarrow> LightClientHeartbeat
     \<Rightarrow> 'y xdns_state circuit_state \<Rightarrow> (CircuitError, Weight \<times> 'y xdns_state circuit_state) res" where
  "process_single_verifier_overview cenv n verifier epoch hb c =
     (let (activated, x) = record_verifier_activity n verifier epoch hb (ext c);
          c1 = set_ext x c;
          w = weight_add (db_reads cenv 1) (db_reads_writes cenv 3 2);
          (w1, c2) = (if activated then process_dlq cenv n c1 else (0, c1))
      in bind_res (process_adaptive_xtx_timeout_queue cenv n verifier c2) (\<lambda>(w2, c3).
           Ok (weight_add (weight_add w w1) w2, c3)))"

definition xdns_on_new_epoch ::
  "'y xdns_state circuit_env \<Rightarrow> GatewayVendor \<Rightarrow> BlockNumber \<Rightarrow> LightClientHeartbeat
     \<Rightarrow> 'y xdns_state circuit_state \<Rightarrow> (CircuitError, 'y xdns_state circuit_state) res" where
  "xdns_on_new_epoch cenv verifier epoch hb c =
     bind_res (process_single_verifier_overview cenv (block_number c) verifier epoch hb c) (\<lambda>(_, c'). Ok c')"

text \<open>The test for one verifier: its last report is older than its last known epoch, or than 50 blocks.\<close>

definition overview_due :: "FinalityVerifierActivity list \<Rightarrow> BlockNumber \<Rightarrow> 'y xdns_state \<Rightarrow> GatewayVendor \<Rightarrow> bool" where
  "overview_due latest n s verifier =
     (let reported = (case list_find (\<lambda>a. va_verifier a = verifier) latest of
            Some a \<Rightarrow> va_reported_at a | None \<Rightarrow> 0);
          history = list_at (EpochHistory s) verifier;
          epoch_length = (if history = [] then 50 else epoch_local (last history))
      in reported + epoch_length < n)"

definition manual_overview_one ::
  "'y xdns_env \<Rightarrow> 'y xdns_state circuit_env \<Rightarrow> FinalityVerifierActivity list \<Rightarrow> BlockNumber \<Rightarrow> GatewayVendor
     \<Rightarrow> Weight \<times> 'y xdns_state circuit_state \<Rightarrow> (CircuitError, Weight \<times> 'y xdns_state circuit_state) res" where
  "manual_overview_one env cenv latest n verifier = (\<lambda>(w, c).
     if \<not> overview_due latest n (ext c) verifier then Ok (w, c)
     else bind_res (get_latest_heartbeat_by_vendor env (ext c) verifier) (\<lambda>h.
       let here = block_number c;
           h' = (if verifier = XBI
                 then h\<lparr>last_finalized_height := here, last_rational_height := here,
                        last_fast_height := here, last_heartbeat := here, ever_initialized := True\<rparr>
                 else h)
       in bind_res (process_single_verifier_overview cenv n verifier (last_finalized_height h) h' c) (\<lambda>(w1, c').
            Ok (weight_add w w1, c'))))"

definition check_for_manual_verifier_overview_process ::
  "'y xdns_env \<Rightarrow> 'y xdns_state circuit_env \<Rightarrow> BlockNumber \<Rightarrow> 'y xdns_state circuit_state
     \<Rightarrow> (CircuitError, Weight \<times> 'y xdns_state circuit_state) res" where
  "check_for_manual_verifier_overview_process env cenv n c =
     fold_res (manual_overview_one env cenv (VerifierOverviewStore (ext c)) n) vendors (db_reads cenv 1, c)"

section \<open>Purging a gateway\<close>

definition purge_gateway ::
  "'y xdns_env \<Rightarrow> TargetId \<Rightarrow> 'y xdns_state \<Rightarrow> 'y xdns_state" where
  "purge_gateway env gateway s =
     (let toks = list_at (GatewayTokens s) gateway in
      s\<lparr>Gateways := smap_remove gateway (Gateways s),
        Tokens := fold (\<lambda>t. smap_remove (t, gateway)) toks (Tokens s),
        AllTokenIds := (if gateway = SelfGatewayId env
          then filter (\<lambda>t. t \<notin> set toks) (AllTokenIds s) else AllTokenIds s),
        GatewayTokens := smap_remove gateway (GatewayTokens s),
        AllGatewayIds := filter (\<lambda>g. g \<noteq> gateway) (AllGatewayIds s)\<rparr>)"

text \<open>The call.  The queues return a weight and have no error case; a panic of theirs is a panic of the call.\<close>

definition purge_gateway_record ::
  "'y xdns_env \<Rightarrow> 'y xdns_state circuit_env \<Rightarrow> Origin \<Rightarrow> AccountId \<Rightarrow> TargetId
     \<Rightarrow> 'y xdns_state circuit_state \<Rightarrow> (DispatchError, 'y xdns_state circuit_state) res" where
  "purge_gateway_record env cenv origin req gateway c =
     bind_res (ensure_root origin) (\<lambda>_.
     bind_res (ok_or (Xdns_Error XdnsRecordNotFound) (smap_get (Gateways (ext c)) gateway)) (\<lambda>r.
       let verifier = gw_verification_vendor r;
           c1 = set_ext (purge_gateway env gateway (ext c)) c
       in bind_res (get_latest_heartbeat_by_vendor env (ext c1) verifier) (\<lambda>h.
          bind_res (expect (process_single_verifier_overview cenv (block_number c) verifier
              (last_finalized_height h) h c1)) (\<lambda>(_, c2).
            Ok (set_ext (xd_event (GatewayRecordPurged req gateway) (ext c2)) c2)))))"

section \<open>Activity of gateways\<close>

definition gateway_activity ::
  "'z attesters_state \<Rightarrow> BlockNumber \<Rightarrow> 'y xdns_state \<Rightarrow> GatewayRecord \<Rightarrow> GatewayActivity" where
  "gateway_activity at n s r =
     (let history = list_at (VerifierOverviewStoreHistory s) (gw_verification_vendor r);
          v = (if history = [] then activity_default\<lparr>va_verifier := gw_verification_vendor r\<rparr> else last history)
      in \<lparr>ga_gateway_id = gw_id r, ga_reported_at = n, ga_justified_height = va_justified_height v,
          ga_finalized_height = va_finalized_height v, ga_updated_height = va_updated_height v,
          ga_attestation_latency = read_attestation_latency at (gw_id r),
          ga_security_lvl = (case gw_escrow_account r of Some _ \<Rightarrow> Escrow | None \<Rightarrow> Optimistic),
          ga_is_active = va_is_active v\<rparr>)"

definition process_overview ::
  "'z attesters_state \<Rightarrow> BlockNumber \<Rightarrow> 'y xdns_state \<Rightarrow> 'y xdns_state" where
  "process_overview at n s =
     (let acts = map (\<lambda>g. gateway_activity at n s (gateway_record g)) (fetch_full_gateway_records s)
      in s\<lparr>GatewaysOverviewStoreHistory := fold (\<lambda>a h.
              smap_insert (ga_gateway_id a) (push_bounded a (list_at h (ga_gateway_id a))) h) acts
              (GatewaysOverviewStoreHistory s),
           GatewaysOverviewStore := acts\<rparr>)"

definition read_last_activity_overview ::
  "'z attesters_state \<Rightarrow> BlockNumber \<Rightarrow> 'y xdns_state \<Rightarrow> GatewayActivity list \<times> 'y xdns_state" where
  "read_last_activity_overview at n s =
     (let latest = fold max (map ga_reported_at (GatewaysOverviewStore s)) 0;
          s' = (if latest \<noteq> n then process_overview at n s else s)
      in (GatewaysOverviewStore s', s'))"

definition xd_read_last_activity ::
  "'z attesters_state \<Rightarrow> BlockNumber \<Rightarrow> 'y xdns_state \<Rightarrow> TargetId \<Rightarrow> GatewayActivity option \<times> 'y xdns_state" where
  "xd_read_last_activity at n s gateway =
     (let (overview, s') = read_last_activity_overview at n s
      in (list_find (\<lambda>a. ga_gateway_id a = gateway) overview, s'))"

definition is_target_active ::
  "'z attesters_state \<Rightarrow> BlockNumber \<Rightarrow> 'y xdns_state \<Rightarrow> TargetId \<Rightarrow> SecurityLvl \<Rightarrow> bool \<times> 'y xdns_state" where
  "is_target_active at n s gateway lvl =
     (let (act, s') = xd_read_last_activity at n s gateway
      in (case act of
            Some a \<Rightarrow> (ga_security_lvl a = Escrow \<or> lvl = Optimistic) \<and> ga_is_active a
          | None \<Rightarrow> False, s'))"

definition verify_active ::
  "'y xdns_env \<Rightarrow> 'z attesters_state \<Rightarrow> BlockNumber \<Rightarrow> 'y xdns_state \<Rightarrow> TargetId \<Rightarrow> BlockNumber \<Rightarrow> SecurityLvl
     \<Rightarrow> (DispatchError, LightClientHeartbeat) res" where
  "verify_active env at n s gateway max_offset lvl =
     bind_res (map_err (\<lambda>_. Xdns_Error Xdns_GatewayNotActive) (get_latest_heartbeat env s gateway)) (\<lambda>h.
       if hb_is_halted h \<or> \<not> ever_initialized h \<or> max_offset > saturating_sub n (last_heartbeat h)
       then xd_err Xdns_GatewayNotActive
       else if lvl = Escrow \<and> gateway \<notin> set (AttestationTargets at) then xd_err Xdns_GatewayNotActive
       else Ok h)"

section \<open>Timeouts\<close>

text \<open>Iterators return the last of several maximal elements.\<close>

fun max_by_key :: "('a \<Rightarrow> 'b::linorder) \<Rightarrow> 'a list \<Rightarrow> 'a option" where
  "max_by_key f [] = None"
| "max_by_key f (x # xs) =
     (case max_by_key f xs of None \<Rightarrow> Some x | Some y \<Rightarrow> Some (if f y < f x then x else y))"

definition get_slowest_verifier_target ::
  "'y xdns_state \<Rightarrow> TargetId list \<Rightarrow> SpeedMode \<Rightarrow> BlockNumber
     \<Rightarrow> (GatewayVendor \<times> TargetId \<times> BlockNumber \<times> BlockNumber) option" where
  "get_slowest_verifier_target s targets speed emergency =
     max_by_key (\<lambda>(_, _, here, _). here)
       (map (\<lambda>(vendor, t). (vendor, t, calculate_offsets vendor speed emergency (smap_get (EpochHistory s) vendor)))
         (sorted_list_of_set (set (List.map_filter (\<lambda>t. map_option (\<lambda>r. (gw_verification_vendor r, t))
             (smap_get (Gateways s) t)) targets))))"

definition estimate_adaptive_timeout_on_slowest_target ::
  "BlockNumber \<Rightarrow> 'y xdns_state \<Rightarrow> TargetId list \<Rightarrow> SpeedMode \<Rightarrow> BlockNumber \<Rightarrow> AdaptiveTimeout" where
  "estimate_adaptive_timeout_on_slowest_target n s targets speed emergency =
     (case get_slowest_verifier_target s targets speed emergency of
        None \<Rightarrow> default_401
      | Some (verifier, t, here, there) \<Rightarrow>
          let history = list_at (VerifierOverviewStoreHistory s) verifier in
          if history = [] then default_401
          else let submit_here = saturating_add n here;
                   submit_there = saturating_add (va_finalized_height (last history)) there
               in \<lparr>estimated_height_here = saturating_add submit_here here,
                   estimated_height_there = saturating_add submit_there there,
                   submit_by_height_here = submit_here, submit_by_height_there = submit_there,
                   emergency_timeout_here = saturating_add emergency n,
                   timeout_there = t, dlq = None\<rparr>)"

section \<open>The circuit's view\<close>

text \<open>
  The runtime's choice of the associated types \<open>Xdns\<close> and \<open>Portal\<close> of the circuit, for the
  block \<open>n\<close>.  Reading the activity of a gateway also refreshes the overview of this block; the
  circuit only uses the value.
\<close>

definition circuit_with_registry ::
  "'y xdns_env \<Rightarrow> 'z attesters_state \<Rightarrow> BlockNumber \<Rightarrow> 'y xdns_state circuit_env \<Rightarrow> 'y xdns_state circuit_env" where
  "circuit_with_registry env at n cenv =
     cenv\<lparr>read_last_activity := (\<lambda>x t. map_option ga_is_active (fst (xd_read_last_activity at n x t))),
          gateway_max_security_lvl := get_gateway_max_security_lvl,
          get_sfx_abi := xd_get_sfx_abi,
          get_target_codec := xd_get_target_codec,
          estimate_adaptive_timeout := estimate_adaptive_timeout_on_slowest_target n,
          get_finalized_height := portal_height lc_finalized_height env,
          verify_event_inclusion := portal_verify_event_inclusion env\<rparr>"

end
