(* ===== verification/Xdns_Invariant.thy ===== *)
theory Xdns_Invariant
  imports Xdns_Overview Circuit_Reachable
begin

text \<open>
  The invariant of the registry: the list of gateways is the domain of the gateways, records sit
  under their own identifiers, an allowed side effect has an ABI, a token record belongs to a
  registered gateway that lists it, and the histories are bounded.  It is proved for every
  operation of \<open>Xdns_State\<close>, \<open>Portal\<close> and \<open>Xdns_Overview\<close> and for the states they reach.
\<close>

section \<open>Definitions\<close>

definition gateways_inv :: "'y xdns_state \<Rightarrow> bool" where
  "gateways_inv s \<longleftrightarrow> distinct (AllGatewayIds s) \<and> set (AllGatewayIds s) = {g. smap_contains (Gateways s) g}
     \<and> smap_wf (Gateways s) \<and> smap_wf (SFXABIRegistry s)
     \<and> (\<forall>g r. smap_get (Gateways s) g = Some r \<longrightarrow> gw_id r = g
          \<and> (\<forall>k \<in> fst ` set (gw_allowed_side_effects r). smap_contains (SFXABIRegistry s) (g, k)))"

definition tokens_inv :: "'y xdns_state \<Rightarrow> bool" where
  "tokens_inv s \<longleftrightarrow> smap_wf (Tokens s)
     \<and> (\<forall>t g tok. smap_get (Tokens s) (t, g) = Some tok \<longrightarrow> tok_id tok = t \<and> tok_gateway tok = g
          \<and> t \<in> set (list_at (GatewayTokens s) g) \<and> smap_contains (Gateways s) g)
     \<and> (\<forall>g. distinct (list_at (GatewayTokens s) g))"

definition histories_inv :: "'y xdns_state \<Rightarrow> bool" where
  "histories_inv s \<longleftrightarrow> (\<forall>v. length (list_at (VerifierOverviewStoreHistory s) v) \<le> MAX_GATEWAY_OVERVIEW_RECORDS)
     \<and> (\<forall>g. length (list_at (GatewaysOverviewStoreHistory s) g) \<le> MAX_GATEWAY_OVERVIEW_RECORDS)
     \<and> (\<forall>v. length (list_at (EpochHistory s) v) \<le> 11)"

definition xdns_inv :: "'y xdns_state \<Rightarrow> bool" where
  "xdns_inv s \<longleftrightarrow> gateways_inv s \<and> tokens_inv s \<and> histories_inv s"

text \<open>An empty registry, before the genesis.\<close>

definition xdns_empty :: "'y \<Rightarrow> 'y xdns_state" where
  "xdns_empty y =
     \<lparr>xd_StorageMigrations = 0, StandardSideEffects = smap_empty, StandardSFXABIs = smap_empty,
      SFXABIRegistry = smap_empty, Gateways = smap_empty, Tokens = smap_empty, GatewayTokens = smap_empty,
      AllTokenIds = [], AuthorizedMintAssets = [], AllGatewayIds = [], RemoteOrderAddresses = smap_empty,
      RemoteBiddingAddresses = smap_empty, GatewaysOverviewStore = [], VerifierOverviewStore = [],
      GatewaysOverviewStoreHistory = smap_empty, VerifierOverviewStoreHistory = smap_empty,
      EpochHistory = smap_empty, xdns_events = [], xd_ext = y\<rparr>"

text \<open>The calls and the requests of other pallets that only touch the registry.\<close>

datatype xdns_op =
    Op_Reboot Origin GatewayVendor
  | Op_AddSupported Origin AssetId TargetId
  | Op_Enroll Origin AssetId TargetId TokenInfo
  | Op_EnrollAbi Origin TargetId Sfx4bId "SFXAbi option" "byte option"
  | Op_UnrollAbi Origin TargetId Sfx4bId
  | Op_OrderAddress Origin TargetId H256
  | Op_BiddingAddress Origin TargetId H256
  | Op_PurgeSupported Origin AssetId TargetId
  | Op_Unlink Origin TargetId AssetId
  | Op_Link Origin TargetId AssetId TokenInfo
  | Op_PurgeToken Origin AssetId
  | Op_Zip Origin
  | Op_Unzip Origin "XDNSTopology option" "bytes option"
  | Op_AddGateway GatewayRecord
  | Op_OverrideGateway GatewayRecord
  | Op_RegisterToken Origin AssetId TokenInfo
  | Op_LinkToken AssetId TargetId TokenInfo
  | Op_ExtendAbi Origin TargetId Sfx4bId SFXAbi
  | Op_AddEscrow Origin TargetId AccountId
  | Op_Mint AssetId AccountId Balance
  | Op_Burn AssetId AccountId Balance
  | Op_RegisterGateway Origin GatewayRecord AssetId TokenInfo bytes

fun xdns_exec :: "'y xdns_env \<Rightarrow> xdns_op \<Rightarrow> 'y xdns_state \<Rightarrow> (DispatchError, 'y xdns_state) res" where
  "xdns_exec env (Op_Reboot og v) s = do_reboot_self_gateway env og v s"
| "xdns_exec env (Op_AddSupported og a t) s = add_supported_bridging_asset og a t s"
| "xdns_exec env (Op_Enroll og a t p) s = enroll_bridge_asset env og a t p s"
| "xdns_exec env (Op_EnrollAbi og t k x m) s = enroll_new_abi_to_selected_gateway og t k x m s"
| "xdns_exec env (Op_UnrollAbi og t k) s = unroll_abi_of_selected_gateway og t k s"
| "xdns_exec env (Op_OrderAddress og t h) s = add_remote_order_address og t h s"
| "xdns_exec env (Op_BiddingAddress og t h) s = add_remote_bidding_address og t h s"
| "xdns_exec env (Op_PurgeSupported og a t) s = purge_supported_bridging_asset og a t s"
| "xdns_exec env (Op_Unlink og t a) s = unlink_token og t a s"
| "xdns_exec env (Op_Link og t a p) s = link_token env og t a p s"
| "xdns_exec env (Op_PurgeToken og a) s = purge_token_record env og a s"
| "xdns_exec env (Op_Zip og) s = zip_topology env og s"
| "xdns_exec env (Op_Unzip og d e) s = unzip_topology env og d e s"
| "xdns_exec env (Op_AddGateway r) s = add_new_gateway r s"
| "xdns_exec env (Op_OverrideGateway r) s = override_gateway r s"
| "xdns_exec env (Op_RegisterToken og a p) s = register_new_token env og a p s"
| "xdns_exec env (Op_LinkToken a t p) s = link_token_to_gateway env a t p s"
| "xdns_exec env (Op_ExtendAbi og t k x) s = extend_sfx_abi og t k x s"
| "xdns_exec env (Op_AddEscrow og t a) s = add_escrow_account og t a s"
| "xdns_exec env (Op_Mint a u b) s = xd_mint env a u b s"
| "xdns_exec env (Op_Burn a u b) s = xd_burn env a u b s"
| "xdns_exec env (Op_RegisterGateway og r a p d) s =
     bind_res (register_gateway env og r a p d s) (\<lambda>(s', _). Ok s')"

text \<open>Besides the calls: reports of verifiers, overviews, purged gateways, upgrades, and other pallets.\<close>

inductive xdns_step :: "'y xdns_env \<Rightarrow> 'z attesters_state \<Rightarrow> 'y xdns_state \<Rightarrow> 'y xdns_state \<Rightarrow> bool" for env at where
  call: "xdns_exec env xop s = Ok s' \<Longrightarrow> xdns_step env at s s'"
| report: "xdns_step env at s (snd (record_verifier_activity n v e hb s))"
| overview: "xdns_step env at s (process_overview at n s)"
| purge: "xdns_step env at s (purge_gateway env g s)"
| upgrade: "xdns_step env at s (xdns_on_runtime_upgrade s)"
| other_pallets: "xdns_step env at s (s\<lparr>xd_ext := y, xdns_events := es\<rparr>)"

definition xdns_initial :: "'y xdns_state \<Rightarrow> bool" where
  "xdns_initial s \<longleftrightarrow> (\<exists>records abis y. s = xdns_genesis records abis (xdns_empty y))"

section \<open>Frames\<close>

text \<open>Each part of the invariant looks at a few components only.\<close>

lemma gateways_inv_cong:
  "AllGatewayIds s' = AllGatewayIds s \<Longrightarrow> Gateways s' = Gateways s \<Longrightarrow> SFXABIRegistry s' = SFXABIRegistry s
     \<Longrightarrow> gateways_inv s' = gateways_inv s"
  by (simp add: gateways_inv_def)

lemma tokens_inv_cong:
  "Tokens s' = Tokens s \<Longrightarrow> GatewayTokens s' = GatewayTokens s
     \<Longrightarrow> smap_contains (Gateways s') = smap_contains (Gateways s) \<Longrightarrow> tokens_inv s' = tokens_inv s"
  by (simp add: tokens_inv_def)

lemma histories_inv_cong:
  "VerifierOverviewStoreHistory s' = VerifierOverviewStoreHistory s
     \<Longrightarrow> GatewaysOverviewStoreHistory s' = GatewaysOverviewStoreHistory s
     \<Longrightarrow> EpochHistory s' = EpochHistory s \<Longrightarrow> histories_inv s' = histories_inv s"
  by (simp add: histories_inv_def)

lemma list_at_insert [simp]: "list_at (smap_insert k v m) j = (if j = k then v else list_at m j)"
  by (simp add: list_at_def)

lemma list_at_remove [simp]: "list_at (smap_remove (k :: 'k::linorder) m) j = (if j = k then [] else list_at m j)"
  by (simp add: list_at_def)

lemma list_at_empty [simp]: "list_at smap_empty (k :: 'k::linorder) = []"
  by (simp add: list_at_def)

lemma smap_containsI: "smap_get m k = Some v \<Longrightarrow> smap_contains m k"
  by (simp add: smap_contains_def)

lemma smap_contains_empty [simp]: "\<not> smap_contains smap_empty (k :: 'k::linorder)"
  by (simp add: smap_contains_def)

section \<open>Gateways and ABIs\<close>

lemma populate_abis_frame:
  assumes "populate_abis g ks s = (b, s')"
  shows "s' = s\<lparr>SFXABIRegistry := SFXABIRegistry s'\<rparr>"
  using assms
proof (induction ks arbitrary: s)
  case (Cons p ks)
  obtain k memo where p: "p = (k, memo)" by (cases p)
  show ?case
  proof (cases "smap_get (StandardSFXABIs s) k")
    case (Some abi)
    with Cons.prems p Cons.IH show ?thesis by fastforce
  qed (use Cons.prems p in auto)
qed simp

lemma populate_abis_registry:
  assumes "populate_abis g ks s = (b, s')" "smap_wf (SFXABIRegistry s)"
  shows "smap_wf (SFXABIRegistry s')
    \<and> (\<forall>p. smap_contains (SFXABIRegistry s) p \<longrightarrow> smap_contains (SFXABIRegistry s') p)
    \<and> (b \<longrightarrow> (\<forall>k \<in> fst ` set ks. smap_contains (SFXABIRegistry s') (g, k)))"
  using assms
proof (induction ks arbitrary: s)
  case (Cons p ks)
  obtain k memo where p: "p = (k, memo)" by (cases p)
  show ?case
  proof (cases "smap_get (StandardSFXABIs s) k")
    case (Some abi)
    let ?s = "s\<lparr>SFXABIRegistry := smap_insert (g, k) (abi\<lparr>maybe_prefix_memo := memo\<rparr>) (SFXABIRegistry s)\<rparr>"
    from Cons.prems p Some have pop: "populate_abis g ks ?s = (b, s')" by simp
    have wf: "smap_wf (SFXABIRegistry ?s)" using Cons.prems by simp
    have grow: "smap_contains (SFXABIRegistry s) q \<Longrightarrow> smap_contains (SFXABIRegistry ?s) q"
      and new: "smap_contains (SFXABIRegistry ?s) (g, k)" for q
      by simp_all
    show ?thesis using Cons.IH [OF pop wf] grow new p by auto
  qed (use Cons.prems p in auto)
qed simp

text \<open>Registering an ABI for a gateway never takes one away.\<close>

lemma gateways_inv_registry:
  assumes "gateways_inv s" "smap_wf m"
    and "\<And>p. smap_contains (SFXABIRegistry s) p \<Longrightarrow> smap_contains m p"
  shows "gateways_inv (s\<lparr>SFXABIRegistry := m\<rparr>)"
  using assms by (auto simp: gateways_inv_def)

lemma populate_abis_inv:
  assumes "populate_abis g ks s = (b, s')" "xdns_inv s"
  shows "xdns_inv s'"
proof -
  have wf: "smap_wf (SFXABIRegistry s)" using assms(2) by (simp add: xdns_inv_def gateways_inv_def)
  have "gateways_inv (s\<lparr>SFXABIRegistry := SFXABIRegistry s'\<rparr>)"
    using assms(2) populate_abis_registry [OF assms(1) wf]
    by (intro gateways_inv_registry) (auto simp: xdns_inv_def)
  moreover have "tokens_inv (s\<lparr>SFXABIRegistry := SFXABIRegistry s'\<rparr>)" "histories_inv (s\<lparr>SFXABIRegistry := SFXABIRegistry s'\<rparr>)"
    using assms(2) by (simp_all add: xdns_inv_def tokens_inv_def histories_inv_def)
  ultimately show ?thesis
    by (subst populate_abis_frame [OF assms(1)]) (simp add: xdns_inv_def)
qed

lemma gateways_inv_insert:
  assumes "gateways_inv s" "gw_id r = g"
    and "\<And>k. k \<in> fst ` set (gw_allowed_side_effects r) \<Longrightarrow> smap_contains (SFXABIRegistry s) (g, k)"
    and ids: "distinct ids" "set ids = insert g (set (AllGatewayIds s))"
  shows "gateways_inv (s\<lparr>Gateways := smap_insert g r (Gateways s), AllGatewayIds := ids\<rparr>)"
  using assms by (auto simp: gateways_inv_def)

lemma xdns_inv_event [simp]: "xdns_inv (xd_event e s) = xdns_inv s"
  by (simp add: xd_event_def xdns_inv_def gateways_inv_def tokens_inv_def histories_inv_def)

lemma override_gateway_inv:
  assumes "override_gateway r s = Ok s'" "xdns_inv s"
  shows "xdns_inv s'"
proof -
  from assms(1) obtain s1 where pop: "populate_abis (gw_id r) (gw_allowed_side_effects r) s = (True, s1)"
    and s': "s' = xd_event (GatewayRecordStored (gw_id r))
        (s1\<lparr>Gateways := smap_insert (gw_id r) r (Gateways s1),
            AllGatewayIds := remove1 (gw_id r) (AllGatewayIds s1) @ [gw_id r]\<rparr>)"
    by (auto simp: override_gateway_def split: prod.splits bool.splits)
  have inv: "xdns_inv s1" by (rule populate_abis_inv [OF pop assms(2)])
  have abis: "\<And>k. k \<in> fst ` set (gw_allowed_side_effects r) \<Longrightarrow> smap_contains (SFXABIRegistry s1) (gw_id r, k)"
    using populate_abis_registry [OF pop] assms(2) by (auto simp: xdns_inv_def gateways_inv_def)
  have "distinct (AllGatewayIds s1)" using inv by (simp add: xdns_inv_def gateways_inv_def)
  then have "gateways_inv (s1\<lparr>Gateways := smap_insert (gw_id r) r (Gateways s1),
      AllGatewayIds := remove1 (gw_id r) (AllGatewayIds s1) @ [gw_id r]\<rparr>)"
    using inv abis by (intro gateways_inv_insert) (auto simp: xdns_inv_def)
  moreover have "tokens_inv (s1\<lparr>Gateways := smap_insert (gw_id r) r (Gateways s1),
      AllGatewayIds := remove1 (gw_id r) (AllGatewayIds s1) @ [gw_id r]\<rparr>)"
    using inv by (auto simp: xdns_inv_def tokens_inv_def)
  moreover have "histories_inv (s1\<lparr>Gateways := smap_insert (gw_id r) r (Gateways s1),
      AllGatewayIds := remove1 (gw_id r) (AllGatewayIds s1) @ [gw_id r]\<rparr>)"
    using inv by (simp add: xdns_inv_def histories_inv_def)
  ultimately show ?thesis by (simp add: s' xdns_inv_def [of "s1\<lparr>Gateways := _, AllGatewayIds := _\<rparr>"])
qed

lemma add_new_gateway_inv: "add_new_gateway r s = Ok s' \<Longrightarrow> xdns_inv s \<Longrightarrow> xdns_inv s'"
  by (auto simp: add_new_gateway_def override_gateway_inv split: if_splits)

lemma registry_grows_inv:
  assumes "xdns_inv s" "smap_wf m" "\<And>p. smap_contains (SFXABIRegistry s) p \<Longrightarrow> smap_contains m p"
  shows "xdns_inv (s\<lparr>SFXABIRegistry := m\<rparr>)"
  using assms gateways_inv_registry [of s m]
  by (simp add: xdns_inv_def tokens_inv_def histories_inv_def)

lemma extend_sfx_abi_inv: "extend_sfx_abi og g k abi s = Ok s' \<Longrightarrow> xdns_inv s \<Longrightarrow> xdns_inv s'"
  by (auto simp: extend_sfx_abi_def res_simps xdns_inv_def [of s] gateways_inv_def [of s] split: if_splits
      intro!: registry_grows_inv)

text \<open>A record that is written back under its own identifier with allowed side effects that have an ABI.\<close>

lemma gateway_rewrite_inv:
  assumes "xdns_inv s" "smap_get (Gateways s) g = Some r" "gw_id r' = g"
    and "\<And>k. k \<in> fst ` set (gw_allowed_side_effects r') \<Longrightarrow> smap_contains (SFXABIRegistry s) (g, k)"
  shows "xdns_inv (s\<lparr>Gateways := smap_insert g r' (Gateways s)\<rparr>)"
proof -
  have "g \<in> set (AllGatewayIds s)" using assms(1,2) by (auto simp: xdns_inv_def gateways_inv_def dest: smap_containsI)
  then have "set (AllGatewayIds s) = insert g (set (AllGatewayIds s))" by blast
  then have "gateways_inv (s\<lparr>Gateways := smap_insert g r' (Gateways s), AllGatewayIds := AllGatewayIds s\<rparr>)"
    using assms by (intro gateways_inv_insert) (auto simp: xdns_inv_def gateways_inv_def)
  then show ?thesis using assms(1) by (auto simp: xdns_inv_def tokens_inv_def histories_inv_def)
qed

lemma add_escrow_account_inv:
  assumes "add_escrow_account og g a s = Ok s'" "xdns_inv s" shows "xdns_inv s'"
proof -
  from assms(1) obtain r where r: "smap_get (Gateways s) g = Some r"
    and s': "s' = s\<lparr>Gateways := smap_insert g (r\<lparr>gw_escrow_account := Some a\<rparr>) (Gateways s)\<rparr>"
    by (auto simp: add_escrow_account_def res_simps)
  have "gw_id r = g \<and> (\<forall>k \<in> fst ` set (gw_allowed_side_effects r). smap_contains (SFXABIRegistry s) (g, k))"
    using assms(2) r unfolding xdns_inv_def gateways_inv_def by blast
  then show ?thesis unfolding s' by (intro gateway_rewrite_inv [OF assms(2) r]) auto
qed

lemma fold_registry_grows:
  assumes "smap_wf m"
  shows "smap_wf (fold (\<lambda>(k, abi). smap_insert (g, k) abi) xs m)
    \<and> (\<forall>p. smap_contains (fold (\<lambda>(k, abi). smap_insert (g, k) abi) xs m) p
        \<longleftrightarrow> smap_contains m p \<or> fst p = g \<and> snd p \<in> fst ` set xs)"
  using assms
proof (induction xs arbitrary: m)
  case (Cons x xs)
  obtain k abi where x: "x = (k, abi)" by (cases x)
  from Cons.prems have "smap_wf (smap_insert (g, k) abi m)" by simp
  from Cons.IH [OF this] show ?case by (auto simp: x)
qed auto

lemma gateways_inv_rewrite:
  assumes inv: "gateways_inv (s\<lparr>SFXABIRegistry := m\<rparr>)" and "g \<in> set (AllGatewayIds s)" "gw_id r = g" "smap_wf m'"
    and own: "\<forall>k \<in> fst ` set (gw_allowed_side_effects r). smap_contains m' (g, k)"
    and others: "\<And>h k. h \<noteq> g \<Longrightarrow> smap_contains m (h, k) \<Longrightarrow> smap_contains m' (h, k)"
  shows "gateways_inv (s\<lparr>Gateways := smap_insert g r (Gateways s), SFXABIRegistry := m'\<rparr>)"
proof -
  let ?s = "s\<lparr>Gateways := smap_insert g r (Gateways s), SFXABIRegistry := m'\<rparr>"
  have "distinct (AllGatewayIds ?s)" "set (AllGatewayIds ?s) = {g. smap_contains (Gateways ?s) g}"
    using inv assms(2) by (auto simp: gateways_inv_def)
  moreover have "gw_id r' = h \<and> (\<forall>k \<in> fst ` set (gw_allowed_side_effects r'). smap_contains m' (h, k))"
    if get: "smap_get (Gateways ?s) h = Some r'" for h r'
  proof (cases "h = g")
    case True
    with get assms(3) own show ?thesis by simp
  next
    case False
    with get have "smap_get (Gateways s) h = Some r'" by simp
    then have "gw_id r' = h \<and> (\<forall>k \<in> fst ` set (gw_allowed_side_effects r'). smap_contains m (h, k))"
      using inv by (simp add: gateways_inv_def)
    with False others show ?thesis by blast
  qed
  moreover have "smap_wf (Gateways ?s)" using inv by (simp add: gateways_inv_def)
  ultimately show ?thesis using assms(4) by (simp add: gateways_inv_def)
qed

text \<open>
  Writing a gateway's ABIs back: the precondition is weaker than the invariant, since the call that
  removes an ABI does so before it rewrites the gateway.
\<close>

lemma override_sfx_abi_inv:
  assumes "override_sfx_abi g abis s = Ok s'" "smap_wf (SFXABIRegistry s)" "xdns_inv (s\<lparr>SFXABIRegistry := m\<rparr>)"
    and "\<And>p. fst p \<noteq> g \<Longrightarrow> smap_contains m p \<Longrightarrow> smap_contains (SFXABIRegistry s) p"
  shows "xdns_inv s'"
proof -
  let ?m = "fold (\<lambda>(k, abi). smap_insert (g, k) abi) abis (SFXABIRegistry s)"
  from assms(1) obtain r where r: "smap_get (Gateways s) g = Some r"
    and s': "s' = s\<lparr>Gateways := smap_insert g (r\<lparr>gw_allowed_side_effects :=
        map (\<lambda>(k, abi). (k, maybe_prefix_memo abi)) abis\<rparr>) (Gateways s), SFXABIRegistry := ?m\<rparr>"
    by (auto simp: override_sfx_abi_def res_simps)
  note grow = fold_registry_grows [OF assms(2), of g abis]
  have fst_abis: "fst ` set (map (\<lambda>(k, abi). (k, maybe_prefix_memo abi)) abis) = fst ` set abis"
    by (force simp: image_image case_prod_beta)
  have "g \<in> set (AllGatewayIds s)"
    using assms(3) r by (auto simp: xdns_inv_def gateways_inv_def dest: smap_containsI)
  moreover have "gw_id r = g" using assms(3) r by (simp add: xdns_inv_def gateways_inv_def)
  ultimately have "gateways_inv s'"
    using assms(3,4) grow fst_abis unfolding s' xdns_inv_def
    by (intro gateways_inv_rewrite [where m = m]) auto
  then show ?thesis using assms(3) by (auto simp: s' xdns_inv_def tokens_inv_def histories_inv_def)
qed

lemma xdns_inv_wf: "xdns_inv s \<Longrightarrow> smap_wf (SFXABIRegistry s)"
  by (simp add: xdns_inv_def gateways_inv_def)

lemma enroll_new_abi_inv:
  assumes "enroll_new_abi_to_selected_gateway og g k x m s = Ok s'" "xdns_inv s" shows "xdns_inv s'"
proof -
  from assms(1) obtain abi abis where "override_sfx_abi g abis
      (s\<lparr>SFXABIRegistry := smap_insert (g, k) abi (SFXABIRegistry s)\<rparr>) = Ok s'"
    by (auto simp: enroll_new_abi_to_selected_gateway_def res_simps Let_def)
  then show ?thesis
    using assms(2) xdns_inv_wf [OF assms(2)]
    by (elim override_sfx_abi_inv [where m = "SFXABIRegistry s"]) auto
qed

lemma unroll_abi_inv:
  assumes "unroll_abi_of_selected_gateway og g k s = Ok s'" "xdns_inv s" shows "xdns_inv s'"
proof -
  from assms(1) obtain abis where "override_sfx_abi g abis
      (s\<lparr>SFXABIRegistry := smap_remove (g, k) (SFXABIRegistry s)\<rparr>) = Ok s'"
    by (auto simp: unroll_abi_of_selected_gateway_def res_simps Let_def)
  then show ?thesis
    using assms(2) xdns_inv_wf [OF assms(2)]
    by (elim override_sfx_abi_inv [where m = "SFXABIRegistry s"]) auto
qed


lemma refresh_standard_keys: "map fst (refresh_standard p m) = map fst m"
  by (induction m) (auto simp: refresh_standard_def split: prod.split)

lemma refresh_keys: "map fst (fold refresh_standard ps m) = map fst m"
  by (induction ps arbitrary: m) (simp_all add: refresh_standard_keys)

lemma smap_contains_keys: "smap_contains m k \<longleftrightarrow> k \<in> set (map fst m)"
  by (force simp: smap_contains_def smap_get_def map_of_eq_None_iff)

lemma reboot_inv:
  assumes "do_reboot_self_gateway env og v s = Ok s'" "xdns_inv s" shows "xdns_inv s'"
proof -
  from assms(1) obtain r m s2 where "override_gateway r (s\<lparr>StandardSFXABIs := m\<rparr>) = Ok s2"
    and s': "s' = s2\<lparr>SFXABIRegistry := fold refresh_standard standard_sfx_abi (SFXABIRegistry s2)\<rparr>"
    by (auto simp: do_reboot_self_gateway_def res_simps Let_def)
  then have inv: "xdns_inv s2"
    using assms(2) by (elim override_gateway_inv) (simp add: xdns_inv_def gateways_inv_def tokens_inv_def histories_inv_def)
  then have "smap_wf (SFXABIRegistry s2)" by (rule xdns_inv_wf)
  then show ?thesis unfolding s'
    by (intro registry_grows_inv [OF inv]) (simp_all only: smap_wf_def smap_contains_keys refresh_keys)
qed

section \<open>Tokens\<close>

lemma override_token_inv:
  assumes "xdns_inv s" "smap_contains (Gateways s) g"
  shows "xdns_inv (override_token t g props s)"
proof -
  let ?toks = "list_at (GatewayTokens s) g"
  let ?s = "s\<lparr>Tokens := smap_insert (t, g) \<lparr>tok_id = t, tok_gateway = g, tok_props = props\<rparr> (Tokens s),
          GatewayTokens := smap_insert g (if t \<in> set ?toks then ?toks else ?toks @ [t]) (GatewayTokens s),
          AllTokenIds := (if t \<in> set (AllTokenIds s) then AllTokenIds s else AllTokenIds s @ [t])\<rparr>"
  have tok: "tokens_inv s" using assms(1) by (simp add: xdns_inv_def)
  have "tok_id tok = u \<and> tok_gateway tok = h \<and> u \<in> set (list_at (GatewayTokens ?s) h) \<and> smap_contains (Gateways ?s) h"
    if "smap_get (Tokens ?s) (u, h) = Some tok" for u h tok
    using that tok assms(2) by (auto simp: tokens_inv_def split: if_splits)
  moreover have "distinct (list_at (GatewayTokens ?s) h)" for h using tok by (simp add: tokens_inv_def)
  moreover have "smap_wf (Tokens ?s)" using tok by (simp add: tokens_inv_def)
  ultimately have "tokens_inv ?s" unfolding tokens_inv_def by blast
  moreover have "gateways_inv ?s" "histories_inv ?s"
    using assms(1) by (simp_all add: xdns_inv_def gateways_inv_def histories_inv_def)
  ultimately show ?thesis by (simp add: override_token_def Let_def xdns_inv_def [of ?s])
qed

lemma link_token_to_gateway_inv:
  "link_token_to_gateway env t g props s = Ok s' \<Longrightarrow> xdns_inv s \<Longrightarrow> xdns_inv s'"
  by (auto simp: link_token_to_gateway_def override_token_inv split: if_splits)

text \<open>Components the invariant does not look at.\<close>

lemma xdns_inv_plain [simp]:
  "xdns_inv (s\<lparr>xd_ext := y\<rparr>) = xdns_inv s"
  "xdns_inv (s\<lparr>xdns_events := es\<rparr>) = xdns_inv s"
  "xdns_inv (s\<lparr>AllTokenIds := ts\<rparr>) = xdns_inv s"
  "xdns_inv (s\<lparr>AuthorizedMintAssets := ms\<rparr>) = xdns_inv s"
  "xdns_inv (s\<lparr>RemoteOrderAddresses := m\<rparr>) = xdns_inv s"
  "xdns_inv (s\<lparr>RemoteBiddingAddresses := m\<rparr>) = xdns_inv s"
  "xdns_inv (s\<lparr>StandardSFXABIs := abis\<rparr>) = xdns_inv s"
  "xdns_inv (s\<lparr>StandardSideEffects := sfx\<rparr>) = xdns_inv s"
  "xdns_inv (s\<lparr>xd_StorageMigrations := k\<rparr>) = xdns_inv s"
  "xdns_inv (s\<lparr>GatewaysOverviewStore := os\<rparr>) = xdns_inv s"
  "xdns_inv (s\<lparr>VerifierOverviewStore := vs\<rparr>) = xdns_inv s"
  by (simp_all add: xdns_inv_def gateways_inv_def tokens_inv_def histories_inv_def)

lemma register_new_token_inv:
  "register_new_token env og t props s = Ok s' \<Longrightarrow> xdns_inv s \<Longrightarrow> xdns_inv s'"
  by (auto simp: register_new_token_def res_simps split: if_splits dest!: link_token_to_gateway_inv)

lemma tokens_inv_fewer:
  assumes "tokens_inv s" "smap_wf m"
    and "\<And>t g tok. smap_get m (t, g) = Some tok \<Longrightarrow> smap_get (Tokens s) (t, g) = Some tok
      \<and> (t \<in> set (list_at (GatewayTokens s) g) \<longrightarrow> t \<in> set (list_at gt g)) \<and> smap_contains gs g"
    and "\<And>g. distinct (list_at gt g)"
  shows "tokens_inv (s\<lparr>Gateways := gs, Tokens := m, GatewayTokens := gt\<rparr>)"
  unfolding tokens_inv_def using assms unfolding tokens_inv_def by (simp, blast)

lemma xdns_inv_tokens:
  "xdns_inv s \<Longrightarrow> tokens_inv (s\<lparr>Tokens := m, GatewayTokens := gt\<rparr>) \<Longrightarrow> xdns_inv (s\<lparr>Tokens := m, GatewayTokens := gt\<rparr>)"
  by (simp add: xdns_inv_def gateways_inv_def histories_inv_def)

lemma unlink_token_inv:
  assumes "unlink_token og g t s = Ok s'" "xdns_inv s" shows "xdns_inv s'"
proof -
  let ?gt = "smap_insert g (filter (\<lambda>u. u \<noteq> t) (list_at (GatewayTokens s) g)) (GatewayTokens s)"
  have tok: "tokens_inv s" using assms(2) by (simp add: xdns_inv_def)
  then have "tokens_inv (s\<lparr>Gateways := Gateways s, Tokens := smap_remove (t, g) (Tokens s), GatewayTokens := ?gt\<rparr>)"
    by (intro tokens_inv_fewer) (auto simp: tokens_inv_def split: if_splits)
  then show ?thesis
    using assms xdns_inv_tokens [of s] by (auto simp: unlink_token_def res_simps)
qed

lemma smap_wf_filter: "smap_wf m \<Longrightarrow> smap_wf (filter P m)"
  unfolding smap_wf_def by (induction m) auto

lemma smap_get_filter:
  assumes "smap_wf m" "smap_get (filter P m) k = Some v" shows "smap_get m k = Some v \<and> P (k, v)"
  using smap_get_Some_in [OF assms(2)] smap_in_get [OF assms(1), of k v] by simp

lemma purge_token_record_inv:
  assumes "purge_token_record env og t s = Ok s'" "xdns_inv s" shows "xdns_inv s'"
proof -
  let ?m = "filter (\<lambda>((u, _), _). u \<noteq> t) (Tokens s)"
  have tok: "tokens_inv s" using assms(2) by (simp add: xdns_inv_def)
  then have wf: "smap_wf (Tokens s)" by (simp add: tokens_inv_def)
  from tok have "tokens_inv (s\<lparr>Gateways := Gateways s, Tokens := ?m, GatewayTokens := GatewayTokens s\<rparr>)"
    by (intro tokens_inv_fewer) (auto simp: tokens_inv_def smap_wf_filter dest!: smap_get_filter [OF wf])
  then have "xdns_inv (s\<lparr>Tokens := ?m\<rparr>)"
    using assms(2) by (auto simp: xdns_inv_def gateways_inv_def histories_inv_def)
  then show ?thesis
    using assms(1) by (auto simp: purge_token_record_def res_simps)
qed

lemma purge_gateway_inv:
  assumes "xdns_inv s" shows "xdns_inv (purge_gateway env g s)"
proof -
  let ?toks = "list_at (GatewayTokens s) g"
  let ?m = "fold (\<lambda>t. smap_remove (t, g)) ?toks (Tokens s)"
  have tok: "tokens_inv s" and gw: "gateways_inv s" using assms by (simp_all add: xdns_inv_def)
  have m: "smap_get ?m k = (if k \<in> (\<lambda>t. (t, g)) ` set ?toks then None else smap_get (Tokens s) k)" for k
    using sm.get_fold_remove [of "map (\<lambda>t. (t, g)) ?toks" "Tokens s" k] by (simp add: fold_map comp_def)
  have wf: "smap_wf (fold (\<lambda>t. smap_remove (t, g)) ts m)" if "smap_wf m"
    for ts and m :: "(AssetId \<times> TargetId, TokenRecord) smap"
    using that by (induction ts arbitrary: m) simp_all
  have tok': "tokens_inv (s\<lparr>Gateways := smap_remove g (Gateways s), Tokens := ?m, GatewayTokens := smap_remove g (GatewayTokens s)\<rparr>)"
  proof (intro tokens_inv_fewer [OF tok])
    show "smap_wf ?m" using wf tok by (simp add: tokens_inv_def)
    show "distinct (list_at (smap_remove g (GatewayTokens s)) h)" for h using tok by (simp add: tokens_inv_def)
    fix t h tok'
    assume "smap_get ?m (t, h) = Some tok'"
    then have get: "smap_get (Tokens s) (t, h) = Some tok'" and "(t, h) \<notin> (\<lambda>t. (t, g)) ` set ?toks"
      using m [of "(t, h)"] by (simp_all split: if_splits)
    moreover have in_gw: "t \<in> set (list_at (GatewayTokens s) h) \<and> smap_contains (Gateways s) h"
      using tok get by (simp add: tokens_inv_def)
    ultimately have "h \<noteq> g" by auto
    with get in_gw show "smap_get (Tokens s) (t, h) = Some tok'
      \<and> (t \<in> set (list_at (GatewayTokens s) h) \<longrightarrow> t \<in> set (list_at (smap_remove g (GatewayTokens s)) h))
      \<and> smap_contains (smap_remove g (Gateways s)) h" by simp
  qed
  have "tokens_inv (purge_gateway env g s)"
    by (rule tokens_inv_cong [THEN iffD2, OF _ _ _ tok']) (simp_all add: purge_gateway_def Let_def)
  moreover have "gateways_inv (purge_gateway env g s)"
    using gw by (auto simp: gateways_inv_def purge_gateway_def Let_def)
  moreover have "histories_inv (purge_gateway env g s)"
    using assms by (simp add: xdns_inv_def histories_inv_def purge_gateway_def Let_def)
  ultimately show ?thesis by (simp add: xdns_inv_def)
qed

section \<open>Histories\<close>

lemma length_push_bounded: "length xs \<le> MAX_GATEWAY_OVERVIEW_RECORDS \<Longrightarrow> length (push_bounded x xs) \<le> MAX_GATEWAY_OVERVIEW_RECORDS"
  by (auto simp: push_bounded_def MAX_GATEWAY_OVERVIEW_RECORDS_def)

lemma histories_frame:
  "gateways_inv (s\<lparr>EpochHistory := h\<rparr>) = gateways_inv s" "tokens_inv (s\<lparr>EpochHistory := h\<rparr>) = tokens_inv s"
  "gateways_inv (s\<lparr>VerifierOverviewStoreHistory := v\<rparr>) = gateways_inv s"
  "tokens_inv (s\<lparr>VerifierOverviewStoreHistory := v\<rparr>) = tokens_inv s"
  "gateways_inv (s\<lparr>GatewaysOverviewStoreHistory := g\<rparr>) = gateways_inv s"
  "tokens_inv (s\<lparr>GatewaysOverviewStoreHistory := g\<rparr>) = tokens_inv s"
  by (simp_all add: gateways_inv_def tokens_inv_def)

lemma update_epoch_history_inv: "xdns_inv s \<Longrightarrow> xdns_inv (update_epoch_history v there here s)"
  by (auto simp: xdns_inv_def update_epoch_history_def Let_def histories_frame histories_inv_def)

lemma update_historic_overview_inv: "xdns_inv s \<Longrightarrow> xdns_inv (update_historic_overview v act s)"
  by (simp add: xdns_inv_def update_historic_overview_def histories_frame) (simp add: histories_inv_def length_push_bounded)

lemma record_verifier_activity_inv:
  assumes "xdns_inv s" shows "xdns_inv (snd (record_verifier_activity n v e hb s))"
  using assms
  by (simp add: record_verifier_activity_def Let_def update_overview_store_def update_historic_overview_inv
      update_epoch_history_inv split: prod.split)

lemma process_overview_inv:
  assumes "xdns_inv s" shows "xdns_inv (process_overview at n s)"
proof -
  have bounded: "\<forall>g. length (list_at (fold (\<lambda>a h. smap_insert (ga_gateway_id a)
      (push_bounded a (list_at h (ga_gateway_id a))) h) acts h) g) \<le> MAX_GATEWAY_OVERVIEW_RECORDS"
    if "\<forall>g. length (list_at h g) \<le> MAX_GATEWAY_OVERVIEW_RECORDS" for acts h
    using that by (induction acts arbitrary: h) (simp_all add: length_push_bounded)
  have hist: "\<forall>g. length (list_at (GatewaysOverviewStoreHistory s) g) \<le> MAX_GATEWAY_OVERVIEW_RECORDS"
    using assms by (simp add: xdns_inv_def histories_inv_def)
  show ?thesis
    using assms bounded [OF hist]
    by (simp add: process_overview_def Let_def) (simp add: xdns_inv_def histories_frame histories_inv_def)
qed

section \<open>Reachable states\<close>

lemma fold_res_xdns_inv:
  assumes "fold_res f xs s = Ok s'" "xdns_inv s"
    and "\<And>x s s'. f x s = Ok s' \<Longrightarrow> xdns_inv s \<Longrightarrow> xdns_inv s'"
  shows "xdns_inv s'"
  using fold_res_invariant [of f xs s s' xdns_inv] assms by blast

lemma do_unzip_topology_inv:
  assumes "do_unzip_topology env og topo s = Ok s'" "xdns_inv s" shows "xdns_inv s'"
proof -
  from assms(1) obtain s1 where gws: "fold_res (\<lambda>g. override_gateway (gateway_record g)) (topo_gateways topo) s = Ok s1"
    and assets: "fold_res (unzip_asset env og) (topo_assets topo) s1 = Ok s'"
    by (auto simp: do_unzip_topology_def res_simps)
  have "xdns_inv s1" by (rule fold_res_xdns_inv [OF gws assms(2)]) (rule override_gateway_inv)
  then show ?thesis
    by (rule fold_res_xdns_inv [OF assets])
      (auto simp: unzip_asset_def split: if_splits intro: register_new_token_inv link_token_to_gateway_inv)
qed

lemma enroll_bridge_asset_inv:
  "enroll_bridge_asset env og a t p s = Ok s' \<Longrightarrow> xdns_inv s \<Longrightarrow> xdns_inv s'"
  by (auto simp: enroll_bridge_asset_def res_simps Let_def split: if_splits
      dest!: register_new_token_inv link_token_to_gateway_inv)

lemma portal_initialize_inv: "portal_initialize env og g d s = Ok s' \<Longrightarrow> xdns_inv s \<Longrightarrow> xdns_inv s'"
  by (auto simp: portal_initialize_def res_simps)

lemma register_gateway_inv:
  assumes "register_gateway env og r t p d s = Ok (s', g)" "xdns_inv s" shows "xdns_inv s'"
proof -
  from assms(1) obtain s1 s2 s3 where "add_new_gateway r s = Ok s1" "register_new_token env og t p s1 = Ok s2"
    and "link_token_to_gateway env t (gw_id r) p s2 = Ok s3"
    and "(if d \<noteq> [] then portal_initialize env og (gw_id r) d s3 else Ok s3) = Ok s'"
    by (auto simp: register_gateway_def res_simps)
  with assms(2) show ?thesis
    using add_new_gateway_inv register_new_token_inv link_token_to_gateway_inv portal_initialize_inv
    by (metis res.inject(1))
qed

lemma upgrade_inv: "xdns_inv s \<Longrightarrow> xdns_inv (xdns_on_runtime_upgrade s)"
  by (simp add: xdns_on_runtime_upgrade_def)

lemma xdns_exec_inv: "xdns_exec env xop s = Ok s' \<Longrightarrow> xdns_inv s \<Longrightarrow> xdns_inv s'"
proof (induction xop)
  case Op_Zip
  then show ?case by (auto simp: zip_topology_def res_simps)
next
  case Op_Unzip
  then show ?case by (auto simp: unzip_topology_def res_simps do_unzip_topology_inv)
next
  case Op_Link
  then show ?case by (auto simp: link_token_def res_simps link_token_to_gateway_inv)
qed (auto simp: res_simps reboot_inv enroll_bridge_asset_inv enroll_new_abi_inv unroll_abi_inv unlink_token_inv
    purge_token_record_inv add_new_gateway_inv override_gateway_inv register_new_token_inv
    link_token_to_gateway_inv extend_sfx_abi_inv add_escrow_account_inv register_gateway_inv
    add_supported_bridging_asset_def add_remote_order_address_def add_remote_bidding_address_def
    purge_supported_bridging_asset_def xd_mint_def xd_burn_def split: if_splits)

lemma xdns_step_inv: "xdns_inv s \<Longrightarrow> xdns_step env at s s' \<Longrightarrow> xdns_inv s'"
  by (erule xdns_step.cases)
    (auto simp: record_verifier_activity_inv process_overview_inv purge_gateway_inv upgrade_inv
      xdns_inv_def [of "s\<lparr>xd_ext := _, xdns_events := _\<rparr>"]
      intro: xdns_exec_inv)

lemma xdns_empty_inv: "xdns_inv (xdns_empty y)"
  by (simp add: xdns_inv_def gateways_inv_def tokens_inv_def histories_inv_def xdns_empty_def
      smap_wf_empty)

lemma genesis_gateway_inv: "xdns_inv s \<Longrightarrow> xdns_inv (genesis_gateway r s)"
  by (cases "populate_abis (gw_id r) (gw_allowed_side_effects r) s")
    (auto simp: genesis_gateway_def override_gateway_inv populate_abis_inv split: res.split)

lemma xdns_initial_inv: "xdns_initial s \<Longrightarrow> xdns_inv s"
proof -
  have "xdns_inv s \<Longrightarrow> xdns_inv (fold genesis_gateway rs s)" for rs and s :: "'a xdns_state"
    by (induction rs arbitrary: s) (simp_all add: genesis_gateway_inv)
  then show "xdns_initial s \<Longrightarrow> xdns_inv s"
    by (auto simp: xdns_initial_def xdns_genesis_def xdns_empty_inv)
qed

interpretation xdns_registry: state_machine xdns_initial "xdns_step env at" xdns_inv for env at
  by unfold_locales (rule xdns_initial_inv, assumption, rule xdns_step_inv)

end
