(* ===== verification/Attesters_Calls.thy ===== *)
theory Attesters_Calls
  imports Attesters_State
begin

text \<open>
  The calls of the attesters pallet, the requests other pallets make to it and its block hook:
  registration and nominations, attestation targets, signing and committing batches, the shuffling
  of the committee, the batching window, repatriations and unnominations.
\<close>

section \<open>Registration and nominations\<close>

definition put_nomination_total :: "AccountId \<Rightarrow> Balance \<Rightarrow> (AccountId \<times> Balance) list \<Rightarrow> (AccountId \<times> Balance) list" where
  "put_nomination_total attester v xs =
     take 32 (sort_desc (\<lambda>(_, n). unat n)
       (if list_ex (\<lambda>(a, _). a = attester) xs
        then update_first (\<lambda>(a, _). a = attester) (\<lambda>_. (attester, v)) xs
        else xs @ [(attester, v)]))"

definition do_nominate ::
  "'x attesters_env \<Rightarrow> AccountId \<Rightarrow> AccountId \<Rightarrow> Balance \<Rightarrow> 'x attesters_state
     \<Rightarrow> (DispatchError, 'x attesters_state) res" where
  "do_nominate env nominator attester amnt s =
     (if free_balance (rw_am_cfg (at_rewards_cfg env)) (at_ext s) nominator < amnt
      then at_err NominatorNotEnoughBalance
      else let current = (case smap_get (Nominations s) (attester, nominator) of Some v \<Rightarrow> v | None \<Rightarrow> 0);
               s1 = s\<lparr>Nominations := smap_insert (attester, nominator) (current + amnt) (Nominations s)\<rparr>;
               total_sum = foldl (+) 0 (map snd (nominations_of s1 attester));
               s2 = s1\<lparr>SortedNominatedAttesters :=
                      put_nomination_total attester total_sum (SortedNominatedAttesters s1)\<rparr>
        in bind_res (reserve env nominator amnt (at_ext s2)) (\<lambda>x. Ok (at_set_ext x s2)))"

definition do_register_attester ::
  "'x attesters_env \<Rightarrow> AccountId \<Rightarrow> Balance \<Rightarrow> bytes \<Rightarrow> bytes \<Rightarrow> bytes \<Rightarrow> Percent option \<Rightarrow> 'x attesters_state
     \<Rightarrow> (DispatchError, 'x attesters_state) res" where
  "do_register_attester env account amnt ecdsa_key ed25519_key sr25519_key custom_commission s =
     (if amnt < MinAttesterBond env then at_err AttesterBondTooSmall
      else if smap_contains (AttesterInfos s) account then at_err AlreadyRegistered
      else let info = \<lparr>key_ed = ed25519_key, key_ec = ecdsa_key, key_sr = sr25519_key,
                 commission = (case custom_commission of Some c \<Rightarrow> c | None \<Rightarrow> DefaultCommission env),
                 a_index = of_nat (length (AttesterInfos s))\<rparr>
        in bind_res (do_nominate env account account amnt
               (s\<lparr>AttesterInfos := smap_insert account info (AttesterInfos s)\<rparr>))
             (\<lambda>s1. Ok (at_event (AttesterRegistered account) s1)))"

definition register_attester ::
  "'x attesters_env \<Rightarrow> Origin \<Rightarrow> Balance \<Rightarrow> bytes \<Rightarrow> bytes \<Rightarrow> bytes \<Rightarrow> Percent option \<Rightarrow> 'x attesters_state
     \<Rightarrow> (DispatchError, 'x attesters_state) res" where
  "register_attester env origin amnt ecdsa_key ed25519_key sr25519_key custom_commission s =
     bind_res (ensure_signed origin) (\<lambda>account.
       do_register_attester env account amnt ecdsa_key ed25519_key sr25519_key custom_commission s)"

definition register_invulnerable_attester ::
  "'x attesters_env \<Rightarrow> Origin \<Rightarrow> Balance \<Rightarrow> bytes \<Rightarrow> bytes \<Rightarrow> bytes \<Rightarrow> Percent option \<Rightarrow> 'x attesters_state
     \<Rightarrow> (DispatchError, 'x attesters_state) res" where
  "register_invulnerable_attester env origin amnt ecdsa_key ed25519_key sr25519_key custom_commission s =
     bind_res (ensure_root origin) (\<lambda>_.
       let account = rw_treasury_account (at_rewards_cfg env) Treasury_Escrow
       in bind_res (do_register_attester env account amnt ecdsa_key ed25519_key sr25519_key custom_commission s)
            (\<lambda>s1. Ok (s1\<lparr>InvulnerableAttester := Some account\<rparr>)))"

definition push_unnomination ::
  "AccountId \<Rightarrow> AccountId \<times> Balance \<times> BlockNumber \<Rightarrow> 'x attesters_state \<Rightarrow> 'x attesters_state" where
  "push_unnomination nominator u s =
     s\<lparr>PendingUnnominations := smap_insert nominator
         (opt_list (smap_get (PendingUnnominations s) nominator) @ [u]) (PendingUnnominations s)\<rparr>"

definition deregister_attester ::
  "'x attesters_env \<Rightarrow> Origin \<Rightarrow> 'x attesters_state \<Rightarrow> (DispatchError, 'x attesters_state) res" where
  "deregister_attester env origin s =
     bind_res (ensure_signed origin) (\<lambda>attester.
     bind_res (at_ensure (smap_contains (AttesterInfos s) attester) NotRegistered) (\<lambda>_.
       let self_nomination = (case smap_get (Nominations s) (attester, attester) of Some v \<Rightarrow> v | None \<Rightarrow> 0)
       in bind_res (ok_or (Attesters_Error Attesters_ArithmeticOverflow) (checked_mul (ShufflingFrequency env) 2))
            (\<lambda>period. bind_res (ok_or (Attesters_Error Attesters_ArithmeticOverflow)
                (checked_add (at_block_number s) period)) (\<lambda>unlock_block.
              Ok (at_event (AttesterDeregistrationScheduled attester unlock_block)
                (push_unnomination attester (attester, self_nomination, unlock_block) s))))))"

definition nominate ::
  "'x attesters_env \<Rightarrow> Origin \<Rightarrow> AccountId \<Rightarrow> Balance \<Rightarrow> 'x attesters_state
     \<Rightarrow> (DispatchError, 'x attesters_state) res" where
  "nominate env origin attester amnt s =
     bind_res (ensure_signed origin) (\<lambda>nominator.
     bind_res (at_ensure (amnt \<ge> MinNominatorBond env) NominatorBondTooSmall) (\<lambda>_.
     bind_res (do_nominate env nominator attester amnt s) (\<lambda>s1.
       Ok (at_event (Nominated nominator attester amnt) s1))))"

definition unnominate ::
  "'x attesters_env \<Rightarrow> Origin \<Rightarrow> AccountId \<Rightarrow> 'x attesters_state \<Rightarrow> (DispatchError, 'x attesters_state) res" where
  "unnominate env origin attester s =
     bind_res (ensure_signed origin) (\<lambda>nominator.
     bind_res (ok_or (Attesters_Error NoNominationFound)
        (list_find (\<lambda>(n, _). n = nominator) (nominations_of s attester))) (\<lambda>(_, amnt).
       Ok (push_unnomination nominator
         (attester, amnt, at_block_number s + ShufflingFrequency env * 2) s)))"

section \<open>Attestation targets\<close>

definition remove_attestation_target ::
  "Origin \<Rightarrow> TargetId \<Rightarrow> 'x attesters_state \<Rightarrow> (DispatchError, 'x attesters_state) res" where
  "remove_attestation_target origin t s =
     bind_res (ensure_root origin) (\<lambda>_.
       let s1 = s\<lparr>AttestationTargets := remove1 t (AttestationTargets s),
                  PendingAttestationTargets := remove1 t (PendingAttestationTargets s),
                  Batches := smap_remove t (Batches s),
                  BatchesToSign := smap_remove t (BatchesToSign s),
                  NextBatch := smap_remove t (NextBatch s)\<rparr>
       in Ok (at_event (AttestationTargetRemoved t (AttestationTargets s1)) s1))"

definition activate_target :: "TargetId \<Rightarrow> 'x attesters_state \<Rightarrow> 'x attesters_state" where
  "activate_target t s =
     s\<lparr>PendingAttestationTargets := remove1 t (PendingAttestationTargets s),
       AttestationTargets := (if t \<in> set (AttestationTargets s) then AttestationTargets s
                              else AttestationTargets s @ [t])\<rparr>"

definition try_activate_new_target :: "TargetId \<Rightarrow> 'x attesters_state \<Rightarrow> bool \<times> 'x attesters_state" where
  "try_activate_new_target t s =
     (if length (filter (\<lambda>a. smap_contains (AttestersAgreements s) (a, t)) (ActiveSet s)) = length (ActiveSet s)
      then (True, activate_target t s) else (False, s))"

definition agree_to_new_attestation_target ::
  "Origin \<Rightarrow> TargetId \<Rightarrow> bytes \<Rightarrow> 'x attesters_state \<Rightarrow> (DispatchError, 'x attesters_state) res" where
  "agree_to_new_attestation_target origin t recoverable s =
     bind_res (ensure_signed origin) (\<lambda>attester.
     bind_res (at_ensure (smap_contains (AttesterInfos s) attester) NotRegistered) (\<lambda>_.
       let s1 = at_event (AttesterAgreedToNewTarget attester t recoverable)
                  (s\<lparr>AttestersAgreements := smap_insert (attester, t) recoverable (AttestersAgreements s)\<rparr>)
       in case try_activate_new_target t s1 of
            (True, s2) \<Rightarrow> Ok (at_event (NewTargetActivated t) s2)
          | (False, s2) \<Rightarrow> Ok s2))"

definition force_activate_target ::
  "'x attesters_env \<Rightarrow> Origin \<Rightarrow> TargetId \<Rightarrow> 'x attesters_state \<Rightarrow> (DispatchError, 'x attesters_state) res" where
  "force_activate_target env origin t s =
     bind_res (ensure_root origin) (\<lambda>_.
     bind_res (at_ensure (is_ok (xdns_escrow_account env (at_ext s) t))
        XdnsGatewayDoesNotHaveEscrowAddressRegistered) (\<lambda>_.
       Ok (at_event (NewTargetActivated t) (activate_target t s))))"

definition add_attestation_target ::
  "'x attesters_env \<Rightarrow> Origin \<Rightarrow> TargetId \<Rightarrow> 'x attesters_state \<Rightarrow> (DispatchError, 'x attesters_state) res" where
  "add_attestation_target env origin t s =
     bind_res (ensure_root origin) (\<lambda>_.
     bind_res (at_ensure (is_ok (xdns_escrow_account env (at_ext s) t))
        XdnsGatewayDoesNotHaveEscrowAddressRegistered) (\<lambda>_.
     bind_res (at_ensure (t \<notin> set (AttestationTargets s)) TargetAlreadyActive) (\<lambda>_.
       Ok (at_event (NewTargetProposed t)
         (s\<lparr>PendingAttestationTargets := (if t \<in> set (PendingAttestationTargets s)
             then PendingAttestationTargets s else PendingAttestationTargets s @ [t])\<rparr>)))))"

section \<open>Attestations\<close>

definition quorum :: "'x attesters_env \<Rightarrow> nat" where
  "quorum env = unat (CommitteeSize env * 2 div 3)"

definition add_signature :: "'x attesters_env \<Rightarrow> u32 \<times> bytes \<Rightarrow> BatchMessage \<Rightarrow> BatchMessage" where
  "add_signature env entry b =
     (let sigs = b_signatures b @ [entry]
      in b\<lparr>b_signatures := sigs,
           b_status := (if length sigs \<ge> unat (CommitteeSize env) then ReadyForSubmissionFullyApproved
                        else b_status b)\<rparr>)"

definition sign_batch ::
  "'x attesters_env \<Rightarrow> AccountId \<Rightarrow> u32 \<Rightarrow> bytes \<Rightarrow> H256 \<Rightarrow> TargetId \<Rightarrow> 'x attesters_state
     \<Rightarrow> (DispatchError, 'x attesters_state) res" where
  "sign_batch env account i sig msg t s =
     (case smap_get (Batches s) t of
        None \<Rightarrow> at_err BatchNotFound
      | Some bs \<Rightarrow>
          case list_find (\<lambda>b. hash_of env b = msg) bs of
            None \<Rightarrow> at_err BatchNotFound
          | Some b \<Rightarrow>
              if b_status b \<noteq> PendingAttestation \<and> b_status b \<noteq> ReadyForSubmissionByMajority
              then at_err BatchFoundWithUnsignableStatus
              else if list_ex (\<lambda>(j, _). j = i) (b_signatures b) then at_err AttestationDoubleSignAttempt
              else let b' = add_signature env (i, sig) b;
                       s1 = s\<lparr>Batches := smap_insert t
                              (update_first (\<lambda>b. hash_of env b = msg) (\<lambda>_. b') bs) (Batches s)\<rparr>
                in Ok (at_events
                     ((if length (b_signatures b') \<ge> unat (CommitteeSize env)
                       then [NewConfirmationBatch t b' (message b') (hash_of env b')] else [])
                      @ [AttestationSubmitted account]) s1))"

text \<open>
  A faulty signature appends the attester to \<open>PermanentSlashes\<close> and returns an error; the
  runtime undoes the storage changes of a call that returns an error.
\<close>

definition submit_attestation ::
  "'x attesters_env \<Rightarrow> Origin \<Rightarrow> H256 \<Rightarrow> bytes \<Rightarrow> TargetId \<Rightarrow> 'x attesters_state
     \<Rightarrow> (DispatchError, 'x attesters_state) res" where
  "submit_attestation env origin msg sig t s =
     bind_res (ensure_signed origin) (\<lambda>account.
     bind_res (at_ensure (t \<in> set (AttestationTargets s)) TargetNotActive) (\<lambda>_.
     bind_res (ok_or (Attesters_Error NotRegistered) (smap_get (AttesterInfos s) account)) (\<lambda>attester.
     bind_res (at_ensure (account \<in> set (ActiveSet s)) NotActiveSet) (\<lambda>_.
     bind_res (at_ensure (account \<in> set (CurrentCommittee s)) NotInCurrentCommittee) (\<lambda>_.
     bind_res (ok_or (Attesters_Error AttesterDidNotAgreeToNewTarget)
        (smap_get (AttestersAgreements s) (account, t))) (\<lambda>recoverable.
     bind_res (map_err (\<lambda>_. Attesters_Error XdnsTargetNotActive) (xdns_verification_vendor env (at_ext s) t)) (\<lambda>vendor.
     bind_res (map_err (\<lambda>_. Attesters_Error InvalidSignature)
        (verify_attestation_signature env attester Key_ecat msg sig recoverable vendor)) (\<lambda>is_verified.
     bind_res (at_ensure (length sig = 65) InvalidSignature) (\<lambda>_.
       if \<not> is_verified then at_err RejectingFromSlashedAttester
       else sign_batch env account (a_index attester) sig msg t s)))))))))"

definition find_and_set_batch_as_committed ::
  "'x attesters_env \<Rightarrow> TargetId \<Rightarrow> H256 \<Rightarrow> 'x attesters_state \<Rightarrow> (DispatchError, 'x attesters_state) res" where
  "find_and_set_batch_as_committed env t h s =
     (case smap_get (Batches s) t of
        None \<Rightarrow> at_err BatchNotFound
      | Some bs \<Rightarrow>
          if list_ex (\<lambda>b. hash_of env b = h) bs
          then Ok (s\<lparr>Batches := smap_insert t
                 (update_first (\<lambda>b. hash_of env b = h) (\<lambda>b. b\<lparr>b_status := Batch_Committed\<rparr>) bs) (Batches s)\<rparr>)
          else at_err BatchNotFound)"

definition apply_permanent_attesters_slash :: "AccountId list \<Rightarrow> 'x attesters_state \<Rightarrow> 'x attesters_state" where
  "apply_permanent_attesters_slash as s = s\<lparr>PermanentSlashes := PermanentSlashes s @ as\<rparr>"

definition reward_submitter ::
  "'x attesters_env \<Rightarrow> AccountId \<Rightarrow> bytes \<Rightarrow> TargetId \<Rightarrow> Balance \<Rightarrow> 'x attesters_state
     \<Rightarrow> (DispatchError, 'x attesters_state) res" where
  "reward_submitter env submitter submitter_on_target t to_pay s =
     bind_res (ok_or (Attesters_Error AttesterDidNotAgreeToNewTarget)
        (smap_get (AttestersAgreements s) (submitter, t))) (\<lambda>recoverable.
       if recoverable = submitter_on_target
       then bind_res (at_transfer env (rw_treasury_account (at_rewards_cfg env) Treasury_Fee) submitter to_pay (at_ext s))
              (\<lambda>x. Ok (at_set_ext x s))
       else at_err AttesterDidNotAgreeToNewTarget)"

definition append_paid_fee :: "TargetId \<Rightarrow> Balance \<Rightarrow> 'x attesters_state \<Rightarrow> 'x attesters_state" where
  "append_paid_fee t v s =
     s\<lparr>PaidFinalityFees := smap_insert t (opt_list (smap_get (PaidFinalityFees s) t) @ [v]) (PaidFinalityFees s)\<rparr>"

definition commit_delay :: "BatchMessage \<Rightarrow> 'x attesters_state \<Rightarrow> BlockNumber" where
  "commit_delay b s =
     saturating_sub (saturating_sub (at_block_number s) (available_to_commit_at b))
       (ucast TWO_EPOCHS_IN_LOCAL_BLOCKS_U8)"

text \<open>The event of the escrow contract, recoded for the decoder.\<close>

definition escrow_batch_success_descriptor :: Descriptor where
  "escrow_batch_success_descriptor =
     ''BatchApplied:Event(MessageHash:H256,BeneficiaryOnTarget:Account20,AttestingCommittee:H256,)''"

definition recode_batch_event :: "codec_env \<Rightarrow> Codec \<Rightarrow> bytes \<Rightarrow> (DispatchError, bytes) res" where
  "recode_batch_event cenv target_codec inclusion_message =
     bind_res (abi_try_from escrow_batch_success_descriptor) (\<lambda>abi.
     bind_res (try_fill_abi cenv abi inclusion_message target_codec) (\<lambda>filled.
       recode_as cenv target_codec Scale True filled))"

definition commit_found_batch ::
  "'x attesters_env \<Rightarrow> AccountId \<Rightarrow> TargetId \<Rightarrow> TargetBatchDispatchEvent \<Rightarrow> BatchMessage \<Rightarrow> 'x attesters_state
     \<Rightarrow> (DispatchError, 'x attesters_state) res" where
  "commit_found_batch env submitter t ev b s =
     bind_res (at_ensure (b_status b = ReadyForSubmissionFullyApproved
        \<or> b_status b = ReadyForSubmissionByMajority) BatchNotFound) (\<lambda>_.
     bind_res (find_and_set_batch_as_committed env t (tb_hash ev) s) (\<lambda>s1.
       let to_pay = estimate_finality_reward env s1 t (commit_delay b s1);
           s2 = at_event (BatchCommitted t b (message b) (hash_of env b) to_pay) s1
       in if to_pay > 0
          then bind_res (reward_submitter env submitter (executor_on_target ev) t to_pay s2)
                 (\<lambda>s3. Ok (append_paid_fee t to_pay s3))
          else Ok s2))"

definition commit_batch ::
  "'x attesters_env \<Rightarrow> Origin \<Rightarrow> TargetId \<Rightarrow> bytes \<Rightarrow> 'x attesters_state
     \<Rightarrow> (DispatchError, 'x attesters_state) res" where
  "commit_batch env origin t inclusion_proof s =
     bind_res (ensure_signed origin) (\<lambda>submitter.
     bind_res (xdns_target_codec env (at_ext s) t) (\<lambda>codec.
     bind_res (xdns_escrow_account env (at_ext s) t) (\<lambda>escrow.
     bind_res (ok_or (Attesters_Error XdnsGatewayDoesNotHaveEscrowAddressRegistered)
        (decode_execution_source env escrow)) (\<lambda>src_acc.
     bind_res (at_verify_event_inclusion env (at_ext s) t Speed_Finalized (Some src_acc) inclusion_proof) (\<lambda>receipt.
     bind_res (recode_batch_event (at_abi_cfg env) codec (receipt_message receipt)) (\<lambda>event_bytes.
     bind_res (ok_or (Attesters_Error InvalidTargetInclusionProof) (decode_batch_event env event_bytes)) (\<lambda>ev.
       case list_find (\<lambda>b. hash_of env b = tb_hash ev) (get_batches_to_commit s t) of
         None \<Rightarrow>
           Ok (at_event (CollusionDetected t (tb_hash ev))
             (apply_permanent_attesters_slash
               (if attesting_committee ev = hash_committee env (PreviousCommittee s)
                then PreviousCommittee s else CurrentCommittee s) s))
       | Some b \<Rightarrow> commit_found_batch env submitter t ev b s)))))))"

definition read_pending_batches ::
  "'x attesters_env \<Rightarrow> Origin \<Rightarrow> 'x attesters_state \<Rightarrow> (DispatchError, 'x attesters_state) res" where
  "read_pending_batches env origin s =
     bind_res (ensure_signed origin) (\<lambda>_.
       Ok (at_events (map (\<lambda>t. CurrentPendingAttestationBatches t
            (map (\<lambda>b. (b_index b, hash_of env b)) (get_all_batches_to_sign s t))) (AttestationTargets s)) s))"

definition read_latest_batching_factor_overview ::
  "Origin \<Rightarrow> 'x attesters_state \<Rightarrow> (DispatchError, 'x attesters_state) res" where
  "read_latest_batching_factor_overview origin s =
     bind_res (ensure_signed origin) (\<lambda>_.
       Ok (at_event (BatchingFactorRead
            (map (\<lambda>t. (t, read_latest_batching_factor s t)) (AttestationTargets s))) s))"

definition estimate_user_finality_fee ::
  "'x attesters_env \<Rightarrow> Origin \<Rightarrow> TargetId \<Rightarrow> 'x attesters_state \<Rightarrow> (DispatchError, 'x attesters_state) res" where
  "estimate_user_finality_fee env origin t s =
     bind_res (ensure_signed origin) (\<lambda>_.
     bind_res (at_ensure (t \<in> set (AttestationTargets s)) TargetNotActive) (\<lambda>_.
       Ok (at_event (UserFinalityFeeEstimated t (at_estimate_finality_fee env s t)) s)))"

section \<open>Requests of other pallets\<close>

definition at_request_sfx_attestation_commit ::
  "TargetId \<Rightarrow> H256 \<Rightarrow> H256 option \<Rightarrow> 'x attesters_state \<Rightarrow> (DispatchError, 'x attesters_state) res" where
  "at_request_sfx_attestation_commit t sfx_id maybe_gmp_payload s =
     (let entry = sfx_id @ (case maybe_gmp_payload of Some p \<Rightarrow> p | None \<Rightarrow> replicate 32 0)
      in case smap_get (NextBatch s) t of
           None \<Rightarrow> Err (Other ''BatchNotFound'')
         | Some b \<Rightarrow>
             (case committed_sfx b of
                Some xs \<Rightarrow> if entry \<in> set xs then Err (Other ''SfxAlreadyRequested'')
                           else Ok (s\<lparr>NextBatch := smap_insert t (b\<lparr>committed_sfx := Some (xs @ [entry])\<rparr>) (NextBatch s)\<rparr>)
              | None \<Rightarrow> Ok (s\<lparr>NextBatch := smap_insert t (b\<lparr>committed_sfx := Some [entry]\<rparr>) (NextBatch s)\<rparr>)))"

definition at_request_sfx_attestation_revert ::
  "TargetId \<Rightarrow> H256 \<Rightarrow> 'x attesters_state \<Rightarrow> (DispatchError, 'x attesters_state) res" where
  "at_request_sfx_attestation_revert t sfx_id s =
     (case smap_get (NextBatch s) t of
        None \<Rightarrow> at_err BatchNotFound
      | Some b \<Rightarrow>
          (case reverted_sfx b of
             Some xs \<Rightarrow> if sfx_id \<in> set xs then at_err SfxAlreadyRequested
                        else Ok (s\<lparr>NextBatch := smap_insert t (b\<lparr>reverted_sfx := Some (xs @ [sfx_id])\<rparr>) (NextBatch s)\<rparr>)
           | None \<Rightarrow> Ok (s\<lparr>NextBatch := smap_insert t (b\<lparr>reverted_sfx := Some [sfx_id]\<rparr>) (NextBatch s)\<rparr>)))"

definition ban_on_target ::
  "AccountId \<Rightarrow> TargetId \<Rightarrow> 'x attesters_state \<Rightarrow> (DispatchError, 'x attesters_state) res" where
  "ban_on_target ban t s =
     bind_res (ok_or (Attesters_Error AttesterDidNotAgreeToNewTarget)
        (smap_get (AttestersAgreements s) (ban, t))) (\<lambda>recoverable.
     bind_res (ok_or (Attesters_Error BatchNotFound) (smap_get (NextBatch s) t)) (\<lambda>b.
     bind_res (at_ensure (recoverable \<notin> set (opt_list (banned_committee b))) BanAttesterAlreadyRequested) (\<lambda>_.
       Ok (s\<lparr>NextBatch := smap_insert t
            (b\<lparr>banned_committee := Some (opt_list (banned_committee b) @ [recoverable])\<rparr>) (NextBatch s)\<rparr>))))"

definition request_ban_attesters_attestation ::
  "AccountId \<Rightarrow> 'x attesters_state \<Rightarrow> (DispatchError, 'x attesters_state) res" where
  "request_ban_attesters_attestation ban s = fold_res (ban_on_target ban) (AttestationTargets s) s"

definition request_committee_on_target ::
  "TargetId \<Rightarrow> (TargetId \<times> u32) list \<times> 'x attesters_state \<Rightarrow> (TargetId \<times> u32) list \<times> 'x attesters_state" where
  "request_committee_on_target t = (\<lambda>(indices, s).
     case smap_get (NextBatch s) t of
       Some b \<Rightarrow>
         if next_committee b = None
         then let transition = get_current_committee_transition_for_target s t;
                  recoverables = map snd transition
           in (indices @ [(t, b_index b)],
               s\<lparr>NextBatch := smap_insert t
                    (b\<lparr>next_committee := (if recoverables = [] then None else Some recoverables)\<rparr>) (NextBatch s),
                 NextCommitteeOnTarget := smap_insert t transition (NextCommitteeOnTarget s)\<rparr>)
         else (indices, s)
     | None \<Rightarrow> (indices, s))"

definition request_next_committee_attestation ::
  "'x attesters_state \<Rightarrow> (TargetId \<times> u32) list \<times> 'x attesters_state" where
  "request_next_committee_attestation s = fold request_committee_on_target (AttestationTargets s) ([], s)"

end
