(* ===== verification/Attesters_Hooks.thy ===== *)
theory Attesters_Hooks
  imports Attesters_Calls
begin

text \<open>
  The block hook of the attesters pallet: the shuffling of the committee, the batching window, the
  repatriations of late batches through the rewards pallet, and the unnominations that are due.
\<close>

section \<open>Shuffling\<close>

definition random_index :: "bytes \<Rightarrow> nat \<Rightarrow> nat" where
  "random_index bs i = foldl (\<lambda>acc v. (acc + unat v) mod (i + 1)) 0 bs"

definition list_swap :: "nat \<Rightarrow> nat \<Rightarrow> 'a list \<Rightarrow> 'a list" where
  "list_swap i j xs = xs[i := xs ! j, j := xs ! i]"

definition shuffle_step :: "'x attesters_env \<Rightarrow> 'x \<Rightarrow> nat \<Rightarrow> 'a list \<Rightarrow> 'a list" where
  "shuffle_step env x i xs =
     (let r = random_index (random_value env x i) i in if i \<noteq> r then list_swap i r xs else xs)"

definition shuffle_active_set :: "'x attesters_env \<Rightarrow> 'x \<Rightarrow> 'a list \<Rightarrow> 'a list" where
  "shuffle_active_set env x xs = fold (shuffle_step env x) (rev [1..<length xs]) xs"

definition seat_invulnerable :: "AccountId option \<Rightarrow> AccountId list \<Rightarrow> AccountId list" where
  "seat_invulnerable m xs = (case m of Some a \<Rightarrow> xs[0 := a] | None \<Rightarrow> xs)"

definition shuffle_committee :: "'x attesters_env \<Rightarrow> 'x attesters_state \<Rightarrow> bool \<times> 'x attesters_state" where
  "shuffle_committee env s =
     (let active = ActiveSet s;
          size = unat (CommitteeSize env);
          full_shuffle = (size \<le> length active);
          committee_size = min size (length active);
          shuffled = shuffle_active_set env (at_ext s) active;
          new_committee = take committee_size (seat_invulnerable (InvulnerableAttester s) shuffled);
          next' = (if NextCommittee s = [] then take committee_size shuffled else NextCommittee s)
      in (full_shuffle, s\<lparr>CurrentCommittee := next', PreviousCommittee := CurrentCommittee s,
                          NextCommittee := new_committee\<rparr>))"

section \<open>Repatriations\<close>

definition sfx_to_repatriate :: "BatchMessage \<Rightarrow> (CircuitStatus \<times> H256) list" where
  "sfx_to_repatriate b =
     map (\<lambda>e. (Committed, take 32 e)) (opt_list (committed_sfx b))
     @ map (\<lambda>e. (Reverted Timeout, e)) (opt_list (reverted_sfx b))"

definition repatriate_sfx ::
  "'x rewards_env \<Rightarrow> 'x circuit_env \<Rightarrow> 'x circuit_state \<Rightarrow> CircuitStatus \<times> H256 \<Rightarrow> bool \<times> 'x rewards_state
     \<Rightarrow> (DispatchError, bool \<times> 'x rewards_state) res" where
  "repatriate_sfx renv cenv c = (\<lambda>(st, sfx_id) (repatriated, rw).
     case get_fsx cenv c sfx_id of
       Ok fsx \<Rightarrow>
         bind_res (repatriate_for_faulty_or_missing_attestation renv sfx_id fsx st
             (case get_fsx_requester c sfx_id of Ok r \<Rightarrow> Some r | _ \<Rightarrow> None) rw)
           (\<lambda>(done_now, rw'). Ok (repatriated \<or> done_now, rw'))
     | _ \<Rightarrow> Ok (repatriated, rw))"

definition late_by :: "bool \<Rightarrow> LatencyStatus \<Rightarrow> LatencyStatus" where
  "late_by repatriated l =
     (case l of
        OnTime \<Rightarrow> if repatriated then Late 1 1 else Late 1 0
      | Late n r \<Rightarrow> if repatriated then Late (saturating_add n 1) (saturating_add r 1)
                    else Late (saturating_add n 1) r)"

text \<open>The flag \<open>repatriated\<close> is shared by all batches of a target.\<close>

definition repatriate_batch ::
  "'x attesters_env \<Rightarrow> 'x circuit_env \<Rightarrow> 'x circuit_state \<Rightarrow> BlockNumber \<Rightarrow> BatchMessage
     \<Rightarrow> BatchMessage list \<times> bool \<times> 'x rewards_state
     \<Rightarrow> (DispatchError, BatchMessage list \<times> bool \<times> 'x rewards_state) res" where
  "repatriate_batch env cenv c n b = (\<lambda>(bs, repatriated, rw).
     if b_status b = PendingAttestation \<and> b_created b + RepatriationPeriod env \<le> n
     then bind_res (fold_res (repatriate_sfx (at_rewards_cfg env) cenv c) (sfx_to_repatriate b) (repatriated, rw))
            (\<lambda>(repatriated', rw'). Ok (bs @ [b\<lparr>b_latency := late_by repatriated' (b_latency b)\<rparr>], repatriated', rw'))
     else Ok (bs @ [b], repatriated, rw))"

definition repatriate_target ::
  "'x attesters_env \<Rightarrow> 'x circuit_env \<Rightarrow> 'x circuit_state \<Rightarrow> BlockNumber \<Rightarrow> TargetId \<Rightarrow> 'x attesters_state
     \<Rightarrow> (DispatchError, 'x attesters_state) res" where
  "repatriate_target env cenv c n t s =
     (case smap_get (Batches s) t of
        None \<Rightarrow> Ok s
      | Some bs \<Rightarrow>
          bind_res (fold_res (repatriate_batch env cenv c n) bs ([], False, at_rewards s))
            (\<lambda>(bs', _, rw). Ok (s\<lparr>Batches := smap_insert t bs' (Batches s), at_rewards := rw\<rparr>)))"

definition process_repatriations ::
  "'x attesters_env \<Rightarrow> 'x circuit_env \<Rightarrow> 'x circuit_state \<Rightarrow> BlockNumber \<Rightarrow> Weight \<Rightarrow> 'x attesters_state
     \<Rightarrow> (DispatchError, Weight \<times> 'x attesters_state) res" where
  "process_repatriations env cenv c n w s =
     bind_res (fold_res (repatriate_target env cenv c n) (AttestationTargets s) s) (\<lambda>s'. Ok (w, s'))"

section \<open>The batching window\<close>

text \<open>The remainder of two block numbers: the divisor zero panics.\<close>

definition divides_block :: "BlockNumber \<Rightarrow> BlockNumber \<Rightarrow> (DispatchError, bool) res" where
  "divides_block period n = (if period = 0 then Panic else Ok (n mod period = 0))"

definition window_batch ::
  "'x attesters_env \<Rightarrow> BlockNumber \<Rightarrow> BatchMessage \<Rightarrow> (DispatchError, BatchMessage) res" where
  "window_batch env n b =
     (if b_status b = PendingAttestation \<and> quorum env \<le> length (b_signatures b)
      then Ok (b\<lparr>b_status := ReadyForSubmissionByMajority\<rparr>)
      else bind_res (divides_block (RepatriationPeriod env) n) (\<lambda>overlaps.
        Ok (if \<not> overlaps \<or> has_no_sfx b then b\<lparr>b_latency := late_by False (b_latency b)\<rparr> else b)))"

definition confirmation_events ::
  "'x attesters_env \<Rightarrow> TargetId \<Rightarrow> BatchMessage list \<Rightarrow> BatchMessage list \<Rightarrow> AttestersEvent list" where
  "confirmation_events env t bs bs' =
     map (\<lambda>(_, b'). NewConfirmationBatch t b' (message b') (hash_of env b'))
       (filter (\<lambda>(b, b'). b_status b = PendingAttestation \<and> b_status b' = ReadyForSubmissionByMajority)
          (zip bs bs'))"

definition update_window_batches ::
  "'x attesters_env \<Rightarrow> BlockNumber \<Rightarrow> TargetId \<Rightarrow> 'x attesters_state \<Rightarrow> (DispatchError, 'x attesters_state) res" where
  "update_window_batches env n t s =
     (case smap_get (Batches s) t of
        None \<Rightarrow> Ok s
      | Some bs \<Rightarrow>
          bind_res (map_res (window_batch env n) bs) (\<lambda>bs'.
            Ok (at_events (confirmation_events env t bs bs') (s\<lparr>Batches := smap_insert t bs' (Batches s)\<rparr>))))"

definition execution_vendor_of :: "'x attesters_env \<Rightarrow> 'x attesters_state \<Rightarrow> TargetId \<Rightarrow> ExecutionVendor" where
  "execution_vendor_of env s t =
     (case xdns_verification_vendor env (at_ext s) t of
        Ok v \<Rightarrow> if v = Ethereum then Vendor_EVM else Vendor_Substrate
      | _ \<Rightarrow> Vendor_EVM)"

definition open_next_batch ::
  "'x attesters_env \<Rightarrow> BlockNumber \<Rightarrow> TargetId \<Rightarrow> 'x attesters_state \<Rightarrow> 'x attesters_state" where
  "open_next_batch env n t s =
     (let fresh = batch_default\<lparr>b_created := n\<rparr> in
      case smap_get (NextBatch s) t of
        Some b \<Rightarrow>
          if batch_is_empty b then s
          else let b' = b\<lparr>b_status := PendingAttestation\<rparr>;
                   s1 = s\<lparr>Batches := smap_insert t (batches_of s t @ [b']) (Batches s),
                          NextBatch := smap_insert t (fresh\<lparr>b_index := saturating_add (b_index b) 1\<rparr>) (NextBatch s)\<rparr>
            in at_events [NewAttestationBatch t b',
                 NewAttestationMessageHash t (hash_of env b) (execution_vendor_of env s1 t)] s1
      | None \<Rightarrow> snd (request_next_committee_attestation (s\<lparr>NextBatch := smap_insert t fresh (NextBatch s)\<rparr>)))"

definition window_target ::
  "'x attesters_env \<Rightarrow> BlockNumber \<Rightarrow> TargetId \<Rightarrow> 'x attesters_state \<Rightarrow> (DispatchError, 'x attesters_state) res" where
  "window_target env n t s =
     bind_res (update_window_batches env n t s) (\<lambda>s1.
       let pending = get_batches s1 t PendingAttestation;
           s2 = (if pending = [] then s1
                 else at_event (CurrentPendingAttestationBatches t
                        (map (\<lambda>b. (b_index b, hash_of env b)) pending)) s1)
       in Ok (open_next_batch env n t s2))"

definition process_next_batch_window ::
  "'x attesters_env \<Rightarrow> BlockNumber \<Rightarrow> Weight \<Rightarrow> 'x attesters_state
     \<Rightarrow> (DispatchError, Weight \<times> 'x attesters_state) res" where
  "process_next_batch_window env n w s =
     bind_res (fold_res (window_target env n) (AttestationTargets s) s) (\<lambda>s'. Ok (w, s'))"

section \<open>Unnominations\<close>

definition update_sorted_nominated_attesters ::
  "AccountId \<Rightarrow> Balance \<Rightarrow> 'x attesters_state \<Rightarrow> bool \<times> 'x attesters_state" where
  "update_sorted_nominated_attesters attester amnt s =
     (case list_find (\<lambda>(a, _). a = attester) (SortedNominatedAttesters s) of
        Some (_, v) \<Rightarrow>
          let rest = v - amnt;
              xs = (if rest = 0 then remove1 (attester, v) (SortedNominatedAttesters s)
                    else update_first (\<lambda>(a, _). a = attester) (\<lambda>_. (attester, rest)) (SortedNominatedAttesters s))
          in (True, s\<lparr>SortedNominatedAttesters := take 32 (sort_desc (\<lambda>(_, n). unat n) xs)\<rparr>)
      | None \<Rightarrow> (False, s))"

definition release_nomination ::
  "'x attesters_env \<Rightarrow> AccountId \<Rightarrow> AccountId \<times> Balance \<Rightarrow> Weight \<times> 'x attesters_state
     \<Rightarrow> Weight \<times> 'x attesters_state" where
  "release_nomination env attester = (\<lambda>(nominator, amnt) (w, s).
     let s1 = s\<lparr>Nominations := smap_remove (attester, nominator) (Nominations s)\<rparr>
     in (at_writes env 0 2 w, at_set_ext (unreserve env nominator amnt (at_ext s1)) s1))"

definition remove_first_of :: "AccountId \<Rightarrow> (AccountId \<times> Balance) list \<Rightarrow> (AccountId \<times> Balance) list" where
  "remove_first_of a xs =
     (case list_find (\<lambda>(b, _). b = a) xs of Some p \<Rightarrow> remove1 p xs | None \<Rightarrow> xs)"

definition deregister_now ::
  "'x attesters_env \<Rightarrow> AccountId \<Rightarrow> Weight \<times> 'x attesters_state \<Rightarrow> Weight \<times> 'x attesters_state" where
  "deregister_now env attester = (\<lambda>(w, s).
     case fold (release_nomination env attester) (nominations_of s attester) (w, s) of
       (w1, s1) \<Rightarrow>
         (at_writes env 0 1 (at_writes env 0 1 (at_writes env 0 1 w1)),
          at_event (AttesterDeregistered attester)
            (s1\<lparr>AttesterInfos := smap_remove attester (AttesterInfos s1),
                SortedNominatedAttesters := remove_first_of attester (SortedNominatedAttesters s1),
                PendingUnnominations := smap_remove attester (PendingUnnominations s1)\<rparr>)))"

definition unnominate_now ::
  "'x attesters_env \<Rightarrow> AccountId \<Rightarrow> AccountId \<Rightarrow> Balance \<Rightarrow> Weight \<times> 'x attesters_state
     \<Rightarrow> Weight \<times> 'x attesters_state" where
  "unnominate_now env nominator attester amnt = (\<lambda>(w, s).
     let s1 = at_set_ext (unreserve env nominator amnt (at_ext s)) s;
         s2 = s1\<lparr>Nominations := smap_remove (attester, nominator) (Nominations s1)\<rparr>
     in (at_writes env 0 1 (at_writes env 0 1 (at_writes env 0 1 w)),
         snd (update_sorted_nominated_attesters attester amnt s2)))"

definition unnominate_due ::
  "'x attesters_env \<Rightarrow> BlockNumber \<Rightarrow> AccountId \<Rightarrow> AccountId \<times> Balance \<times> BlockNumber
     \<Rightarrow> Weight \<times> 'x attesters_state \<Rightarrow> Weight \<times> 'x attesters_state" where
  "unnominate_due env n nominator = (\<lambda>(attester, amnt, unlock_block) (w, s).
     if unlock_block \<le> n
     then if nominator = attester
             \<and> saturating_sub (case smap_get (Nominations s) (attester, attester) of Some v \<Rightarrow> v | None \<Rightarrow> 0) amnt
                 < MinAttesterBond env
          then deregister_now env attester (w, s)
          else unnominate_now env nominator attester amnt (w, s)
     else (w, s))"

definition process_unnominations_of ::
  "'x attesters_env \<Rightarrow> BlockNumber \<Rightarrow> AccountId \<times> (AccountId \<times> Balance \<times> BlockNumber) list
     \<Rightarrow> Weight \<times> 'x attesters_state \<Rightarrow> Weight \<times> 'x attesters_state" where
  "process_unnominations_of env n = (\<lambda>(nominator, pending) ws.
     let remaining = filter (\<lambda>(_, _, unlock_block). \<not> unlock_block \<le> n) pending
     in case fold (unnominate_due env n nominator) pending ws of
          (w, s) \<Rightarrow>
            if remaining = pending then (w, s)
            else (at_writes env 0 1 w,
                  if remaining = []
                  then s\<lparr>PendingUnnominations := smap_remove nominator (PendingUnnominations s)\<rparr>
                  else s\<lparr>PendingUnnominations := smap_insert nominator remaining (PendingUnnominations s)\<rparr>))"

definition process_pending_unnominations ::
  "'x attesters_env \<Rightarrow> BlockNumber \<Rightarrow> Weight \<Rightarrow> 'x attesters_state \<Rightarrow> Weight \<times> 'x attesters_state" where
  "process_pending_unnominations env n w s =
     fold (process_unnominations_of env n) (PendingUnnominations s) (at_writes env 1 0 w, s)"

section \<open>The hook\<close>

definition update_active_set :: "'x attesters_state \<Rightarrow> 'x attesters_state" where
  "update_active_set s =
     s\<lparr>ActiveSet := map fst (take 32 (filter (\<lambda>(a, _). \<not> is_permanently_slashed s a) (SortedNominatedAttesters s)))\<rparr>"

definition shuffling_round ::
  "'x attesters_env \<Rightarrow> BlockNumber \<Rightarrow> 'x attesters_state \<Rightarrow> Weight \<times> 'x attesters_state" where
  "shuffling_round env n s =
     (case process_pending_unnominations env n 0 s of
        (w, s1) \<Rightarrow>
          let s2 = snd (shuffle_committee env (update_active_set s1));
              s3 = at_event (ShufflingCompleted (CurrentCommittee s2) (PreviousCommittee s2) (NextCommittee s2)) s2
          in case request_next_committee_attestation s3 of
               (indices, s4) \<Rightarrow>
                 (at_writes env 2 3 (at_writes env 2 2 (at_writes env 1 1 w)),
                  s4\<lparr>CommitteeTransitionOn := fold (\<lambda>(t, i). smap_insert t i) indices (CommitteeTransitionOn s4)\<rparr>))"

definition heartbeat :: "BlockNumber \<Rightarrow> LightClientHeartbeat" where
  "heartbeat n = \<lparr>last_heartbeat = n, last_finalized_height = n, last_rational_height = n,
     last_fast_height = n, hb_is_halted = False, ever_initialized = True\<rparr>"

definition attesters_on_initialize ::
  "'x attesters_env \<Rightarrow> 'x circuit_env \<Rightarrow> 'x circuit_state \<Rightarrow> BlockNumber \<Rightarrow> 'x attesters_state
     \<Rightarrow> (DispatchError, Weight \<times> 'x attesters_state) res" where
  "attesters_on_initialize env cenv c n s =
     bind_res (divides_block (ShufflingFrequency env) n) (\<lambda>shuffle.
       if shuffle \<and> is_last_transition_attested s then Ok (shuffling_round env n s)
       else bind_res (divides_block (BatchingWindow env) n) (\<lambda>window.
         bind_res (if window
             then bind_res (process_next_batch_window env n 0 s) (\<lambda>(w, s1).
                    Ok (w, at_set_ext (on_new_epoch env Attesters (n mod BatchingWindow env)
                             (heartbeat (at_block_number s1)) (at_ext s1)) s1))
             else Ok (0, s)) (\<lambda>(w, s1).
           bind_res (divides_block (RepatriationPeriod env) n) (\<lambda>repatriate.
             if repatriate then process_repatriations env cenv c n w s1 else Ok (w, s1)))))"

definition attesters_genesis :: "TargetId list \<Rightarrow> 'x attesters_state \<Rightarrow> 'x attesters_state" where
  "attesters_genesis targets s =
     (let s1 = s\<lparr>AttestationTargets := AttestationTargets s @ targets\<rparr>
      in s1\<lparr>NextBatch := fold (\<lambda>t. smap_insert t (batch_default\<lparr>b_created := at_block_number s1\<rparr>))
              (AttestationTargets s1) (NextBatch s1)\<rparr>)"

end
