(* ===== verification/Attesters_Invariant.thy ===== *)
theory Attesters_Invariant
  imports Attesters_Hooks "HOL-Library.Multiset"
begin

text \<open>
  The invariant of the attesters pallet and its proof over all calls, requests and the block hook:
  frames for the steps that touch neither batches nor nominations, the list of nominated attesters,
  the batches of a target, and the reachable states.
\<close>

section \<open>Definitions\<close>

text \<open>
  What holds of a stored batch: nobody signed it twice, it counts as ready only with a quorum of
  signatures, as fully approved only with one per member of the committee, and it is
  available from block zero on.
\<close>

definition batch_ok :: "'x attesters_env \<Rightarrow> BatchMessage \<Rightarrow> bool" where
  "batch_ok env b \<longleftrightarrow> distinct (map fst (b_signatures b)) \<and> available_to_commit_at b = 0
     \<and> (b_status b = ReadyForSubmissionByMajority \<longrightarrow> quorum env \<le> length (b_signatures b))
     \<and> (b_status b = ReadyForSubmissionFullyApproved \<longrightarrow> unat (CommitteeSize env) \<le> length (b_signatures b))"

text \<open>Indices grow until they saturate.\<close>

definition index_before :: "u32 \<Rightarrow> u32 \<Rightarrow> bool" where
  "index_before i j \<longleftrightarrow> i < j \<or> j = - 1"

definition target_ok :: "'x attesters_env \<Rightarrow> BatchMessage list \<Rightarrow> BatchMessage option \<Rightarrow> bool" where
  "target_ok env bs m \<longleftrightarrow> sorted_wrt index_before (map b_index bs) \<and> list_all (batch_ok env) bs
     \<and> (case m of
          None \<Rightarrow> bs = []
        | Some b \<Rightarrow> b_signatures b = [] \<and> available_to_commit_at b = 0 \<and> b_status b = PendingMessage
            \<and> list_all (\<lambda>b'. index_before (b_index b') (b_index b)) bs)"

definition batches_inv ::
  "'x attesters_env \<Rightarrow> (TargetId, BatchMessage list) smap \<Rightarrow> (TargetId, BatchMessage) smap \<Rightarrow> bool" where
  "batches_inv env bm nm \<longleftrightarrow> (\<forall>t. target_ok env (opt_list (smap_get bm t)) (smap_get nm t))"

definition nominated_ok :: "(AccountId \<times> Balance) list \<Rightarrow> bool" where
  "nominated_ok xs \<longleftrightarrow> sorted_wrt (\<lambda>p q. snd q \<le> snd p) xs \<and> distinct (map fst xs) \<and> length xs \<le> 32"

definition attesters_inv :: "'x attesters_env \<Rightarrow> 'x attesters_state \<Rightarrow> bool" where
  "attesters_inv env s \<longleftrightarrow> batches_inv env (Batches s) (NextBatch s)
     \<and> nominated_ok (SortedNominatedAttesters s) \<and> distinct (ActiveSet s) \<and> length (ActiveSet s) \<le> 32"

text \<open>
  The steps of the pallet: its calls, the requests of other pallets, the hook of a block, and the
  changes of the ledger, the rewards and the block number that happen outside.
\<close>

inductive attesters_step ::
  "'x attesters_env \<Rightarrow> 'x circuit_env \<Rightarrow> 'x attesters_state \<Rightarrow> 'x attesters_state \<Rightarrow> bool"
  for env cenv where
  st_register: "register_attester env origin v k1 k2 k3 c s = Ok s' \<Longrightarrow> attesters_step env cenv s s'"
| st_invulnerable: "register_invulnerable_attester env origin v k1 k2 k3 c s = Ok s' \<Longrightarrow> attesters_step env cenv s s'"
| st_deregister: "deregister_attester env origin s = Ok s' \<Longrightarrow> attesters_step env cenv s s'"
| st_nominate: "nominate env origin a v s = Ok s' \<Longrightarrow> attesters_step env cenv s s'"
| st_unnominate: "unnominate env origin a s = Ok s' \<Longrightarrow> attesters_step env cenv s s'"
| st_remove_target: "remove_attestation_target origin t s = Ok s' \<Longrightarrow> attesters_step env cenv s s'"
| st_agree: "agree_to_new_attestation_target origin t r s = Ok s' \<Longrightarrow> attesters_step env cenv s s'"
| st_force: "force_activate_target env origin t s = Ok s' \<Longrightarrow> attesters_step env cenv s s'"
| st_add_target: "add_attestation_target env origin t s = Ok s' \<Longrightarrow> attesters_step env cenv s s'"
| st_submit: "submit_attestation env origin m sig t s = Ok s' \<Longrightarrow> attesters_step env cenv s s'"
| st_commit: "commit_batch env origin t p s = Ok s' \<Longrightarrow> attesters_step env cenv s s'"
| st_read_pending: "read_pending_batches env origin s = Ok s' \<Longrightarrow> attesters_step env cenv s s'"
| st_read_factor: "read_latest_batching_factor_overview origin s = Ok s' \<Longrightarrow> attesters_step env cenv s s'"
| st_estimate: "estimate_user_finality_fee env origin t s = Ok s' \<Longrightarrow> attesters_step env cenv s s'"
| st_request_commit: "at_request_sfx_attestation_commit t i p s = Ok s' \<Longrightarrow> attesters_step env cenv s s'"
| st_request_revert: "at_request_sfx_attestation_revert t i s = Ok s' \<Longrightarrow> attesters_step env cenv s s'"
| st_request_ban: "request_ban_attesters_attestation a s = Ok s' \<Longrightarrow> attesters_step env cenv s s'"
| st_request_committee: "request_next_committee_attestation s = (is, s') \<Longrightarrow> attesters_step env cenv s s'"
| st_hook: "attesters_on_initialize env cenv c n s = Ok (w, s') \<Longrightarrow> attesters_step env cenv s s'"
| st_outside: "attesters_step env cenv s (s\<lparr>at_rewards := rw, at_block_number := n\<rparr>)"

definition attesters_empty :: "'x rewards_state \<Rightarrow> BlockNumber \<Rightarrow> 'x attesters_state" where
  "attesters_empty rw n =
     \<lparr>AttesterInfos = [], NextCommittee = [], CurrentCommittee = [], PreviousCommittee = [],
      CommitteeTransitionOn = [], SortedNominatedAttesters = [], ActiveSet = [], PermanentSlashes = [],
      InvulnerableAttester = None, AttestationTargets = [], PendingAttestationTargets = [],
      AttestersAgreements = [], NextBatch = [], NextCommitteeOnTarget = [], BatchesToSign = [], Batches = [],
      PendingUnnominations = [], Nominations = [], PaidFinalityFees = [], attesters_events = [],
      at_rewards = rw, at_block_number = n\<rparr>"

inductive attesters_reachable :: "'x attesters_env \<Rightarrow> 'x circuit_env \<Rightarrow> 'x attesters_state \<Rightarrow> bool"
  for env cenv where
  reach_genesis: "attesters_reachable env cenv (attesters_genesis targets (attesters_empty rw n))"
| reach_step: "attesters_reachable env cenv s \<Longrightarrow> attesters_step env cenv s s' \<Longrightarrow> attesters_reachable env cenv s'"

text \<open>The invariant does not depend on the latency of a batch.\<close>

definition core :: "BatchMessage \<Rightarrow> BatchMessage" where
  "core b = b\<lparr>b_latency := OnTime\<rparr>"

section \<open>The nominated attesters\<close>

lemma sort_desc_props:
  "mset (sort_desc f xs) = mset xs" "length (sort_desc f xs) = length xs"
  "sorted_wrt (\<lambda>x y. f y \<le> f x) (sort_desc f xs)"
  "distinct (map g (sort_desc f xs)) \<longleftrightarrow> distinct (map g xs)"
proof -
  show m: "mset (sort_desc f xs) = mset xs" and "length (sort_desc f xs) = length xs"
    by (simp_all add: sort_desc_def)
  have "sorted (map (\<lambda>x. - int (f x)) (sort_desc f xs))" by (simp add: sort_desc_def)
  then show "sorted_wrt (\<lambda>x y. f y \<le> f x) (sort_desc f xs)" by (simp add: sorted_map)
  have "mset (map g (sort_desc f xs)) = mset (map g xs)" using m by simp
  then show "distinct (map g (sort_desc f xs)) \<longleftrightarrow> distinct (map g xs)" by (rule mset_eq_imp_distinct_iff)
qed

lemma nominated_ok_sorted:
  assumes "distinct (map fst xs)"
  shows "nominated_ok (take 32 (sort_desc (\<lambda>(_, n). unat n) xs))"
proof -
  let ?ys = "sort_desc (\<lambda>(_, n). unat n) xs"
  have "sorted_wrt (\<lambda>p q. snd q \<le> snd p) ?ys"
    using sort_desc_props(3) [of "\<lambda>(_, n). unat n" xs] by (simp add: case_prod_beta word_le_nat_alt)
  moreover have "distinct (map fst ?ys)" using assms by (simp add: sort_desc_props(4))
  ultimately show ?thesis
    by (simp add: nominated_ok_def sorted_wrt_take distinct_take flip: take_map)
qed

lemma update_first_key:
  "map fst (update_first (\<lambda>(a, _). a = k) (\<lambda>_. (k, v)) xs) = map fst xs"
  by (induction xs) auto

lemma nominated_ok_put:
  assumes "nominated_ok xs"
  shows "nominated_ok (put_nomination_total a v xs)"
proof (cases "list_ex (\<lambda>(b, _). b = a) xs")
  case True
  then show ?thesis
    using assms unfolding put_nomination_total_def
    by (simp only: if_True) (intro nominated_ok_sorted, simp add: update_first_key nominated_ok_def)
next
  case False
  then have "distinct (map fst (xs @ [(a, v)]))"
    using assms by (force simp: nominated_ok_def list_ex_iff)
  then show ?thesis
    using False unfolding put_nomination_total_def by (simp only: if_False) (rule nominated_ok_sorted)
qed

lemma nominated_ok_remove1:
  assumes "nominated_ok xs"
  shows "nominated_ok (remove1 p xs)"
proof -
  have d: "distinct xs" using assms by (auto simp: nominated_ok_def distinct_map)
  then have r: "remove1 p xs = filter ((\<noteq>) p) xs" by (simp add: distinct_remove1_removeAll removeAll_filter_not_eq)
  have "length (filter ((\<noteq>) p) xs) \<le> length xs" by simp
  then show ?thesis
    using assms unfolding r by (auto simp: nominated_ok_def sorted_wrt_filter distinct_map_filter simp del: length_filter_le)
qed

lemma nominated_ok_remove_first: "nominated_ok xs \<Longrightarrow> nominated_ok (remove_first_of a xs)"
  by (simp add: remove_first_of_def nominated_ok_remove1 split: option.split)

lemma nominated_ok_update:
  assumes "nominated_ok (SortedNominatedAttesters s)"
  shows "nominated_ok (SortedNominatedAttesters (snd (update_sorted_nominated_attesters a v s)))"
proof (cases "list_find (\<lambda>(b, _). b = a) (SortedNominatedAttesters s)")
  case None
  then show ?thesis using assms by (simp add: update_sorted_nominated_attesters_def)
next
  case (Some p)
  have "distinct (map fst (remove1 p (SortedNominatedAttesters s)))"
    using nominated_ok_remove1 [OF assms] by (simp add: nominated_ok_def)
  moreover have "distinct (map fst (SortedNominatedAttesters s))" using assms by (simp add: nominated_ok_def)
  moreover have "fst p = a" using list_find_Some [OF Some] by auto
  ultimately show ?thesis
    using Some
    by (cases p) (auto simp: update_sorted_nominated_attesters_def Let_def update_first_key intro!: nominated_ok_sorted)
qed

section \<open>Frames\<close>

text \<open>What the invariant reads.\<close>

lemma attesters_inv_cong:
  assumes "Batches s' = Batches s" "NextBatch s' = NextBatch s"
    "SortedNominatedAttesters s' = SortedNominatedAttesters s" "ActiveSet s' = ActiveSet s"
  shows "attesters_inv env s' = attesters_inv env s"
  by (simp add: attesters_inv_def assms)

lemma at_event_simps [simp]:
  "Batches (at_event e s) = Batches s" "NextBatch (at_event e s) = NextBatch s"
  "SortedNominatedAttesters (at_event e s) = SortedNominatedAttesters s" "ActiveSet (at_event e s) = ActiveSet s"
  "AttesterInfos (at_event e s) = AttesterInfos s" "Nominations (at_event e s) = Nominations s"
  "PendingUnnominations (at_event e s) = PendingUnnominations s" "at_rewards (at_event e s) = at_rewards s"
  "PaidFinalityFees (at_event e s) = PaidFinalityFees s" "AttestersAgreements (at_event e s) = AttestersAgreements s"
  "AttestationTargets (at_event e s) = AttestationTargets s"
  "at_block_number (at_event e s) = at_block_number s"
  by (simp_all add: at_event_def)

lemma at_events_simps [simp]:
  "Batches (at_events es s) = Batches s" "NextBatch (at_events es s) = NextBatch s"
  "SortedNominatedAttesters (at_events es s) = SortedNominatedAttesters s" "ActiveSet (at_events es s) = ActiveSet s"
  "AttestationTargets (at_events es s) = AttestationTargets s" "AttestersAgreements (at_events es s) = AttestersAgreements s"
  "PaidFinalityFees (at_events es s) = PaidFinalityFees s"
  by (induction es arbitrary: s) (simp_all add: at_events_def)

lemma at_set_ext_simps [simp]:
  "Batches (at_set_ext x s) = Batches s" "NextBatch (at_set_ext x s) = NextBatch s"
  "SortedNominatedAttesters (at_set_ext x s) = SortedNominatedAttesters s" "ActiveSet (at_set_ext x s) = ActiveSet s"
  "AttesterInfos (at_set_ext x s) = AttesterInfos s" "Nominations (at_set_ext x s) = Nominations s"
  "PendingUnnominations (at_set_ext x s) = PendingUnnominations s"
  "PaidFinalityFees (at_set_ext x s) = PaidFinalityFees s" "at_ext (at_set_ext x s) = x"
  "AttestationTargets (at_set_ext x s) = AttestationTargets s" "AttestersAgreements (at_set_ext x s) = AttestersAgreements s"
  "at_block_number (at_set_ext x s) = at_block_number s"
  by (simp_all add: at_set_ext_def rw_set_ext_def)

lemma attesters_inv_frames [simp]:
  "attesters_inv env (at_event e s) = attesters_inv env s"
  "attesters_inv env (at_events es s) = attesters_inv env s"
  "attesters_inv env (at_set_ext x s) = attesters_inv env s"
  "attesters_inv env (push_unnomination a u s) = attesters_inv env s"
  "attesters_inv env (activate_target t s) = attesters_inv env s"
  "attesters_inv env (append_paid_fee t v s) = attesters_inv env s"
  "attesters_inv env (apply_permanent_attesters_slash as s) = attesters_inv env s"
  by (simp_all add: attesters_inv_def push_unnomination_def activate_target_def append_paid_fee_def
      apply_permanent_attesters_slash_def)

lemma attesters_inv_updates [simp]:
  "attesters_inv env (s\<lparr>AttesterInfos := v1\<rparr>) = attesters_inv env s"
  "attesters_inv env (s\<lparr>Nominations := v2\<rparr>) = attesters_inv env s"
  "attesters_inv env (s\<lparr>InvulnerableAttester := v3\<rparr>) = attesters_inv env s"
  "attesters_inv env (s\<lparr>AttestersAgreements := v4\<rparr>) = attesters_inv env s"
  "attesters_inv env (s\<lparr>PendingAttestationTargets := v5\<rparr>) = attesters_inv env s"
  "attesters_inv env (s\<lparr>PendingUnnominations := v6\<rparr>) = attesters_inv env s"
  "attesters_inv env (s\<lparr>CommitteeTransitionOn := v7\<rparr>) = attesters_inv env s"
  "attesters_inv env (s\<lparr>at_rewards := v8\<rparr>) = attesters_inv env s"
  "attesters_inv env (s\<lparr>at_block_number := v9\<rparr>) = attesters_inv env s"
  "attesters_inv env (s\<lparr>NextCommitteeOnTarget := v10\<rparr>) = attesters_inv env s"
  by (simp_all add: attesters_inv_def)

lemma inv_nominated:
  assumes "attesters_inv env s" "nominated_ok xs"
  shows "attesters_inv env (s\<lparr>SortedNominatedAttesters := xs\<rparr>)"
  using assms by (simp add: attesters_inv_def)

lemma do_nominate_inv:
  assumes "do_nominate env a b v s = Ok s'" "attesters_inv env s"
  shows "attesters_inv env s'"
proof -
  have "nominated_ok (SortedNominatedAttesters s)" using assms(2) by (simp add: attesters_inv_def)
  then show ?thesis
    using assms
    by (auto simp: do_nominate_def Let_def at_err_def res_simps nominated_ok_put attesters_inv_def split: if_splits)
qed


section \<open>The batches\<close>

lemma core_eqD: "core b = core b' \<Longrightarrow> b_index b = b_index b' \<and> batch_ok env b = batch_ok env b'"
proof -
  assume "core b = core b'"
  then have "b_index (core b) = b_index (core b')" "batch_ok env (core b) = batch_ok env (core b')" by simp_all
  then show ?thesis by (simp add: core_def batch_ok_def)
qed

lemma core_latency [simp]: "core (b\<lparr>b_latency := l\<rparr>) = core b"
  by (simp add: core_def)

text \<open>The list of batches may change in its batches as long as their indices stay.\<close>

lemma target_ok_change:
  assumes "target_ok env bs m" "map b_index bs' = map b_index bs" "list_all (batch_ok env) bs'"
  shows "target_ok env bs' m"
proof -
  have "list_all (\<lambda>i. index_before i j) (map b_index bs') \<longleftrightarrow> list_all (\<lambda>i. index_before i j) (map b_index bs)" for j
    using assms(2) by simp
  then have "list_all (\<lambda>b'. index_before (b_index b') j) bs' \<longleftrightarrow> list_all (\<lambda>b'. index_before (b_index b') j) bs" for j
    by (simp add: list.pred_map comp_def)
  moreover have "bs' = [] \<longleftrightarrow> bs = []" using assms(2) by (metis map_is_Nil_conv)
  ultimately show ?thesis using assms by (simp add: target_ok_def split: option.splits)
qed

lemma target_ok_core:
  assumes "target_ok env bs m" "map core bs' = map core bs"
  shows "target_ok env bs' m"
proof (rule target_ok_change [OF assms(1)])
  from assms(2) have all: "list_all2 (\<lambda>b' b. core b' = core b) bs' bs"
    by (simp add: list_all2_conv_all_nth list_eq_iff_nth_eq)
  then show "map b_index bs' = map b_index bs"
    by (induction rule: list_all2_induct) (auto dest: core_eqD)
  have "list_all (batch_ok env) bs" using assms(1) by (simp add: target_ok_def)
  with all show "list_all (batch_ok env) bs'"
    by (induction rule: list_all2_induct) (auto dest: core_eqD)
qed

lemma batches_inv_insert:
  assumes "batches_inv env bm nm" "target_ok env bs (smap_get nm t)"
  shows "batches_inv env (smap_insert t bs bm) nm"
  using assms by (simp add: batches_inv_def opt_list_def)

lemma batches_inv_next:
  assumes "batches_inv env bm nm" "target_ok env (opt_list (smap_get bm t)) (Some b)"
  shows "batches_inv env bm (smap_insert t b nm)"
  using assms by (simp add: batches_inv_def)

lemma inv_batches:
  assumes "attesters_inv env s" "smap_get (Batches s) t = Some bs" "target_ok env bs (smap_get (NextBatch s) t) \<Longrightarrow> target_ok env bs' (smap_get (NextBatch s) t)"
  shows "attesters_inv env (s\<lparr>Batches := smap_insert t bs' (Batches s)\<rparr>)"
proof -
  have "target_ok env bs (smap_get (NextBatch s) t)"
    using assms(1,2) by (auto simp: attesters_inv_def batches_inv_def opt_list_def dest: spec [of _ t])
  then show ?thesis using assms(1,3) by (simp add: attesters_inv_def batches_inv_insert)
qed

lemma inv_next_batch:
  assumes "attesters_inv env s" "smap_get (NextBatch s) t = Some b"
    and "b_signatures b' = b_signatures b" "available_to_commit_at b' = available_to_commit_at b"
    "b_status b' = b_status b" "b_index b' = b_index b"
  shows "attesters_inv env (s\<lparr>NextBatch := smap_insert t b' (NextBatch s)\<rparr>)"
proof -
  have "target_ok env (opt_list (smap_get (Batches s) t)) (Some b)"
    using assms(1,2) by (auto simp: attesters_inv_def batches_inv_def dest: spec [of _ t])
  then have "target_ok env (opt_list (smap_get (Batches s) t)) (Some b')" using assms(3-6) by (simp add: target_ok_def)
  then show ?thesis using assms(1) by (simp add: attesters_inv_def batches_inv_next)
qed

text \<open>A change of the first batch with a property that keeps its index.\<close>

lemma update_first_batch:
  assumes "target_ok env bs m" "list_find P bs = Some b" "b_index b' = b_index b" "batch_ok env b \<Longrightarrow> batch_ok env b'"
  shows "target_ok env (update_first P (\<lambda>_. b') bs) m"
proof -
  have "batch_ok env b"
    using assms(1) list_find_Some [OF assms(2)] by (simp add: target_ok_def list_all_iff)
  then have b': "batch_ok env b'" by (rule assms(4))
  show ?thesis
  proof (rule target_ok_change [OF assms(1)])
    show "map b_index (update_first P (\<lambda>_. b') bs) = map b_index bs"
      using assms(2,3) by (induction bs) (auto split: if_splits)
    have "list_all (batch_ok env) bs" using assms(1) by (simp add: target_ok_def)
    then show "list_all (batch_ok env) (update_first P (\<lambda>_. b') bs)"
      using b' by (induction bs) auto
  qed
qed

lemma update_first_found:
  "list_find P bs = Some b \<Longrightarrow> update_first P f bs = update_first P (\<lambda>_. f b) bs"
  by (induction bs) (auto split: if_splits)

lemma add_signature_ok:
  assumes "batch_ok env b" "\<not> list_ex (\<lambda>(j, _). j = i) (b_signatures b)"
    "b_status b = PendingAttestation \<or> b_status b = ReadyForSubmissionByMajority"
  shows "batch_ok env (add_signature env (i, sig) b)"
proof -
  have "i \<notin> set (map fst (b_signatures b))" using assms(2) by (force simp: list_ex_iff)
  moreover have "b_status b = ReadyForSubmissionByMajority \<Longrightarrow> quorum env \<le> length (b_signatures b)"
    using assms(1) by (simp add: batch_ok_def)
  ultimately show ?thesis
    using assms(1,3) by (auto simp: batch_ok_def add_signature_def Let_def)
qed

lemma sign_batch_inv:
  assumes "sign_batch env a i sig m t s = Ok s'" "attesters_inv env s"
  shows "attesters_inv env s'"
proof -
  from assms(1) obtain bs b es where bs: "smap_get (Batches s) t = Some bs"
    and b: "list_find (\<lambda>b. hash_of env b = m) bs = Some b"
    and st: "b_status b = PendingAttestation \<or> b_status b = ReadyForSubmissionByMajority"
    and new: "\<not> list_ex (\<lambda>(j, _). j = i) (b_signatures b)"
    and s': "s' = at_events es (s\<lparr>Batches := smap_insert t
        (update_first (\<lambda>b. hash_of env b = m) (\<lambda>_. add_signature env (i, sig) b) bs) (Batches s)\<rparr>)"
    by (auto simp: sign_batch_def at_err_def Let_def split: option.splits if_splits)
  have "b_index (add_signature env (i, sig) b) = b_index b" by (simp add: add_signature_def Let_def)
  then show ?thesis
    unfolding s' attesters_inv_frames
    using add_signature_ok [OF _ new st] b by (intro inv_batches [OF assms(2) bs] update_first_batch)
qed

lemma committed_inv:
  assumes "find_and_set_batch_as_committed env t h s = Ok s'" "attesters_inv env s"
  shows "attesters_inv env s'"
proof -
  let ?P = "\<lambda>b. hash_of env b = h"
  from assms(1) obtain bs where bs: "smap_get (Batches s) t = Some bs" and ex: "list_ex ?P bs"
    and s': "s' = s\<lparr>Batches := smap_insert t (update_first ?P (\<lambda>b. b\<lparr>b_status := Batch_Committed\<rparr>) bs) (Batches s)\<rparr>"
    by (auto simp: find_and_set_batch_as_committed_def at_err_def split: option.splits if_splits)
  from ex obtain b where b: "list_find ?P bs = Some b"
    by (cases "list_find ?P bs") (auto simp: list_find_None list_ex_iff)
  have u: "update_first ?P (\<lambda>b. b\<lparr>b_status := Batch_Committed\<rparr>) bs
      = update_first ?P (\<lambda>_. b\<lparr>b_status := Batch_Committed\<rparr>) bs"
    by (rule update_first_found [OF b])
  show ?thesis
    unfolding s' u
    by (intro inv_batches [OF assms(2) bs] update_first_batch [OF _ b]) (simp_all add: batch_ok_def)
qed


lemma reward_submitter_inv:
  "reward_submitter env a r t v s = Ok s' \<Longrightarrow> attesters_inv env s' = attesters_inv env s"
  by (auto simp: reward_submitter_def res_simps at_err_def split: if_splits)

lemma commit_found_inv:
  assumes "commit_found_batch env a t ev b s = Ok s'" "attesters_inv env s"
  shows "attesters_inv env s'"
proof -
  from assms(1) obtain s1 where s1: "find_and_set_batch_as_committed env t (tb_hash ev) s = Ok s1"
    and s': "attesters_inv env s' = attesters_inv env s1"
    by (auto simp: commit_found_batch_def Let_def res_simps reward_submitter_inv split: if_splits)
  show ?thesis using committed_inv [OF s1 assms(2)] s' by simp
qed

lemma commit_batch_inv:
  assumes "commit_batch env origin t p s = Ok s'" "attesters_inv env s"
  shows "attesters_inv env s'"
proof -
  from assms(1) obtain a ev where "s' = at_event (CollusionDetected t (tb_hash ev))
      (apply_permanent_attesters_slash (if attesting_committee ev = hash_committee env (PreviousCommittee s)
         then PreviousCommittee s else CurrentCommittee s) s)
    \<or> (\<exists>b. commit_found_batch env a t ev b s = Ok s')"
    unfolding commit_batch_def by (auto simp: res_simps split: option.splits)
  then show ?thesis using assms(2) by (auto intro: commit_found_inv)
qed

lemma submit_attestation_inv:
  assumes "submit_attestation env origin m sig t s = Ok s'" "attesters_inv env s"
  shows "attesters_inv env s'"
proof -
  from assms(1) obtain a i where "sign_batch env a i sig m t s = Ok s'"
    unfolding submit_attestation_def by (auto simp: res_simps at_err_def split: if_splits)
  then show ?thesis using assms(2) by (rule sign_batch_inv)
qed

lemma request_commit_inv:
  assumes "at_request_sfx_attestation_commit t i p s = Ok s'" "attesters_inv env s"
  shows "attesters_inv env s'"
  using assms
  by (auto simp: at_request_sfx_attestation_commit_def Let_def intro!: inv_next_batch split: option.splits if_splits)

lemma request_revert_inv:
  assumes "at_request_sfx_attestation_revert t i s = Ok s'" "attesters_inv env s"
  shows "attesters_inv env s'"
  using assms
  by (auto simp: at_request_sfx_attestation_revert_def at_err_def intro!: inv_next_batch split: option.splits if_splits)

lemma ban_on_target_inv:
  assumes "ban_on_target a t s = Ok s'" "attesters_inv env s"
  shows "attesters_inv env s'"
  using assms by (auto simp: ban_on_target_def res_simps intro!: inv_next_batch)

lemma request_ban_inv:
  assumes "request_ban_attesters_attestation a s = Ok s'" "attesters_inv env s"
  shows "attesters_inv env s'"
  using assms unfolding request_ban_attesters_attestation_def
  by (rule fold_res_invariant [where P = "attesters_inv env"]) (rule ban_on_target_inv)

lemma committee_on_target_inv:
  "attesters_inv env (snd q) \<Longrightarrow> attesters_inv env (snd (request_committee_on_target t q))"
  by (cases q) (auto simp: request_committee_on_target_def Let_def intro!: inv_next_batch split: option.split)

lemma request_committee_inv:
  assumes "attesters_inv env s"
  shows "attesters_inv env (snd (request_next_committee_attestation s))"
proof -
  have "attesters_inv env (snd (fold request_committee_on_target ts q))" if "attesters_inv env (snd q)" for ts q
    using that by (induction ts arbitrary: q) (simp_all add: committee_on_target_inv)
  then show ?thesis using assms by (simp add: request_next_committee_attestation_def)
qed

section \<open>The hook\<close>

lemma window_batch_ok:
  assumes "window_batch env n b = Ok b'" "batch_ok env b"
  shows "b_index b' = b_index b \<and> batch_ok env b'"
  using assms
  by (auto simp: window_batch_def res_simps batch_ok_def divides_block_def split: if_splits)

lemma window_batches_ok:
  assumes "map_res (window_batch env n) bs = Ok bs'" "list_all (batch_ok env) bs"
  shows "map b_index bs' = map b_index bs \<and> list_all (batch_ok env) bs'"
  using assms
proof (induction bs arbitrary: bs')
  case (Cons b bs)
  then show ?case by (auto simp: res_simps dest: window_batch_ok)
qed simp

lemma update_window_inv:
  assumes "update_window_batches env n t s = Ok s'" "attesters_inv env s"
  shows "attesters_inv env s'"
proof (cases "smap_get (Batches s) t")
  case None
  then show ?thesis using assms by (simp add: update_window_batches_def)
next
  case (Some bs)
  with assms(1) obtain bs' es where w: "map_res (window_batch env n) bs = Ok bs'"
    and s': "s' = at_events es (s\<lparr>Batches := smap_insert t bs' (Batches s)\<rparr>)"
    by (auto simp: update_window_batches_def res_simps)
  have "target_ok env bs' m" if ok: "target_ok env bs m" for m
  proof (rule target_ok_change [OF ok])
    have "list_all (batch_ok env) bs" using ok by (simp add: target_ok_def)
    from window_batches_ok [OF w this]
    show "map b_index bs' = map b_index bs" "list_all (batch_ok env) bs'" by simp_all
  qed
  then show ?thesis unfolding s' attesters_inv_frames by (rule inv_batches [OF assms(2) Some])
qed

lemma index_before_next: "index_before i (saturating_add i 1)"
  by (auto simp: index_before_def saturating_add_def word_less_nat_alt unat_word_ariths unsigned_minus_1_eq_mask
      mask_eq_exp_minus_1)

lemma index_before_trans: "index_before i j \<Longrightarrow> index_before i (saturating_add j 1)"
  by (auto simp: index_before_def saturating_add_def word_less_nat_alt unat_word_ariths unsigned_minus_1_eq_mask
      mask_eq_exp_minus_1)

lemma open_next_batch_inv:
  assumes "attesters_inv env s"
  shows "attesters_inv env (open_next_batch env n t s)"
proof -
  let ?bs = "opt_list (smap_get (Batches s) t)"
  have ok: "target_ok env ?bs (smap_get (NextBatch s) t)"
    using assms by (simp add: attesters_inv_def batches_inv_def)
  show ?thesis
  proof (cases "smap_get (NextBatch s) t")
    case None
    let ?s = "s\<lparr>NextBatch := smap_insert t (batch_default\<lparr>b_created := n\<rparr>) (NextBatch s)\<rparr>"
    have "target_ok env ?bs (Some (batch_default\<lparr>b_created := n\<rparr>))"
      using ok None by (simp add: target_ok_def batch_default_def)
    then have "attesters_inv env ?s"
      using assms by (simp add: attesters_inv_def batches_inv_next)
    then show ?thesis using request_committee_inv by (simp add: open_next_batch_def None Let_def)
  next
    case (Some b)
    let ?b = "b\<lparr>b_status := PendingAttestation\<rparr>"
      and ?f = "batch_default\<lparr>b_created := n, b_index := saturating_add (b_index b) 1\<rparr>"
    have "target_ok env (?bs @ [?b]) (Some ?f)"
      using ok Some index_before_next index_before_trans
      by (auto simp: target_ok_def batch_default_def sorted_wrt_append batch_ok_def list_all_iff)
    then have "batches_inv env (smap_insert t (?bs @ [?b]) (Batches s)) (smap_insert t ?f (NextBatch s))"
      using assms by (simp add: attesters_inv_def batches_inv_def opt_list_def)
    then show ?thesis
      using assms by (simp add: open_next_batch_def Some Let_def batches_of_def attesters_inv_def)
  qed
qed

lemma window_target_inv:
  assumes "window_target env n t s = Ok s'" "attesters_inv env s"
  shows "attesters_inv env s'"
  using assms
  by (auto simp: window_target_def res_simps Let_def intro!: open_next_batch_inv dest: update_window_inv)

lemma repatriate_batches_core:
  assumes "fold_res (repatriate_batch env cenv c n) bs (acc, r, rw) = Ok (bs', r', rw')"
  shows "map core bs' = map core acc @ map core bs"
  using assms
proof (induction bs arbitrary: acc r rw)
  case (Cons b bs)
  from Cons.prems obtain acc1 r1 rw1 where
    1: "repatriate_batch env cenv c n b (acc, r, rw) = Ok (acc1, r1, rw1)"
    and 2: "fold_res (repatriate_batch env cenv c n) bs (acc1, r1, rw1) = Ok (bs', r', rw')"
    by (auto simp: res_simps)
  have "map core acc1 = map core acc @ [core b]"
    using 1 by (auto simp: repatriate_batch_def res_simps split: if_splits)
  then show ?case using Cons.IH [OF 2] by simp
qed simp

lemma repatriate_target_inv:
  assumes "repatriate_target env cenv c n t s = Ok s'" "attesters_inv env s"
  shows "attesters_inv env s'"
proof (cases "smap_get (Batches s) t")
  case None
  then show ?thesis using assms by (simp add: repatriate_target_def)
next
  case (Some bs)
  with assms(1) obtain bs' r rw where
    f: "fold_res (repatriate_batch env cenv c n) bs ([], False, at_rewards s) = Ok (bs', r, rw)"
    and s': "s' = s\<lparr>Batches := smap_insert t bs' (Batches s), at_rewards := rw\<rparr>"
    by (auto simp: repatriate_target_def res_simps)
  have core: "map core bs' = map core bs" using repatriate_batches_core [OF f] by simp
  have "attesters_inv env (s\<lparr>Batches := smap_insert t bs' (Batches s)\<rparr>)"
    by (rule inv_batches [OF assms(2) Some]) (rule target_ok_core [OF _ core])
  then show ?thesis unfolding s' by simp
qed


lemma process_repatriations_inv:
  assumes "process_repatriations env cenv c n w s = Ok (w', s')" "attesters_inv env s"
  shows "attesters_inv env s'"
proof -
  from assms(1) have "fold_res (repatriate_target env cenv c n) (AttestationTargets s) s = Ok s'"
    by (auto simp: process_repatriations_def res_simps)
  then show ?thesis using assms(2)
    by (rule fold_res_invariant [where P = "attesters_inv env"]) (rule repatriate_target_inv)
qed

lemma process_window_inv:
  assumes "process_next_batch_window env n w s = Ok (w', s')" "attesters_inv env s"
  shows "attesters_inv env s'"
proof -
  from assms(1) have "fold_res (window_target env n) (AttestationTargets s) s = Ok s'"
    by (auto simp: process_next_batch_window_def res_simps)
  then show ?thesis using assms(2)
    by (rule fold_res_invariant [where P = "attesters_inv env"]) (rule window_target_inv)
qed

lemma release_nomination_inv [simp]:
  "attesters_inv env (snd (release_nomination env' a p q)) = attesters_inv env (snd q)"
  by (cases p; cases q) (simp add: release_nomination_def Let_def)

lemma release_nominations_inv:
  "attesters_inv env (snd (fold (release_nomination env' a) ps q)) = attesters_inv env (snd q)"
  by (induction ps arbitrary: q) simp_all

lemma deregister_now_inv:
  assumes "attesters_inv env (snd q)"
  shows "attesters_inv env (snd (deregister_now env' a q))"
proof -
  obtain w1 s1 where f: "fold (release_nomination env' a) (nominations_of (snd q) a) q = (w1, s1)" by fastforce
  have 1: "attesters_inv env s1" using assms release_nominations_inv [of env env' a _ q] f by (metis snd_conv)
  then have "nominated_ok (remove_first_of a (SortedNominatedAttesters s1))"
    by (simp add: attesters_inv_def nominated_ok_remove_first)
  then show ?thesis
    using 1 f by (cases q) (simp add: deregister_now_def attesters_inv_def)
qed

lemma unnominate_now_inv:
  assumes "attesters_inv env (snd q)"
  shows "attesters_inv env (snd (unnominate_now env' a b v q))"
proof -
  let ?s = "(at_set_ext (unreserve env' a v (at_ext (snd q))) (snd q))
      \<lparr>Nominations := smap_remove (b, a) (Nominations (snd q))\<rparr>"
  let ?u = "snd (update_sorted_nominated_attesters b v ?s)"
  have 1: "attesters_inv env ?s" using assms by simp
  then have "nominated_ok (SortedNominatedAttesters ?u)" by (intro nominated_ok_update) (simp add: attesters_inv_def)
  moreover have "Batches ?u = Batches ?s" "NextBatch ?u = NextBatch ?s" "ActiveSet ?u = ActiveSet ?s"
    by (simp_all add: update_sorted_nominated_attesters_def Let_def split: option.split)
  ultimately show ?thesis using 1 by (cases q) (simp add: unnominate_now_def Let_def attesters_inv_def)
qed

lemma unnominate_due_inv:
  "attesters_inv env (snd q) \<Longrightarrow> attesters_inv env (snd (unnominate_due env' n a u q))"
  by (cases u; cases q) (auto simp: unnominate_due_def intro: deregister_now_inv unnominate_now_inv)

lemma process_unnominations_of_inv:
  assumes "attesters_inv env (snd q)"
  shows "attesters_inv env (snd (process_unnominations_of env' n u q))"
proof -
  obtain a pending where u: "u = (a, pending)" by (cases u)
  have "attesters_inv env (snd (fold (unnominate_due env' n a) us q))" for us
    using assms by (induction us arbitrary: q) (simp_all add: unnominate_due_inv)
  from this [of pending] show ?thesis
    by (simp add: u process_unnominations_of_def Let_def case_prod_beta)
qed

lemma process_pending_unnominations_inv:
  assumes "attesters_inv env s"
  shows "attesters_inv env (snd (process_pending_unnominations env' n w s))"
proof -
  have "attesters_inv env (snd (fold (process_unnominations_of env' n) us q))" if "attesters_inv env (snd q)" for us q
    using that by (induction us arbitrary: q) (simp_all add: process_unnominations_of_inv)
  then show ?thesis using assms by (simp add: process_pending_unnominations_def)
qed

lemma update_active_set_inv:
  assumes "attesters_inv env s"
  shows "attesters_inv env (update_active_set s)"
proof -
  let ?p = "\<lambda>(a, _). \<not> is_permanently_slashed s a"
  have "distinct (map fst (take 32 (filter ?p (SortedNominatedAttesters s))))"
    using assms by (simp add: attesters_inv_def nominated_ok_def distinct_map_filter distinct_take flip: take_map)
  then show ?thesis using assms by (simp add: attesters_inv_def update_active_set_def)
qed

lemma shuffle_committee_inv [simp]: "attesters_inv env (snd (shuffle_committee env' s)) = attesters_inv env s"
  by (simp add: shuffle_committee_def Let_def attesters_inv_def)

lemma shuffling_round_inv:
  assumes "attesters_inv env s"
  shows "attesters_inv env (snd (shuffling_round env' n s))"
proof -
  have "attesters_inv env (update_active_set (snd (process_pending_unnominations env' n 0 s)))"
    by (intro update_active_set_inv process_pending_unnominations_inv assms)
  then show ?thesis
    by (simp add: shuffling_round_def Let_def case_prod_beta request_committee_inv)
qed

lemma on_initialize_inv:
  assumes "attesters_on_initialize env cenv c n s = Ok (w, s')" "attesters_inv env s"
  shows "attesters_inv env s'"
proof -
  let ?hb = "\<lambda>s1. at_set_ext (on_new_epoch env Attesters (n mod BatchingWindow env) (heartbeat (at_block_number s1)) (at_ext s1)) s1"
  from assms(1) obtain sh where sh: "(if sh \<and> is_last_transition_attested s then Ok (shuffling_round env n s)
       else bind_res (divides_block (BatchingWindow env) n) (\<lambda>window.
         bind_res (if window then bind_res (process_next_batch_window env n 0 s) (\<lambda>(w, s1). Ok (w, ?hb s1))
             else Ok (0, s)) (\<lambda>(w, s1).
           bind_res (divides_block (RepatriationPeriod env) n) (\<lambda>repatriate.
             if repatriate then process_repatriations env cenv c n w s1 else Ok (w, s1))))) = Ok (w, s')"
    unfolding attesters_on_initialize_def bind_res_OkE by blast
  show ?thesis
  proof (cases "sh \<and> is_last_transition_attested s")
    case True
    then have "s' = snd (shuffling_round env n s)" using sh by simp
    then show ?thesis using shuffling_round_inv [OF assms(2)] by simp
  next
    case False
    with sh obtain window w1 s1 r where
      1: "(if window then bind_res (process_next_batch_window env n 0 s) (\<lambda>(w, s1). Ok (w, ?hb s1)) else Ok (0, s)) = Ok (w1, s1)"
      and 2: "(if r then process_repatriations env cenv c n w1 s1 else Ok (w1, s1)) = Ok (w, s')"
      by (auto simp: res_simps)
    have "attesters_inv env s1"
      using 1 assms(2) by (cases window) (auto simp: res_simps dest: process_window_inv)
    then show ?thesis using 2 by (cases r) (auto intro: process_repatriations_inv)
  qed
qed

section \<open>Reachable states\<close>

lemma genesis_inv: "attesters_inv env (attesters_genesis targets (attesters_empty rw n))"
proof -
  let ?f = "batch_default\<lparr>b_created := n\<rparr>"
  have "batches_inv env [] (fold (\<lambda>t. smap_insert t ?f) ts nm)" if "batches_inv env [] nm" for ts nm
    using that
    by (induction ts arbitrary: nm)
      (simp_all add: batches_inv_next target_ok_def opt_list_def smap_get_def batch_default_def)
  moreover have "batches_inv env [] []" by (simp add: batches_inv_def target_ok_def opt_list_def smap_get_def)
  ultimately show ?thesis
    by (simp add: attesters_inv_def attesters_genesis_def attesters_empty_def nominated_ok_def)
qed

lemma register_inv:
  "do_register_attester env a v k1 k2 k3 c s = Ok s' \<Longrightarrow> attesters_inv env s \<Longrightarrow> attesters_inv env s'"
  by (auto simp: do_register_attester_def Let_def res_simps at_err_def dest: do_nominate_inv split: if_splits)

lemma batches_inv_remove:
  assumes "batches_inv env bm nm"
  shows "batches_inv env (smap_remove t bm) (smap_remove t nm)"
proof -
  have "target_ok env (opt_list None) None" by (simp add: target_ok_def opt_list_def)
  then show ?thesis using assms by (simp add: batches_inv_def)
qed

lemma remove_target_inv:
  assumes "remove_attestation_target origin t s = Ok s'" "attesters_inv env s"
  shows "attesters_inv env s'"
proof -
  from assms(1) obtain e where "s' = at_event e (s\<lparr>AttestationTargets := remove1 t (AttestationTargets s),
      PendingAttestationTargets := remove1 t (PendingAttestationTargets s), Batches := smap_remove t (Batches s),
      BatchesToSign := smap_remove t (BatchesToSign s), NextBatch := smap_remove t (NextBatch s)\<rparr>)"
    by (auto simp: remove_attestation_target_def Let_def res_simps)
  then show ?thesis using assms(2) batches_inv_remove [of env "Batches s" "NextBatch s" t] by (simp add: attesters_inv_def)
qed

lemma simple_calls_inv:
  "deregister_attester env origin s = Ok s' \<Longrightarrow> attesters_inv env s' = attesters_inv env s"
  "unnominate env origin a s = Ok s' \<Longrightarrow> attesters_inv env s' = attesters_inv env s"
  "agree_to_new_attestation_target origin t r s = Ok s' \<Longrightarrow> attesters_inv env s' = attesters_inv env s"
  "force_activate_target env origin t s = Ok s' \<Longrightarrow> attesters_inv env s' = attesters_inv env s"
  "add_attestation_target env origin t s = Ok s' \<Longrightarrow> attesters_inv env s' = attesters_inv env s"
  "read_pending_batches env origin s = Ok s' \<Longrightarrow> attesters_inv env s' = attesters_inv env s"
  "read_latest_batching_factor_overview origin s = Ok s' \<Longrightarrow> attesters_inv env s' = attesters_inv env s"
  "estimate_user_finality_fee env origin t s = Ok s' \<Longrightarrow> attesters_inv env s' = attesters_inv env s"
  by (auto simp: deregister_attester_def unnominate_def agree_to_new_attestation_target_def force_activate_target_def
      add_attestation_target_def read_pending_batches_def read_latest_batching_factor_overview_def
      estimate_user_finality_fee_def try_activate_new_target_def Let_def res_simps split: if_splits)

lemma attesters_step_inv:
  assumes "attesters_step env cenv s s'" "attesters_inv env s"
  shows "attesters_inv env s'"
  using assms
proof cases
  case (st_register origin v k1 k2 k3 c)
  then show ?thesis using assms(2) by (auto simp: register_attester_def res_simps intro: register_inv)
next
  case (st_invulnerable origin v k1 k2 k3 c)
  then show ?thesis
    using assms(2) by (auto simp: register_invulnerable_attester_def Let_def res_simps intro: register_inv)
next
  case (st_nominate origin a v)
  then show ?thesis using assms(2) by (auto simp: nominate_def res_simps intro: do_nominate_inv)
next
  case (st_request_committee "is")
  then show ?thesis using assms(2) request_committee_inv by (metis snd_conv)
qed (use assms(2) in \<open>auto simp: simple_calls_inv intro: remove_target_inv submit_attestation_inv commit_batch_inv
      request_commit_inv request_revert_inv request_ban_inv on_initialize_inv\<close>)

lemma attesters_reachable_inv: "attesters_reachable env cenv s \<Longrightarrow> attesters_inv env s"
  by (induction rule: attesters_reachable.induct) (auto intro: genesis_inv attesters_step_inv)

lemma reachable_target: "attesters_reachable env cenv s \<Longrightarrow> target_ok env (batches_of s t) (smap_get (NextBatch s) t)"
  by (drule attesters_reachable_inv) (simp add: attesters_inv_def batches_inv_def batches_of_def)

lemma reachable_batch: "attesters_reachable env cenv s \<Longrightarrow> b \<in> set (batches_of s t) \<Longrightarrow> batch_ok env b"
  using reachable_target [of env cenv s t] by (auto simp: target_ok_def list_all_iff)

text \<open>C28: in every reachable state of the attesters pallet no attester index signed a batch twice, a batch that is
  ready for submission carries a quorum of signatures, a fully approved one as many as the committee has members, the
  indices of a target's batches grow, and the list of nominated attesters and the active set are free
  of duplicates, sorted by stake and bounded by 32.\<close>

theorem attesters_invariant:
  assumes "attesters_reachable env cenv s"
  shows "(\<forall>t. \<forall>b \<in> set (batches_of s t). distinct (map fst (b_signatures b))
      \<and> (b_status b = ReadyForSubmissionByMajority \<longrightarrow> quorum env \<le> length (b_signatures b))
      \<and> (b_status b = ReadyForSubmissionFullyApproved \<longrightarrow> unat (CommitteeSize env) \<le> length (b_signatures b)))
    \<and> (\<forall>t. sorted_wrt index_before (map b_index (batches_of s t)))
    \<and> sorted_wrt (\<lambda>p q. snd q \<le> snd p) (SortedNominatedAttesters s)
    \<and> distinct (map fst (SortedNominatedAttesters s)) \<and> length (SortedNominatedAttesters s) \<le> 32
    \<and> distinct (ActiveSet s) \<and> length (ActiveSet s) \<le> 32"
  using reachable_batch [OF assms] reachable_target [OF assms] attesters_reachable_inv [OF assms]
  by (simp add: batch_ok_def target_ok_def attesters_inv_def nominated_ok_def)

end
