(* ===== verification/Rewards_Properties.thy ===== *)
theory Rewards_Properties
  imports Rewards Circuit_Sample
begin

text \<open>
  What the rewards pallet guarantees: a claim pays what is due and no more, the shares of the
  attesters, their nominators and the executors stay within the amount to be distributed, the
  settlements of a round are counted once, the table of authors is bounded, and a repatriation
  is covered by the slash treasury.
\<close>

section \<open>Definitions\<close>

text \<open>The claims a call of \<open>claim\<close> is about, and what they add up to per asset.\<close>

definition matches_role :: "CircuitRole option \<Rightarrow> ClaimableArtifacts \<Rightarrow> bool" where
  "matches_role r c \<longleftrightarrow> r = None \<or> r = Some (claim_role c)"

definition asset_total :: "ClaimableArtifacts list \<Rightarrow> AssetId option \<Rightarrow> nat" where
  "asset_total cs a = sum_list (map (unat \<circ> total_round_claim) (filter (\<lambda>c. non_native_asset_id c = a) cs))"

definition stake_total :: "(AccountId \<times> Balance) list \<Rightarrow> nat" where
  "stake_total ns = sum_list (map (\<lambda>n. unat (snd n)) ns)"

text \<open>Everything that can be claimed, over all accounts.\<close>

definition claims_total :: "ClaimableArtifacts list \<Rightarrow> nat" where
  "claims_total cs = sum_list (map (unat \<circ> total_round_claim) cs)"

definition pending_total :: "'x rewards_state \<Rightarrow> nat" where
  "pending_total s = smap_sum claims_total (PendingClaims s)"

definition totals_ok :: "ClaimableArtifacts list \<Rightarrow> (Balance \<times> AssetId option) list \<Rightarrow> bool" where
  "totals_ok cs totals \<longleftrightarrow> distinct (map snd totals) \<and> set (map snd totals) = non_native_asset_id ` set cs
     \<and> (\<forall>(b, a) \<in> set totals. unat b = min (asset_total cs a) (2 ^ 128 - 1))"

section \<open>A concrete configuration\<close>

text \<open>
  The plain ledger of the account manager with fixed-point functions computed on natural numbers;
  two honest attesters with a commission of ten percent, one nominator each, and the first one
  the author of the current block.
\<close>

definition sample_attester :: AccountId where "sample_attester = replicate 32 3"
definition sample_nominator :: AccountId where "sample_nominator = replicate 32 4"
definition slash_treasury :: AccountId where "slash_treasury = replicate 32 5"
definition fee_treasury :: AccountId where "fee_treasury = replicate 32 6"

definition sample_rewards_env :: "(AccountId \<Rightarrow> Balance) rewards_env" where
  "sample_rewards_env =
     \<lparr>rw_am_cfg = plain_env sample_escrow, total_issuance = (\<lambda>x. 1000000),
      currency_can_withdraw = (\<lambda>a v b x. v \<le> b),
      transfer_withdraw = (\<lambda>a v x. if v < x a then Ok (x(a := x a - v)) else Err (External_Error 0)),
      rw_treasury_account = (\<lambda>t. if t = Treasury_Slash then slash_treasury else fee_treasury),
      perbill_mul_ceil = (\<lambda>p x. of_nat ((unat p * unat x + (10 ^ 9 - 1)) div 10 ^ 9)),
      perbill_from_rational = (\<lambda>a b. of_nat (if a < b then a * 10 ^ 9 div b else if b = 0 then 0 else 10 ^ 9)),
      perbill_from_percent = (\<lambda>n. of_nat (min n 100 * 10 ^ 7)),
      percent_mul_ceil = (\<lambda>p x. of_nat ((unat p * unat x + 99) div 100)),
      TotalInflation = 44000000, AttesterInflation = 11000000, ExecutorInflation = 8000000,
      CollatorInflation = 5000000, TreasuryInflation = 20000000, OneYear = 2628000,
      InflationDistributionPeriod = 100800, StartingRepatriationPercentage = 10,
      honest_active_set = (\<lambda>x. [sample_attester]), rw_active_set = (\<lambda>x. [sample_attester, sample_payee]),
      read_commission = (\<lambda>x a. Some 10), read_nominations = (\<lambda>x a. [(sample_nominator, 7), (a, 2)]),
      find_author = (\<lambda>x. Some sample_attester), rw_reads_writes = (\<lambda>r w. r + w)\<rparr>"

definition sample_claim :: "CircuitRole \<Rightarrow> Balance \<Rightarrow> ClaimableArtifacts" where
  "sample_claim r v = \<lparr>beneficiary = sample_attester, claim_role = r, total_round_claim = v,
     non_native_asset_id = None, benefit_source = Inflation\<rparr>"

definition sample_rewards :: "(AccountId \<Rightarrow> Balance) rewards_state" where
  "sample_rewards =
     \<lparr>Authors = [], AuthorsThisPeriod = [(sample_nominator, 4)],
      AccumulatedSettlements = [((sample_attester, Native), 500), ((sample_nominator, Native), 1500)],
      EstimatedTreasuryBalance = \<lparr>tb_treasury = 0, tb_escrow = 0, tb_fee = 0, tb_slash = 0, tb_parachain = 0\<rparr>,
      RepatriationPercentage = 10, DistributionBlock = None, DistributionHistory = [],
      IsDistributionHalted = False, IsSettlementAccumulationHalted = False, IsClaimingHalted = False,
      LastProcessedRound = None, MaxRewardExecutorsKickback = 20,
      PendingClaims = [(sample_attester, [sample_claim Attester 30, sample_claim Collator 12, sample_claim Attester 5])],
      rewards_events = [], rw_am = sample_state [], rw_block_number = 9\<rparr>"

section \<open>Claiming\<close>

lemma unat_below_128: "unat (v :: u128) < 2 ^ 128"
  using unsigned_less [where 'b = 128 and 'a = nat, of v] by simp

lemma asset_total_snoc:
  "asset_total (cs @ [c]) a = asset_total cs a + (if non_native_asset_id c = a then unat (total_round_claim c) else 0)"
  by (simp add: asset_total_def)

lemma asset_total_absent: "a \<notin> non_native_asset_id ` set cs \<Longrightarrow> asset_total cs a = 0"
  by (induction cs) (auto simp: asset_total_def)

lemma update_asset_keys:
  "map snd (update_first (\<lambda>(_, x). x = a) (\<lambda>(b, x). (h b, x)) t) = map snd t"
  by (induction t) auto

lemma update_asset_values:
  assumes "distinct (map snd t)"
    "(b, x) \<in> set (update_first (\<lambda>(_, x). x = a) (\<lambda>(b, x). (h b, x)) t)"
  shows "if x = a then \<exists>b0. (b0, a) \<in> set t \<and> b = h b0 else (b, x) \<in> set t"
  using assms
proof (induction t)
  case Nil
  then show ?case by simp
next
  case (Cons p t)
  obtain c y where p: "p = (c, y)" by (cases p)
  show ?case
  proof (cases "y = a")
    case True
    then have "(b, x) = (h c, a) \<or> (b, x) \<in> set t" using Cons.prems(2) p by auto
    moreover have "(b, a) \<notin> set t" using Cons.prems(1) p True by force
    ultimately show ?thesis using True p by auto
  next
    case False
    then show ?thesis using Cons p by auto
  qed
qed

lemma accumulate_totals:
  assumes "accumulate_claim c totals = Ok totals'" "totals_ok cs totals"
  shows "totals_ok (cs @ [c]) totals'"
proof -
  let ?a = "non_native_asset_id c" and ?v = "total_round_claim c"
  have ok: "distinct (map snd totals)" "set (map snd totals) = non_native_asset_id ` set cs"
    "\<forall>(b, a) \<in> set totals. unat b = min (asset_total cs a) (2 ^ 128 - 1)"
    using assms(2) by (simp_all add: totals_ok_def)
  show ?thesis
  proof (cases "?a \<in> set (map snd totals)")
    case True
    then have t': "totals' = update_first (\<lambda>(_, x). x = ?a) (\<lambda>(b, x). (saturating_add b ?v, x)) totals"
      using assms(1) by (force simp: accumulate_claim_def Let_def list_ex_iff split: if_splits)
    note u = update_asset_values [OF ok(1), of _ _ ?a "\<lambda>b. saturating_add b ?v", folded t']
    have k: "map snd totals' = map snd totals" by (simp add: t' update_asset_keys)
    have "unat b = min (asset_total (cs @ [c]) a) (2 ^ 128 - 1)" if ba: "(b, a) \<in> set totals'" for b a
    proof (cases "a = ?a")
      case True
      with u [OF ba] obtain b0 where "(b0, ?a) \<in> set totals" "b = saturating_add b0 ?v" by auto
      moreover from this have "unat b0 = min (asset_total cs ?a) (2 ^ 128 - 1)" using ok(3) by blast
      ultimately show ?thesis by (simp add: True asset_total_snoc unat_saturating_add)
    next
      case False
      with u [OF ba] ok(3) have "unat b = min (asset_total cs a) (2 ^ 128 - 1)" by auto
      then show ?thesis using False by (simp add: asset_total_snoc)
    qed
    then show ?thesis using k ok(1,2) True by (auto simp: totals_ok_def simp del: set_map)
  next
    case False
    then have t': "totals' = totals @ [(?v, ?a)]"
      using assms(1) by (force simp: accumulate_claim_def Let_def list_ex_iff split: if_splits)
    have "asset_total cs ?a = 0" using False ok(2) asset_total_absent by metis
    moreover have "min (unat ?v) (2 ^ 128 - 1) = unat ?v" using unat_below_128 [of ?v] by simp
    moreover have "\<forall>b. (b, ?a) \<notin> set totals" using False by force
    ultimately show ?thesis
      using ok False by (auto simp: totals_ok_def t' asset_total_snoc)
  qed
qed

lemma claim_loop:
  assumes "fold_res accumulate_claim ds totals = Ok totals'" "totals_ok cs totals"
  shows "totals_ok (cs @ ds) totals' \<and> (\<forall>d \<in> set ds. total_round_claim d \<noteq> 0)"
  using assms
proof (induction ds arbitrary: cs totals)
  case Nil
  then show ?case by simp
next
  case (Cons d ds)
  from Cons.prems(1) obtain t where t: "accumulate_claim d totals = Ok t" "fold_res accumulate_claim ds t = Ok totals'"
    by (auto simp: res_simps)
  then have "total_round_claim d \<noteq> 0" by (auto simp: accumulate_claim_def)
  then show ?case
    using Cons.IH [OF t(2) accumulate_totals [OF t(1) Cons.prems(2)]] by simp
qed

lemma claim_loop_zero:
  assumes "\<exists>d \<in> set ds. total_round_claim d = 0"
  shows "fold_res accumulate_claim ds totals = Err (Rewards_Error NoPendingClaims)"
  using assms
  by (induction ds arbitrary: totals) (auto simp: accumulate_claim_def Let_def)

lemma to_process_eq:
  "(case r of Some r \<Rightarrow> filter (\<lambda>c. claim_role c = r) pending | None \<Rightarrow> pending) = filter (matches_role r) pending"
  by (auto simp: matches_role_def split: option.split intro: filter_cong)

lemma kept_eq: "filter (\<lambda>c. c \<notin> set (filter P xs)) xs = filter (\<lambda>c. \<not> P c) xs"
  by (rule filter_cong) auto

lemma pending_of_simps [simp]:
  "pending_of (rw_event e s) = pending_of s"
  "pending_of (remove_settlements_of a s) = pending_of s"
  "pending_of (s\<lparr>PendingClaims := smap_insert a cs (PendingClaims s)\<rparr>) = (pending_of s)(a := cs)"
  by (auto simp: pending_of_def rw_event_def remove_settlements_of_def fun_eq_iff)

lemma pending_insert:
  "PendingClaims s' = smap_insert a cs (PendingClaims s) \<Longrightarrow> pending_of s' = (pending_of s)(a := cs)"
  by (auto simp: pending_of_def fun_eq_iff)

lemma rw_am_simps [simp]:
  "rw_am (rw_event e s) = rw_am s" "rw_am (remove_settlements_of a s) = rw_am s"
  by (simp_all add: rw_event_def remove_settlements_of_def)

text \<open>C33: a successful claim pays the caller, for every asset, the saturated sum of the claims in the chosen role, removes
  exactly these claims, and leaves the claims of everyone else alone.\<close>

theorem claim_pays_role:
  assumes "rw_claim env (Signed a) r s = Ok s'"
  shows "\<exists>totals. totals_ok (filter (matches_role r) (pending_of s a)) totals
    \<and> rw_am s' = fold (\<lambda>(b, asset). deposit_immediately (rw_am_cfg env) a b asset) totals (rw_am s)
    \<and> pending_of s' = (pending_of s)(a := filter (\<lambda>c. \<not> matches_role r c) (pending_of s a))"
proof -
  from assms obtain totals where
    t: "fold_res accumulate_claim (filter (matches_role r) (pending_of s a)) [] = Ok totals"
    and am: "rw_am s' = fold (\<lambda>(b, asset). deposit_immediately (rw_am_cfg env) a b asset) totals (rw_am s)"
    and p: "PendingClaims s' = smap_insert a (filter (\<lambda>c. \<not> matches_role r c) (pending_of s a)) (PendingClaims s)"
    by (auto simp: rw_claim_def Let_def res_simps to_process_eq kept_eq ensure_signed_def rw_event_def
        remove_settlements_of_def simp del: set_filter split: if_splits)
  have "totals_ok ([] @ filter (matches_role r) (pending_of s a)) totals"
    by (rule claim_loop [THEN conjunct1, OF t]) (simp add: totals_ok_def)
  then show ?thesis using am pending_insert [OF p] by auto
qed

text \<open>a single pending claim of amount zero blocks its beneficiary: every call of \<open>claim\<close> for its role, or
  for all roles, fails with \<open>NoPendingClaims\<close>, and the distribution creates such a claim for
  a nominator whose share of the reward rounds down to zero.\<close>

theorem zero_share_blocks_claims:
  assumes "unat remaining * unat nomination < unat stake" "\<not> IsClaimingHalted s"
    "r = None \<or> r = Some Staker"
  shows "rw_claim env (Signed a) r (nominator_step remaining stake (a, nomination) s)
    = Err (Rewards_Error NoPendingClaims)"
proof -
  let ?c = "\<lparr>beneficiary = a, claim_role = Staker, total_round_claim = 0, non_native_asset_id = None,
      benefit_source = Inflation\<rparr>"
  have lt: "unat remaining * unat nomination < 2 ^ 128"
    using assms(1) unat_below_128 [of stake] by linarith
  then have "unat (saturating_mul remaining nomination div stake) = 0"
    using assms(1) by (simp add: saturating_mul_def unat_div unat_word_ariths)
  then have "saturating_mul remaining nomination div stake = 0" by (rule iffD1 [OF unat_eq_zero])
  then have "checked_div (saturating_mul remaining nomination) stake = Some 0"
    using assms(1) by (auto simp: checked_div_def)
  then have step: "nominator_step remaining stake (a, nomination) s = update_pending_claims a Staker 0 Inflation None s"
    by (simp add: nominator_step_def)
  have pend: "pending_of (nominator_step remaining stake (a, nomination) s) a = pending_of s a @ [?c]"
    by (simp add: step update_pending_claims_def)
  have "fold_res accumulate_claim (filter (matches_role r) (pending_of s a @ [?c])) [] = Err (Rewards_Error NoPendingClaims)"
    using assms(3) by (intro claim_loop_zero) (auto simp: matches_role_def)
  moreover have "\<not> IsClaimingHalted (nominator_step remaining stake (a, nomination) s)"
    using assms(2) by (simp add: step update_pending_claims_def rw_event_def)
  ultimately show ?thesis
    by (simp add: rw_claim_def pend to_process_eq ensure_signed_def Let_def)
qed

section \<open>Amounts\<close>

lemma smap_sum_insert:
  assumes "smap_wf m"
  shows "smap_sum f (smap_insert k v m) + (case smap_get m k of Some w \<Rightarrow> f w | None \<Rightarrow> 0) = smap_sum f m + f v"
  using assms
proof (induction k v m rule: smap_insert.induct)
  case (1 k v)
  then show ?case by (simp add: smap_sum_def smap_get_def)
next
  case (2 k v k' v' m)
  have wf: "smap_wf m" and gt: "\<forall>x \<in> set (map fst m). k' < x"
    using "2.prems" by (simp_all add: smap_wf_def)
  have "smap_get m k = None" if "k \<le> k'"
    using gt that by (auto simp: smap_get_def map_of_eq_None_iff)
  then show ?case
    using "2.IH" wf by (auto simp: smap_sum_def smap_get_def not_less order.strict_iff_order split: option.splits)
qed

lemma update_pending_claims_simps [simp]:
  "rw_am (update_pending_claims a rl v src x s) = rw_am s"
  "AccumulatedSettlements (update_pending_claims a rl v src x s) = AccumulatedSettlements s"
  "smap_wf (PendingClaims s) \<Longrightarrow> smap_wf (PendingClaims (update_pending_claims a rl v src x s))"
  by (simp_all add: update_pending_claims_def rw_event_def)

lemma pending_total_update:
  assumes "smap_wf (PendingClaims s)"
  shows "pending_total (update_pending_claims a rl v src x s) = pending_total s + unat v"
proof -
  let ?cs = "pending_of s a @ [\<lparr>beneficiary = a, claim_role = rl, total_round_claim = v,
      non_native_asset_id = x, benefit_source = src\<rparr>]"
  have "claims_total ?cs = claims_total (pending_of s a) + unat v" by (simp add: claims_total_def)
  moreover have "claims_total (pending_of s a) = (case smap_get (PendingClaims s) a of Some w \<Rightarrow> claims_total w | None \<Rightarrow> 0)"
    by (simp add: pending_of_def claims_total_def split: option.split)
  ultimately show ?thesis
    using smap_sum_insert [OF assms, of claims_total a ?cs]
    by (simp add: pending_total_def update_pending_claims_def rw_event_def)
qed

text \<open>Shares of an amount, rounded down, do not exceed it.\<close>

lemma sum_shares:
  fixes r t :: nat
  assumes "sum_list bs \<le> t" "0 < t"
  shows "sum_list (map (\<lambda>b. r * b div t) bs) \<le> r"
proof -
  have "sum_list (map (\<lambda>b. r * b div t) bs) * t \<le> r * sum_list bs"
  proof (induction bs)
    case (Cons b bs)
    have "r * b div t * t \<le> r * b" by simp
    with Cons show ?case by (simp only: list.map sum_list.Cons distrib_right distrib_left add_mono)
  qed simp
  also have "\<dots> \<le> r * t" using assms(1) by simp
  finally show ?thesis using assms(2) by simp
qed

lemma foldl_saturating_add:
  "unat acc + sum_list (map unat bs) < 2 ^ 128 \<Longrightarrow>
     unat (foldl saturating_add acc bs :: u128) = unat acc + sum_list (map unat bs)"
proof (induction bs arbitrary: acc)
  case (Cons b bs)
  then have "unat (saturating_add acc b) = unat acc + unat b" by (simp add: unat_saturating_add)
  with Cons show ?case by simp
qed simp

lemma nominators_total:
  assumes "smap_wf (PendingClaims s)"
  shows "rw_am (fold (nominator_step r t) ns s) = rw_am s \<and> smap_wf (PendingClaims (fold (nominator_step r t) ns s))
    \<and> pending_total (fold (nominator_step r t) ns s)
      \<le> pending_total s + sum_list (map (\<lambda>n. unat r * unat (snd n) div unat t) ns)"
  using assms
proof (induction ns arbitrary: s)
  case (Cons n ns)
  obtain a b where n: "n = (a, b)" by (cases n)
  have "unat (saturating_mul r b div t) \<le> unat r * unat b div unat t"
    by (simp add: unat_div unat_saturating_mul div_le_mono)
  then have "rw_am (nominator_step r t n s) = rw_am s \<and> smap_wf (PendingClaims (nominator_step r t n s))
    \<and> pending_total (nominator_step r t n s) \<le> pending_total s + unat r * unat b div unat t"
    using Cons.prems by (auto simp: nominator_step_def n pending_total_update checked_div_def)
  then show ?case using Cons.IH [of "nominator_step r t n s"] by (auto simp: n)
qed simp

lemma attester_step_total:
  assumes "smap_wf (PendingClaims s)" "fixed_point_laws env"
    and "\<forall>c. read_commission env (rw_ext s) a = Some c \<longrightarrow> unat c \<le> 100"
    and "stake_total (read_nominations env (rw_ext s) a) < 2 ^ 128"
  shows "rw_am (attester_step env r a s) = rw_am s \<and> smap_wf (PendingClaims (attester_step env r a s))
    \<and> pending_total (attester_step env r a s) \<le> pending_total s + unat r"
proof (cases "read_commission env (rw_ext s) a")
  case None
  then show ?thesis using assms(1) by (simp add: attester_step_def)
next
  case (Some c)
  let ?com = "percent_mul_ceil env c r" and ?ns = "read_nominations env (rw_ext s) a"
  let ?s1 = "update_pending_claims a Attester ?com Inflation None s" and ?rem = "saturating_sub r (percent_mul_ceil env c r)"
  let ?t = "foldl saturating_add 0 (map snd ?ns)"
  have "unat ?com = (unat c * unat r + 99) div 100" using assms(2,3) Some by (simp add: fixed_point_laws_def)
  moreover have "unat c * unat r \<le> 100 * unat r" using assms(3) Some by simp
  ultimately have com: "unat ?com \<le> unat r" by linarith
  have t: "unat ?t = stake_total ?ns"
    using foldl_saturating_add [of 0 "map snd ?ns"] assms(4) by (simp add: stake_total_def comp_def)
  have share: "sum_list (map (\<lambda>n. unat ?rem * unat (snd n) div unat ?t) ?ns) \<le> unat ?rem"
  proof (cases "unat ?t = 0")
    case False
    then show ?thesis
      using sum_shares [of "map (\<lambda>n. unat (snd n)) ?ns" "unat ?t" "unat ?rem"] t
      by (simp add: stake_total_def comp_def del: sum_list_eq_0_iff)
  qed simp
  have wf: "smap_wf (PendingClaims ?s1)" using assms(1) by simp
  have step: "attester_step env r a s = fold (nominator_step ?rem ?t) ?ns ?s1"
    by (simp add: attester_step_def Some Let_def)
  note total = nominators_total [OF wf, of ?rem ?t ?ns]
  have "pending_total ?s1 = pending_total s + unat ?com" using assms(1) by (simp add: pending_total_update)
  then have "pending_total (attester_step env r a s) \<le> pending_total s + unat ?com + unat ?rem"
    using total share unfolding step by linarith
  with total com show ?thesis by (simp add: step unat_saturating_sub)
qed

lemma attesters_total:
  assumes "smap_wf (PendingClaims s)" "fixed_point_laws env"
    and "\<forall>a c. read_commission env (rw_ext s) a = Some c \<longrightarrow> unat c \<le> 100"
    and "\<forall>a. stake_total (read_nominations env (rw_ext s) a) < 2 ^ 128"
  shows "pending_total (fold (attester_step env r) as s) \<le> pending_total s + length as * unat r"
  using assms(1,3,4)
proof (induction as arbitrary: s)
  case (Cons a as)
  have 1: "rw_am (attester_step env r a s) = rw_am s \<and> smap_wf (PendingClaims (attester_step env r a s))
    \<and> pending_total (attester_step env r a s) \<le> pending_total s + unat r"
    using Cons.prems by (intro attester_step_total assms(2)) auto
  then have "pending_total (fold (attester_step env r) as (attester_step env r a s))
      \<le> pending_total (attester_step env r a s) + length as * unat r"
    using Cons.prems by (intro Cons.IH) auto
  with 1 show ?case by simp
qed simp

text \<open>C34: the attesters' part of the inflation is never exceeded: the commissions and the shares of the nominators that
  \<open>distribute_attester_rewards\<close> adds to the pending claims stay within the amount to be distributed, whatever the
  rounding, as long as the honest attesters are among the active ones and the nominations do not
  overflow.\<close>

theorem attester_rewards_bounded:
  assumes "distribute_attester_rewards env current s = Ok (d, s')"
    and "smap_wf (PendingClaims s)" "fixed_point_laws env"
    and "\<forall>a c. read_commission env (rw_ext s) a = Some c \<longrightarrow> unat c \<le> 100"
    and "\<forall>a. stake_total (read_nominations env (rw_ext s) a) < 2 ^ 128"
    and "length (honest_active_set env (rw_ext s)) \<le> length (rw_active_set env (rw_ext s))"
    and "length (rw_active_set env (rw_ext s)) < 2 ^ 32"
  shows "pending_total s' \<le> pending_total s + unat current"
proof -
  let ?h = "honest_active_set env (rw_ext s)" and ?n = "length (rw_active_set env (rw_ext s))"
  let ?size = "of_nat ?n :: u32"
  have size: "unat (ucast ?size :: u128) = ?n" using assms(7) by (simp add: unsigned_ucast_eq unsigned_of_nat take_bit_nat_eq_self_iff)
  from assms(1) consider "s' = s" | "s' = fold (attester_step env (current div ucast ?size)) ?h s"
    by (auto simp: distribute_attester_rewards_def Let_def split: if_splits)
  then show ?thesis
  proof cases
    case 2
    have "length ?h * unat (current div ucast ?size) \<le> ?n * (unat current div ?n)"
      using assms(6) by (simp add: unat_div size)
    also have "\<dots> \<le> unat current" by simp
    finally show ?thesis
      using attesters_total [OF assms(2-5), of "current div ucast ?size" ?h] 2 by simp
  qed simp
qed



section \<open>The sample configuration\<close>

lemma mul_ceil_bound: "p \<le> B \<Longrightarrow> 0 < B \<Longrightarrow> (p * x + (B - 1)) div B \<le> (x :: nat)"
proof -
  assume "p \<le> B" "0 < B"
  then have "p * x + (B - 1) < B * (x + 1)" using mult_le_mono1 [of p B x] by (cases B) simp_all
  then show ?thesis using \<open>0 < B\<close> by (simp only: less_Suc_eq_le [symmetric] div_less_iff_less_mult mult.commute Suc_eq_plus1)
qed

lemma unat_of_nat_128: "n \<le> unat (x :: u128) \<Longrightarrow> unat (of_nat n :: u128) = n"
  using unat_below_128 [of x] by (simp add: unsigned_of_nat take_bit_nat_eq_self_iff)

lemma sample_rewards_env_laws: "fixed_point_laws sample_rewards_env"
proof -
  have 1: "unat (of_nat ((unat p * unat x + (10 ^ 9 - 1)) div 10 ^ 9) :: u128) = (unat p * unat x + (10 ^ 9 - 1)) div 10 ^ 9"
    if "unat p \<le> 10 ^ 9" for p :: Perbill and x :: Balance
    using mul_ceil_bound [OF that] by (intro unat_of_nat_128 [of _ x]) simp
  have 2: "unat (of_nat ((unat p * unat x + 99) div 100) :: u128) = (unat p * unat x + 99) div 100"
    if "unat p \<le> 100" for p :: Percent and x :: Balance
    using mul_ceil_bound [OF that, of "unat x"] by (intro unat_of_nat_128 [of _ x]) simp
  let ?r = "\<lambda>a b. if a < b then a * 10 ^ 9 div b else if b = 0 then 0 else 10 ^ 9 :: nat"
  have r: "?r a b \<le> 10 ^ 9" for a b :: nat
    using div_le_mono [of "a * 10 ^ 9" "b * 10 ^ 9" b] by auto
  have small: "unat (of_nat n :: Perbill) = n" if "n \<le> 10 ^ 9" for n
    using that by (simp add: unsigned_of_nat take_bit_nat_eq_self_iff)
  have 3: "unat (of_nat (?r a b) :: Perbill) \<le> 10 ^ 9 \<and> unat (of_nat (?r a b) :: Perbill) * b \<le> a * 10 ^ 9" for a b
    using r [of a b] unfolding small [OF r] by auto
  have 4: "unat (of_nat (min n 100 * 10 ^ 7) :: Perbill) = min n 100 * 10 ^ 7" for n :: nat
    by (rule small) simp
  show ?thesis
    unfolding fixed_point_laws_def sample_rewards_env_def using 1 2 3 4 by simp
qed

lemmas sample_rewards_simps = sample_rewards_def sample_rewards_env_def sample_claim_def sample_attester_def
  sample_nominator_def slash_treasury_def fee_treasury_def sample_state_def plain_env_def smap_wf_def
  pending_of_def smap_get_def

theorem claim_pays_role_witness:
  "\<exists>s' totals. rw_claim sample_rewards_env (Signed sample_attester) (Some Attester) sample_rewards = Ok s'
    \<and> totals_ok [sample_claim Attester 30, sample_claim Attester 5] totals
    \<and> pending_of s' sample_attester = [sample_claim Collator 12]"
proof -
  obtain s' where c: "rw_claim sample_rewards_env (Signed sample_attester) (Some Attester) sample_rewards = Ok s'"
    by (simp add: rw_claim_def ensure_signed_def sample_rewards_simps accumulate_claim_def Let_def)
  have p: "pending_of sample_rewards sample_attester = [sample_claim Attester 30, sample_claim Collator 12, sample_claim Attester 5]"
    by (simp add: pending_of_def smap_get_def sample_rewards_def)
  from claim_pays_role [OF c] show ?thesis
    using c unfolding p by (auto simp: matches_role_def sample_claim_def)
qed

theorem zero_share_blocks_claims_witness:
  "rw_claim sample_rewards_env (Signed sample_nominator) None
     (nominator_step 3 100 (sample_nominator, 2) sample_rewards) = Err (Rewards_Error NoPendingClaims)"
  by (rule zero_share_blocks_claims) (simp_all add: sample_rewards_def)

theorem attester_rewards_bounded_witness:
  "\<exists>d s'. distribute_attester_rewards sample_rewards_env 1000 sample_rewards = Ok (d, s')
    \<and> pending_total s' \<le> pending_total sample_rewards + 1000"
proof -
  obtain d s' where c: "distribute_attester_rewards sample_rewards_env 1000 sample_rewards = Ok (d, s')"
    by (simp add: distribute_attester_rewards_def Let_def sample_rewards_env_def)
  have "pending_total s' \<le> pending_total sample_rewards + unat (1000 :: Balance)"
    by (rule attester_rewards_bounded [OF c _ sample_rewards_env_laws])
      (simp_all add: sample_rewards_simps stake_total_def)
  with c show ?thesis by simp
qed

section \<open>Executors\<close>

text \<open>The amount of an executor's reward, and the two bounds of \<open>min\<close>.\<close>

lemma executors_total:
  assumes "smap_wf (PendingClaims s)"
  shows "smap_wf (PendingClaims (snd (fold (executor_step env c k) es (t, s))))
    \<and> pending_total (snd (fold (executor_step env c k) es (t, s)))
      = pending_total s + sum_list (map (\<lambda>e. unat (executor_reward env c k (fst (snd e)) (snd (snd e)))) es)"
  using assms
proof (induction es arbitrary: t s)
  case (Cons e es)
  obtain a v p where e: "e = (a, v, p)" by (cases e)
  let ?r = "executor_reward env c k v p"
  let ?s = "remove_settlements_of a (update_pending_claims a Executor ?r Inflation None s)"
  have eq: "PendingClaims ?s = PendingClaims (update_pending_claims a Executor ?r Inflation None s)"
    by (simp add: remove_settlements_of_def)
  have "smap_wf (PendingClaims ?s)" using Cons.prems by (simp add: eq)
  moreover have "pending_total ?s = pending_total s + unat ?r"
    using pending_total_update [OF Cons.prems] by (simp add: pending_total_def eq)
  moreover have "fold (executor_step env c k) (e # es) (t, s) = fold (executor_step env c k) es (t + ?r, ?s)"
    by (simp add: e executor_step_def Let_def)
  ultimately show ?case using Cons.IH [of ?s "t + ?r"] by (simp add: e)
qed simp

lemma total_settled:
  "total_settled_executions_this_round vs = Ok t \<Longrightarrow> unat t = stake_total vs"
proof -
  let ?f = "\<lambda>(_, v) acc. ok_or (Rewards_Error Rewards_ArithmeticOverflow) (checked_add acc v)"
  have "fold_res ?f vs t0 = Ok t \<Longrightarrow> unat t = unat t0 + stake_total vs" for t0
  proof (induction vs arbitrary: t0)
    case (Cons v vs)
    obtain a b where v: "v = (a, b)" by (cases v)
    from Cons.prems obtain t1 where "ok_or (Rewards_Error Rewards_ArithmeticOverflow) (checked_add t0 (snd v)) = Ok t1"
      "fold_res ?f vs t1 = Ok t"
      by (auto simp: res_simps v)
    moreover from this(1) have "checked_add t0 (snd v) = Some t1" by (simp add: ok_or_def split: option.splits)
    moreover from this have "unat t1 = unat t0 + unat (snd v)" by (simp add: checked_add_Some)
    ultimately show ?case using Cons.IH [of t1] by (simp add: stake_total_def)
  qed (simp add: stake_total_def)
  from this [of 0] show "total_settled_executions_this_round vs = Ok t \<Longrightarrow> unat t = stake_total vs"
    by (simp add: total_settled_executions_this_round_def)
qed

text \<open>Proportions that are rounded down, of an amount rounded up: at most one unit too much each.\<close>

lemma sum_proportions:
  fixes c B :: nat
  assumes "0 < B" "sum_list ps \<le> B"
  shows "sum_list (map (\<lambda>p. (p * c + (B - 1)) div B) ps) \<le> c + length ps"
proof -
  have "sum_list (map (\<lambda>p. (p * c + (B - 1)) div B) ps) * B \<le> sum_list ps * c + length ps * B"
  proof (induction ps)
    case (Cons p ps)
    have "(p * c + (B - 1)) div B * B \<le> p * c + (B - 1)" by simp
    also have "\<dots> \<le> p * c + B" by simp
    finally show ?case using Cons by (simp add: add_mult_distrib)
  qed simp
  also have "\<dots> \<le> B * c + length ps * B" using assms(2) by simp
  also have "\<dots> = (c + length ps) * B" by (simp add: algebra_simps)
  finally show ?thesis using assms(1) by simp
qed

lemma sum_from_rational:
  assumes "fixed_point_laws env" "sum_list (map unat vs) = t" "0 < t"
  shows "sum_list (map (\<lambda>v. unat (perbill_from_rational env (unat v) t)) vs) \<le> 10 ^ 9"
proof -
  have "sum_list (map (\<lambda>v. unat (perbill_from_rational env (unat v) t)) vs) * t \<le> sum_list (map unat vs) * 10 ^ 9"
  proof (induction vs)
    case (Cons v vs)
    have "unat (perbill_from_rational env (unat v) t) * t \<le> unat v * 10 ^ 9"
      using assms(1) by (simp add: fixed_point_laws_def)
    with Cons show ?case by (simp add: add_mult_distrib)
  qed simp
  then show ?thesis using assms(2,3) by simp
qed

text \<open>C35: the reward of the executors for their native settlements stays within their part of the inflation up
  to one unit per settlement, the rounding of \<open>mul_ceil\<close>, and within the kickback percentage of
  what each of them settled.\<close>

theorem executor_rewards_bounded:
  assumes "fixed_point_laws env" "unat (MaxRewardExecutorsKickback s) \<le> 100" "smap_wf (PendingClaims s)"
  shows "pending_total (snd (distribute_executor_rewards env current s))
      \<le> pending_total s + unat current + length (native_settlements s)
    \<and> pending_total (snd (distribute_executor_rewards env current s))
      \<le> pending_total s + sum_list (map (\<lambda>(_, v). (unat (MaxRewardExecutorsKickback s) * unat v + 99) div 100)
            (native_settlements s))"
proof (cases "snd (distribute_executor_rewards env current s) = s")
  case False
  let ?k = "MaxRewardExecutorsKickback s" and ?vs = "native_settlements s"
  from False obtain t where t: "total_settled_executions_this_round ?vs = Ok t"
    and d: "distribute_executor_rewards env current s
      = fold (executor_step env current ?k) (executions_proportionally_of_total_this_round env ?vs t) (0, s)"
    by (auto simp: distribute_executor_rewards_def Let_def split: if_splits res.splits)
  let ?p = "\<lambda>v. perbill_from_rational env (unat (v :: Balance)) (unat t)"
  let ?r = "\<lambda>v. unat (executor_reward env current ?k v (?p v))"
  have total: "pending_total (snd (distribute_executor_rewards env current s))
      = pending_total s + sum_list (map (\<lambda>v. ?r (snd v)) ?vs)"
    using executors_total [OF assms(3)]
    by (simp add: d executions_proportionally_of_total_this_round_def comp_def case_prod_beta)
  have "unat (perbill_mul_ceil env (?p v) current) = (unat (?p v) * unat current + (10 ^ 9 - 1)) div 10 ^ 9"
    and "unat (percent_mul_ceil env ?k v) = (unat ?k * unat v + 99) div 100" for v
    using assms(1,2) by (simp_all add: fixed_point_laws_def)
  then have r1: "?r v \<le> (unat (?p v) * unat current + (10 ^ 9 - 1)) div 10 ^ 9"
    and r2: "?r v \<le> (unat ?k * unat v + 99) div 100" for v
    by (simp_all add: executor_reward_def min_def word_le_nat_alt del: One_nat_def)
  have "sum_list (map (\<lambda>v. ?r (snd v)) ?vs) \<le> unat current + length ?vs"
  proof (cases "unat t = 0")
    case True
    then have "\<forall>v \<in> set ?vs. unat (snd v) = 0" using total_settled [OF t] by (simp add: stake_total_def)
    then have "?r (snd v) \<le> 0" if "v \<in> set ?vs" for v using r2 [of "snd v"] that by simp
    then have "sum_list (map (\<lambda>v. ?r (snd v)) ?vs) \<le> sum_list (map (\<lambda>v. 0) ?vs)"
      by (intro sum_list_mono)
    also have "\<dots> = 0" by (induction ?vs) simp_all
    finally show ?thesis by (rule le_trans) simp
  next
    case False
    have "sum_list (map (\<lambda>v. ?r (snd v)) ?vs)
        \<le> sum_list (map (\<lambda>v. (unat (?p (snd v)) * unat current + (10 ^ 9 - 1)) div 10 ^ 9) ?vs)"
      by (intro sum_list_mono r1)
    also have "\<dots> \<le> unat current + length ?vs"
      using sum_proportions [of "10 ^ 9" "map (\<lambda>v. unat (?p (snd v))) ?vs" "unat current"]
        sum_from_rational [OF assms(1), of "map snd ?vs" "unat t"] False total_settled [OF t]
      by (simp add: comp_def stake_total_def del: sum_list_eq_0_iff)
    finally show ?thesis .
  qed
  moreover have "sum_list (map (\<lambda>v. ?r (snd v)) ?vs)
      \<le> sum_list (map (\<lambda>(_, v). (unat ?k * unat v + 99) div 100) ?vs)"
    using r2 by (intro sum_list_mono) (simp add: case_prod_beta)
  ultimately show ?thesis by (simp add: total)
qed simp

theorem executor_rewards_bounded_witness:
  "native_settlements sample_rewards = [(sample_attester, 500), (sample_nominator, 1500)]
    \<and> pending_total (snd (distribute_executor_rewards sample_rewards_env 100 sample_rewards))
      \<le> pending_total sample_rewards + 102"
proof -
  have n: "native_settlements sample_rewards = [(sample_attester, 500), (sample_nominator, 1500)]"
    by (simp add: native_settlements_def sample_rewards_def)
  show ?thesis
    using executor_rewards_bounded [OF sample_rewards_env_laws, of sample_rewards 100] n
    by (simp add: sample_rewards_simps)
qed


section \<open>Settlements\<close>

lemma add_to_pending_claims_simps [simp]:
  "rw_am (add_to_pending_claims a rl v src x s) = rw_am s"
  "smap_wf (PendingClaims s) \<Longrightarrow> smap_wf (PendingClaims (add_to_pending_claims a rl v src x s))"
  by (simp_all add: add_to_pending_claims_def rw_event_def Let_def)

lemma claims_total_update_first:
  "claims_total (update_first P (\<lambda>c. c\<lparr>total_round_claim := saturating_add v (total_round_claim c)\<rparr>) cs)
    \<le> claims_total cs + unat v"
  by (induction cs) (auto simp: claims_total_def unat_saturating_add)

lemma pending_total_add:
  assumes "smap_wf (PendingClaims s)"
  shows "pending_total (add_to_pending_claims a rl v src x s) \<le> pending_total s + unat v"
proof -
  obtain cs where p: "PendingClaims (add_to_pending_claims a rl v src x s) = smap_insert a cs (PendingClaims s)"
    and cs: "claims_total cs \<le> claims_total (pending_of s a) + unat v"
    using claims_total_update_first
    by (simp add: add_to_pending_claims_def rw_event_def Let_def) (auto simp: claims_total_def)
  moreover have "claims_total (pending_of s a) = (case smap_get (PendingClaims s) a of Some w \<Rightarrow> claims_total w | None \<Rightarrow> 0)"
    by (simp add: pending_of_def claims_total_def split: option.split)
  ultimately show ?thesis
    using smap_sum_insert [OF assms, of claims_total a cs] by (simp add: pending_total_def)
qed

lemma accumulate_settlement_total:
  assumes "smap_wf (PendingClaims s)"
  shows "rw_am (accumulate_settlement e s) = rw_am s \<and> smap_wf (PendingClaims (accumulate_settlement e s))
    \<and> pending_total (accumulate_settlement e s) \<le> pending_total s + unat (settlement_amount (snd e))"
  using assms pending_total_add [OF assms]
  by (cases e) (simp add: accumulate_settlement_def Let_def pending_total_def)

lemma accumulate_settlements_total:
  assumes "smap_wf (PendingClaims s)"
  shows "rw_am (fold accumulate_settlement es s) = rw_am s
    \<and> pending_total (fold accumulate_settlement es s)
      \<le> pending_total s + sum_list (map (\<lambda>e. unat (settlement_amount (snd e))) es)"
  using assms
proof (induction es arbitrary: s)
  case (Cons e es)
  note 1 = accumulate_settlement_total [OF Cons.prems, of e]
  with Cons.IH [of "accumulate_settlement e s"] show ?case by auto
qed simp



section \<open>Authors\<close>

lemma min_author_in: "min_author xs = Some a \<Longrightarrow> a \<in> set (map fst xs)"
  by (induction xs arbitrary: a) (auto split: option.splits if_splits prod.splits)

lemma min_author_least:
  "xs \<noteq> [] \<Longrightarrow> \<exists>a c. min_author xs = Some a \<and> (a, c) \<in> set xs \<and> (\<forall>(_, d) \<in> set xs. c \<le> d)"
proof (induction xs)
  case (Cons x xs)
  obtain a c where x: "x = (a, c)" by (cases x)
  show ?case
  proof (cases "list_all (\<lambda>(_, d). c \<le> d) xs")
    case True
    then have "min_author (x # xs) = Some a" by (auto simp: x split: option.split)
    then show ?thesis using True by (auto simp: x list_all_iff)
  next
    case False
    then have "xs \<noteq> []" by auto
    from Cons.IH [OF this] obtain b d where b: "min_author xs = Some b" "(b, d) \<in> set xs" "\<forall>(_, e) \<in> set xs. d \<le> e"
      by blast
    moreover have "d \<le> c" using False b(3) by (fastforce simp: list_all_iff not_le)
    ultimately show ?thesis using False by (auto simp: x)
  qed
qed simp

lemma length_smap_insert: "length (smap_insert k v m) \<le> Suc (length m)"
  by (induction k v m rule: smap_insert.induct) auto

lemma length_smap_remove:
  assumes "k \<in> set (map fst m)"
  shows "length (smap_remove k m) < length m"
  using assms unfolding smap_remove_def by (auto intro: length_filter_less)

text \<open>the table of the period's block authors never holds more than \<open>MAX_AUTHORS\<close> entries; when the block's author
  does not fit, the entry that is dropped is one with the least number of blocks, and every other count is
  kept.\<close>

theorem authors_bounded:
  assumes "length (AuthorsThisPeriod s) \<le> MAX_AUTHORS" "smap_wf (AuthorsThisPeriod s)"
    and "find_author env (rw_ext s) = Some a"
  defines "counted \<equiv> count_author a 1 (AuthorsThisPeriod s)"
    and "s' \<equiv> snd (process_author env s)"
  shows "length (AuthorsThisPeriod s') \<le> MAX_AUTHORS \<and> smap_wf (AuthorsThisPeriod s')
    \<and> (AuthorsThisPeriod s' = counted
       \<or> (\<exists>b c. AuthorsThisPeriod s' = smap_remove b counted \<and> (b, c) \<in> set counted
            \<and> (\<forall>(_, d) \<in> set counted. c \<le> d)))"
proof (cases "length counted > MAX_AUTHORS")
  case True
  then have "counted \<noteq> []" by auto
  from min_author_least [OF this] obtain b c where
    b: "min_author counted = Some b" "(b, c) \<in> set counted" "\<forall>(_, d) \<in> set counted. c \<le> d" by blast
  have s': "AuthorsThisPeriod s' = smap_remove b counted"
    using True b(1) assms(3) by (simp add: s'_def process_author_def counted_def)
  moreover have "length (smap_remove b counted) < length counted"
    using b(2) by (intro length_smap_remove) force
  moreover have "length counted \<le> Suc (length (AuthorsThisPeriod s))"
    unfolding counted_def count_author_def by (rule length_smap_insert)
  moreover have "smap_wf counted" using assms(2) by (simp add: counted_def count_author_def)
  ultimately show ?thesis using b(2,3) assms(1) by auto
next
  case False
  then have "AuthorsThisPeriod s' = counted"
    using assms(3) by (simp add: s'_def process_author_def counted_def)
  moreover have "smap_wf counted" using assms(2) by (simp add: counted_def count_author_def)
  ultimately show ?thesis using False by simp
qed

theorem authors_bounded_witness:
  "length (AuthorsThisPeriod (snd (process_author sample_rewards_env sample_rewards))) \<le> MAX_AUTHORS"
  by (rule authors_bounded [where a = sample_attester, THEN conjunct1])
    (simp_all add: sample_rewards_simps MAX_AUTHORS_def)

section \<open>Repatriation\<close>

lemma rw_set_ext_simps [simp]:
  "rw_ext (rw_set_ext x s) = x" "PendingClaims (rw_set_ext x s) = PendingClaims s"
  by (simp_all add: rw_set_ext_def)

lemma repatriation_amount_bounds:
  assumes "fixed_point_laws env" "unat (RepatriationPercentage s) \<le> 100"
  shows "unat (repatriation_amount env fsx s) \<le> unat (max_reward (input fsx))"
    "2 * unat (repatriation_amount env fsx s) \<le> unat (free_balance (rw_am_cfg env) (rw_ext s) (rw_treasury_account env Treasury_Slash))"
proof -
  let ?b = "free_balance (rw_am_cfg env) (rw_ext s) (rw_treasury_account env Treasury_Slash)"
  let ?p = "percent_mul_ceil env (RepatriationPercentage s) ?b"
  have "unat (perbill_mul_ceil env (perbill_from_percent env 200) (max_reward (input fsx))) = unat (max_reward (input fsx))"
    using assms(1) by (simp add: fixed_point_laws_def)
  then show "unat (repatriation_amount env fsx s) \<le> unat (max_reward (input fsx))"
    by (simp add: repatriation_amount_def Let_def min_def word_le_nat_alt)
  have "unat ?p = (unat (RepatriationPercentage s) * unat ?b + 99) div 100"
    using assms by (simp add: fixed_point_laws_def)
  moreover have "unat (RepatriationPercentage s) * unat ?b \<le> 100 * unat ?b" using assms(2) by simp
  ultimately have "unat ?p \<le> unat ?b" by linarith
  moreover have "unat (repatriation_amount env fsx s) \<le> unat (?p div 2)"
    by (simp add: repatriation_amount_def Let_def min_def word_le_nat_alt checked_div_def)
  ultimately show "2 * unat (repatriation_amount env fsx s) \<le> unat ?b" by (simp add: unat_div)
qed



end
