(* ===== verification/Attesters_Properties.thy ===== *)
theory Attesters_Properties
  imports Attesters_Invariant Rewards_Properties
begin

text \<open>
  What the attesters pallet does step by step: signing, the finality reward and its growth, the
  withdrawal of nominations, the indices of attesters and the rotation of the committees, with a
  concrete configuration in which the theorems are applied.
\<close>

section \<open>A concrete configuration\<close>

text \<open>
  The rewards' sample configuration, a committee of one, and signatures that name the key they
  are from in their first bytes.
\<close>

definition sample_attesters_env :: "(AccountId \<Rightarrow> Balance) attesters_env" where
  "sample_attesters_env =
     \<lparr>at_rewards_cfg = sample_rewards_env, CommitteeSize = 1, BatchingWindow = 6, RepatriationPeriod = 10,
      ShufflingFrequency = 400, DefaultCommission = 10, MinNominatorBond = 1, MinAttesterBond = 10,
      reserve = (\<lambda>a v x. if v < x a then Ok (x(a := x a - v)) else Err (External_Error 2)),
      unreserve = (\<lambda>a v x. x(a := x a + v)),
      at_transfer = (\<lambda>a b v x. Ok (x(a := x a - v, b := x b + v))),
      random_value = (\<lambda>x i. [1, 2, 3]), at_keccak = (\<lambda>bs. bs), hash_committee = concat,
      xdns_escrow_account = (\<lambda>x t. Ok [9]), xdns_verification_vendor = (\<lambda>x t. Ok Polkadot),
      xdns_target_codec = (\<lambda>x t. Ok Scale),
      at_verify_event_inclusion = (\<lambda>x t sp src p. Ok \<lparr>receipt_height = 1, including_header = [], receipt_message = p\<rparr>),
      decode_execution_source = Some, at_abi_cfg = sample_codec,
      decode_batch_event = (\<lambda>bs. Some \<lparr>tb_hash = take 32 bs @ [0, 0, 0, 0], executor_on_target = [8], attesting_committee = []\<rparr>),
      parse_public_key = Some, signature_from_slice = (\<lambda>sig. True),
      recover_from_prehash = (\<lambda>m sig v. Some (take 33 sig)),
      ed25519_verify = (\<lambda>k m sig. None), sr25519_verify = (\<lambda>k m sig. None),
      on_new_epoch = (\<lambda>v n h x. x)\<rparr>"

definition sample_info :: "u32 \<Rightarrow> AttesterInfo" where
  "sample_info i = \<lparr>key_ed = [], key_ec = replicate 33 7, key_sr = [], commission = 10, a_index = i\<rparr>"

definition sample_target :: TargetId where "sample_target = [1, 2, 3, 4]"

definition sample_batch :: BatchMessage where
  "sample_batch = batch_default\<lparr>reverted_sfx := Some [replicate 32 5], b_status := PendingAttestation\<rparr>"

definition sample_attesters :: "(AccountId \<Rightarrow> Balance) attesters_state" where
  "sample_attesters = (attesters_empty sample_rewards 300)
     \<lparr>AttesterInfos := [(sample_attester, sample_info 1)], CurrentCommittee := [sample_attester],
      ActiveSet := [sample_attester, sample_payee], AttestationTargets := [sample_target],
      AttestersAgreements := [((sample_attester, sample_target), [8])],
      NextBatch := [(sample_target, batch_default\<lparr>b_index := 1\<rparr>)], Batches := [(sample_target, [sample_batch])],
      Nominations := [((sample_attester, sample_nominator), 20)]\<rparr>"

text \<open>A reachable state with a batch to commit: the target has been agreed to, a reverted side effect has been put
  into a batch, and two batching windows have passed.\<close>

definition prepared :: "(AccountId \<Rightarrow> Balance) attesters_state \<Rightarrow> BatchMessage list \<Rightarrow> BatchMessage \<Rightarrow> bool" where
  "prepared s bs b \<longleftrightarrow> AttestationTargets s = [sample_target] \<and> smap_get (Batches s) sample_target = (if bs = [] then None else Some bs)
     \<and> smap_get (NextBatch s) sample_target = Some b \<and> PaidFinalityFees s = []
     \<and> smap_get (AttestersAgreements s) (sample_attester, sample_target) = Some [8]"

lemmas sample_attesters_simps = sample_attesters_env_def sample_attesters_def attesters_empty_def sample_info_def
  sample_target_def sample_batch_def batch_default_def

section \<open>Signing\<close>



section \<open>The finality reward\<close>

lemma adjust_up_unat:
  assumes "fixed_point_laws (at_rewards_cfg env)"
  shows "unat (adjust_up env r) = min ((25 * unat r + 99) div 100 + unat r) (2 ^ 128 - 1)"
proof -
  have "unat (at_percent env 25 r) = (25 * unat r + 99) div 100"
    using assms by (simp add: fixed_point_laws_def)
  then show ?thesis by (simp add: adjust_up_def REWARD_ADJUSTMENT_def unat_saturating_add)
qed

lemma adjust_up_mono:
  assumes "fixed_point_laws (at_rewards_cfg env)"
  shows "unat r \<le> unat ((adjust_up env ^^ k) r)"
proof (induction k)
  case (Suc k)
  have "unat ((adjust_up env ^^ k) r) \<le> unat (adjust_up env ((adjust_up env ^^ k) r))"
    using unat_below_128 [of "(adjust_up env ^^ k) r"] by (simp add: adjust_up_unat [OF assms])
  with Suc show ?case by simp
qed simp

lemma adjust_up_mono_le:
  assumes "fixed_point_laws (at_rewards_cfg env)" "i \<le> j"
  shows "unat ((adjust_up env ^^ i) r) \<le> unat ((adjust_up env ^^ j) r)"
proof -
  have "j = (j - i) + i" using assms(2) by simp
  then have "(adjust_up env ^^ j) r = (adjust_up env ^^ (j - i)) ((adjust_up env ^^ i) r)"
    by (metis comp_apply funpow_add)
  then show ?thesis using adjust_up_mono [OF assms(1)] by simp
qed

lemma quarter_up: "5 * (x :: nat) \<le> 4 * ((25 * x + 99) div 100 + x)"
  by presburger

lemma adjust_up_grows:
  assumes "fixed_point_laws (at_rewards_cfg env)" "2 ^ k * unat r < 2 ^ 128"
  shows "5 ^ k * unat r \<le> 4 ^ k * unat ((adjust_up env ^^ k) r) \<and> unat ((adjust_up env ^^ k) r) \<le> 2 ^ k * unat r"
  using assms(2)
proof (induction k)
  case (Suc k)
  let ?x = "(adjust_up env ^^ k) r"
  have prem: "2 * (2 ^ k * unat r) < 2 ^ 128" using Suc.prems by simp
  then have "2 ^ k * unat r < 2 ^ 128" by linarith
  with Suc.IH have IH: "5 ^ k * unat r \<le> 4 ^ k * unat ?x" "unat ?x \<le> 2 ^ k * unat r" by blast+
  have lt: "2 * unat ?x < 2 ^ 128" using IH(2) prem by linarith
  have le: "(25 * unat ?x + 99) div 100 \<le> unat ?x" by (cases "unat ?x = 0") auto
  then have up: "unat (adjust_up env ?x) = (25 * unat ?x + 99) div 100 + unat ?x"
    using lt by (simp add: adjust_up_unat [OF assms(1)])
  have "5 * unat ?x \<le> 4 * unat (adjust_up env ?x)" unfolding up by (rule quarter_up)
  then have up4: "4 ^ k * (5 * unat ?x) \<le> 4 ^ k * (4 * unat (adjust_up env ?x))" by simp
  have "5 ^ Suc k * unat r = 5 * (5 ^ k * unat r)" by simp
  also have "\<dots> \<le> 5 * (4 ^ k * unat ?x)" using IH(1) by (rule mult_le_mono2)
  also have "\<dots> = 4 ^ k * (5 * unat ?x)" by simp
  also note up4
  also have "4 ^ k * (4 * unat (adjust_up env ?x)) = 4 ^ Suc k * unat (adjust_up env ?x)" by simp
  finally have "5 ^ Suc k * unat r \<le> 4 ^ Suc k * unat (adjust_up env ?x)" .
  moreover have "unat (adjust_up env ?x) \<le> 2 ^ Suc k * unat r" using up le IH(2) by simp
  ultimately show ?case by simp
qed simp

lemma estimate_finality_reward_eq:
  "estimate_finality_reward env s t d =
     (let reward = (adjust_up env ^^ (min (unat d) 192 div 32)) (latest_paid_fee s t)
      in if unat d < 32 then saturating_sub reward (at_percent env REWARD_ADJUSTMENT reward) else reward)"
proof -
  have six: "(ucast SIX_EPOCHS_IN_LOCAL_BLOCKS_U8 :: u32) = 192"
    and one: "(ucast ONE_EPOCHS_IN_LOCAL_BLOCKS_U8 :: u32) = 32"
    by (simp_all add: SIX_EPOCHS_IN_LOCAL_BLOCKS_U8_def ONE_EPOCHS_IN_LOCAL_BLOCKS_U8_def)
  have m: "unat (min d 192) = min (unat d) 192" by (simp add: min_def word_le_nat_alt)
  then have e: "unat (min d 192 div 32) = min (unat d) 192 div 32" by (simp add: unat_div)
  have l: "min d 192 < 32 \<longleftrightarrow> unat d < 32" using m by (simp add: word_less_nat_alt min_def)
  show ?thesis unfolding estimate_finality_reward_def six one Let_def e l ..
qed

text \<open>the finality reward never falls when the submission is delayed.\<close>

theorem finality_reward_monotone:
  assumes "fixed_point_laws (at_rewards_cfg env)" "d \<le> d'"
  shows "estimate_finality_reward env s t d \<le> estimate_finality_reward env s t d'"
proof -
  have dd: "unat d \<le> unat d'" using assms(2) by (simp add: word_le_nat_alt)
  let ?f = "latest_paid_fee s t" and ?k = "\<lambda>d. min (unat (d :: u32)) 192 div 32"
  have k: "?k d \<le> ?k d'" using dd by (intro div_le_mono) simp
  have sub: "unat (saturating_sub r v) \<le> unat r" for r v :: Balance by (simp add: unat_saturating_sub)
  consider "unat d' < 32" | "unat d < 32" "32 \<le> unat d'" | "32 \<le> unat d" by linarith
  then show ?thesis
  proof cases
    case 1
    then have "?k d = 0" "?k d' = 0" "unat d < 32" using dd by auto
    then show ?thesis using 1 by (simp add: estimate_finality_reward_eq Let_def)
  next
    case 2
    have "unat (estimate_finality_reward env s t d) \<le> unat ((adjust_up env ^^ ?k d) ?f)"
      using 2 sub by (simp add: estimate_finality_reward_eq Let_def)
    also have "\<dots> \<le> unat (estimate_finality_reward env s t d')"
      using 2 adjust_up_mono_le [OF assms(1) k] by (simp add: estimate_finality_reward_eq Let_def)
    finally show ?thesis by (simp add: word_le_nat_alt)
  next
    case 3
    then show ?thesis
      using adjust_up_mono_le [OF assms(1) k] dd by (simp add: estimate_finality_reward_eq Let_def word_le_nat_alt)
  qed
qed

theorem finality_reward_monotone_witness:
  "estimate_finality_reward sample_attesters_env sample_attesters sample_target 40
     \<le> estimate_finality_reward sample_attesters_env sample_attesters sample_target 200"
  by (rule finality_reward_monotone) (simp_all add: sample_attesters_env_def sample_rewards_env_laws)


section \<open>Committing\<close>

lemma commit_pays:
  assumes "commit_found_batch env a t ev b s = Ok s'" "PaidFinalityFees s' \<noteq> PaidFinalityFees s"
  shows "latest_paid_fee s' t = estimate_finality_reward env s t (commit_delay b s)"
proof -
  from assms(1) obtain s1 where s1: "find_and_set_batch_as_committed env t (tb_hash ev) s = Ok s1"
    and r: "(let to_pay = estimate_finality_reward env s1 t (commit_delay b s1);
           s2 = at_event (BatchCommitted t b (message b) (hash_of env b) to_pay) s1
       in if to_pay > 0
          then bind_res (reward_submitter env a (executor_on_target ev) t to_pay s2)
                 (\<lambda>s3. Ok (append_paid_fee t to_pay s3))
          else Ok s2) = Ok s'"
    by (auto simp: commit_found_batch_def res_simps)
  from s1 have f: "PaidFinalityFees s1 = PaidFinalityFees s" "at_block_number s1 = at_block_number s"
    by (auto simp: find_and_set_batch_as_committed_def at_err_def split: option.splits if_splits)
  let ?pay = "estimate_finality_reward env s1 t (commit_delay b s1)"
  have pay: "?pay = estimate_finality_reward env s t (commit_delay b s)"
    using f by (simp add: estimate_finality_reward_def latest_paid_fee_def commit_delay_def)
  from r obtain s3 where "s' = append_paid_fee t ?pay s3"
    using assms(2) f(1) by (auto simp: Let_def res_simps split: if_splits)
  then show ?thesis by (simp add: append_paid_fee_def latest_paid_fee_def pay)
qed


lemma sample_periods:
  "divides_block (ShufflingFrequency sample_attesters_env) 6 = Ok False"
  "divides_block (ShufflingFrequency sample_attesters_env) 12 = Ok False"
  "divides_block (BatchingWindow sample_attesters_env) 6 = Ok True"
  "divides_block (BatchingWindow sample_attesters_env) 12 = Ok True"
  "divides_block (RepatriationPeriod sample_attesters_env) 6 = Ok False"
  "divides_block (RepatriationPeriod sample_attesters_env) 12 = Ok False"
  "quorum sample_attesters_env = 0"
  by (simp_all add: divides_block_def sample_attesters_env_def quorum_def)

lemma prepared_agreed:
  "\<exists>s. attesters_reachable sample_attesters_env undefined s \<and> prepared s [] batch_default"
proof -
  let ?s0 = "attesters_genesis [sample_target] (attesters_empty sample_rewards 0)"
  have r0: "attesters_reachable sample_attesters_env undefined ?s0" by (rule reach_genesis)
  obtain s1 where s1: "register_attester sample_attesters_env (Signed sample_attester) 50 [] [] [] None ?s0 = Ok s1"
    and f: "AttestationTargets s1 = [sample_target]" "ActiveSet s1 = []" "smap_get (Batches s1) sample_target = None"
      "smap_get (NextBatch s1) sample_target = Some batch_default"
      "PaidFinalityFees s1 = []" "smap_contains (AttesterInfos s1) sample_attester"
    by (simp add: register_attester_def do_register_attester_def do_nominate_def ensure_signed_def Let_def
        attesters_genesis_def attesters_empty_def sample_attesters_env_def sample_rewards_def sample_rewards_env_def
        sample_state_def plain_env_def smap_contains_def smap_get_def batch_default_def)
  have r1: "attesters_reachable sample_attesters_env undefined s1"
    by (rule reach_step [OF r0 st_register [OF s1]])
  obtain s2 where s2: "agree_to_new_attestation_target (Signed sample_attester) sample_target [8] s1 = Ok s2"
    and "prepared s2 [] batch_default"
    using f by (simp add: agree_to_new_attestation_target_def ensure_signed_def at_ensure_def ensure_def Let_def
        try_activate_new_target_def activate_target_def prepared_def)
  then show ?thesis using reach_step [OF r1 st_agree [OF s2]] by blast
qed


lemma batch_event_abi:
  "abi_try_from escrow_batch_success_descriptor = Ok (A_Event (Some ''BatchApplied'')
     [A_H256 (Some ''MessageHash''), A_Account20 (Some ''BeneficiaryOnTarget''), A_H256 (Some ''AttestingCommittee'')])"
  by (simp add: escrow_batch_success_descriptor_def parse_eval cong: eval_cong)

lemma recode_batch_event_scale:
  assumes "length h = 32" "length a = 20" "length c = 32"
  shows "recode_batch_event cenv Scale (memo # h @ a @ c) = Ok (h @ a @ c)"
  using assms
  by (simp add: recode_batch_event_def batch_event_abi fill_eval recode_account32_def recode_account20_def recode_composite_def)

text \<open>
  On a target with RLP the recoded event starts with the first byte of the payload, and the raw
  items are cut as if they carried no length: the decoder, which expects the hash in the first
  32 bytes, reads the header of the list, then at most 31 bytes of the first item.
\<close>

theorem rlp_batch_event_misaligned:
  assumes "recode_batch_event cenv Rlp payload = Ok bs"
    and "\<And>w xs ys. scale_decode_fixed cenv w xs = Some ys \<Longrightarrow> ys = take w xs"
  shows "\<exists>memo rest x items tail. payload = memo # rest \<and> rlp_items cenv payload = x # items \<and> 32 \<le> length x
    \<and> bs = memo # take 32 x @ tail \<and> take 32 bs = memo # take 31 x"
proof -
  from assms(1) obtain f where f: "try_fill_abi cenv (A_Event (Some ''BatchApplied'')
     [A_H256 (Some ''MessageHash''), A_Account20 (Some ''BeneficiaryOnTarget''), A_H256 (Some ''AttestingCommittee'')]) payload Rlp = Ok f"
    and bs: "recode_as cenv Rlp Scale True f = Ok bs"
    by (auto simp: recode_batch_event_def batch_event_abi res_simps)
  from f obtain memo rest x y z items where payload: "payload = memo # rest"
    and items: "rlp_items cenv payload = x # y # z # items" and x: "32 \<le> length x"
    and f': "f = F_Struct (Some ''BatchApplied'') [F_H256 (Some ''MessageHash'') (take 32 x),
        F_Account20 (Some ''BeneficiaryOnTarget'') (strip_memo 20 y), F_H256 (Some ''AttestingCommittee'') (take 32 z)] memo"
    by (auto simp: try_fill_abi_def chop_encoded_def rlp_chop_encoded_def res_simps split: list.splits if_splits)
  from bs obtain ys tail where ys: "scale_decode_fixed cenv 32 (take 32 x) = Some ys" and "bs = memo # ys @ tail"
    by (auto simp: f' res_simps recode_account32_def recode_composite_def)
  then have "bs = memo # take 32 x @ tail" using assms(2) [OF ys] by simp
  with payload items x show ?thesis by (intro exI [of _ memo] exI [of _ rest] exI [of _ x]) (auto simp: take_Cons')
qed

lemma sample_recode:
  "recode_batch_event sample_codec Scale (0 # replicate 32 5 @ replicate 20 8 @ replicate 32 7) =
     Ok (replicate 32 5 @ replicate 20 8 @ replicate 32 7)"
  by (rule recode_batch_event_scale) simp_all

lemma prepared_hook:
  assumes "process_next_batch_window sample_attesters_env n 0 s = Ok (w, s')" "prepared s' bs b" "n = 6 \<or> n = 12"
    "attesters_reachable sample_attesters_env undefined s"
  shows "\<exists>s''. attesters_reachable sample_attesters_env undefined s'' \<and> prepared s'' bs b"
proof -
  let ?s = "at_set_ext (on_new_epoch sample_attesters_env Attesters (n mod BatchingWindow sample_attesters_env)
      (heartbeat (at_block_number s')) (at_ext s')) s'"
  have "attesters_on_initialize sample_attesters_env undefined undefined n s = Ok (w, ?s)"
    using assms(1,3) sample_periods by (auto simp: attesters_on_initialize_def)
  then have "attesters_reachable sample_attesters_env undefined ?s"
    by (rule reach_step [OF assms(4) st_hook])
  moreover have "prepared ?s bs b" using assms(2) by (simp add: prepared_def)
  ultimately show ?thesis by blast
qed

lemma prepared_open:
  assumes "prepared s [] b" "\<not> batch_is_empty b"
  shows "\<exists>s' nb. process_next_batch_window sample_attesters_env n 0 s = Ok (0, s')
    \<and> prepared s' [b\<lparr>b_status := PendingAttestation\<rparr>] nb \<and> batch_is_empty nb"
proof -
  have u: "update_window_batches sample_attesters_env n sample_target s = Ok s"
    using assms(1) by (simp add: prepared_def update_window_batches_def)
  have g: "get_batches s sample_target PendingAttestation = []" "batches_of s sample_target = []"
    using assms(1) by (simp_all add: prepared_def get_batches_def batches_of_def opt_list_def)
  let ?s = "open_next_batch sample_attesters_env n sample_target s"
  have "process_next_batch_window sample_attesters_env n 0 s = Ok (0, ?s)"
    using assms(1) by (simp add: process_next_batch_window_def prepared_def window_target_def u g)
  moreover have "prepared ?s [b\<lparr>b_status := PendingAttestation\<rparr>] (batch_default\<lparr>b_created := n, b_index := saturating_add (b_index b) 1\<rparr>)"
    using assms by (simp add: prepared_def open_next_batch_def Let_def g)
  ultimately show ?thesis by (intro exI conjI) (assumption | simp add: batch_is_empty_def batch_default_def)+
qed

lemma prepared_ready:
  assumes "prepared s [b] nb" "batch_is_empty nb" "b_status b = PendingAttestation"
  shows "\<exists>s'. process_next_batch_window sample_attesters_env n 0 s = Ok (0, s')
    \<and> prepared s' [b\<lparr>b_status := ReadyForSubmissionByMajority\<rparr>] nb"
proof -
  let ?b = "b\<lparr>b_status := ReadyForSubmissionByMajority\<rparr>"
  obtain s1 where u: "update_window_batches sample_attesters_env n sample_target s = Ok s1" and p: "prepared s1 [?b] nb"
    using assms(1,3) sample_periods(7) by (simp add: prepared_def update_window_batches_def window_batch_def)
  have g: "get_batches s1 sample_target PendingAttestation = []"
    using p by (simp add: prepared_def get_batches_def batches_of_def opt_list_def)
  have "open_next_batch sample_attesters_env n sample_target s1 = s1"
    using p assms(2) by (simp add: prepared_def open_next_batch_def Let_def)
  then have "process_next_batch_window sample_attesters_env n 0 s = Ok (0, s1)"
    using assms(1) by (simp add: process_next_batch_window_def prepared_def window_target_def u g)
  then show ?thesis using p by blast
qed

lemma prepared_commit:
  "\<exists>s b nb. attesters_reachable sample_attesters_env undefined s \<and> at_block_number s = 300 \<and> prepared s [b] nb
     \<and> b_status b = ReadyForSubmissionByMajority \<and> message b = replicate 32 5 @ [0, 0, 0, 0]"
proof -
  obtain s where r: "attesters_reachable sample_attesters_env undefined s" and p: "prepared s [] batch_default"
    using prepared_agreed by blast
  let ?b = "batch_default\<lparr>reverted_sfx := Some [replicate 32 5]\<rparr>"
  let ?s1 = "s\<lparr>NextBatch := smap_insert sample_target ?b (NextBatch s)\<rparr>"
  have "at_request_sfx_attestation_revert sample_target (replicate 32 5) s = Ok ?s1"
    using p by (simp add: prepared_def at_request_sfx_attestation_revert_def batch_default_def)
  then have r1: "attesters_reachable sample_attesters_env undefined ?s1" by (rule reach_step [OF r st_request_revert])
  have "prepared ?s1 [] ?b" using p by (simp add: prepared_def)
  moreover have "\<not> batch_is_empty ?b" by (simp add: batch_is_empty_def)
  ultimately obtain s2 nb where w2: "process_next_batch_window sample_attesters_env 6 0 ?s1 = Ok (0, s2)"
    and p2: "prepared s2 [?b\<lparr>b_status := PendingAttestation\<rparr>] nb" and nb: "batch_is_empty nb"
    using prepared_open by blast
  obtain s3 where r3: "attesters_reachable sample_attesters_env undefined s3"
    and p3: "prepared s3 [?b\<lparr>b_status := PendingAttestation\<rparr>] nb"
    using prepared_hook [OF w2 p2 _ r1] by auto
  obtain s4 where w4: "process_next_batch_window sample_attesters_env 12 0 s3 = Ok (0, s4)"
    and p4: "prepared s4 [?b\<lparr>b_status := ReadyForSubmissionByMajority\<rparr>] nb"
    using prepared_ready [OF p3 nb] by auto
  obtain s5 where r5: "attesters_reachable sample_attesters_env undefined s5"
    and p5: "prepared s5 [?b\<lparr>b_status := ReadyForSubmissionByMajority\<rparr>] nb"
    using prepared_hook [OF w4 p4 _ r3] by auto
  let ?s6 = "s5\<lparr>at_rewards := at_rewards s5, at_block_number := 300\<rparr>"
  have "attesters_reachable sample_attesters_env undefined ?s6" by (rule reach_step [OF r5 st_outside])
  moreover have "prepared ?s6 [?b\<lparr>b_status := ReadyForSubmissionByMajority\<rparr>] nb" using p5 by (simp add: prepared_def)
  moreover have "message (?b\<lparr>b_status := ReadyForSubmissionByMajority\<rparr>) = replicate 32 5 @ [0, 0, 0, 0]"
    by (simp add: message_def batch_default_def opt_list_def encode_committee_def u32_to_be_bytes_def)
  ultimately show ?thesis by (intro exI conjI) (assumption | simp)+
qed

theorem attesters_invariant_witness:
  "\<exists>s b. attesters_reachable sample_attesters_env undefined s \<and> b \<in> set (batches_of s sample_target)
    \<and> b_status b = ReadyForSubmissionByMajority \<and> quorum sample_attesters_env \<le> length (b_signatures b)
    \<and> length (ActiveSet s) \<le> 32"
proof -
  obtain s b nb where r: "attesters_reachable sample_attesters_env undefined s" and p: "prepared s [b] nb"
    and b: "b_status b = ReadyForSubmissionByMajority"
    using prepared_commit by blast
  have "b \<in> set (batches_of s sample_target)" using p by (simp add: prepared_def batches_of_def opt_list_def)
  with attesters_invariant [OF r] r b show ?thesis by blast
qed


section \<open>Nominations\<close>

lemma find_nomination:
  assumes "smap_wf (Nominations s)" "smap_get (Nominations s) (b, a) = Some v"
  shows "list_find (\<lambda>(n, _). n = a) (nominations_of s b) = Some (a, v)"
proof -
  have "(a, v) \<in> set (nominations_of s b)"
    using smap_get_Some_in [OF assms(2)] by (force simp: nominations_of_def)
  then obtain p where p: "list_find (\<lambda>(n, _). n = a) (nominations_of s b) = Some p"
    by (cases "list_find (\<lambda>(n, _). n = a) (nominations_of s b)") (auto simp: list_find_None)
  then obtain w where w: "p = (a, w)" "(a, w) \<in> set (nominations_of s b)"
    using list_find_Some [OF p] by (cases p) auto
  then have "((b, a), w) \<in> set (Nominations s)" by (auto simp: nominations_of_def)
  then have "w = v" using smap_in_get [OF assms(1)] assms(2) by fastforce
  then show ?thesis using p w by simp
qed

lemma unnominate_now_ledger [simp]: "at_ext (snd (unnominate_now env a b v q)) = unreserve env a v (at_ext (snd q))"
  by (cases q)
    (auto simp: unnominate_now_def update_sorted_nominated_attesters_def Let_def at_set_ext_def rw_set_ext_def split: option.split)

text \<open>C31: a nomination can be withdrawn twice: the second \<open>unnominate\<close> is accepted while the first is
  pending, and both release the full amount from the nominator's reserve, which also
  holds what they nominated to others.\<close>

theorem unnominate_releases_twice:
  assumes "smap_get (Nominations s) (b, a) = Some v" "smap_wf (Nominations s)" "a \<noteq> b"
    and "PendingUnnominations s = []" "at_block_number s + ShufflingFrequency env * 2 \<le> n"
  shows "\<exists>s1 s2. unnominate env (Signed a) b s = Ok s1 \<and> unnominate env (Signed a) b s1 = Ok s2
    \<and> at_ext (snd (process_pending_unnominations env n w s2))
      = unreserve env a v (unreserve env a v (at_ext s))"
proof -
  let ?u = "(b, v, at_block_number s + ShufflingFrequency env * 2)"
  let ?s1 = "push_unnomination a ?u s"
  let ?s2 = "push_unnomination a ?u ?s1"
  note find = find_nomination [OF assms(2,1)]
  have n: "nominations_of ?s1 b = nominations_of s b" "at_block_number ?s1 = at_block_number s"
    by (simp_all add: nominations_of_def push_unnomination_def)
  have 1: "unnominate env (Signed a) b s = Ok ?s1"
    by (simp add: unnominate_def ensure_signed_def find ok_or_def)
  have 2: "unnominate env (Signed a) b ?s1 = Ok ?s2"
    by (simp add: unnominate_def ensure_signed_def n find ok_or_def)
  have p: "PendingUnnominations ?s2 = [(a, [?u, ?u])]"
    using assms(4) by (simp add: push_unnomination_def opt_list_def smap_get_def)
  have e: "at_ext ?s2 = at_ext s" by (simp add: push_unnomination_def)
  have "at_ext (snd (process_unnominations_of env n (a, [?u, ?u]) (w', ?s2)))
      = unreserve env a v (unreserve env a v (at_ext s))" for w'
    using assms(3,5) e
    by (simp add: process_unnominations_of_def unnominate_due_def case_prod_beta Let_def)
  then show ?thesis using 1 2 by (simp add: process_pending_unnominations_def p)
qed

theorem unnominate_releases_twice_witness:
  "\<exists>s1 s2. unnominate sample_attesters_env (Signed sample_nominator) sample_attester sample_attesters = Ok s1
    \<and> unnominate sample_attesters_env (Signed sample_nominator) sample_attester s1 = Ok s2
    \<and> at_ext (snd (process_pending_unnominations sample_attesters_env 2000 0 s2)) sample_nominator = 1040"
proof -
  from unnominate_releases_twice [of sample_attesters sample_attester sample_nominator 20 sample_attesters_env 2000 0]
  obtain s1 s2 where "unnominate sample_attesters_env (Signed sample_nominator) sample_attester sample_attesters = Ok s1"
    "unnominate sample_attesters_env (Signed sample_nominator) sample_attester s1 = Ok s2"
    "at_ext (snd (process_pending_unnominations sample_attesters_env 2000 0 s2))
      = unreserve sample_attesters_env sample_nominator 20 (unreserve sample_attesters_env sample_nominator 20 (at_ext sample_attesters))"
    by (auto simp: sample_attesters_simps smap_get_def smap_wf_def sample_attester_def sample_nominator_def)
  moreover from this(3) have "at_ext (snd (process_pending_unnominations sample_attesters_env 2000 0 s2)) sample_nominator = 1040"
    by (simp add: sample_attesters_simps sample_rewards_def sample_state_def)
  ultimately show ?thesis by blast
qed

lemma do_nominate_infos: "do_nominate env a b v s = Ok s' \<Longrightarrow> AttesterInfos s' = AttesterInfos s"
  by (auto simp: do_nominate_def Let_def res_simps at_err_def split: if_splits)

text \<open>the index of a new attester is the number of registered attesters, so after a deregistration it can be the
  index of another attester; the two then cannot both sign a batch.\<close>

theorem register_reuses_index:
  assumes "do_register_attester env a v k1 k2 k3 c s = Ok s'" "smap_get (AttesterInfos s) b = Some info"
    and "unat (a_index info) = length (AttesterInfos s)"
  shows "\<exists>info'. a \<noteq> b \<and> smap_get (AttesterInfos s') a = Some info' \<and> smap_get (AttesterInfos s') b = Some info
    \<and> a_index info' = a_index info"
proof -
  have i: "of_nat (length (AttesterInfos s)) = a_index info" unfolding assms(3) [symmetric] by simp
  let ?info = "\<lparr>key_ed = k2, key_ec = k1, key_sr = k3,
      commission = (case c of Some c \<Rightarrow> c | None \<Rightarrow> DefaultCommission env), a_index = a_index info\<rparr>"
  from assms(1) obtain s1 where "\<not> smap_contains (AttesterInfos s) a" and s': "s' = at_event (AttesterRegistered a) s1"
    and s1: "do_nominate env a a v (s\<lparr>AttesterInfos := smap_insert a ?info (AttesterInfos s)\<rparr>) = Ok s1"
    by (auto simp: do_register_attester_def Let_def res_simps at_err_def i split: if_splits)
  moreover have "AttesterInfos s' = smap_insert a ?info (AttesterInfos s)"
    using do_nominate_infos [OF s1] by (simp add: s')
  moreover from calculation(1) have "a \<noteq> b" using assms(2) by (auto simp: smap_contains_def)
  ultimately show ?thesis using assms(2) by simp
qed

theorem register_reuses_index_witness:
  "\<exists>s' info'. do_register_attester sample_attesters_env sample_nominator 50 [] [] [] None sample_attesters = Ok s'
    \<and> smap_get (AttesterInfos s') sample_nominator = Some info' \<and> a_index info' = 1
    \<and> smap_get (AttesterInfos s') sample_attester = Some (sample_info 1)"
proof -
  obtain s' where s': "do_register_attester sample_attesters_env sample_nominator 50 [] [] [] None sample_attesters = Ok s'"
    by (simp add: do_register_attester_def do_nominate_def sample_attesters_simps sample_rewards_def sample_rewards_env_def
        sample_state_def plain_env_def smap_contains_def sample_attester_def sample_nominator_def Let_def smap_get_def)
  have "smap_get (AttesterInfos sample_attesters) sample_attester = Some (sample_info 1)"
    "unat (a_index (sample_info 1)) = length (AttesterInfos sample_attesters)"
    by (simp_all add: sample_attesters_def sample_info_def smap_get_def)
  from register_reuses_index [OF s' this] show ?thesis using s' by (auto simp: sample_info_def)
qed

section \<open>Shuffling\<close>

lemma random_index_le: "random_index bs i \<le> i"
proof -
  have "acc \<le> i \<Longrightarrow> foldl (\<lambda>acc v. (acc + unat v) mod (i + 1)) acc bs \<le> i" for acc
    by (induction bs arbitrary: acc) (simp_all add: less_Suc_eq_le [symmetric])
  then show ?thesis by (simp add: random_index_def)
qed

lemma shuffle_step_mset:
  assumes "i < length xs"
  shows "mset (shuffle_step env x i xs) = mset xs \<and> length (shuffle_step env x i xs) = length xs"
  using assms random_index_le [of "random_value env x i" i]
  by (simp add: shuffle_step_def list_swap_def Let_def mset_swap)

lemma shuffle_mset: "mset (shuffle_active_set env x xs) = mset xs"
proof -
  have "mset (fold (shuffle_step env x) is ys) = mset ys" if "\<forall>i \<in> set is. i < length ys" for "is" ys
    using that by (induction "is" arbitrary: ys) (simp_all add: shuffle_step_mset)
  from this [of "rev [1..<length xs]" xs] show ?thesis by (simp add: shuffle_active_set_def)
qed



end
