(* ===== verification/Xdns_Properties.thy ===== *)
theory Xdns_Properties
  imports Xdns_Invariant Circuit_Lifecycle Attesters_Properties
begin

text \<open>
  What the registry and the portal guarantee: the invariant in reachable states, the hook over the
  verifiers together with the circuit's queues, timeouts on the slowest target, the activity the
  circuit sees, the registration of a gateway; and four defects, in the reboot of the own gateway,
  the topology, the check of heartbeats and the lookup of tokens.
\<close>

section \<open>Definitions\<close>

text \<open>The light clients answer with a value or an error: \<open>get_latest_heartbeat\<close> returns a \<open>Result\<close>.\<close>

definition heartbeats_return :: "'y xdns_env \<Rightarrow> bool" where
  "heartbeats_return env \<longleftrightarrow>
     (\<forall>v lc y. select_light_client env v = Some lc \<longrightarrow> lc_latest_heartbeat lc y \<noteq> Panic)"

text \<open>The standard ABIs as the reboot stores them.\<close>

definition standards :: "(Sfx4bId, SFXAbi) smap" where
  "standards = fold (\<lambda>(k, abi). smap_insert k abi) standard_sfx_abi smap_empty"

text \<open>
  A small runtime: the assets that exist are a list, one light client that was last heard of in block
  90 serves Ethereum, and the circuit's money stands still.
\<close>

definition sample_light_client :: "AssetId list light_client" where
  "sample_light_client =
     \<lparr>lc_latest_finalized_header = (\<lambda>y. None), lc_fast_height = (\<lambda>y. Height 60), lc_rational_height = (\<lambda>y. Height 55),
      lc_finalized_height = (\<lambda>y. Height 50),
      lc_latest_heartbeat = (\<lambda>y. Ok \<lparr>last_heartbeat = 90, last_finalized_height = 50, last_rational_height = 55,
         last_fast_height = 60, hb_is_halted = False, ever_initialized = True\<rparr>),
      lc_initialize = (\<lambda>og g d y. Ok y),
      lc_verify_event_inclusion = (\<lambda>y g m src msg. Ok \<lparr>receipt_height = 50, including_header = [], receipt_message = msg\<rparr>),
      lc_verify_state_inclusion = (\<lambda>y g m msg. Err BadOrigin), lc_verify_tx_inclusion = (\<lambda>y g m msg. Err BadOrigin)\<rparr>"

definition sample_registry_env :: "AssetId list xdns_env" where
  "sample_registry_env =
     \<lparr>SelfTokenId = 0, SelfGatewayId = [3, 3, 3, 3], xd_treasury_account = (\<lambda>_. replicate 32 9), xd_minimum_balance = 1,
      contains_asset = (\<lambda>y a. a \<in> set y),
      force_create_asset = (\<lambda>og a who b y. if a \<in> set y then Err BadOrigin else Ok (a # y)),
      mint_asset = (\<lambda>og a who b y. Ok y), burn_asset = (\<lambda>og a who b y. Ok y),
      destroy_asset = (\<lambda>og a y. Ok (removeAll a y)), decode_topology = (\<lambda>bs. None),
      select_light_client = (\<lambda>v. if v = Ethereum then Some sample_light_client else None)\<rparr>"

definition own_gateway :: GatewayRecord where
  "own_gateway = \<lparr>gw_id = [3, 3, 3, 3], gw_verification_vendor = Polkadot, gw_execution_vendor = Vendor_Substrate,
     gw_codec = Scale, gw_registrant = None, gw_escrow_account = None, gw_allowed_side_effects = []\<rparr>"

definition eth_gateway :: GatewayRecord where
  "eth_gateway = \<lparr>gw_id = [1, 2, 3, 4], gw_verification_vendor = Ethereum, gw_execution_vendor = Vendor_EVM,
     gw_codec = Rlp, gw_registrant = None, gw_escrow_account = None, gw_allowed_side_effects = []\<rparr>"

definition sample_registry :: "AssetId list xdns_state" where
  "sample_registry = xdns_genesis [own_gateway, eth_gateway] [] (xdns_empty [])"

definition reported_registry :: "AssetId list xdns_state" where
  "reported_registry = snd (record_verifier_activity 110 Ethereum 2
     \<lparr>last_heartbeat = 110, last_finalized_height = 58, last_rational_height = 60, last_fast_height = 62,
      hb_is_halted = False, ever_initialized = True\<rparr>
     (snd (record_verifier_activity 100 Ethereum 1
       \<lparr>last_heartbeat = 100, last_finalized_height = 50, last_rational_height = 55, last_fast_height = 60,
        hb_is_halted = False, ever_initialized = True\<rparr> sample_registry)))"

definition idle_circuit_env :: "AssetId list xdns_state circuit_env" where
  "idle_circuit_env =
     \<lparr>am_cfg = \<lparr>minimum_balance = 1, free_balance = (\<lambda>x a. 0), deposit_creating = (\<lambda>a b x. x),
        currency_withdraw = (\<lambda>a b x. Err BadOrigin), increase_balance = (\<lambda>i a b x. x),
        assets_can_withdraw = (\<lambda>i a b x. False), decrease_balance = (\<lambda>i a b x. Err BadOrigin),
        asset_balance_of = (\<lambda>b. b), EscrowAccount = replicate 32 9, execution_id_hash = (\<lambda>n. None)\<rparr>,
      keccak = (\<lambda>bs. bs), hashing = (\<lambda>bs. bs), XtxTimeoutDefault = 400, SFXBiddingPeriod = 3, SignalQueueDepth = 5,
      db_read = 1, db_write = 2, account_nonce = (\<lambda>x a. 7), existential_deposit = 1,
      currency_transfer = (\<lambda>a b v x. Err BadOrigin), treasury_account = (\<lambda>t. replicate 32 9),
      read_last_activity = (\<lambda>x t. None), gateway_max_security_lvl = (\<lambda>x t. Optimistic), get_sfx_abi = (\<lambda>x t a. None),
      get_target_codec = (\<lambda>x t. Ok Scale), estimate_adaptive_timeout = (\<lambda>x ts m e. new_emergency e),
      get_finalized_height = (\<lambda>x t. Ok NotActive), verify_event_inclusion = (\<lambda>x t m src msg. Err BadOrigin),
      estimate_finality_fee = (\<lambda>x t. 0), request_sfx_attestation_commit = (\<lambda>t k p x. (True, x)),
      request_sfx_attestation_revert = (\<lambda>t k x. (True, x)), abi_cfg = sample_codec,
      decode_account = (\<lambda>b. Some b), decode_balance = (\<lambda>b. Some 1), decode_asset = (\<lambda>b. Some 1),
      encode_u32 = u32_to_le_bytes\<rparr>"

definition registry_circuit :: "AssetId list xdns_state \<Rightarrow> AssetId list xdns_state circuit_state" where
  "registry_circuit x =
     \<lparr>StorageMigrations = 1, GMP = [], SFX2XTXLinksMap = [], PendingXtxTimeoutsMap = [],
      PendingXtxBidsTimeoutsMap = [], FinalizedXtx = [], XExecSignals = [], LocalXtxStates = [],
      FullSideEffects = [], DLQ = [], SignalQueue = [], circuit_events = [],
      account_manager = \<lparr>PendingCharges = [], SettlementsPerRound = (\<lambda>_. []), ContractsRegistryExecutionNonce = 0,
        am_events = [], CurrentRound = round_default, ledger = x\<rparr>, block_number = 120\<rparr>"

section \<open>Reports and the circuit's queues\<close>

lemma process_single_safe:
  assumes "circuit_inv c"
  shows "\<exists>w c'. process_single_verifier_overview cenv n v e hb c = Ok (w, c') \<and> (circuit_step cenv)\<^sup>*\<^sup>* c c'"
proof -
  obtain activated x where rec: "record_verifier_activity n v e hb (ext c) = (activated, x)"
    by (cases "record_verifier_activity n v e hb (ext c)")
  have s1: "circuit_step cenv c (set_ext x c)" unfolding set_ext_def by (rule circuit_step.other_pallets)
  obtain w1 c2 where dlq: "(if activated then process_dlq cenv n (set_ext x c) else (0, set_ext x c)) = (w1, c2)"
    by (cases "if activated then process_dlq cenv n (set_ext x c) else (0, set_ext x c)")
  have s2: "(circuit_step cenv)\<^sup>*\<^sup>* (set_ext x c) c2"
  proof (cases activated)
    case True
    with dlq have "exec_op cenv (Process_Dlq n) (set_ext x c) = Ok c2" by simp
    then have "circuit_step cenv (set_ext x c) c2"
      by (rule circuit_step.operation) (simp add: fresh_submission_def)
    then show ?thesis by blast
  qed (use dlq in simp)
  have path: "(circuit_step cenv)\<^sup>*\<^sup>* c c2" using s1 s2 by (rule converse_rtranclp_into_rtranclp)
  have "circuit_inv c2" by (rule circuit.steps_inv [OF path assms])
  then obtain w2 c3 where q: "process_adaptive_xtx_timeout_queue cenv n v c2 = Ok (w2, c3)"
    using process_adaptive_xtx_timeout_queue_total by blast
  then have "exec_op cenv (Adaptive_Queue n v) c2 = Ok c3" by (simp add: hook_result_def)
  then have "circuit_step cenv c2 c3"
    by (rule circuit_step.operation) (simp add: fresh_submission_def)
  with path have "(circuit_step cenv)\<^sup>*\<^sup>* c c3" by (rule rtranclp.rtrancl_into_rtrancl)
  with q show ?thesis by (simp add: process_single_verifier_overview_def rec dlq)
qed

lemma manual_overview_one_safe:
  assumes "circuit_inv c" "heartbeats_return env"
  shows "\<exists>w' c'. manual_overview_one env cenv latest n v (w, c) = Ok (w', c') \<and> (circuit_step cenv)\<^sup>*\<^sup>* c c'"
proof (cases "overview_due latest n (ext c) v")
  case True
  from assms(2) obtain h where h: "(get_latest_heartbeat_by_vendor env (ext c) v :: (CircuitError, _) res) = Ok h"
    unfolding get_latest_heartbeat_by_vendor_def heartbeats_return_def
    by (cases "select_light_client env v"; cases "lc_latest_heartbeat (the (select_light_client env v)) (xd_ext (ext c))") auto
  let ?h = "if v = XBI then h\<lparr>last_finalized_height := block_number c, last_rational_height := block_number c,
      last_fast_height := block_number c, last_heartbeat := block_number c, ever_initialized := True\<rparr> else h"
  obtain w1 c1 where one: "process_single_verifier_overview cenv n v (last_finalized_height h) ?h c = Ok (w1, c1)"
    "(circuit_step cenv)\<^sup>*\<^sup>* c c1"
    using process_single_safe [OF assms(1)] by blast
  have "manual_overview_one env cenv latest n v (w, c) = Ok (weight_add w w1, c1)"
    unfolding manual_overview_one_def using True h one(1) by (simp only: Let_def case_prod_conv bind_res_simps) simp
  with one(2) show ?thesis by blast
qed (simp add: manual_overview_one_def)

lemma manual_overviews_safe:
  assumes "circuit_inv c" "heartbeats_return env"
  shows "\<exists>w' c'. fold_res (manual_overview_one env cenv latest n) vs (w, c) = Ok (w', c') \<and> (circuit_step cenv)\<^sup>*\<^sup>* c c'"
  using assms(1)
proof (induction vs arbitrary: w c)
  case (Cons v vs)
  obtain w1 c1 where one: "manual_overview_one env cenv latest n v (w, c) = Ok (w1, c1)" "(circuit_step cenv)\<^sup>*\<^sup>* c c1"
    using manual_overview_one_safe [OF Cons.prems assms(2)] by blast
  from Cons.IH [OF circuit.steps_inv [OF one(2) Cons.prems], of w1] one show ?case
    by (auto intro: rtranclp_trans)
qed simp

text \<open>C15: the hook that asks every finality verifier for a report that is due never panics in a reachable state of the
  circuit, provided the verifiers do not, although it runs the dead letter queue and the timeouts of the circuit for
  every verifier; what it does to the circuit is a sequence of the circuit's own steps.\<close>

theorem verifier_overviews_return:
  assumes "circuit_initial c0" "(circuit_step cenv)\<^sup>*\<^sup>* c0 c" "heartbeats_return env"
  shows "\<exists>w c'. check_for_manual_verifier_overview_process env cenv n c = Ok (w, c')
    \<and> (circuit_step cenv)\<^sup>*\<^sup>* c0 c'"
  using manual_overviews_safe [OF circuit.reachable_inv [OF assms(1,2)] assms(3), where vs = vendors] assms(2)
  unfolding check_for_manual_verifier_overview_process_def by (meson rtranclp_trans)

section \<open>Timeouts\<close>

lemma max_by_key_Some:
  "xs \<noteq> [] \<Longrightarrow> \<exists>x. max_by_key f xs = Some x \<and> x \<in> set xs \<and> (\<forall>y \<in> set xs. f y \<le> f x)"
proof (induction xs)
  case (Cons a xs)
  show ?case
  proof (cases "xs = []")
    case False
    with Cons.IH obtain x where "max_by_key f xs = Some x" "x \<in> set xs" "\<forall>y \<in> set xs. f y \<le> f x" by blast
    then show ?thesis by auto
  qed simp
qed simp

lemma saturating_add_ge: "a \<le> saturating_add a b \<and> a \<le> saturating_add b a" for a b :: "'a::len word"
proof -
  have "unat a < 2 ^ LENGTH('a)" by (rule unsigned_less)
  then have "unat a \<le> 2 ^ LENGTH('a) - 1" by linarith
  then show ?thesis unfolding word_le_nat_alt unat_saturating_add by simp
qed

lemma slowest_target:
  assumes "t \<in> set targets" "smap_get (Gateways s) t = Some r"
  shows "\<exists>v g here there. get_slowest_verifier_target s targets speed em = Some (v, g, here, there)
    \<and> g \<in> set targets \<and> get_verification_vendor s g = Ok v
    \<and> fst (calculate_offsets (gw_verification_vendor r) speed em (smap_get (EpochHistory s) (gw_verification_vendor r))) \<le> here
    \<and> (here, there) = calculate_offsets v speed em (smap_get (EpochHistory s) v)"
proof -
  let ?vs = "List.map_filter (\<lambda>t. map_option (\<lambda>r. (gw_verification_vendor r, t)) (smap_get (Gateways s) t)) targets"
  let ?off = "\<lambda>p. (fst p, snd p, calculate_offsets (fst p) speed em (smap_get (EpochHistory s) (fst p)))"
  let ?key = "\<lambda>x. fst (snd (snd x))"
  let ?xs = "map ?off (sorted_list_of_set (set ?vs))"
  have vs: "(v, g) \<in> set ?vs \<longleftrightarrow> g \<in> set targets \<and> get_verification_vendor s g = Ok v" for v g
    by (force simp: map_filter_def get_verification_vendor_def res_simps)
  have t: "(gw_verification_vendor r, t) \<in> set ?vs" using assms by (simp add: vs get_verification_vendor_def)
  have set_xs: "set ?xs = ?off ` set ?vs" by simp
  with t have "?xs \<noteq> []" by auto
  from max_by_key_Some [OF this, of ?key] obtain x where x: "max_by_key ?key ?xs = Some x" "x \<in> set ?xs"
    "\<forall>y \<in> set ?xs. ?key y \<le> ?key x" by blast
  from x(2) obtain v g where vg: "(v, g) \<in> set ?vs" "x = ?off (v, g)" unfolding set_xs by auto
  have "?off (gw_verification_vendor r, t) \<in> set ?xs" unfolding set_xs by (rule imageI [OF t])
  with x(3) have "?key (?off (gw_verification_vendor r, t)) \<le> ?key x" by blast
  moreover have "get_slowest_verifier_target s targets speed em = Some x"
    using x(1) by (simp only: get_slowest_verifier_target_def case_prod_beta')
  ultimately show ?thesis
    using vg(1) unfolding vs vg(2)
    by (intro exI [of _ v] exI [of _ g] exI [of _ "?key x"] exI [of _ "snd (snd (snd x))"]) (simp add: vg(2))
qed


section \<open>Activity\<close>

lemma find_activity:
  assumes "\<And>g r. (g, r) \<in> set gs \<Longrightarrow> gw_id r = g"
  shows "list_find (\<lambda>a. ga_gateway_id a = t) (map (\<lambda>(_, r). gateway_activity at n s r) gs)
    = map_option (gateway_activity at n s) (smap_get gs t)"
  using assms
proof (induction gs)
  case (Cons p gs)
  obtain g r where p: "p = (g, r)" by (cases p)
  with Cons.prems have "gw_id r = g" by simp
  then have "ga_gateway_id (gateway_activity at n s r) = g" by (simp add: gateway_activity_def Let_def)
  moreover have "list_find (\<lambda>a. ga_gateway_id a = t) (map (\<lambda>(_, r). gateway_activity at n s r) gs)
      = map_option (gateway_activity at n s) (smap_get gs t)"
    by (rule Cons.IH) (use Cons.prems in \<open>meson list.set_intros(2)\<close>)
  ultimately show ?case by (simp add: p smap_get_def)
qed (simp add: smap_get_def)


text \<open>C21: a heartbeat counts as recent only when it is old.  A gateway whose light client has just reported is refused for
  every positive tolerance, and a gateway that is accepted stays accepted for good when its light client stops.\<close>

theorem verify_active_needs_old_heartbeat:
  assumes "get_latest_heartbeat env s g = Ok h"
  shows "(unat n < unat (last_heartbeat h) + unat tolerance \<longrightarrow> tolerance \<noteq> 0
      \<longrightarrow> verify_active env at n s g tolerance lvl = Err (Xdns_Error Xdns_GatewayNotActive))
    \<and> (verify_active env at n s g tolerance lvl = Ok h \<longrightarrow> n \<le> m \<longrightarrow> verify_active env at m s g tolerance lvl = Ok h)"
proof -
  have sub: "saturating_sub a b < tolerance \<longleftrightarrow> unat a - unat b < unat tolerance" for a b
    by (simp add: word_less_nat_alt unat_saturating_sub)
  have pos: "tolerance \<noteq> 0 \<longleftrightarrow> 0 < unat tolerance" by (simp add: unat_gt_0)
  show ?thesis using assms unfolding pos
    by (auto simp: verify_active_def sub word_le_nat_alt res_simps split: if_splits)
qed

section \<open>The own gateway\<close>

lemma smap_get_refresh:
  "smap_get (refresh_standard (k, abi) m) (g, j) =
     map_option (\<lambda>old. if j = k then abi\<lparr>maybe_prefix_memo := maybe_prefix_memo old\<rparr> else old) (smap_get m (g, j))"
  unfolding smap_get_def refresh_standard_def by (induction m) auto

lemmas action_ids = TRANSFER_SIDE_EFFECT_ID_def ASSETS_TRANSFER_SIDE_EFFECT_ID_def DDD_ACTION_def DATA_SIDE_EFFECT_ID_def
  SWAP_SIDE_EFFECT_ID_def ADD_LIQUIDITY_SIDE_EFFECT_ID_def EVM_CALL_SIDE_EFFECT_ID_def WASM_CALL_SIDE_EFFECT_ID_def

lemma refreshed_transfer:
  "smap_get (fold refresh_standard standard_sfx_abi m) (g, TRANSFER_SIDE_EFFECT_ID) =
     map_option (\<lambda>old. get_sfx_transfer_abi\<lparr>maybe_prefix_memo := maybe_prefix_memo old\<rparr>)
       (smap_get m (g, TRANSFER_SIDE_EFFECT_ID))"
  by (cases "smap_get m (g, TRANSFER_SIDE_EFFECT_ID)")
    (simp_all add: standard_sfx_abi_def smap_get_refresh action_ids)

lemma standards_get: "smap_get standards k = map_of (rev standard_sfx_abi) k"
proof -
  have "smap_get (fold (\<lambda>(k, abi). smap_insert k abi) xs m) k =
      (case map_of (rev xs) k of Some v \<Rightarrow> Some v | None \<Rightarrow> smap_get m k)"
    for xs and m :: "(Sfx4bId, SFXAbi) smap"
    by (induction xs arbitrary: m) (auto split: option.split simp: map_add_def)
  then show ?thesis by (simp add: standards_def split: option.split)
qed

lemma self_side_effects_standard:
  "self_side_effects (s\<lparr>StandardSFXABIs := standards\<rparr>) =
     [(TRANSFER_SIDE_EFFECT_ID, Some BALANCES_INDEX), (TRANSFER_SIDE_EFFECT_ID, Some ASSETS_INDEX),
      (TRANSFER_SIDE_EFFECT_ID, Some ASSETS_INDEX), (EVM_CALL_SIDE_EFFECT_ID, Some EVM_INDEX),
      (WASM_CALL_SIDE_EFFECT_ID, Some WASM_INDEX)]"
  by (simp add: self_side_effects_def smap_contains_def standards_get standard_sfx_abi_def action_ids)

lemma balances_event_refused:
  "validate_arguments_against_received cenv (get_sfx_transfer_abi\<lparr>maybe_prefix_memo := Some ASSETS_INDEX\<rparr>) args
     (BALANCES_INDEX # payload) Scale Scale \<noteq> Ok ()"
proof (cases "length (BALANCES_INDEX # payload) < 82")
  case True
  from transfer_fill_short [OF this] obtain e
    where "try_fill_abi cenv balances_transfer (BALANCES_INDEX # payload) Scale = Err e" by blast
  then show ?thesis by (auto simp: validate_arguments_against_received_def transfer_abi_facts res_simps)
next
  case False
  then obtain m ev frm dest amt rest where payload: "BALANCES_INDEX # payload = m # ev # frm @ dest @ amt @ rest"
    and len: "length frm = 32" "length dest = 32" "length amt = 16"
    by (rule split_transfer)
  then have "m = BALANCES_INDEX" by simp
  then show ?thesis unfolding payload transfer_confirmation [OF len] by (simp add: BALANCES_INDEX_def ASSETS_INDEX_def)
qed

text \<open>C19: rebooting the gateway of the chain itself makes the caller its registrant and escrow account, whoever signs it, and
  leaves it with a transfer ABI that expects events of the assets pallet: no event of the balances pallet confirms a
  transfer on the own chain afterwards.\<close>

theorem reboot_self_gateway:
  assumes "do_reboot_self_gateway env (Signed who) vendor s = Ok s'"
  shows "(\<exists>r. smap_get (Gateways s') (SelfGatewayId env) = Some r
        \<and> gw_registrant r = Some who \<and> gw_escrow_account r = Some who)
    \<and> (\<exists>abi. xd_get_sfx_abi s' (SelfGatewayId env) TRANSFER_SIDE_EFFECT_ID = Some abi
        \<and> maybe_prefix_memo abi = Some ASSETS_INDEX
        \<and> (\<forall>cenv args payload. validate_arguments_against_received cenv abi args (BALANCES_INDEX # payload) Scale Scale \<noteq> Ok ()))"
proof -
  let ?s = "s\<lparr>StandardSFXABIs := standards\<rparr>"
  let ?r = "\<lparr>gw_id = SelfGatewayId env, gw_verification_vendor = vendor, gw_execution_vendor = Vendor_Substrate,
     gw_codec = Scale, gw_registrant = Some who, gw_escrow_account = Some who,
     gw_allowed_side_effects = self_side_effects ?s\<rparr>"
  from assms obtain s2 where s2: "override_gateway ?r ?s = Ok s2"
    and s': "s' = s2\<lparr>SFXABIRegistry := fold refresh_standard standard_sfx_abi (SFXABIRegistry s2)\<rparr>"
    by (auto simp: do_reboot_self_gateway_def admin_of_def ensure_signed_or_root_def standards_def res_simps Let_def)
  have "smap_get (SFXABIRegistry s2) (SelfGatewayId env, TRANSFER_SIDE_EFFECT_ID) =
      Some (get_sfx_transfer_abi\<lparr>maybe_prefix_memo := Some ASSETS_INDEX\<rparr>)"
    and gw: "smap_get (Gateways s2) (SelfGatewayId env) = Some ?r"
    using s2 unfolding override_gateway_def
    by (auto simp: self_side_effects_standard standards_get standard_sfx_abi_def action_ids xd_event_def split: prod.splits bool.splits)
  then have "xd_get_sfx_abi s' (SelfGatewayId env) TRANSFER_SIDE_EFFECT_ID
      = Some (get_sfx_transfer_abi\<lparr>maybe_prefix_memo := Some ASSETS_INDEX\<rparr>)"
    by (simp add: s' xd_get_sfx_abi_def refreshed_transfer)
  with gw balances_event_refused show ?thesis by (simp add: s')
qed

section \<open>Topology\<close>

text \<open>Once an asset of the topology is unzipped, it is known and linked, and stays so.\<close>

definition unzipped :: "'y xdns_env \<Rightarrow> AssetId \<Rightarrow> 'y xdns_state \<Rightarrow> bool" where
  "unzipped env t s \<longleftrightarrow> t \<in> set (AllTokenIds s) \<and> smap_contains (Tokens s) (t, SelfGatewayId env)"

lemma link_token_Ok:
  "link_token_to_gateway env t g props s = Ok s' \<longleftrightarrow> smap_contains (Gateways s) g \<and> \<not> smap_contains (Tokens s) (t, g)
     \<and> contains_asset env (xd_ext s) t \<and> s' = override_token t g props s"
  by (auto simp: link_token_to_gateway_def)

lemma override_token_fields [simp]:
  "Gateways (override_token t g props s) = Gateways s"
  "SFXABIRegistry (override_token t g props s) = SFXABIRegistry s"
  "xd_ext (override_token t g props s) = xd_ext s"
  "Tokens (override_token t g props s) =
     smap_insert (t, g) \<lparr>tok_id = t, tok_gateway = g, tok_props = props\<rparr> (Tokens s)"
  "AllTokenIds (override_token t g props s) =
     (if t \<in> set (AllTokenIds s) then AllTokenIds s else AllTokenIds s @ [t])"
  "t \<in> set (list_at (GatewayTokens (override_token t g props s)) g)"
  by (auto simp: override_token_def Let_def xd_event_def)

lemma register_new_token_Ok:
  assumes "register_new_token env origin t props s = Ok s'"
  shows "t \<notin> set (AllTokenIds s)" "\<not> contains_asset env (xd_ext s) t" "AllTokenIds s' = AllTokenIds s @ [t, t]"
    "Tokens s' = smap_insert (t, SelfGatewayId env)
       \<lparr>tok_id = t, tok_gateway = SelfGatewayId env, tok_props = props\<rparr> (Tokens s)"
    "Gateways s' = Gateways s" "SFXABIRegistry s' = SFXABIRegistry s" "smap_contains (Gateways s) (SelfGatewayId env)"
  using assms
  by (auto simp: register_new_token_def res_simps xd_event_def link_token_Ok split: if_splits)

lemma unzip_asset_unzips:
  assumes "unzip_asset env origin a s = Ok s'" "tok_gateway a = SelfGatewayId env"
  shows "unzipped env (tok_id a) s'"
  using assms register_new_token_Ok [of env origin "tok_id a" "tok_props a" s s']
  by (auto simp: unzip_asset_def unzipped_def link_token_Ok split: if_splits)

lemma unzip_asset_twice:
  assumes "unzipped env (tok_id a) s" "tok_gateway a = SelfGatewayId env"
  shows "unzip_asset env origin a s \<noteq> Ok s'"
  using assms by (auto simp: unzip_asset_def unzipped_def link_token_Ok)

lemma fold_res_append:
  "fold_res f (xs @ ys) s = bind_res (fold_res f xs s) (fold_res f ys)"
proof (induction xs arbitrary: s)
  case (Cons x xs)
  then show ?case by (cases "f x s") simp_all
qed simp

text \<open>C20: registering a token lists it twice, so the topology that is zipped afterwards names it twice and cannot be unzipped
  again, on this chain or on any other that has the same own gateway.\<close>

theorem zipped_topology_rejected:
  assumes "register_new_token env origin t props s = Ok s'" "SelfGatewayId env' = SelfGatewayId env"
  shows "do_unzip_topology env' origin' (do_zip_topology env s') s0 \<noteq> Ok s1"
proof
  let ?tok = "\<lparr>tok_id = t, tok_gateway = SelfGatewayId env, tok_props = props\<rparr>"
  note reg = register_new_token_Ok [OF assms(1)]
  obtain rest where assets: "topo_assets (do_zip_topology env s') = rest @ [?tok, ?tok]"
    by (simp add: do_zip_topology_def reg(3,4) map_filter_simps map_filter_def)
  assume "do_unzip_topology env' origin' (do_zip_topology env s') s0 = Ok s1"
  then obtain s2 where "fold_res (unzip_asset env' origin') (rest @ [?tok, ?tok]) s2 = Ok s1"
    by (auto simp: do_unzip_topology_def assets res_simps)
  then obtain s3 s4 where "unzip_asset env' origin' ?tok s3 = Ok s4" and again: "unzip_asset env' origin' ?tok s4 = Ok s1"
    by (auto simp: fold_res_append res_simps)
  then have "unzipped env' (tok_id ?tok) s4" using assms(2) by (intro unzip_asset_unzips) simp_all
  with again show False using unzip_asset_twice [of env' ?tok s4] assms(2) by simp
qed

section \<open>Registering a gateway\<close>

lemma populate_other:
  "populate_abis g ks s = (b, s') \<Longrightarrow> Gateways s' = Gateways s \<and> Tokens s' = Tokens s \<and> AllTokenIds s' = AllTokenIds s
     \<and> xd_ext s' = xd_ext s"
  by (drule populate_abis_frame) (metis xdns_state.select_convs xdns_state.surjective xdns_state.update_convs(4))

lemma add_new_gateway_Ok:
  assumes "add_new_gateway r s = Ok s'" "smap_wf (SFXABIRegistry s)"
  shows "\<not> smap_contains (Gateways s) (gw_id r)" "Gateways s' = smap_insert (gw_id r) r (Gateways s)"
    "Tokens s' = Tokens s" "AllTokenIds s' = AllTokenIds s" "xd_ext s' = xd_ext s"
    "\<forall>k \<in> fst ` set (gw_allowed_side_effects r). smap_contains (SFXABIRegistry s') (gw_id r, k)"
proof -
  from assms(1) obtain s1 where fresh: "\<not> smap_contains (Gateways s) (gw_id r)"
    and pop: "populate_abis (gw_id r) (gw_allowed_side_effects r) s = (True, s1)"
    and s': "s' = xd_event (GatewayRecordStored (gw_id r))
        (s1\<lparr>Gateways := smap_insert (gw_id r) r (Gateways s1),
            AllGatewayIds := remove1 (gw_id r) (AllGatewayIds s1) @ [gw_id r]\<rparr>)"
    by (auto simp: add_new_gateway_def override_gateway_def split: prod.splits bool.splits if_splits)
  from fresh show "\<not> smap_contains (Gateways s) (gw_id r)" .
  from populate_other [OF pop] populate_abis_registry [OF pop assms(2)]
  show "Gateways s' = smap_insert (gw_id r) r (Gateways s)" "Tokens s' = Tokens s" "AllTokenIds s' = AllTokenIds s"
    "xd_ext s' = xd_ext s"
    "\<forall>k \<in> fst ` set (gw_allowed_side_effects r). smap_contains (SFXABIRegistry s') (gw_id r, k)"
    by (simp_all add: s' xd_event_def)
qed

text \<open>C18: \<open>register_gateway\<close> is open to the root origin only and refuses a gateway that is registered, also the chain's own,
  and an asset that exists.  When it succeeds the gateway is stored as given, every side effect it allows has an ABI, and the new
  token is linked both to the gateway and to the chain itself.\<close>

theorem register_gateway_links:
  assumes "register_gateway env origin r t props data s = Ok (s', g)" "xdns_inv s"
  shows "origin = Root \<and> g = gw_id r \<and> \<not> smap_contains (Gateways s) g \<and> g \<noteq> SelfGatewayId env
    \<and> \<not> contains_asset env (xd_ext s) t
    \<and> smap_get (Gateways s') g = Some r
    \<and> (\<forall>k \<in> fst ` set (gw_allowed_side_effects r). xd_get_sfx_abi s' g k \<noteq> None)
    \<and> (\<forall>h \<in> {g, SelfGatewayId env}. smap_get (Tokens s') (t, h) = Some \<lparr>tok_id = t, tok_gateway = h, tok_props = props\<rparr>
        \<and> t \<in> set (list_at (GatewayTokens s') h))"
proof -
  from assms(1) obtain s1 s2 s3 where root: "origin = Root" "g = gw_id r" and s1: "add_new_gateway r s = Ok s1"
    and s2: "register_new_token env origin t props s1 = Ok s2"
    and s3: "link_token_to_gateway env t (gw_id r) props s2 = Ok s3"
    and s': "(if data \<noteq> [] then portal_initialize env origin (gw_id r) data s3 else Ok s3) = Ok s'"
    by (auto simp: register_gateway_def res_simps)
  have "xdns_inv s3"
    using add_new_gateway_inv [OF s1 assms(2)] register_new_token_inv [OF s2] link_token_to_gateway_inv [OF s3] by blast
  moreover have same: "\<exists>y. s' = s3\<lparr>xd_ext := y\<rparr>"
    using s' by (cases s3) (auto simp: portal_initialize_def res_simps split: if_splits)
  ultimately have inv: "xdns_inv s'" by auto
  note a = add_new_gateway_Ok [OF s1 xdns_inv_wf [OF assms(2)]]
  note b = register_new_token_Ok [OF s2]
  note c = s3 [unfolded link_token_Ok]
  have toks: "smap_get (Tokens s') (t, h) = Some \<lparr>tok_id = t, tok_gateway = h, tok_props = props\<rparr>"
    if "h \<in> {g, SelfGatewayId env}" for h
    using that same b c root(2) by auto
  moreover from toks have "t \<in> set (list_at (GatewayTokens s') h)" if "h \<in> {g, SelfGatewayId env}" for h
    using that inv unfolding xdns_inv_def tokens_inv_def by blast
  moreover have "g \<noteq> SelfGatewayId env" using b(4) c root(2) by auto
  ultimately show ?thesis
    using root a b(2,5,6) same c by (auto simp: xd_get_sfx_abi_def smap_contains_def)
qed

section \<open>Lost tokens\<close>

lemma find_eth_token_Ok:
  assumes "find_eth_token s g addr (xs @ t # ys) = Ok tok" "smap_get (Tokens s) (t, g) = None"
    and "\<And>t tok. smap_get (Tokens s) (t, g) = Some tok \<Longrightarrow> tok_id tok = t"
  shows "tok_id tok \<in> set xs"
  using assms(1)
proof (induction xs)
  case (Cons x xs)
  from Cons.prems obtain rec where rec: "smap_get (Tokens s) (x, g) = Some rec" by (auto simp: res_simps)
  show ?case
  proof (cases "tok_props rec")
    case (Token_Ethereum sym dec a)
    with Cons rec assms(3) show ?thesis by (cases "a = Some addr") auto
  qed (use Cons.prems rec in simp)
qed (use assms(2) in simp)

text \<open>purging a token leaves it in the lists of the gateways, and the search by address gives up at the first listed
  token without a record: of the tokens of a gateway only those listed before the purged one can still be found.\<close>

theorem purge_token_hides_others:
  assumes "purge_token_record env origin t s = Ok s'" "xdns_inv s" "list_at (GatewayTokens s) g = xs @ t # ys"
    and "get_token_by_eth_address s' g addr = Ok tok"
  shows "tok_id tok \<in> set xs"
proof -
  let ?m = "filter (\<lambda>((u, _), _). u \<noteq> t) (Tokens s)"
  have wf: "smap_wf (Tokens s)" using assms(2) by (simp add: xdns_inv_def tokens_inv_def)
  from assms(1) have s': "Tokens s' = ?m" "GatewayTokens s' = GatewayTokens s"
    by (auto simp: purge_token_record_def res_simps)
  have "smap_get ?m (t, g) = None" by (cases "smap_get ?m (t, g)") (auto dest: smap_get_filter [OF wf])
  moreover have "tok_id tok' = u" if "smap_get ?m (u, g) = Some tok'" for u tok'
    using smap_get_filter [OF wf that] assms(2) by (auto simp: xdns_inv_def tokens_inv_def)
  ultimately show ?thesis
    using assms(3,4) by (intro find_eth_token_Ok [of s' g addr xs t ys]) (auto simp: get_token_by_eth_address_def s')
qed

section \<open>Reachable registries\<close>

text \<open>C14: in every state the registry reaches from a genesis through its calls, reports of verifiers, overviews, purges,
  upgrades and changes of other pallets, the list of gateways names each registered gateway once and no other, each record sits
  under its identifier and has an ABI for every side effect it allows, a token record belongs to a registered gateway
  that lists it exactly once, and the histories keep at most 1000 reports and 11 epoch estimates.\<close>

theorem xdns_invariant:
  assumes "xdns_initial s0" "(xdns_step env at)\<^sup>*\<^sup>* s0 s"
  shows "distinct (AllGatewayIds s) \<and> set (AllGatewayIds s) = {g. smap_contains (Gateways s) g}
    \<and> (\<forall>g r. smap_get (Gateways s) g = Some r \<longrightarrow> gw_id r = g
        \<and> (\<forall>k \<in> fst ` set (allowed_side_effects s g). xd_get_sfx_abi s g k \<noteq> None))
    \<and> (\<forall>t g tok. smap_get (Tokens s) (t, g) = Some tok \<longrightarrow> tok_id tok = t \<and> tok_gateway tok = g
        \<and> smap_contains (Gateways s) g \<and> t \<in> set (list_at (GatewayTokens s) g) \<and> distinct (list_at (GatewayTokens s) g))
    \<and> (\<forall>v. length (list_at (VerifierOverviewStoreHistory s) v) \<le> 1000 \<and> length (list_at (EpochHistory s) v) \<le> 11)"
proof -
  have "xdns_inv s" by (rule xdns_registry.reachable_inv [OF assms])
  then show ?thesis
    by (auto simp: xdns_inv_def gateways_inv_def tokens_inv_def histories_inv_def MAX_GATEWAY_OVERVIEW_RECORDS_def
        allowed_side_effects_def xd_get_sfx_abi_def smap_contains_def split: option.splits)
qed

section \<open>Examples\<close>

lemmas registry_eval = sample_registry_env_def own_gateway_def eth_gateway_def xdns_empty_def xdns_genesis_def
  genesis_gateway_def override_gateway_def xd_event_def smap_contains_def list_at_def

lemma sample_registry_eq:
  "sample_registry = (xdns_empty [])\<lparr>Gateways := [([1, 2, 3, 4], eth_gateway), ([3, 3, 3, 3], own_gateway)],
     AllGatewayIds := [[3, 3, 3, 3], [1, 2, 3, 4]],
     xdns_events := [GatewayRecordStored [3, 3, 3, 3], GatewayRecordStored [1, 2, 3, 4]]\<rparr>"
  by (simp add: sample_registry_def registry_eval smap_empty_def)

lemma sample_registry_initial: "xdns_initial sample_registry"
  unfolding xdns_initial_def sample_registry_def by blast

lemma sample_registry_inv: "xdns_inv sample_registry"
  by (rule xdns_initial_inv [OF sample_registry_initial])

lemma registry_circuit_initial: "circuit_initial (registry_circuit x)"
  by (simp add: circuit_initial_def registry_circuit_def)

lemma sample_heartbeats: "heartbeats_return sample_registry_env"
  by (simp add: heartbeats_return_def sample_registry_env_def sample_light_client_def)

theorem verifier_overviews_return_witness:
  "\<exists>w c'. check_for_manual_verifier_overview_process sample_registry_env idle_circuit_env 120
     (registry_circuit sample_registry) = Ok (w, c')"
  using verifier_overviews_return [OF registry_circuit_initial rtranclp.rtrancl_refl sample_heartbeats] by blast

lemma sample_register:
  "\<exists>s'. register_new_token sample_registry_env Root 7 (Token_Ethereum [] 18 (Some (replicate 20 1))) sample_registry = Ok s'"
  by (simp add: register_new_token_def link_token_to_gateway_def admin_of_def ensure_signed_or_root_def
      sample_registry_eq registry_eval smap_get_def smap_empty_def)

theorem xdns_invariant_witness:
  "\<exists>s'. xdns_exec sample_registry_env (Op_RegisterToken Root 7 (Token_Ethereum [] 18 (Some (replicate 20 1)))) sample_registry = Ok s'
     \<and> distinct (AllGatewayIds s') \<and> distinct (list_at (GatewayTokens s') [3, 3, 3, 3])
     \<and> smap_contains (Tokens s') (7, [3, 3, 3, 3]) \<and> length (list_at (EpochHistory s') Ethereum) \<le> 11"
proof -
  from sample_register obtain s' where s': "xdns_exec sample_registry_env
      (Op_RegisterToken Root 7 (Token_Ethereum [] 18 (Some (replicate 20 1)))) sample_registry = Ok s'" by auto
  have "(xdns_step sample_registry_env sample_attesters)\<^sup>*\<^sup>* sample_registry s'"
    using xdns_step.call [OF s', of sample_attesters] by blast
  note inv = xdns_invariant [OF sample_registry_initial this]
  have "SelfGatewayId sample_registry_env = [3, 3, 3, 3]" by (simp add: sample_registry_env_def)
  with register_new_token_Ok(4) [of sample_registry_env Root 7 _ sample_registry s'] s'
  obtain tok where tok: "smap_get (Tokens s') (7, [3, 3, 3, 3]) = Some tok" by fastforce
  then have "distinct (list_at (GatewayTokens s') [3, 3, 3, 3])" using inv by blast
  moreover have "distinct (AllGatewayIds s')" "length (list_at (EpochHistory s') Ethereum) \<le> 11" using inv by blast+
  ultimately show ?thesis using s' smap_containsI [OF tok] by blast
qed

theorem zipped_topology_rejected_witness:
  "\<exists>s'. register_new_token sample_registry_env Root 7 (Token_Ethereum [] 18 (Some (replicate 20 1))) sample_registry = Ok s'
     \<and> (\<forall>s1. do_unzip_topology sample_registry_env Root (do_zip_topology sample_registry_env s') sample_registry \<noteq> Ok s1)"
  using sample_register zipped_topology_rejected [of sample_registry_env Root 7 _ sample_registry] by blast

theorem verify_active_needs_old_heartbeat_witness:
  "verify_active sample_registry_env sample_attesters 95 sample_registry [1, 2, 3, 4] 10 Optimistic
      = Err (Xdns_Error Xdns_GatewayNotActive)
   \<and> is_ok (verify_active sample_registry_env sample_attesters 4000000 sample_registry [1, 2, 3, 4] 10 Optimistic)"
proof -
  let ?h = "\<lparr>last_heartbeat = 90, last_finalized_height = 50, last_rational_height = 55,
         last_fast_height = 60, hb_is_halted = False, ever_initialized = True\<rparr> :: LightClientHeartbeat"
  have h: "get_latest_heartbeat sample_registry_env sample_registry [1, 2, 3, 4] = Ok ?h"
    by (simp add: get_latest_heartbeat_def match_light_client_by_gateway_id_def get_verification_vendor_def
        sample_registry_eq registry_eval sample_light_client_def smap_get_def)
  have "verify_active sample_registry_env sample_attesters 100 sample_registry [1, 2, 3, 4] 10 Optimistic = Ok ?h"
    by (simp add: verify_active_def h saturating_sub_def)
  with verify_active_needs_old_heartbeat [OF h, of 95 10 sample_attesters Optimistic]
    verify_active_needs_old_heartbeat [OF h, of 100 10 sample_attesters Optimistic 4000000]
  show ?thesis by simp
qed

lemma reboot_succeeds: "\<exists>s'. do_reboot_self_gateway env (Signed who) v s = Ok s'"
proof -
  let ?s = "s\<lparr>StandardSFXABIs := standards\<rparr>"
  have "\<exists>s1. populate_abis (SelfGatewayId env) (self_side_effects ?s) ?s = (True, s1)"
    by (simp add: self_side_effects_standard standards_get standard_sfx_abi_def action_ids)
  then obtain s1 where "populate_abis (SelfGatewayId env) (self_side_effects ?s) ?s = (True, s1)" by blast
  then show ?thesis
    by (simp add: do_reboot_self_gateway_def admin_of_def ensure_signed_or_root_def override_gateway_def Let_def
        flip: standards_def)
qed

theorem reboot_self_gateway_witness:
  "\<exists>s'. do_reboot_self_gateway sample_registry_env (Signed (replicate 32 5)) Polkadot sample_registry = Ok s'
     \<and> validate_arguments_against_received sample_codec
          (the (xd_get_sfx_abi s' [3, 3, 3, 3] TRANSFER_SIDE_EFFECT_ID)) [sample_to, sample_amount] sample_event Scale Scale \<noteq> Ok ()"
proof -
  obtain s' where s': "do_reboot_self_gateway sample_registry_env (Signed (replicate 32 5)) Polkadot sample_registry = Ok s'"
    using reboot_succeeds by blast
  from reboot_self_gateway [OF s'] show ?thesis
    using s' by (auto simp: sample_registry_env_def sample_event_def BALANCES_INDEX_def)
qed

lemma reported_history:
  "\<exists>reports. smap_get (VerifierOverviewStoreHistory reported_registry) Ethereum = Some reports
     \<and> reports \<noteq> [] \<and> va_is_active (last reports)"
  by (simp add: reported_registry_def record_verifier_activity_def increase_since_def moved_since_previous_def
      determine_finalized_reports_increase_def new_for_finalized_compare_def activity_default_def
      update_overview_store_def update_historic_overview_def update_epoch_history_def push_bounded_def
      MAX_GATEWAY_OVERVIEW_RECORDS_def saturating_sub_def sample_registry_eq xdns_empty_def list_at_def Let_def)

lemma reported_frame: "Gateways reported_registry = Gateways sample_registry" "GatewaysOverviewStore reported_registry = []"
  by (simp_all add: reported_registry_def record_verifier_activity_def update_overview_store_def
      update_historic_overview_def update_epoch_history_def sample_registry_eq xdns_empty_def Let_def split: prod.split)

lemma reported_inv: "xdns_inv reported_registry"
  unfolding reported_registry_def by (intro record_verifier_activity_inv sample_registry_inv)

lemma eth_registered: "smap_get (Gateways sample_registry) [1, 2, 3, 4] = Some eth_gateway"
  by (simp add: sample_registry_eq smap_get_def)



lemma sample_register_gateway:
  "\<exists>s'. register_gateway sample_registry_env Root (eth_gateway\<lparr>gw_id := [5, 6, 7, 8]\<rparr>) 7
     (Token_Ethereum [] 18 (Some (replicate 20 1))) [] sample_registry = Ok (s', [5, 6, 7, 8])"
  by (simp add: register_gateway_def add_new_gateway_def register_new_token_def link_token_to_gateway_def admin_of_def
      ensure_signed_or_root_def ensure_root_def override_token_def sample_registry_eq registry_eval smap_get_def smap_empty_def Let_def)

theorem register_gateway_links_witness:
  "\<exists>s'. register_gateway sample_registry_env Root (eth_gateway\<lparr>gw_id := [5, 6, 7, 8]\<rparr>) 7
     (Token_Ethereum [] 18 (Some (replicate 20 1))) [] sample_registry = Ok (s', [5, 6, 7, 8])
     \<and> smap_get (Gateways s') [5, 6, 7, 8] = Some (eth_gateway\<lparr>gw_id := [5, 6, 7, 8]\<rparr>)
     \<and> 7 \<in> set (list_at (GatewayTokens s') [5, 6, 7, 8])"
proof -
  from sample_register_gateway obtain s' where s': "register_gateway sample_registry_env Root
     (eth_gateway\<lparr>gw_id := [5, 6, 7, 8]\<rparr>) 7 (Token_Ethereum [] 18 (Some (replicate 20 1))) [] sample_registry = Ok (s', [5, 6, 7, 8])"
    by blast
  from register_gateway_links [OF s' sample_registry_inv] show ?thesis using s' by blast
qed

text \<open>Tokens 7 and 8 are linked to the gateway in this order.\<close>

lemma sample_tokens:
  "\<exists>s' :: AssetId list xdns_state. xdns_inv s' \<and> list_at (GatewayTokens s') [1, 2, 3, 4] = [7, 8]
     \<and> get_token_by_eth_address s' [1, 2, 3, 4] (replicate 20 2) \<noteq> xd_err TokenRecordNotFoundInGateway"
proof -
  let ?s = "override_token 8 [1, 2, 3, 4] (Token_Ethereum [] 18 (Some (replicate 20 2)))
     (override_token 7 [1, 2, 3, 4] (Token_Ethereum [] 18 (Some (replicate 20 1))) sample_registry)"
  have "smap_contains (Gateways sample_registry) [1, 2, 3, 4]" by (simp add: smap_contains_def eth_registered)
  then have "xdns_inv ?s" by (intro override_token_inv sample_registry_inv) simp_all
  moreover have "list_at (GatewayTokens ?s) [1, 2, 3, 4] = [7, 8]"
    by (simp add: override_token_def Let_def xd_event_def sample_registry_eq xdns_empty_def)
  moreover from this have "get_token_by_eth_address ?s [1, 2, 3, 4] (replicate 20 2) \<noteq> xd_err TokenRecordNotFoundInGateway"
    by (simp add: get_token_by_eth_address_def)
  ultimately show ?thesis by blast
qed

theorem purge_token_hides_others_witness:
  "\<exists>s s'. get_token_by_eth_address s [1, 2, 3, 4] (replicate 20 2) \<noteq> xd_err TokenRecordNotFoundInGateway
     \<and> purge_token_record sample_registry_env Root 7 s = Ok s'
     \<and> (\<forall>tok. get_token_by_eth_address s' [1, 2, 3, 4] (replicate 20 2) \<noteq> Ok tok)"
proof -
  from sample_tokens obtain s :: "AssetId list xdns_state" where s: "xdns_inv s" "list_at (GatewayTokens s) [1, 2, 3, 4] = [7, 8]"
    "get_token_by_eth_address s [1, 2, 3, 4] (replicate 20 2) \<noteq> xd_err TokenRecordNotFoundInGateway" by blast
  obtain s' where s': "purge_token_record sample_registry_env Root 7 s = Ok s'"
    by (simp add: purge_token_record_def ensure_signed_or_root_def sample_registry_env_def)
  from purge_token_hides_others [OF s' s(1), of "[1, 2, 3, 4]" "[]" "[8]"] s(2)
  have "get_token_by_eth_address s' [1, 2, 3, 4] (replicate 20 2) \<noteq> Ok tok" for tok by auto
  with s(3) s' show ?thesis by blast
qed

end
