(* ===== verification/Spec2Isabelle.thy ===== *)
theory Spec2Isabelle
  imports Circuit_Orders Xdns_Properties
begin

text \<open>
  A verification development of the t3rn runtime: the pallets that take a cross-chain order from
  its submission to its settlement, and the libraries they are written with.

  \<^bold>\<open>The program.\<close>
  A requester submits an order, a list of side effects on other chains, to the circuit pallet.
  The circuit validates each side effect against the interface description (ABI) that the XDNS
  registry holds for the target, asks the registry for a timeout on the slowest target, and holds
  the rewards as charges of the account manager.  Executors bid for the side effects; the winning
  bidder is bound when the bidding window closes.  An executor confirms a side effect with an
  inclusion proof, which the portal checks with the light client of the target and which the ABI
  library recodes and compares with the order.  A step that is fully confirmed is finalised: the
  account manager turns charges into settlements.  The attesters pallet collects side effects in
  batches that a committee signs, and the rewards pallet turns inflation and settlements into
  claims.  Block hooks drive the queues: bidding timeouts, finished transactions, adaptive and
  emergency timeouts, kill signals, the dead letter queue, and the rotation of committees.

  \<^bold>\<open>Theories and sources\<close> (paths below \<open>src/\<close>; definitions keep the names of the code).

  \<^item> \<open>T3rn_Prelude\<close>: integer widths, results of fallible code, Rust's checked and saturating
    arithmetic, words as bytes, storage maps with the locale \<open>storage_map\<close>.
    \<open>Runtime_Errors\<close>: the error types of the pallets.
  \<^item> \<open>Sfx_Types\<close>: \<open>types/src\<close>, side effects, bids, full side effects, identifiers, the binary
    format of orders, the migration from version 1.3.  \<open>Xtx_Types\<close>: \<open>primitives/src/lib.rs\<close>,
    \<open>xtx.rs\<close>, \<open>volatile.rs\<close>, \<open>circuit/types.rs\<close>, the records of a transaction and the packed
    orders of EVM chains.  \<open>Circuit_Status\<close>: \<open>primitives/src/circuit/types.rs\<close>, statuses, their
    order, and the check of transitions.
  \<^item> \<open>Abi\<close>, \<open>Abi_Recode\<close>, \<open>Sfx_Abi\<close>: \<open>types/abi/src\<close>, descriptors and their parser, filled ABIs,
    access by name, recoding between SCALE and RLP, EVM logs, the standard interfaces, validation
    and confirmation of a side effect.  \<open>Abi_Typing\<close> and \<open>Abi_Properties\<close> hold the lemmas.
  \<^item> \<open>Clock\<close>: \<open>primitives/src/common.rs\<close> and \<open>pallets/clock\<close>, rounds and \<open>OrderedSet\<close>, with the
    locale \<open>finite_set_impl\<close>.
  \<^item> \<open>Account_Manager\<close>: \<open>pallets/account-manager\<close>, with the locale \<open>charge_book\<close> through which the
    circuit's lemmas use it.
  \<^item> \<open>Circuit_State\<close>, \<open>Square_Up\<close>, \<open>Machine\<close>, \<open>Circuit_Api\<close>, \<open>Circuit_Queues\<close>: \<open>pallets/circuit/src\<close>,
    its storage, \<open>square_up/mod.rs\<close> and \<open>bids/mod.rs\<close>, \<open>machine/mod.rs\<close>, every call, and the
    hooks.  \<open>Circuit_Reachable\<close> gathers the entry points in \<open>circuit_op\<close> and the relation
    \<open>circuit_step\<close>, over the locale \<open>state_machine\<close>.
  \<^item> \<open>Rewards\<close>: \<open>pallets/rewards/src/lib.rs\<close>.
  \<^item> \<open>Attesters_State\<close>, \<open>Attesters_Calls\<close>, \<open>Attesters_Hooks\<close>: \<open>pallets/attesters/src/lib.rs\<close>.
  \<^item> \<open>Xdns_State\<close>, \<open>Xdns_Overview\<close>: \<open>pallets/xdns/src/lib.rs\<close>, the registry and the activity of
    verifiers.  \<open>Portal\<close>: \<open>pallets/portal/src/lib.rs\<close>.  The function \<open>circuit_with_registry\<close> fills
    the fields of the circuit's environment that stand for XDNS and the portal with these models,
    as the runtimes do.

  \<^bold>\<open>Conventions.\<close>
  The storage of a pallet is a record with one field per storage item.  A call maps the state to
  \<open>Ok\<close> with the new state, to \<open>Err\<close> with the error of the code, or to \<open>Panic\<close>; since calls are
  transactional an error carries no state.  Integers have their width, and unchecked arithmetic
  wraps as in a release build; lengths and counters that the code only compares are natural
  numbers.  A storage map is iterated in the order of its keys.  Weights are reference times.

  \<^bold>\<open>Parameters.\<close>
  Code outside the repository is a field of an environment record over a state that the model
  does not look into: the native currency and the assets pallet (\<open>am_env\<close>, \<open>xdns_env\<close>), nonces,
  hashing and the codec of the calls (\<open>circuit_env\<close>), RLP, SCALE and 256-bit integers
  (\<open>codec_env\<close>), fixed-point numbers (\<open>rewards_env\<close>), elliptic curves (\<open>attesters_env\<close>), and the
  light clients (\<open>light_client\<close>).  What a theorem relies on is a named hypothesis:
  \<open>currency_laws\<close>, that a withdrawal and a deposit move the stated amount of the stated account;
  \<open>fixed_point_laws\<close>, the rounding of \<open>Perbill\<close> and \<open>Percent\<close>; \<open>heartbeats_return\<close>, that reading
  the heartbeat of a light client does not panic.  \<open>fresh_submission\<close>, a condition on steps of the
  circuit, says that a new identifier, a hash over the nonce of the requester, is not the one of
  a finished transaction.

  \<^bold>\<open>What is shown.\<close>

  \<^item> Circuit: the invariant of all reachable states (\<open>Circuit_Invariant\<close> for the machine,
    \<open>Circuit_Calls\<close>, \<open>Circuit_Hooks\<close> and \<open>Circuit_Escrow\<close> for the entry points); that the queues
    over bids, finished and timed-out transactions never panic (\<open>Circuit_Progress\<close>); what
    submitting, bidding, cancelling and the end of bidding do, and that bidding ends
    (\<open>Circuit_Orders\<close>, \<open>Circuit_Lifecycle\<close>); that binding and finalising treat all charges of a
    step alike (\<open>Circuit_Settlement\<close>).  \<open>Circuit_Sample\<close> runs one transaction through its life.
    \<open>signal_after_bid_panics\<close> is the exception: the signal queue can panic.
  \<^item> Statuses, sets, formats: the loops that determine a status compute its closed description,
    \<open>OrderedSet\<close> implements finite sets, packed orders decode to what was encoded.
  \<^item> ABI: filled values have the shape of their ABI, printed descriptors parse back, the standard
    interfaces never panic under SCALE, and which payloads confirm a transfer on a Substrate and
    on an EVM chain.
  \<^item> Account manager: finalising conserves the native total; a commit of an escrow charge can be
    repeated.
  \<^item> Rewards: claims pay what is due once, shares stay within what is distributed, settlements are
    counted once, repatriations are covered.
  \<^item> Attesters: the invariant of all reachable states, who may sign, how committees rotate, and
    defects of the finality reward and of unnominations.
  \<^item> XDNS and portal: the invariant of all reachable states, the hook over the verifiers together
    with the circuit's queues, timeouts and activity as the circuit sees them, registration of a
    gateway, and defects of the reboot, the topology, the heartbeat check and the token lookup.

  \<^bold>\<open>Bounds.\<close>
  Recursion is structural or has a measure; no result depends on fuel.  The parser of descriptors
  counts its nesting up to \<open>MAX_DEPTH\<close>, which is the code's own limit, and the loop over the fields
  of a composite runs with the number of remaining fields as its bound; \<open>parse_loop_bounded\<close> shows
  that any larger bound gives the same and that it stops where the code's loop stops.  The
  histories of the registry carry the bounds of the code.

  \<^bold>\<open>Limits of the models.\<close>
  A step of the circuit, the attesters or the registry lets the other pallets change the external
  state arbitrarily, so the invariants do not speak about balances.  The storage migration of the
  circuit is defined in \<open>Circuit_Queues\<close> and is not among the steps of \<open>circuit_step\<close>.
  Events of the pallets are kept in a list of their own, which no operation reads.

  \<^bold>\<open>Not modelled.\<close>

  \<^item> The calls of the portal that only forward headers or a switch to a light client, and the light
    clients in \<open>finality-verifiers\<close>: checking signatures and storage proofs is the work of external
    crates, and their interface is a parameter.
  \<^item> \<open>pallets/circuit/vacuum\<close>: a front end that turns orders into calls of the circuit; its order
    types are in \<open>Xtx_Types\<close>.
  \<^item> \<open>pallets/contracts\<close>, \<open>pallets/evm\<close>, \<open>pallets/3vm\<close>: forks of interpreters with gas metering and
    host functions, and their front end.  \<open>pallets/contracts-registry\<close>: a table of contracts that
    no modelled pallet reads.  \<open>pallets/maintenance-mode\<close>: a filter in front of the runtime.
  \<^item> \<open>evm_ingress_logs.rs\<close> of the ABI crate: log types of one bridge that no modelled function uses.
  \<^item> \<open>runtime\<close>: constants, weights and wiring, apart from the choice of XDNS and portal.  The hook of
    \<open>pallets/clock\<close> only forwards to the queues.  Declarations of traits have no behaviour.
  \<^item> \<open>client\<close>, \<open>node\<close>, \<open>rpc-test\<close>, \<open>sdk\<close>, benchmarks, tests and scripts: networking, command line
    and fixtures; of the SDK the signal types are modelled.
\<close>

end
